(* ===== verification/Prelude.thy ===== *)
theory Prelude
  imports Main "HOL-Library.Word"
begin

text \<open>
  Shared vocabulary of the development: byte strings, the Go \<open>error\<close> values the program can
  return, the shape of a fallible and of a stateful fallible operation, and the sequencing
  \<open>and_then\<close> that stands for Go's \<open>if err != nil { return err }\<close>. The collection
  \<open>seq_simps\<close> lets the component proofs walk through such sequences by \<open>simp\<close>.
\<close>

named_theorems seq_simps \<open>inversion of sequenced operations\<close>

section \<open>Types\<close>

text \<open>A Go string and a \<open>[]byte\<close> are sequences of bytes; \<open>char\<close> is exactly a byte.\<close>

type_synonym bytes = "char list"

text \<open>\<open>pgtype.UUID\<close> of a valid value: sixteen bytes, compared in big-endian order.\<close>

type_synonym uuid = "128 word"

text \<open>Microseconds since the Unix epoch, the resolution of \<open>timestamptz\<close>.\<close>

type_synonym timestamp = int

text \<open>
  The sentinel errors of every package, the two errors of the database driver the code tests
  for, and the errors it only passes on. Sentinels that share a name in Go live in different
  packages and are different values; the constructor carries the package.
  \<open>GoPanic\<close> is not an \<open>error\<close> value: it is the abnormal end of a call, which no
  \<open>errors.Is\<close> matches.
\<close>

datatype go_error =
    ErrNoRows
  | PgError (pg_code: bytes) (pg_constraint: bytes)
  | Payouts_ErrInvalidClientID
  | ErrDuplicateExternalID
  | ErrInvalidFundingSourceID
  | ErrInvalidIdempotencyKey
  | Payouts_ErrInvalidPagination
  | ErrInvalidPayout
  | ErrInvalidPayoutID
  | ErrFundingSourceNotFound
  | ErrIdempotencyConflict
  | ErrPayoutNotFound
  | ErrUnsupportedNumeric
  | ErrConcurrentIdempotencyKeyInsert
  | Funding_ErrInvalidClientID
  | ErrInvalidFundingSource
  | Funding_ErrInvalidPagination
  | ErrInvalidSourceID
  | Funding_ErrFundingSourceNotFound
  | ErrInvalidAPIKey
  | ErrUnauthorized
  | ErrInvalidOutboxPayload
  | ErrInvalidOutboxEntity
  | ErrPayoutNotReadyForExecution
  | ErrUnsupportedEvent
  | ErrUnsupportedProviderResult
  | Execution_ErrUnsupportedNumeric
  | ErrInvalidResult
  | ErrInvalidOutcome
  | Handlers_ErrInvalidPagination
  | ContextCanceled
  | ContextDeadlineExceeded
  | ErrServerClosed
  | Errorf bytes
  | GoPanic bytes

type_synonym 'a result = "go_error + 'a"

text \<open>An operation on a state: it returns a value or an error, and the state it leaves.\<close>

type_synonym ('s, 'a) action = "'s \<Rightarrow> 'a result \<times> 's"

section \<open>Sequencing\<close>

definition ok :: "'a \<Rightarrow> ('s, 'a) action" where
  "ok x = (\<lambda>s. (Inr x, s))"

definition fail :: "go_error \<Rightarrow> ('s, 'a) action" where
  "fail e = (\<lambda>s. (Inl e, s))"

text \<open>\<open>x, err := m(); if err != nil { return err }; f(x)\<close>\<close>

definition and_then :: "('s, 'a) action \<Rightarrow> ('a \<Rightarrow> ('s, 'b) action) \<Rightarrow> ('s, 'b) action" where
  "and_then m f = (\<lambda>s. case m s of (Inl e, s') \<Rightarrow> (Inl e, s') | (Inr x, s') \<Rightarrow> f x s')"

text \<open>The same with the error replaced first: \<open>if err != nil { return g(err) }\<close>.\<close>

definition map_error :: "(go_error \<Rightarrow> go_error) \<Rightarrow> ('s, 'a) action \<Rightarrow> ('s, 'a) action" where
  "map_error g m = (\<lambda>s. case m s of (Inl e, s') \<Rightarrow> (Inl (g e), s') | (Inr x, s') \<Rightarrow> (Inr x, s'))"

lemma ok_iff [seq_simps]: "ok x s = (r, s') \<longleftrightarrow> r = Inr x \<and> s' = s"
  by (auto simp: ok_def)

lemma fail_iff [seq_simps]: "fail e s = (r, s') \<longleftrightarrow> r = Inl e \<and> s' = s"
  by (auto simp: fail_def)

lemma and_then_Inr_iff [seq_simps]:
  "and_then m f s = (Inr y, s') \<longleftrightarrow> (\<exists>x s1. m s = (Inr x, s1) \<and> f x s1 = (Inr y, s'))"
  by (auto simp: and_then_def split: prod.splits sum.splits)

lemma and_then_Inl_iff [seq_simps]:
  "and_then m f s = (Inl e, s') \<longleftrightarrow>
     m s = (Inl e, s') \<or> (\<exists>x s1. m s = (Inr x, s1) \<and> f x s1 = (Inl e, s'))"
  by (auto simp: and_then_def split: prod.splits sum.splits)

lemma map_error_Inr_iff [seq_simps]:
  "map_error g m s = (Inr y, s') \<longleftrightarrow> m s = (Inr y, s')"
  by (auto simp: map_error_def split: prod.splits sum.splits)

lemma map_error_Inl_iff [seq_simps]:
  "map_error g m s = (Inl e, s') \<longleftrightarrow> (\<exists>e0. m s = (Inl e0, s') \<and> e = g e0)"
  by (auto simp: map_error_def split: prod.splits sum.splits)

lemma and_then_run_Inr: "m s = (Inr x, s1) \<Longrightarrow> and_then m f s = f x s1"
  by (simp add: and_then_def)

lemma and_then_run_Inl: "m s = (Inl e, s1) \<Longrightarrow> and_then m f s = (Inl e, s1)"
  by (simp add: and_then_def)

lemma map_error_run_Inr: "m s = (Inr x, s1) \<Longrightarrow> map_error g m s = (Inr x, s1)"
  by (simp add: map_error_def)

lemma map_error_run_Inl: "m s = (Inl e, s1) \<Longrightarrow> map_error g m s = (Inl (g e), s1)"
  by (simp add: map_error_def)

lemmas seq_run = ok_def fail_def and_then_run_Inr and_then_run_Inl map_error_run_Inr map_error_run_Inl

text \<open>
  A relation between the states before and after that every part of a sequence establishes is
  established by the sequence, when it composes.
\<close>

definition keeps :: "('s \<Rightarrow> 's \<Rightarrow> bool) \<Rightarrow> ('s, 'a) action \<Rightarrow> bool" where
  "keeps R m \<longleftrightarrow> (\<forall>s. R s (snd (m s)))"

lemma keepsI: "(\<And>s. R s (snd (m s))) \<Longrightarrow> keeps R m"
  by (simp add: keeps_def)

lemma keepsD: "keeps R m \<Longrightarrow> R s (snd (m s))"
  by (simp add: keeps_def)

lemma keeps_ok: "reflp R \<Longrightarrow> keeps R (ok x)"
  by (simp add: keeps_def ok_def reflpD)

lemma keeps_fail: "reflp R \<Longrightarrow> keeps R (fail e)"
  by (simp add: keeps_def fail_def reflpD)

lemma keeps_and_then:
  assumes "transp R" and "keeps R m" and "\<And>x. keeps R (f x)"
  shows "keeps R (and_then m f)"
proof (rule keepsI)
  fix s
  obtain r s1 where m: "m s = (r, s1)" by (cases "m s")
  have step: "R s s1" using keepsD [OF assms(2), of s] m by simp
  show "R s (snd (and_then m f s))"
  proof (cases r)
    case (Inl e)
    with m step show ?thesis by (simp add: and_then_run_Inl)
  next
    case (Inr x)
    have "R s1 (snd (f x s1))" using keepsD [OF assms(3)] .
    with step have "R s (snd (f x s1))" by (rule transpD [OF assms(1)])
    with m Inr show ?thesis by (simp add: and_then_run_Inr)
  qed
qed

lemma keeps_map_error: "keeps R m \<Longrightarrow> keeps R (map_error g m)"
  by (auto simp: keeps_def map_error_def split: prod.splits sum.splits) (metis snd_conv)+

lemmas keeps_intros = keeps_ok keeps_fail keeps_and_then keeps_map_error

section \<open>Lists and options\<close>

text \<open>Replacing the rows a predicate selects, as an SQL \<open>UPDATE\<close> does.\<close>

definition update_where :: "('a \<Rightarrow> bool) \<Rightarrow> ('a \<Rightarrow> 'a) \<Rightarrow> 'a list \<Rightarrow> 'a list" where
  "update_where P f xs = map (\<lambda>x. if P x then f x else x) xs"

lemma update_where_simps [simp]:
  "update_where P f [] = []"
  "update_where P f (x # xs) = (if P x then f x else x) # update_where P f xs"
  by (simp_all add: update_where_def)

lemma length_update_where [simp]: "length (update_where P f xs) = length xs"
  by (simp add: update_where_def)

lemma set_update_where: "set (update_where P f xs) = (\<lambda>x. if P x then f x else x) ` set xs"
  by (auto simp: update_where_def)

lemma map_update_where: "(\<And>x. P x \<Longrightarrow> g (f x) = g x) \<Longrightarrow> map g (update_where P f xs) = map g xs"
  by (auto simp: update_where_def)

lemma update_where_none: "(\<And>x. x \<in> set xs \<Longrightarrow> \<not> P x) \<Longrightarrow> update_where P f xs = xs"
  by (simp add: update_where_def map_idI)

lemma list_all2_update_where:
  assumes "\<And>x. x \<in> set xs \<Longrightarrow> R x (if P x then f x else x)"
  shows "list_all2 R xs (update_where P f xs)"
  using assms by (induction xs) simp_all

text \<open>\<open>find\<close> on rows: the first row a predicate selects.\<close>

lemma find_SomeD: "find P xs = Some x \<Longrightarrow> x \<in> set xs \<and> P x"
  by (induction xs) (auto split: if_splits)

lemma find_NoneD: "find P xs = None \<Longrightarrow> x \<in> set xs \<Longrightarrow> \<not> P x"
  by (auto simp: find_None_iff)

lemma find_append: "find P (xs @ ys) = (case find P xs of Some x \<Rightarrow> Some x | None \<Rightarrow> find P ys)"
  by (induction xs) auto

lemma find_unique:
  assumes "distinct (map k xs)" and "x \<in> set xs" and "P x" and "\<And>y. P y \<Longrightarrow> k y = k x"
  shows "find P xs = Some x"
  using assms(1,2)
proof (induction xs)
  case (Cons y ys)
  show ?case
  proof (cases "P y")
    case True
    then have "k y = k x" by (rule assms(4))
    with Cons.prems have "y = x" by (auto simp: image_iff)
    with True show ?thesis by simp
  next
    case False
    with Cons assms(3) show ?thesis by auto
  qed
qed simp

lemma find_update_where_same:
  assumes "\<And>x. P (f x) = P x"
  shows "find P (update_where P f xs) = map_option f (find P xs)"
  by (induction xs) (auto simp: assms)

lemma find_update_where_other:
  assumes "\<And>x. P x \<Longrightarrow> \<not> Q x" and "\<And>x. P x \<Longrightarrow> \<not> Q (f x)"
  shows "find Q (update_where P f xs) = find Q xs"
proof (induction xs)
  case (Cons x xs)
  then show ?case using assms(1) [of x] assms(2) [of x] by simp
qed simp

section \<open>Pure fallible computations\<close>

definition res_bind :: "'a result \<Rightarrow> ('a \<Rightarrow> 'b result) \<Rightarrow> 'b result" where
  "res_bind r f = (case r of Inl e \<Rightarrow> Inl e | Inr x \<Rightarrow> f x)"

lemma res_bind_run [simp]: "res_bind (Inl e) f = Inl e" "res_bind (Inr x) f = f x"
  by (simp_all add: res_bind_def)

lemma res_bind_Inr_iff [seq_simps]: "res_bind r f = Inr y \<longleftrightarrow> (\<exists>x. r = Inr x \<and> f x = Inr y)"
  by (cases r) simp_all

lemma res_bind_Inl_iff [seq_simps]:
  "res_bind r f = Inl e \<longleftrightarrow> r = Inl e \<or> (\<exists>x. r = Inr x \<and> f x = Inl e)"
  by (cases r) auto

text \<open>A pure computation inside a stateful one.\<close>

definition lift_result :: "'a result \<Rightarrow> ('s, 'a) action" where
  "lift_result r = (\<lambda>s. (r, s))"

lemma lift_result_iff [seq_simps]: "lift_result r s = (r', s') \<longleftrightarrow> r = r' \<and> s' = s"
  by (auto simp: lift_result_def)

lemma and_then_lift: "and_then (lift_result r) f s = (case r of Inl e \<Rightarrow> (Inl e, s) | Inr x \<Rightarrow> f x s)"
  by (simp add: and_then_def lift_result_def split: sum.split)

lemma keeps_lift_result: "reflp R \<Longrightarrow> keeps R (lift_result r)"
  by (simp add: keeps_def lift_result_def reflpD)

end
