(* ===== verification/Go_Strings.thy ===== *)
theory Go_Strings
  imports Prelude
begin

text \<open>
  The string functions of Go's standard library that the program calls, on byte strings:
  UTF-8 decoding (\<open>unicode/utf8\<close>), \<open>strings.TrimSpace\<close>, decimal numerals
  (\<open>big.Int.String\<close>, \<open>strconv.ParseInt\<close>) and \<open>encoding/hex\<close>.
\<close>

section \<open>UTF-8\<close>

definition byte :: "char \<Rightarrow> nat" where
  "byte c = of_char c"

definition byte_in :: "nat \<Rightarrow> nat \<Rightarrow> char \<Rightarrow> bool" where
  "byte_in lo hi c \<longleftrightarrow> lo \<le> byte c \<and> byte c \<le> hi"

abbreviation cont_byte :: "char \<Rightarrow> bool" where
  "cont_byte \<equiv> byte_in 128 191"

text \<open>
  The byte length of the well-formed rune a string starts with, \<open>0\<close> when there is none
  (\<open>utf8.DecodeRuneInString\<close> then returns \<open>RuneError\<close> and width 1, or 0 on the empty string).
\<close>

fun rune_len2 :: "char \<Rightarrow> char list \<Rightarrow> nat" where
  "rune_len2 a (b # s) =
     (if byte_in 194 223 a \<and> cont_byte b then 2 else 0)"
| "rune_len2 a [] = 0"

fun rune_len3 :: "char \<Rightarrow> char list \<Rightarrow> nat" where
  "rune_len3 a (b # c # s) =
     (if cont_byte c \<and>
         (byte a = 224 \<and> byte_in 160 191 b \<or>
          byte_in 225 236 a \<and> cont_byte b \<or>
          byte a = 237 \<and> byte_in 128 159 b \<or>
          byte_in 238 239 a \<and> cont_byte b) then 3 else 0)"
| "rune_len3 a _ = 0"

fun rune_len4 :: "char \<Rightarrow> char list \<Rightarrow> nat" where
  "rune_len4 a (b # c # d # s) =
     (if cont_byte c \<and> cont_byte d \<and>
         (byte a = 240 \<and> byte_in 144 191 b \<or>
          byte_in 241 243 a \<and> cont_byte b \<or>
          byte a = 244 \<and> byte_in 128 143 b) then 4 else 0)"
| "rune_len4 a _ = 0"

fun rune_len :: "bytes \<Rightarrow> nat" where
  "rune_len [] = 0"
| "rune_len (a # s) =
     (if byte a < 128 then 1
      else if byte a < 224 then rune_len2 a s
      else if byte a < 240 then rune_len3 a s
      else rune_len4 a s)"

lemma rune_len2_le: "rune_len2 a s \<le> Suc (length s)"
  by (induction a s rule: rune_len2.induct) auto

lemma rune_len3_le: "rune_len3 a s \<le> Suc (length s)"
  by (induction a s rule: rune_len3.induct) auto

lemma rune_len4_le: "rune_len4 a s \<le> Suc (length s)"
  by (induction a s rule: rune_len4.induct) auto

lemma rune_len_le: "rune_len s \<le> length s"
  using rune_len2_le rune_len3_le rune_len4_le by (cases s) auto

function valid_utf8 :: "bytes \<Rightarrow> bool" where
  "valid_utf8 s =
     (if s = [] then True
      else if rune_len s = 0 then False
      else valid_utf8 (drop (rune_len s) s))"
  by pat_completeness auto
termination
  by (relation "measure length") (auto simp del: rune_len.simps)

declare valid_utf8.simps [simp del]

lemma valid_utf8_Nil [simp]: "valid_utf8 []"
  by (subst valid_utf8.simps) simp

lemma valid_utf8_ascii [simp]: "byte c < 128 \<Longrightarrow> valid_utf8 (c # s) = valid_utf8 s"
  by (subst valid_utf8.simps) simp

text \<open>An ASCII string is valid UTF-8.\<close>

definition ascii :: "bytes \<Rightarrow> bool" where
  "ascii s \<longleftrightarrow> list_all (\<lambda>c. byte c < 128) s"

lemma ascii_simps [simp]: "ascii []" "ascii (c # s) \<longleftrightarrow> byte c < 128 \<and> ascii s"
  by (simp_all add: ascii_def)

lemma ascii_append [simp]: "ascii (s @ t) \<longleftrightarrow> ascii s \<and> ascii t"
  by (simp add: ascii_def)

lemma ascii_valid_utf8: "ascii s \<Longrightarrow> valid_utf8 s"
  by (induction s) auto

text \<open>The number of code points of a valid string: the bytes that are not continuations.\<close>

definition rune_count :: "bytes \<Rightarrow> nat" where
  "rune_count s = length (filter (\<lambda>c. \<not> cont_byte c) s)"

lemma rune_count_le: "rune_count s \<le> length s"
  by (simp add: rune_count_def)

section \<open>TrimSpace\<close>

text \<open>
  The UTF-8 encodings of the runes \<open>unicode.IsSpace\<close> accepts: tab, newline, vertical tab,
  form feed, carriage return, space, U+0085, U+00A0, U+1680, U+2000 to U+200A, U+2028, U+2029,
  U+202F, U+205F and U+3000. No encoding is a prefix of another.
\<close>

definition space_runes :: "bytes list" where
  "space_runes =
     [[CHR 0x20], [CHR 0x09], [CHR 0x0A], [CHR 0x0B], [CHR 0x0C], [CHR 0x0D],
      [CHR 0xC2, CHR 0x85], [CHR 0xC2, CHR 0xA0], [CHR 0xE1, CHR 0x9A, CHR 0x80],
      [CHR 0xE2, CHR 0x80, CHR 0x80], [CHR 0xE2, CHR 0x80, CHR 0x81],
      [CHR 0xE2, CHR 0x80, CHR 0x82], [CHR 0xE2, CHR 0x80, CHR 0x83],
      [CHR 0xE2, CHR 0x80, CHR 0x84], [CHR 0xE2, CHR 0x80, CHR 0x85],
      [CHR 0xE2, CHR 0x80, CHR 0x86], [CHR 0xE2, CHR 0x80, CHR 0x87],
      [CHR 0xE2, CHR 0x80, CHR 0x88], [CHR 0xE2, CHR 0x80, CHR 0x89],
      [CHR 0xE2, CHR 0x80, CHR 0x8A], [CHR 0xE2, CHR 0x80, CHR 0xA8],
      [CHR 0xE2, CHR 0x80, CHR 0xA9], [CHR 0xE2, CHR 0x80, CHR 0xAF],
      [CHR 0xE2, CHR 0x81, CHR 0x9F], [CHR 0xE3, CHR 0x80, CHR 0x80]]"

text \<open>Does \<open>s\<close> start with the (nonempty) string \<open>e\<close>?\<close>

definition starts_with :: "bytes \<Rightarrow> bytes \<Rightarrow> bool" where
  "starts_with s e \<longleftrightarrow> e \<noteq> [] \<and> take (length e) s = e"

lemma starts_with_Cons [simp]:
  "starts_with (c # s) (d # e) \<longleftrightarrow> c = d \<and> (e = [] \<or> starts_with s e)"
  "\<not> starts_with [] e" "\<not> starts_with s []"
  by (auto simp: starts_with_def)

lemma starts_with_prefix: "starts_with s e \<longleftrightarrow> e \<noteq> [] \<and> (\<exists>t. s = e @ t)"
  by (auto simp: starts_with_def) (metis append_take_drop_id)

text \<open>Strip leading occurrences of the strings \<open>es\<close> as long as there is one.\<close>

function strip :: "bytes list \<Rightarrow> bytes \<Rightarrow> bytes" where
  "strip es s =
     (case find (starts_with s) es of
        None \<Rightarrow> s
      | Some e \<Rightarrow> strip es (drop (length e) s))"
  by pat_completeness auto
termination
proof (relation "measure (\<lambda>(es, s). length s)")
  fix es s e
  assume "find (starts_with s) es = Some e"
  then have "starts_with s e" by (blast dest: find_SomeD)
  then show "((es, drop (length e) s), (es, s)) \<in> measure (\<lambda>(es, s). length s)"
    by (auto simp: starts_with_prefix)
qed simp

declare strip.simps [simp del]

lemma strip_stop: "find (starts_with s) es = None \<Longrightarrow> strip es s = s"
  by (simp add: strip.simps)

lemma strip_step: "find (starts_with s) es = Some e \<Longrightarrow> strip es s = strip es (drop (length e) s)"
  by (simp add: strip.simps [of es s])

lemma strip_done: "e \<in> set es \<Longrightarrow> \<not> starts_with (strip es s) e"
proof (induction es s rule: strip.induct)
  case (1 es s)
  show ?case
  proof (cases "find (starts_with s) es")
    case None
    with "1.prems" show ?thesis by (auto simp: strip_stop dest: find_NoneD)
  next
    case (Some e')
    with 1 show ?thesis by (simp add: strip_step)
  qed
qed

lemma strip_fixed: "(\<And>e. e \<in> set es \<Longrightarrow> \<not> starts_with s e) \<Longrightarrow> strip es s = s"
  by (rule strip_stop) (auto simp: find_None_iff)

lemma strip_idem [simp]: "strip es (strip es s) = strip es s"
  by (rule strip_fixed) (rule strip_done)

lemma strip_suffix: "\<exists>p. s = p @ strip es s"
proof (induction es s rule: strip.induct)
  case (1 es s)
  show ?case
  proof (cases "find (starts_with s) es")
    case None
    then show ?thesis by (simp add: strip_stop)
  next
    case (Some e)
    then obtain p where "drop (length e) s = p @ strip es (drop (length e) s)"
      using "1.IH" by blast
    with Some have "s = (take (length e) s @ p) @ strip es s"
      by (metis append.assoc append_take_drop_id strip_step)
    then show ?thesis by blast
  qed
qed

lemma strip_Nil [simp]: "strip es [] = []"
  using strip_suffix [of "[]" es] by auto

lemma length_strip: "length (strip es s) \<le> length s"
  by (metis length_append le_add2 strip_suffix)

definition trim_left :: "bytes \<Rightarrow> bytes" where
  "trim_left s = strip space_runes s"

definition trim_right :: "bytes \<Rightarrow> bytes" where
  "trim_right s = rev (strip (map rev space_runes) (rev s))"

text \<open>\<open>strings.TrimSpace\<close>\<close>

definition TrimSpace :: "bytes \<Rightarrow> bytes" where
  "TrimSpace s = trim_right (trim_left s)"

lemma trim_right_prefix: "\<exists>t. s = trim_right s @ t"
proof -
  obtain p where "rev s = p @ strip (map rev space_runes) (rev s)"
    using strip_suffix by blast
  then have "s = rev (p @ strip (map rev space_runes) (rev s))" by (metis rev_rev_ident)
  then have "s = trim_right s @ rev p" by (simp add: trim_right_def)
  then show ?thesis by blast
qed

lemma trim_right_idem [simp]: "trim_right (trim_right s) = trim_right s"
  by (simp add: trim_right_def)

lemma starts_with_prefix_mono: "starts_with s e \<Longrightarrow> starts_with (s @ t) e"
  by (auto simp: starts_with_prefix)

text \<open>The result has no white space at either end, and trimming it again changes nothing.\<close>

lemma TrimSpace_no_leading: "e \<in> set space_runes \<Longrightarrow> \<not> starts_with (TrimSpace s) e"
proof
  assume e: "e \<in> set space_runes" and "starts_with (TrimSpace s) e"
  obtain t where t: "trim_left s = TrimSpace s @ t"
    using trim_right_prefix [of "trim_left s"] by (auto simp: TrimSpace_def)
  with \<open>starts_with (TrimSpace s) e\<close> have "starts_with (trim_left s) e"
    by (simp add: starts_with_prefix_mono)
  with e show False by (simp add: trim_left_def strip_done)
qed

lemma TrimSpace_no_trailing: "e \<in> set space_runes \<Longrightarrow> \<not> starts_with (rev (TrimSpace s)) (rev e)"
  by (simp add: TrimSpace_def trim_right_def strip_done)

lemma TrimSpace_idem [simp]: "TrimSpace (TrimSpace s) = TrimSpace s"
proof -
  have "trim_left (TrimSpace s) = TrimSpace s"
    unfolding trim_left_def by (rule strip_fixed) (rule TrimSpace_no_leading)
  then show ?thesis by (simp add: TrimSpace_def [of "TrimSpace s"]) (simp add: TrimSpace_def)
qed

lemma TrimSpace_Nil [simp]: "TrimSpace [] = []"
  by (simp add: TrimSpace_def trim_left_def trim_right_def)

lemma length_TrimSpace: "length (TrimSpace s) \<le> length s"
  by (metis TrimSpace_def trim_left_def trim_right_def length_rev length_strip order_trans)

text \<open>The trimmed string is a contiguous part of the original.\<close>

lemma TrimSpace_infix: "\<exists>p t. s = p @ TrimSpace s @ t"
proof -
  obtain p where p: "s = p @ trim_left s" using strip_suffix by (auto simp: trim_left_def)
  obtain t where "trim_left s = TrimSpace s @ t"
    using trim_right_prefix [of "trim_left s"] by (auto simp: TrimSpace_def)
  with p show ?thesis by metis
qed

text \<open>A string that neither starts nor ends with white space is its own trimming.\<close>

lemma TrimSpace_fixed:
  assumes "find (starts_with s) space_runes = None"
    and "find (starts_with (rev s)) (map rev space_runes) = None"
  shows "TrimSpace s = s"
  using assms by (simp add: TrimSpace_def trim_left_def trim_right_def strip_stop)

end
