(* ===== verification/Pgx_Types.thy ===== *)
theory Pgx_Types
  imports Go_Numbers
begin

text \<open>
  The values of the PostgreSQL driver (\<open>pgx/v5/pgtype\<close>) the program stores and reads, with the
  fields the code accesses. The driver itself is not part of the repository: its two text
  codecs are a record of functions that the definitions using them take as an argument.
\<close>

section \<open>Nullable text and numeric values\<close>

record pg_text =
  Text_String :: bytes
  Text_Valid :: bool

definition null_text :: pg_text where
  "null_text = \<lparr>Text_String = [], Text_Valid = False\<rparr>"

datatype infinity_modifier = Finite | Infinity | NegativeInfinity

text \<open>\<open>Int * 10^Exp\<close>, with \<open>Int\<close> a \<open>*big.Int\<close> (\<open>None\<close> is nil) and \<open>Exp\<close> an \<open>int32\<close>.\<close>

record numeric =
  num_Int :: "int option"
  num_Exp :: "32 word"
  num_NaN :: bool
  num_InfinityModifier :: infinity_modifier
  num_Valid :: bool

definition zero_numeric :: numeric where
  "zero_numeric =
     \<lparr>num_Int = None, num_Exp = 0, num_NaN = False, num_InfinityModifier = Finite, num_Valid = False\<rparr>"

text \<open>A finite value with integer \<open>i\<close> and exponent \<open>e\<close>.\<close>

definition mk_numeric :: "int \<Rightarrow> int \<Rightarrow> numeric" where
  "mk_numeric i e =
     \<lparr>num_Int = Some i, num_Exp = word_of_int e, num_NaN = False,
      num_InfinityModifier = Finite, num_Valid = True\<rparr>"

definition usable_numeric :: "numeric \<Rightarrow> bool" where
  "usable_numeric v \<longleftrightarrow>
     num_Valid v \<and> num_Int v \<noteq> None \<and> \<not> num_NaN v \<and> num_InfinityModifier v = Finite"

lemma usable_mk_numeric [simp]: "usable_numeric (mk_numeric i e)"
  by (simp add: usable_numeric_def mk_numeric_def)

lemma num_Int_mk_numeric [simp]: "num_Int (mk_numeric i e) = Some i"
  by (simp add: mk_numeric_def)

section \<open>The driver's text codecs\<close>

text \<open>
  \<open>pgtype.UUID.Scan\<close> and \<open>String\<close>, and \<open>pgtype.Numeric.Scan\<close> of a string. A scan that returns
  an error is \<open>None\<close>.
\<close>

record pgx_codec =
  ScanUUID :: "bytes \<Rightarrow> uuid option"
  UUIDString :: "uuid \<Rightarrow> bytes"
  ScanNumeric :: "bytes \<Rightarrow> numeric option"

text \<open>
  What \<open>pgtype.UUID\<close> documents of its two functions: the text of a value is ASCII, not empty,
  and scans back to it.
\<close>

locale uuid_codec =
  fixes scan :: "bytes \<Rightarrow> uuid option" and text_of :: "uuid \<Rightarrow> bytes"
  assumes scan_text: "scan (text_of u) = Some u"
    and text_ascii: "ascii (text_of u)"
    and text_nonempty: "text_of u \<noteq> []"
begin

lemma text_inject: "text_of u = text_of v \<longleftrightarrow> u = v"
  by (metis scan_text option.inject)

lemma text_valid_utf8: "valid_utf8 (text_of u)"
  by (rule ascii_valid_utf8) (rule text_ascii)

end

section \<open>pgtypeutil.ParseUUID\<close>

definition ParseUUID :: "pgx_codec \<Rightarrow> bytes \<Rightarrow> uuid option" where
  "ParseUUID c raw = (case ScanUUID c raw of None \<Rightarrow> None | Some u \<Rightarrow> Some u)"

lemma ParseUUID_scan [simp]: "ParseUUID c raw = ScanUUID c raw"
  by (simp add: ParseUUID_def split: option.splits)

section \<open>A concrete codec\<close>

text \<open>
  An instance of the driver's interface, for the closed examples of the development: the
  canonical text of a UUID (hexadecimal, grouped 8-4-4-4-12), its reading, and plain decimal
  numerals with an optional fraction.
\<close>

fun hex_of_nat :: "nat \<Rightarrow> nat \<Rightarrow> bytes" where
  "hex_of_nat 0 n = []"
| "hex_of_nat (Suc k) n = hex_of_nat k (n div 16) @ [hex_digit (n mod 16)]"

definition hex_nat :: "bytes \<Rightarrow> nat" where
  "hex_nat s = foldl (\<lambda>n c. 16 * n + hex_value c) 0 s"

definition is_hex :: "char \<Rightarrow> bool" where
  "is_hex c \<longleftrightarrow> byte_in 48 57 c \<or> byte_in 97 102 c"

lemma length_hex_of_nat [simp]: "length (hex_of_nat k n) = k"
  by (induction k n rule: hex_of_nat.induct) simp_all

lemma hex_nat_of_nat: "hex_nat (hex_of_nat k n) = n mod 16 ^ k"
proof (induction k n rule: hex_of_nat.induct)
  case (2 k n)
  have "hex_nat (hex_of_nat (Suc k) n) = 16 * hex_nat (hex_of_nat k (n div 16)) + n mod 16"
    by (simp add: hex_nat_def)
  also have "\<dots> = n mod 16 ^ Suc k"
    unfolding 2 power_Suc by (rule mod_mult2_eq [symmetric])
  finally show ?case .
qed (simp add: hex_nat_def)

lemma is_hex_digit: "d < 16 \<Longrightarrow> is_hex (hex_digit d)"
  by (auto simp: is_hex_def hex_digit_def byte_in_def)

lemma all_hex_of_nat: "list_all is_hex (hex_of_nat k n)"
  by (induction k n rule: hex_of_nat.induct) (simp_all add: is_hex_digit)

lemma is_hex_ascii: "is_hex c \<Longrightarrow> byte c < 128"
  by (auto simp: is_hex_def byte_in_def)

definition canonical_uuid :: "uuid \<Rightarrow> bytes" where
  "canonical_uuid u =
     (let h = hex_of_nat 32 (unat u)
      in take 8 h @ ''-'' @ take 4 (drop 8 h) @ ''-'' @ take 4 (drop 12 h) @ ''-'' @
         take 4 (drop 16 h) @ ''-'' @ drop 20 h)"

definition scan_canonical_uuid :: "bytes \<Rightarrow> uuid option" where
  "scan_canonical_uuid s =
     (let h = take 8 s @ take 4 (drop 9 s) @ take 4 (drop 14 s) @ take 4 (drop 19 s) @ drop 24 s
      in if length s = 36 \<and> list_all is_hex h then Some (of_nat (hex_nat h)) else None)"

lemma scan_canonical: "scan_canonical_uuid (canonical_uuid u) = Some u"
proof -
  define h where "h = hex_of_nat 32 (unat u)"
  have len: "length h = 32" by (simp add: h_def)
  have pieces: "take 8 h @ take 4 (drop 8 h) @ take 4 (drop 12 h) @ take 4 (drop 16 h) @ drop 20 h = h"
    using append_take_drop_id [of 8 h] append_take_drop_id [of 4 "drop 8 h"]
      append_take_drop_id [of 4 "drop 12 h"] append_take_drop_id [of 4 "drop 16 h"]
    by simp
  have "unat u < 2 ^ 128" using unsigned_less [of u, where 'a = nat] by simp
  then have "hex_nat h = unat u"
    by (simp add: h_def hex_nat_of_nat)
  moreover have "list_all is_hex h" by (simp add: h_def all_hex_of_nat)
  ultimately show ?thesis
    using len pieces
    by (simp add: scan_canonical_uuid_def canonical_uuid_def Let_def flip: h_def)
qed

lemma canonical_ascii: "ascii (canonical_uuid u)"
proof -
  have "\<forall>c \<in> set (hex_of_nat 32 (unat u)). byte c < 128"
    using all_hex_of_nat [of 32 "unat u"] is_hex_ascii by (auto simp: list_all_iff)
  then show ?thesis
    by (auto simp: canonical_uuid_def Let_def ascii_def list_all_iff byte_def
        dest!: in_set_takeD in_set_dropD)
qed

interpretation canonical: uuid_codec scan_canonical_uuid canonical_uuid
  by unfold_locales (simp_all add: scan_canonical canonical_ascii, simp add: canonical_uuid_def Let_def)

fun split_dot :: "bytes \<Rightarrow> bytes \<times> bytes option" where
  "split_dot [] = ([], None)"
| "split_dot (c # s) =
     (if c = CHR ''.'' then ([], Some s)
      else (case split_dot s of (w, f) \<Rightarrow> (c # w, f)))"

definition scan_plain_decimal :: "bytes \<Rightarrow> numeric option" where
  "scan_plain_decimal s =
     (case split_dot s of
        (w, None) \<Rightarrow> map_option (\<lambda>n. mk_numeric (int n) 0) (parse_digits w)
      | (w, Some f) \<Rightarrow>
          if f = [] then None
          else map_option (\<lambda>n. mk_numeric (int n) (- int (length f))) (parse_digits (w @ f)))"

definition canonical_codec :: pgx_codec where
  "canonical_codec =
     \<lparr>ScanUUID = scan_canonical_uuid, UUIDString = canonical_uuid, ScanNumeric = scan_plain_decimal\<rparr>"

lemma canonical_codec_simps [simp]:
  "ScanUUID canonical_codec = scan_canonical_uuid"
  "UUIDString canonical_codec = canonical_uuid"
  "ScanNumeric canonical_codec = scan_plain_decimal"
  by (simp_all add: canonical_codec_def)

end
