(* ===== verification/Numeric_Text.thy ===== *)
theory Numeric_Text
  imports Pgx_Types Complex_Main
begin

text \<open>
  Amounts as text: \<open>numericString\<close>, which the payout service and the execution handler each
  define, and \<open>parsePositiveNumeric\<close>. The lemmas give the rational number the text denotes, the
  one exponent on which the slice expression of the code panics, and that the two copies agree.
\<close>

section \<open>numericString\<close>

text \<open>
  \<open>scale := int(-value.Exp)\<close> negates in 32 bits before widening; for the least \<open>int32\<close> the
  negation is the least \<open>int32\<close> again, \<open>scale\<close> is negative and \<open>digits[:point]\<close> is out of range.
\<close>

definition numericString :: "numeric \<Rightarrow> bytes result" where
  "numericString v =
     (case num_Int v of
        None \<Rightarrow> Inl ErrUnsupportedNumeric
      | Some i \<Rightarrow>
          if \<not> num_Valid v \<or> num_NaN v \<or> num_InfinityModifier v \<noteq> Finite
          then Inl ErrUnsupportedNumeric
          else
            (let sign = (if i < 0 then ''-'' else '''');
                 digits = nat_digits (nat \<bar>i\<bar>)
             in if 0 \<le> sint (num_Exp v)
                then Inr (sign @ digits @ zeros (nat (sint (num_Exp v))))
                else
                  (let scale = sint (- num_Exp v)
                   in if int (length digits) \<le> scale
                      then Inr (sign @ ''0.'' @ zeros (nat (scale - int (length digits))) @ digits)
                      else
                        (let point = int (length digits) - scale
                         in if point > int (length digits)
                            then Inl (GoPanic ''slice bounds out of range'')
                            else Inr (sign @ take (nat point) digits @ ''.'' @ drop (nat point) digits)))))"

text \<open>The copy in the execution package, with that package's sentinel error.\<close>

definition Execution_numericString :: "numeric \<Rightarrow> bytes result" where
  "Execution_numericString v =
     (case num_Int v of
        None \<Rightarrow> Inl Execution_ErrUnsupportedNumeric
      | Some i \<Rightarrow>
          if \<not> num_Valid v \<or> num_NaN v \<or> num_InfinityModifier v \<noteq> Finite
          then Inl Execution_ErrUnsupportedNumeric
          else
            (let sign = (if i < 0 then ''-'' else '''');
                 digits = nat_digits (nat \<bar>i\<bar>)
             in if 0 \<le> sint (num_Exp v)
                then Inr (sign @ digits @ zeros (nat (sint (num_Exp v))))
                else
                  (let scale = sint (- num_Exp v)
                   in if int (length digits) \<le> scale
                      then Inr (sign @ ''0.'' @ zeros (nat (scale - int (length digits))) @ digits)
                      else
                        (let point = int (length digits) - scale
                         in if point > int (length digits)
                            then Inl (GoPanic ''slice bounds out of range'')
                            else Inr (sign @ take (nat point) digits @ ''.'' @ drop (nat point) digits)))))"

section \<open>What a decimal text denotes\<close>

definition unsigned_decimal :: "bytes \<Rightarrow> rat option" where
  "unsigned_decimal s =
     (case split_dot s of
        (w, None) \<Rightarrow> map_option of_nat (parse_digits w)
      | (w, Some f) \<Rightarrow>
          if w = [] \<or> f = [] then None
          else map_option (\<lambda>n. of_nat n / 10 ^ length f) (parse_digits (w @ f)))"

definition decimal_value :: "bytes \<Rightarrow> rat option" where
  "decimal_value s =
     (case s of
        [] \<Rightarrow> None
      | c # t \<Rightarrow> if c = CHR ''-'' then map_option uminus (unsigned_decimal t) else unsigned_decimal s)"

definition numeric_value :: "numeric \<Rightarrow> rat" where
  "numeric_value v =
     (case num_Int v of
        None \<Rightarrow> 0
      | Some i \<Rightarrow>
          if 0 \<le> sint (num_Exp v) then of_int i * 10 ^ nat (sint (num_Exp v))
          else of_int i / 10 ^ nat (- sint (num_Exp v)))"

lemma split_dot_digits: "list_all is_digit w \<Longrightarrow> split_dot w = (w, None)"
  by (induction w) (auto simp: sign_not_digit)

lemma split_dot_append: "list_all is_digit w \<Longrightarrow> split_dot (w @ CHR ''.'' # f) = (w, Some f)"
  by (induction w) (auto simp: sign_not_digit)

lemma unsigned_decimal_digits:
  "list_all is_digit w \<Longrightarrow> w \<noteq> [] \<Longrightarrow> unsigned_decimal w = Some (of_nat (digits_value w))"
  by (simp add: unsigned_decimal_def split_dot_digits parse_digits_def)

lemma unsigned_decimal_fraction:
  "list_all is_digit w \<Longrightarrow> list_all is_digit f \<Longrightarrow> w \<noteq> [] \<Longrightarrow> f \<noteq> [] \<Longrightarrow>
     unsigned_decimal (w @ CHR ''.'' # f) = Some (of_nat (digits_value (w @ f)) / 10 ^ length f)"
  by (simp add: unsigned_decimal_def split_dot_append parse_digits_def)

lemma decimal_value_signed:
  assumes "unsigned_decimal t = Some q" and "t \<noteq> []" and "hd t \<noteq> CHR ''-''"
  shows "decimal_value ((if b then ''-'' else '''') @ t) = Some (if b then - q else q)"
  using assms by (cases t) (auto simp: decimal_value_def)

section \<open>The exponent\<close>

lemma sint_uminus_32:
  assumes "sint (e :: 32 word) < 0" and "e \<noteq> 0x80000000"
  shows "sint (- e) = - sint e"
proof -
  have ge: "- (2 ^ 31) \<le> sint e" using sint_ge [of e] by simp
  have "sint e \<noteq> sint (0x80000000 :: 32 word)" using assms(2) signed_word_eqI by blast
  then have "- (2 ^ 31) < sint e" using ge by simp
  then have "signed_take_bit 31 (- sint e) = - sint e"
    using assms(1) by (intro signed_take_bit_int_eq_self) simp_all
  then show ?thesis by (simp add: sint_word_ariths)
qed

lemma sint_uminus_min: "sint (- (0x80000000 :: 32 word)) = - (2 ^ 31)"
  by simp

text \<open>A shape of the text for every exponent that is not the least one.\<close>

lemma numericString_cases:
  assumes "usable_numeric v" and "num_Int v = Some i" and "num_Exp v \<noteq> 0x80000000"
  defines "d \<equiv> nat_digits (nat \<bar>i\<bar>)" and "e \<equiv> sint (num_Exp v)"
  shows "numericString v = Inr ((if i < 0 then ''-'' else '''') @
           (if 0 \<le> e then d @ zeros (nat e)
            else if int (length d) \<le> - e then CHR ''0'' # CHR ''.'' # zeros (nat (- e - int (length d))) @ d
            else take (length d - nat (- e)) d @ CHR ''.'' # drop (length d - nat (- e)) d))"
proof -
  have "nat (int (length d) + e) = length d - nat (- e)" if "e < 0" "\<not> int (length d) \<le> - e"
    using that by linarith
  moreover have "sint (- num_Exp v) = - e" if "\<not> 0 \<le> e"
    using that assms(3) by (simp add: e_def sint_uminus_32)
  ultimately show ?thesis
    using assms(1,2) by (auto simp: numericString_def usable_numeric_def Let_def d_def e_def)
qed

text \<open>The text denotes the number: the value of the numeral is \<open>Int * 10^Exp\<close>.\<close>

lemma take_drop_digits:
  assumes "list_all is_digit d" and "k < length d"
  shows "list_all is_digit (take (length d - k) d)" and "list_all is_digit (drop (length d - k) d)"
  using assms by (auto simp: list_all_iff dest: in_set_takeD in_set_dropD)

text \<open>The unsigned part of the text, for an exponent \<open>e\<close> and digits \<open>d\<close>.\<close>

definition magnitude_text :: "int \<Rightarrow> bytes \<Rightarrow> bytes" where
  "magnitude_text e d =
     (if 0 \<le> e then d @ zeros (nat e)
      else if int (length d) \<le> - e then CHR ''0'' # CHR ''.'' # zeros (nat (- e - int (length d))) @ d
      else take (length d - nat (- e)) d @ CHR ''.'' # drop (length d - nat (- e)) d)"

lemma magnitude_text_value:
  assumes dd: "list_all is_digit d" "d \<noteq> []"
  shows "unsigned_decimal (magnitude_text e d) =
    Some (if 0 \<le> e then of_nat (digits_value d) * 10 ^ nat e else of_nat (digits_value d) / 10 ^ nat (- e))"
proof -
  consider (nonneg) "0 \<le> e" | (small) "e < 0" "int (length d) \<le> - e"
    | (mixed) "e < 0" "\<not> int (length d) \<le> - e" by linarith
  then show ?thesis
  proof cases
    case nonneg
    then show ?thesis using dd
      by (simp add: magnitude_text_def unsigned_decimal_digits zeros_all_digits digits_value_append)
  next
    case small
    define f where "f = zeros (nat (- e - int (length d))) @ d"
    have u: "magnitude_text e d = [CHR ''0''] @ CHR ''.'' # f"
      using small by (simp add: magnitude_text_def f_def)
    have len: "length f = nat (- e)" using small by (simp add: f_def)
    have "unsigned_decimal (magnitude_text e d) =
        Some (of_nat (digits_value ([CHR ''0''] @ f)) / 10 ^ length f)"
      unfolding u using dd
      by (intro unsigned_decimal_fraction) (simp_all add: f_def zeros_all_digits zero_char)
    moreover have "digits_value [CHR ''0''] = 0"
      using digits_value_zeros [of 1] by (simp add: zeros_def)
    then have "digits_value ([CHR ''0''] @ f) = digits_value d"
      by (simp only: digits_value_append f_def) simp
    ultimately show ?thesis using small len by simp
  next
    case mixed
    define k where "k = nat (- e)"
    have k: "k < length d" "0 < k" using mixed by (auto simp: k_def)
    have u: "magnitude_text e d = take (length d - k) d @ CHR ''.'' # drop (length d - k) d"
      using mixed by (simp add: magnitude_text_def k_def)
    have "unsigned_decimal (magnitude_text e d) =
        Some (of_nat (digits_value (take (length d - k) d @ drop (length d - k) d)) / 10 ^ k)"
      unfolding u using take_drop_digits [OF dd(1) k(1)] k dd(2)
      by (subst unsigned_decimal_fraction) simp_all
    then show ?thesis using mixed by (simp add: k_def)
  qed
qed

lemma magnitude_text_head:
  assumes "list_all is_digit d" "d \<noteq> []"
  shows "magnitude_text e d \<noteq> []" and "hd (magnitude_text e d) \<noteq> CHR ''-''"
proof -
  show "magnitude_text e d \<noteq> []" using assms by (simp add: magnitude_text_def)
  have "is_digit (hd d)" using assms by (cases d) simp_all
  moreover have "is_digit (CHR ''0'')" by (simp add: zero_char)
  moreover have "hd (magnitude_text e d) = CHR ''0'' \<or> hd (magnitude_text e d) = hd d"
    using assms by (auto simp: magnitude_text_def hd_append)
  ultimately show "hd (magnitude_text e d) \<noteq> CHR ''-''" using sign_not_digit by auto
qed

lemma numericString_defined:
  assumes "usable_numeric v" and "num_Int v = Some i" and "num_Exp v \<noteq> 0x80000000"
  shows "numericString v = Inr ((if i < 0 then ''-'' else '''') @
           magnitude_text (sint (num_Exp v)) (nat_digits (nat \<bar>i\<bar>)))"
  using numericString_cases [OF assms] by (simp add: magnitude_text_def)

lemma numericString_Inr_exponent: "numericString v = Inr t \<Longrightarrow> num_Exp v \<noteq> 0x80000000"
  by (auto simp: numericString_def Let_def split: if_splits option.splits)

lemma numericString_Inr_usable: "numericString v = Inr t \<Longrightarrow> usable_numeric v"
  by (auto simp: numericString_def usable_numeric_def split: if_splits option.splits)

lemma numericString_denotes:
  assumes "numericString v = Inr t"
  shows "decimal_value t = Some (numeric_value v)"
proof -
  obtain i where i: "num_Int v = Some i"
    using numericString_Inr_usable [OF assms] by (auto simp: usable_numeric_def)
  define d where "d = nat_digits (nat \<bar>i\<bar>)"
  define e where "e = sint (num_Exp v)"
  have dd: "list_all is_digit d" "d \<noteq> []" by (simp_all add: d_def nat_digits_all_digits)
  have t: "t = (if i < 0 then ''-'' else '''') @ magnitude_text e d"
    using numericString_defined [OF numericString_Inr_usable [OF assms] i numericString_Inr_exponent [OF assms]] assms
    by (simp add: d_def e_def)
  have abs: "rat_of_nat (digits_value d) = of_int \<bar>i\<bar>" by (simp add: d_def)
  show ?thesis
    unfolding t using i
    by (subst decimal_value_signed [OF magnitude_text_value [OF dd] magnitude_text_head [OF dd]])
      (auto simp: abs numeric_value_def simp flip: e_def)
qed

section \<open>parsePositiveNumeric\<close>

definition parsePositiveNumeric :: "pgx_codec \<Rightarrow> bytes \<Rightarrow> numeric result" where
  "parsePositiveNumeric c raw =
     (case ScanNumeric c (TrimSpace raw) of
        None \<Rightarrow> Inl (Errorf ''scan numeric'')
      | Some amount \<Rightarrow>
          (case num_Int amount of
             None \<Rightarrow> Inl ErrInvalidPayout
           | Some i \<Rightarrow>
               if \<not> num_Valid amount \<or> num_NaN amount \<or>
                  num_InfinityModifier amount \<noteq> Finite \<or> sgn i \<le> 0
               then Inl ErrInvalidPayout
               else Inr amount))"

lemma parsePositiveNumeric_Inr:
  "parsePositiveNumeric c raw = Inr v \<longleftrightarrow>
     ScanNumeric c (TrimSpace raw) = Some v \<and> usable_numeric v \<and> 0 < the (num_Int v)"
  by (auto simp: parsePositiveNumeric_def usable_numeric_def sgn_if split: option.splits if_splits)

lemma parsed_positive: "parsePositiveNumeric c raw = Inr v \<Longrightarrow> 0 < numeric_value v"
  by (auto simp: parsePositiveNumeric_Inr numeric_value_def usable_numeric_def)

section \<open>Properties\<close>

lemma numericString_panic_iff:
  "numericString v = Inl (GoPanic m) \<longleftrightarrow>
     usable_numeric v \<and> num_Exp v = 0x80000000 \<and> m = ''slice bounds out of range''"
proof (cases "usable_numeric v")
  case True
  then obtain i where i: "num_Int v = Some i" by (auto simp: usable_numeric_def)
  show ?thesis
  proof (cases "num_Exp v = 0x80000000")
    case True
    with \<open>usable_numeric v\<close> i show ?thesis
      by (auto simp: numericString_def usable_numeric_def Let_def sint_uminus_min)
  next
    case False
    with numericString_defined [OF \<open>usable_numeric v\<close> i] show ?thesis by simp
  qed
next
  case False
  then show ?thesis
    by (auto simp: numericString_def usable_numeric_def Let_def split: option.splits if_splits)
qed

lemma numericString_unsupported_iff:
  "numericString v = Inl ErrUnsupportedNumeric \<longleftrightarrow> \<not> usable_numeric v"
  by (auto simp: numericString_def usable_numeric_def Let_def split: option.splits if_splits)

lemma numericString_copies:
  "Execution_numericString v =
     (if usable_numeric v then numericString v else Inl Execution_ErrUnsupportedNumeric)"
  by (auto simp: numericString_def Execution_numericString_def usable_numeric_def Let_def
      split: option.splits)

text \<open>C20: the text of an amount is exact. For every value of the driver, \<open>numericString\<close> refuses
  precisely the unsupported values, panics precisely on the least exponent, and otherwise returns a
  decimal numeral that denotes the value itself: no digit is lost, whatever the sign and scale.\<close>

theorem numeric_text_exact:
  "case numericString v of
     Inr t \<Rightarrow> usable_numeric v \<and> decimal_value t = Some (numeric_value v)
   | Inl e \<Rightarrow>
       if usable_numeric v then e = GoPanic ''slice bounds out of range'' \<and> num_Exp v = 0x80000000
       else e = ErrUnsupportedNumeric"
proof (cases "numericString v")
  case (Inr t)
  then show ?thesis by (simp add: numericString_Inr_usable numericString_denotes)
next
  case (Inl e)
  show ?thesis
  proof (cases "usable_numeric v")
    case True
    then obtain i where "num_Int v = Some i" by (auto simp: usable_numeric_def)
    with True Inl numericString_defined have "num_Exp v = 0x80000000" by fastforce
    with True have "numericString v = Inl (GoPanic ''slice bounds out of range'')"
      by (simp add: numericString_panic_iff)
    with True Inl \<open>num_Exp v = _\<close> show ?thesis by simp
  next
    case False
    then have "numericString v = Inl ErrUnsupportedNumeric"
      by (simp add: numericString_unsupported_iff)
    with Inl False show ?thesis by simp
  qed
qed

end
