(* ===== verification/Payout_Status.thy ===== *)
theory Payout_Status
  imports Prelude
begin

text \<open>
  The payout state machine of \<open>internal/domain/payout/status.go\<close>. In Go a \<open>Status\<close> is a string;
  the four declared statuses are a datatype here, and \<open>status_text\<close> is their string. A string
  that is none of the four has no datatype value: \<open>status_of\<close> is \<open>None\<close> on it.
\<close>

datatype payout_status = StatusPending | StatusProcessing | StatusSucceeded | StatusFailed

fun status_text :: "payout_status \<Rightarrow> bytes" where
  "status_text StatusPending = ''pending''"
| "status_text StatusProcessing = ''processing''"
| "status_text StatusSucceeded = ''succeeded''"
| "status_text StatusFailed = ''failed''"

definition status_of :: "bytes \<Rightarrow> payout_status option" where
  "status_of s =
     (if s = ''pending'' then Some StatusPending
      else if s = ''processing'' then Some StatusProcessing
      else if s = ''succeeded'' then Some StatusSucceeded
      else if s = ''failed'' then Some StatusFailed
      else None)"

lemma status_of_text [simp]: "status_of (status_text st) = Some st"
  by (cases st) (simp_all add: status_of_def)

lemma status_of_Some: "status_of s = Some st \<longleftrightarrow> s = status_text st"
  by (cases st) (auto simp: status_of_def split: if_splits)

lemma status_text_inject [simp]: "status_text a = status_text b \<longleftrightarrow> a = b"
  by (metis option.inject status_of_text)

text \<open>\<open>Status.Valid\<close>\<close>

definition Valid :: "bytes \<Rightarrow> bool" where
  "Valid s \<longleftrightarrow> (case status_of s of Some _ \<Rightarrow> True | None \<Rightarrow> False)"

lemma Valid_iff: "Valid s \<longleftrightarrow> (\<exists>st. s = status_text st)"
  by (auto simp: Valid_def status_of_Some split: option.splits)

text \<open>\<open>CanTransition\<close>\<close>

definition CanTransition :: "bytes \<Rightarrow> bytes \<Rightarrow> bool" where
  "CanTransition from to =
     (if from = status_text StatusPending then to = status_text StatusProcessing
      else if from = status_text StatusProcessing
      then to = status_text StatusSucceeded \<or> to = status_text StatusFailed
      else False)"

text \<open>The transitions between the declared statuses.\<close>

definition status_step :: "payout_status \<Rightarrow> payout_status \<Rightarrow> bool" where
  "status_step a b \<longleftrightarrow> CanTransition (status_text a) (status_text b)"

lemma status_step_simps [simp]:
  "status_step StatusPending b \<longleftrightarrow> b = StatusProcessing"
  "status_step StatusProcessing b \<longleftrightarrow> b = StatusSucceeded \<or> b = StatusFailed"
  "\<not> status_step StatusSucceeded b" "\<not> status_step StatusFailed b"
  by (simp_all add: status_step_def CanTransition_def del: status_text.simps)

lemma CanTransition_declared:
  "CanTransition from to \<longleftrightarrow> (\<exists>a b. from = status_text a \<and> to = status_text b \<and> status_step a b)"
  by (auto simp: CanTransition_def status_step_def simp del: status_text.simps)

text \<open>
  The runs the state machine allows are the reflexive transitive closure of one transition.
  They are computed here by cases, and the next lemma states that this is the closure.
\<close>

definition may_become :: "payout_status \<Rightarrow> payout_status \<Rightarrow> bool" where
  "may_become a b \<longleftrightarrow>
     a = b \<or> a = StatusPending \<or> a = StatusProcessing \<and> (b = StatusSucceeded \<or> b = StatusFailed)"

lemma status_step_may_become: "status_step a b \<Longrightarrow> may_become a b"
  by (cases a) (auto simp: may_become_def)

lemma may_become_trans: "may_become a b \<Longrightarrow> may_become b c \<Longrightarrow> may_become a c"
  by (cases b) (auto simp: may_become_def)

lemma may_become_refl [simp]: "may_become a a"
  by (simp add: may_become_def)

lemma may_become_closure: "may_become a b \<longleftrightarrow> status_step\<^sup>*\<^sup>* a b"
proof
  assume "status_step\<^sup>*\<^sup>* a b"
  then show "may_become a b"
    by (induction rule: rtranclp_induct) (auto intro: may_become_trans status_step_may_become)
next
  have via: "status_step\<^sup>*\<^sup>* StatusPending b" if "status_step\<^sup>*\<^sup>* StatusProcessing b"
    using that by (rule converse_rtranclp_into_rtranclp [rotated]) simp
  have final: "status_step\<^sup>*\<^sup>* StatusProcessing b" if "b \<noteq> StatusPending"
    using that by (cases b) auto
  assume "may_become a b"
  then consider "a = b" | "a = StatusPending" "b \<noteq> StatusPending"
    | "a = StatusProcessing" "b = StatusSucceeded \<or> b = StatusFailed"
    by (cases b) (auto simp: may_become_def)
  then show "status_step\<^sup>*\<^sup>* a b"
    by cases (auto intro: via final)
qed

text \<open>
  No run returns to a status it has left, so the runs order the statuses, with \<open>pending\<close> at the bottom.
\<close>

lemma may_become_antisym: "may_become a b \<Longrightarrow> may_become b a \<Longrightarrow> a = b"
  by (auto simp: may_become_def)

instantiation payout_status :: order_bot
begin

definition less_eq_payout_status :: "payout_status \<Rightarrow> payout_status \<Rightarrow> bool" where
  "less_eq_payout_status = may_become"

definition less_payout_status :: "payout_status \<Rightarrow> payout_status \<Rightarrow> bool" where
  "less_payout_status a b \<longleftrightarrow> may_become a b \<and> a \<noteq> b"

definition bot_payout_status :: payout_status where
  "bot_payout_status = StatusPending"

instance
proof
  fix a b c :: payout_status
  show "a \<le> b \<Longrightarrow> b \<le> c \<Longrightarrow> a \<le> c" unfolding less_eq_payout_status_def by (rule may_become_trans)
  show "a < b \<longleftrightarrow> a \<le> b \<and> \<not> b \<le> a"
    unfolding less_eq_payout_status_def less_payout_status_def by (auto dest: may_become_antisym)
  show "a \<le> b \<Longrightarrow> b \<le> a \<Longrightarrow> a = b" unfolding less_eq_payout_status_def by (rule may_become_antisym)
qed (simp_all add: less_eq_payout_status_def bot_payout_status_def may_become_def)

end

lemma status_le_iff: "a \<le> b \<longleftrightarrow> status_step\<^sup>*\<^sup>* a b"
  by (simp add: less_eq_payout_status_def may_become_closure)

definition terminal :: "payout_status \<Rightarrow> bool" where
  "terminal st \<longleftrightarrow> st = StatusSucceeded \<or> st = StatusFailed"

lemma terminal_iff_stuck: "terminal a \<longleftrightarrow> (\<forall>b. \<not> status_step a b)"
  by (cases a) (auto simp: terminal_def)

lemma terminal_may_become: "terminal a \<Longrightarrow> may_become a b \<longleftrightarrow> b = a"
  by (auto simp: terminal_def may_become_def)

lemma terminal_iff_maximal: "terminal a \<longleftrightarrow> \<not> (\<exists>b. a < b)"
  unfolding less_payout_status_def by (cases a) (auto simp: terminal_def may_become_def)

end
