(* ===== verification/Schema.thy ===== *)
theory Schema
  imports Numeric_Text Payout_Status "HOL-Library.Product_Lexorder"
begin

text \<open>
  The database: the row types of \<open>internal/db/models.go\<close>, the tables, and the constraints the
  migrations put on them (column types, CHECK, UNIQUE and foreign keys). A table is the list of
  its rows in insertion order. \<open>db_now\<close> is what \<open>NOW()\<close> returns to the running transaction,
  \<open>db_locked\<close> the outbox rows locked by other transactions, which \<open>SKIP LOCKED\<close> passes over.
\<close>

section \<open>Rows\<close>

record client_row =
  cl_ID :: uuid
  cl_Name :: bytes
  cl_ApiKey :: uuid
  cl_CreatedAt :: timestamp
  cl_UpdatedAt :: timestamp
  cl_WebhookUrl :: pg_text

record funding_source_row =
  fs_ID :: uuid
  fs_ClientID :: uuid
  fs_Name :: bytes
  fs_Type :: bytes
  fs_PaymentAccountID :: bytes
  fs_Status :: bytes
  fs_CreatedAt :: timestamp
  fs_UpdatedAt :: timestamp

record idempotency_row =
  ik_Key :: bytes
  ik_ClientID :: uuid
  ik_RequestHash :: bytes
  ik_PayoutID :: uuid
  ik_CreatedAt :: timestamp

record outbox_row =
  ob_ID :: uuid
  ob_EventType :: bytes
  ob_Payload :: bytes
  ob_Status :: bytes
  ob_CreatedAt :: timestamp
  ob_ProcessedAt :: "timestamp option"
  ob_EntityID :: uuid
  ob_ClaimedAt :: "timestamp option"

record payout_row =
  pay_ID :: uuid
  pay_ClientID :: uuid
  pay_FundingSourceID :: uuid
  pay_Amount :: numeric
  pay_Currency :: bytes
  pay_Status :: bytes
  pay_CreatedAt :: timestamp
  pay_UpdatedAt :: timestamp
  pay_FailureReason :: pg_text
  pay_ExternalID :: pg_text
  pay_RecipientName :: pg_text
  pay_RecipientAccountID :: pg_text

record webhook_row =
  wh_ID :: uuid
  wh_PayoutID :: uuid
  wh_ClientID :: uuid
  wh_TargetUrl :: bytes
  wh_Payload :: bytes
  wh_Status :: bytes
  wh_AttemptCount :: "32 word"
  wh_CreatedAt :: timestamp
  wh_UpdatedAt :: timestamp

section \<open>The database state\<close>

record db =
  tbl_clients :: "client_row list"
  tbl_funding_sources :: "funding_source_row list"
  tbl_payouts :: "payout_row list"
  tbl_idempotency_keys :: "idempotency_row list"
  tbl_outbox_events :: "outbox_row list"
  tbl_webhook_deliveries :: "webhook_row list"
  db_now :: timestamp
  db_uuid_seq :: nat
  db_locked :: "uuid list"

definition empty_db :: "timestamp \<Rightarrow> db" where
  "empty_db t =
     \<lparr>tbl_clients = [], tbl_funding_sources = [], tbl_payouts = [], tbl_idempotency_keys = [],
      tbl_outbox_events = [], tbl_webhook_deliveries = [], db_now = t, db_uuid_seq = 0,
      db_locked = []\<rparr>"

text \<open>
  What the server computes and the repository does not define: the values of
  \<open>uuid_generate_v4()\<close>, one after the other, and the text a \<open>JSONB\<close> column gives back for a
  document it accepts (\<open>None\<close>: not a JSON document).
\<close>

record postgres =
  pg_uuid_v4 :: "nat \<Rightarrow> uuid"
  pg_jsonb :: "bytes \<Rightarrow> bytes option"

definition new_uuid :: "postgres \<Rightarrow> db \<Rightarrow> uuid" where
  "new_uuid pg d = pg_uuid_v4 pg (db_uuid_seq d)"

section \<open>Column types\<close>

text \<open>Parameters bound to a text column: UTF-8 without NUL, or SQLSTATE 22021.\<close>

definition storable_text :: "bytes \<Rightarrow> bool" where
  "storable_text s \<longleftrightarrow> valid_utf8 s \<and> CHR 0x00 \<notin> set s"

definition text_value :: "bytes \<Rightarrow> bytes result" where
  "text_value s = (if storable_text s then Inr s else Inl (PgError ''22021'' ''''))"

text \<open>
  \<open>VARCHAR(n)\<close>: at most \<open>n\<close> characters; longer values are cut when only spaces are lost and
  refused (22001) otherwise.
\<close>

fun take_runes :: "nat \<Rightarrow> bytes \<Rightarrow> bytes" where
  "take_runes n [] = []"
| "take_runes n (c # s) =
     (if cont_byte c then c # take_runes n s
      else if n = 0 then [] else c # take_runes (n - 1) s)"

definition varchar :: "nat \<Rightarrow> bytes \<Rightarrow> bytes result" where
  "varchar n s =
     (if \<not> storable_text s then Inl (PgError ''22021'' '''')
      else if rune_count s \<le> n then Inr s
      else if list_all (\<lambda>c. c = CHR '' '') (drop (length (take_runes n s)) s)
      then Inr (take_runes n s)
      else Inl (PgError ''22001'' ''''))"

lemma varchar_short: "storable_text s \<Longrightarrow> length s \<le> n \<Longrightarrow> varchar n s = Inr s"
  using rune_count_le [of s] by (simp add: varchar_def)

text \<open>A nullable column: a \<open>pgtype.Text\<close> that is not valid is NULL and read back as the empty text.\<close>

definition nullable :: "(bytes \<Rightarrow> bytes result) \<Rightarrow> pg_text \<Rightarrow> pg_text result" where
  "nullable col t =
     (if Text_Valid t
      then (case col (Text_String t) of
              Inl e \<Rightarrow> Inl e
            | Inr s \<Rightarrow> Inr \<lparr>Text_String = s, Text_Valid = True\<rparr>)
      else Inr null_text)"

text \<open>
  \<open>NUMERIC(10,2)\<close>: the value is rounded to two decimals, half away from zero, and must be below
  \<open>10^8\<close> in absolute value (22003). NULL is refused (23502). The service never sends a NaN, an
  infinity or a nil integer, so the branch for them only records that they are not stored.
\<close>

definition hundredths :: "int \<Rightarrow> int \<Rightarrow> int" where
  "hundredths i e =
     (if - 2 \<le> e then i * 10 ^ nat (e + 2)
      else (let d = 10 ^ nat (- (e + 2)) in sgn i * ((2 * \<bar>i\<bar> + d) div (2 * d))))"

definition numeric_10_2 :: "numeric \<Rightarrow> numeric result" where
  "numeric_10_2 v =
     (if \<not> num_Valid v then Inl (PgError ''23502'' '''')
      else if \<not> usable_numeric v then Inl (PgError ''22003'' '''')
      else
        (let h = hundredths (the (num_Int v)) (sint (num_Exp v))
         in if 10 ^ 10 \<le> \<bar>h\<bar> then Inl (PgError ''22003'' '''') else Inr (mk_numeric h (- 2))))"

lemma sint_minus_two: "sint (- 2 :: 32 word) = - 2"
  by simp

lemma numeric_10_2_Inr:
  "numeric_10_2 v = Inr w \<longleftrightarrow>
     usable_numeric v \<and> \<bar>hundredths (the (num_Int v)) (sint (num_Exp v))\<bar> < 10 ^ 10 \<and>
     w = mk_numeric (hundredths (the (num_Int v)) (sint (num_Exp v))) (- 2)"
  by (auto simp: numeric_10_2_def Let_def usable_numeric_def)

text \<open>The stored amount differs from the one sent by at most half a cent.\<close>

lemma hundredths_close:
  assumes "num_Int v = Some i" and "0 < i"
  shows "\<bar>rat_of_int (hundredths i (sint (num_Exp v))) / 100 - numeric_value v\<bar> \<le> 1 / 200"
proof (cases "- 2 \<le> sint (num_Exp v)")
  case True
  define e where "e = sint (num_Exp v)"
  have "rat_of_int i * 10 ^ nat (e + 2) / 100 = rat_of_int i * 10 ^ nat e" if "0 \<le> e"
    using that by (simp add: nat_add_distrib power_add)
  moreover have "rat_of_int i * 10 ^ nat (e + 2) / 100 = rat_of_int i / 10 ^ nat (- e)" if "e < 0"
  proof -
    have "e = - 1 \<or> e = - 2" using that True by (auto simp: e_def)
    then show ?thesis by (auto simp: power2_eq_square)
  qed
  ultimately have "rat_of_int (hundredths i e) / 100 = numeric_value v"
    using True assms by (auto simp: hundredths_def numeric_value_def simp flip: e_def)
  then show ?thesis by (simp add: e_def)
next
  case False
  define e where "e = sint (num_Exp v)"
  define d :: int where "d = 10 ^ nat (- (e + 2))"
  define q where "q = (2 * i + d) div (2 * d)"
  have d: "0 < d" by (simp add: d_def)
  have h: "hundredths i e = q"
    using False assms by (simp add: hundredths_def q_def d_def Let_def e_def)
  have val: "numeric_value v = rat_of_int i / (100 * of_int d)"
  proof -
    have "nat (- e) = 2 + nat (- (e + 2))" using False by (simp add: e_def)
    then have "(10 :: rat) ^ nat (- e) = 100 * of_int d"
      by (simp add: d_def power_add)
    with False assms show ?thesis by (simp add: numeric_value_def e_def)
  qed
  have "2 * d * q \<le> 2 * i + d" "2 * i + d < 2 * d * q + 2 * d"
    using d by (simp_all add: q_def pos_mod_sign minus_mod_eq_mult_div [symmetric])
  then have "rat_of_int (2 * d * q) \<le> rat_of_int (2 * i + d)"
    "rat_of_int (2 * i + d) \<le> rat_of_int (2 * d * q + 2 * d)"
    by (simp_all only: of_int_le_iff)
  then have lower: "2 * rat_of_int d * of_int q \<le> 2 * of_int i + of_int d"
    and upper: "2 * rat_of_int i + of_int d \<le> 2 * of_int d * of_int q + 2 * of_int d"
    by simp_all
  have dq: "0 < rat_of_int d" using d by simp
  define x where "x = rat_of_int i / of_int d"
  have "rat_of_int q - x \<le> 1 / 2"
    using lower dq by (simp add: x_def field_simps)
  moreover have "x - rat_of_int q \<le> 1 / 2"
    using upper dq by (simp add: x_def field_simps)
  moreover have "numeric_value v = x / 100"
    using val by (simp add: x_def)
  ultimately have "\<bar>rat_of_int q / 100 - numeric_value v\<bar> \<le> 1 / 200" by linarith
  then show ?thesis using h by (simp add: e_def)
qed

section \<open>Constraints\<close>

definition unique_violation :: "bytes \<Rightarrow> go_error" where
  "unique_violation name = PgError ''23505'' name"

definition fk_violation :: "bytes \<Rightarrow> go_error" where
  "fk_violation name = PgError ''23503'' name"

definition check_violation :: "bytes \<Rightarrow> go_error" where
  "check_violation name = PgError ''23514'' name"

text \<open>The statements of a table's constraints: the first that fails is the error.\<close>

fun first_failure :: "(bool \<times> go_error) list \<Rightarrow> go_error option" where
  "first_failure [] = None"
| "first_failure ((holds, e) # cs) = (if holds then first_failure cs else Some e)"

declare first_failure.simps(2) [simp del]

lemma first_failure_Cons [simp]:
  "first_failure ((holds, e) # cs) = None \<longleftrightarrow> holds \<and> first_failure cs = None"
  "first_failure ((holds, e) # cs) = Some e' \<longleftrightarrow>
     \<not> holds \<and> e' = e \<or> holds \<and> first_failure cs = Some e'"
  by (auto simp: first_failure.simps)

lemma first_failure_Some: "first_failure cs = Some e \<Longrightarrow> \<exists>h. (h, e) \<in> set cs"
  by (induction cs rule: first_failure.induct) auto

definition payout_statuses :: "bytes list" where
  "payout_statuses = [''pending'', ''processing'', ''succeeded'', ''failed'']"

definition outbox_statuses :: "bytes list" where
  "outbox_statuses = [''pending'', ''processing'', ''processed'']"

definition funding_source_statuses :: "bytes list" where
  "funding_source_statuses = [''active'', ''disabled'']"

definition webhook_statuses :: "bytes list" where
  "webhook_statuses = [''pending'', ''processing'', ''delivered'', ''failed'']"

lemma payout_statuses_iff: "s \<in> set payout_statuses \<longleftrightarrow> (\<exists>st. s = status_text st)"
proof
  assume "\<exists>st. s = status_text st"
  then obtain st where "s = status_text st" ..
  then show "s \<in> set payout_statuses" by (cases st) (simp_all add: payout_statuses_def)
next
  assume "s \<in> set payout_statuses"
  then have "Valid s" by (auto simp: payout_statuses_def Valid_def status_of_def)
  then show "\<exists>st. s = status_text st" by (simp add: Valid_iff)
qed

text \<open>The external id a row claims in the partial unique index, if any.\<close>

definition indexed_external_id :: "payout_row \<Rightarrow> (uuid \<times> bytes) option" where
  "indexed_external_id p =
     (if Text_Valid (pay_ExternalID p) \<and> Text_String (pay_ExternalID p) \<noteq> ''''
      then Some (pay_ClientID p, Text_String (pay_ExternalID p)) else None)"

end
