(* ===== verification/Queries.thy ===== *)
theory Queries
  imports Schema
begin

text \<open>
  The SQL statements of \<open>internal/db\<close>, one definition per method of \<open>Queries\<close>, on the
  database of theory \<open>Schema\<close>. An \<open>INSERT\<close> computes the column values, then tests the
  constraints in the order the server does (column types, CHECK, unique indexes, foreign keys);
  a \<open>:one\<close> statement without a row is \<open>pgx.ErrNoRows\<close>. A statement that fails changes nothing.
\<close>

section \<open>Parameters\<close>

record create_client_params =
  ccp_ID :: uuid
  ccp_Name :: bytes
  ccp_ApiKey :: uuid

record create_funding_source_params =
  cfp_ClientID :: uuid
  cfp_Name :: bytes
  cfp_Type :: bytes
  cfp_PaymentAccountID :: bytes

record by_client_params =
  bcp_ClientID :: uuid
  bcp_ID :: uuid

record page_params =
  pgp_ClientID :: uuid
  pgp_Limit :: "32 word"
  pgp_Offset :: "32 word"

record create_idempotency_params =
  cip_Key :: bytes
  cip_ClientID :: uuid
  cip_RequestHash :: bytes
  cip_PayoutID :: uuid

record get_idempotency_params =
  gip_ClientID :: uuid
  gip_Key :: bytes

record create_outbox_params =
  cop_EventType :: bytes
  cop_EntityID :: uuid
  cop_Payload :: bytes

record claim_by_types_params =
  cbt_EventTypes :: "bytes list"
  cbt_ReclaimBefore :: timestamp

record create_payout_params =
  cpp_ClientID :: uuid
  cpp_FundingSourceID :: uuid
  cpp_ExternalID :: pg_text
  cpp_RecipientName :: pg_text
  cpp_RecipientAccountID :: pg_text
  cpp_Amount :: numeric
  cpp_Currency :: bytes

record update_failure_params =
  ufp_FailureReason :: pg_text
  ufp_ID :: uuid

record update_status_params =
  usp_Status :: bytes
  usp_ID :: uuid

record create_webhook_params =
  cwp_PayoutID :: uuid
  cwp_ClientID :: uuid
  cwp_TargetUrl :: bytes
  cwp_Payload :: bytes
  cwp_Status :: bytes
  cwp_AttemptCount :: "32 word"

section \<open>Shapes of statements\<close>

text \<open>\<open>SELECT ... WHERE\<close> of at most one row.\<close>

definition select_one :: "(db \<Rightarrow> 'r list) \<Rightarrow> ('r \<Rightarrow> bool) \<Rightarrow> (db, 'r) action" where
  "select_one tbl P d = (case find P (tbl d) of None \<Rightarrow> (Inl ErrNoRows, d) | Some r \<Rightarrow> (Inr r, d))"

text \<open>\<open>INSERT ... RETURNING\<close>: the row, the constraints on it, and the table's update.\<close>

definition insert_row ::
  "'r result \<Rightarrow> ('r \<Rightarrow> (bool \<times> go_error) list) \<Rightarrow> ('r \<Rightarrow> db \<Rightarrow> db) \<Rightarrow> (db, 'r) action" where
  "insert_row row constraints store d =
     (case row of
        Inl e \<Rightarrow> (Inl e, d)
      | Inr r \<Rightarrow>
          (case first_failure (constraints r) of
             Some e \<Rightarrow> (Inl e, d)
           | None \<Rightarrow> (Inr r, store r d)))"

text \<open>\<open>UPDATE ... WHERE ... RETURNING\<close> of one row; \<open>chk\<close> is what the new values must pass.\<close>

definition update_one ::
  "(db \<Rightarrow> 'r list) \<Rightarrow> ('r \<Rightarrow> bool) \<Rightarrow> go_error option \<Rightarrow> ('r \<Rightarrow> 'r) \<Rightarrow>
   ('r list \<Rightarrow> db \<Rightarrow> db) \<Rightarrow> (db, 'r) action" where
  "update_one tbl P chk f put d =
     (case find P (tbl d) of
        None \<Rightarrow> (Inl ErrNoRows, d)
      | Some r \<Rightarrow>
          (case chk of
             Some e \<Rightarrow> (Inl e, d)
           | None \<Rightarrow> (Inr (f r), put (update_where P f (tbl d)) d)))"

lemma select_one_Inr [seq_simps]:
  "select_one tbl P d = (Inr r, d') \<longleftrightarrow> find P (tbl d) = Some r \<and> d' = d"
  by (auto simp: select_one_def split: option.splits)

lemma select_one_Inl [seq_simps]:
  "select_one tbl P d = (Inl e, d') \<longleftrightarrow> find P (tbl d) = None \<and> e = ErrNoRows \<and> d' = d"
  by (auto simp: select_one_def split: option.splits)

lemma select_one_state [simp]: "snd (select_one tbl P d) = d"
  by (simp add: select_one_def split: option.splits)

lemma insert_row_Inr [seq_simps]:
  "insert_row row cs store d = (Inr r, d') \<longleftrightarrow>
     row = Inr r \<and> first_failure (cs r) = None \<and> d' = store r d"
  by (auto simp: insert_row_def split: sum.splits option.splits)

lemma insert_row_Inl [seq_simps]:
  "insert_row row cs store d = (Inl e, d') \<longleftrightarrow>
     d' = d \<and> (row = Inl e \<or> (\<exists>r. row = Inr r \<and> first_failure (cs r) = Some e))"
  by (auto simp: insert_row_def split: sum.splits option.splits)

lemma update_one_Inr [seq_simps]:
  "update_one tbl P chk f put d = (Inr r', d') \<longleftrightarrow>
     (\<exists>r. find P (tbl d) = Some r \<and> chk = None \<and> r' = f r \<and> d' = put (update_where P f (tbl d)) d)"
  by (auto simp: update_one_def split: option.splits)

lemma update_one_Inl [seq_simps]:
  "update_one tbl P chk f put d = (Inl e, d') \<longleftrightarrow>
     d' = d \<and> (find P (tbl d) = None \<and> e = ErrNoRows \<or> find P (tbl d) \<noteq> None \<and> chk = Some e)"
  by (auto simp: update_one_def split: option.splits)

text \<open>\<open>ORDER BY ... LIMIT $2 OFFSET $3\<close>; a negative bound is SQLSTATE 2201W or 2201X.\<close>

definition limit_offset :: "32 word \<Rightarrow> 32 word \<Rightarrow> 'r list \<Rightarrow> 'r list result" where
  "limit_offset l off rows =
     (if sint l < 0 then Inl (PgError ''2201W'' '''')
      else if sint off < 0 then Inl (PgError ''2201X'' '''')
      else Inr (take (nat (sint l)) (drop (nat (sint off)) rows)))"

section \<open>clients\<close>

definition client_of :: "create_client_params \<Rightarrow> db \<Rightarrow> client_row result" where
  "client_of arg d =
     res_bind (varchar 255 (ccp_Name arg)) (\<lambda>name.
       Inr \<lparr>cl_ID = ccp_ID arg, cl_Name = name, cl_ApiKey = ccp_ApiKey arg,
            cl_CreatedAt = db_now d, cl_UpdatedAt = db_now d, cl_WebhookUrl = null_text\<rparr>)"

definition client_constraints :: "db \<Rightarrow> client_row \<Rightarrow> (bool \<times> go_error) list" where
  "client_constraints d r =
     [(cl_ID r \<notin> set (map cl_ID (tbl_clients d)), unique_violation ''clients_pkey''),
      (cl_ApiKey r \<notin> set (map cl_ApiKey (tbl_clients d)), unique_violation ''clients_api_key_key'')]"

definition CreateClient :: "create_client_params \<Rightarrow> (db, client_row) action" where
  "CreateClient arg d =
     insert_row (client_of arg d) (client_constraints d)
       (\<lambda>r d. d\<lparr>tbl_clients := tbl_clients d @ [r]\<rparr>) d"

definition GetClientByApiKey :: "uuid \<Rightarrow> (db, client_row) action" where
  "GetClientByApiKey apiKey = select_one tbl_clients (\<lambda>c. cl_ApiKey c = apiKey)"

definition GetClientById :: "uuid \<Rightarrow> (db, client_row) action" where
  "GetClientById i = select_one tbl_clients (\<lambda>c. cl_ID c = i)"

definition ListClients :: "32 word \<Rightarrow> 32 word \<Rightarrow> (db, client_row list) action" where
  "ListClients l off d =
     (limit_offset l off (sort_key (\<lambda>c. - cl_CreatedAt c) (tbl_clients d)), d)"

definition UpdateClient :: "bytes \<Rightarrow> uuid \<Rightarrow> (db, client_row) action" where
  "UpdateClient name i d =
     (if \<not> storable_text name then (Inl (PgError ''22021'' ''''), d)
      else
        (case varchar 255 name of
           Inl e \<Rightarrow>
             update_one tbl_clients (\<lambda>c. cl_ID c = i) (Some e) (\<lambda>c. c)
               (\<lambda>rows d. d\<lparr>tbl_clients := rows\<rparr>) d
         | Inr n \<Rightarrow>
             update_one tbl_clients (\<lambda>c. cl_ID c = i) None
               (\<lambda>c. c\<lparr>cl_Name := n, cl_UpdatedAt := db_now d\<rparr>)
               (\<lambda>rows d. d\<lparr>tbl_clients := rows\<rparr>) d))"

definition UpdateClientWebhookURL :: "pg_text \<Rightarrow> uuid \<Rightarrow> (db, client_row) action" where
  "UpdateClientWebhookURL url i d =
     (case nullable text_value url of
        Inl e \<Rightarrow> (Inl e, d)
      | Inr u \<Rightarrow>
          update_one tbl_clients (\<lambda>c. cl_ID c = i) None
            (\<lambda>c. c\<lparr>cl_WebhookUrl := u, cl_UpdatedAt := db_now d\<rparr>)
            (\<lambda>rows d. d\<lparr>tbl_clients := rows\<rparr>) d)"

section \<open>funding_sources\<close>

definition funding_source_of ::
  "postgres \<Rightarrow> create_funding_source_params \<Rightarrow> db \<Rightarrow> funding_source_row result" where
  "funding_source_of pg arg d =
     res_bind (varchar 255 (cfp_Name arg)) (\<lambda>name.
     res_bind (varchar 50 (cfp_Type arg)) (\<lambda>type.
     res_bind (varchar 255 (cfp_PaymentAccountID arg)) (\<lambda>acct.
       Inr \<lparr>fs_ID = new_uuid pg d, fs_ClientID = cfp_ClientID arg, fs_Name = name, fs_Type = type,
            fs_PaymentAccountID = acct, fs_Status = ''active'',
            fs_CreatedAt = db_now d, fs_UpdatedAt = db_now d\<rparr>)))"

definition funding_source_constraints :: "db \<Rightarrow> funding_source_row \<Rightarrow> (bool \<times> go_error) list" where
  "funding_source_constraints d r =
     [(fs_Status r \<in> set funding_source_statuses, check_violation ''funding_sources_status_check''),
      (fs_ID r \<notin> set (map fs_ID (tbl_funding_sources d)), unique_violation ''funding_sources_pkey''),
      (fs_ClientID r \<in> set (map cl_ID (tbl_clients d)), fk_violation ''funding_sources_client_id_fkey'')]"

definition CreateFundingSource ::
  "postgres \<Rightarrow> create_funding_source_params \<Rightarrow> (db, funding_source_row) action" where
  "CreateFundingSource pg arg d =
     insert_row (funding_source_of pg arg d) (funding_source_constraints d)
       (\<lambda>r d. d\<lparr>tbl_funding_sources := tbl_funding_sources d @ [r], db_uuid_seq := Suc (db_uuid_seq d)\<rparr>) d"

definition GetFundingSourceByClientID :: "by_client_params \<Rightarrow> (db, funding_source_row) action" where
  "GetFundingSourceByClientID arg =
     select_one tbl_funding_sources (\<lambda>r. fs_ClientID r = bcp_ClientID arg \<and> fs_ID r = bcp_ID arg)"

definition ListFundingSourcesByClientID :: "page_params \<Rightarrow> (db, funding_source_row list) action" where
  "ListFundingSourcesByClientID arg d =
     (limit_offset (pgp_Limit arg) (pgp_Offset arg)
        (rev (sort_key (\<lambda>r. (fs_CreatedAt r, fs_ID r))
               (filter (\<lambda>r. fs_ClientID r = pgp_ClientID arg) (tbl_funding_sources d)))), d)"

section \<open>idempotency_keys\<close>

definition idempotency_key_of :: "create_idempotency_params \<Rightarrow> db \<Rightarrow> idempotency_row result" where
  "idempotency_key_of arg d =
     res_bind (text_value (cip_Key arg)) (\<lambda>key.
     res_bind (text_value (cip_RequestHash arg)) (\<lambda>hash.
       Inr \<lparr>ik_Key = key, ik_ClientID = cip_ClientID arg, ik_RequestHash = hash,
            ik_PayoutID = cip_PayoutID arg, ik_CreatedAt = db_now d\<rparr>))"

definition idempotency_key_constraints :: "db \<Rightarrow> idempotency_row \<Rightarrow> (bool \<times> go_error) list" where
  "idempotency_key_constraints d r =
     [(ik_Key r \<noteq> '''', check_violation ''idempotency_keys_key_check''),
      (ik_RequestHash r \<noteq> '''', check_violation ''idempotency_keys_request_hash_check''),
      ((ik_ClientID r, ik_Key r) \<notin> set (map (\<lambda>k. (ik_ClientID k, ik_Key k)) (tbl_idempotency_keys d)),
         unique_violation ''idempotency_keys_pkey''),
      (ik_PayoutID r \<notin> set (map ik_PayoutID (tbl_idempotency_keys d)),
         unique_violation ''idempotency_keys_payout_id_key''),
      (ik_ClientID r \<in> set (map cl_ID (tbl_clients d)), fk_violation ''idempotency_keys_client_id_fkey''),
      (ik_PayoutID r \<in> set (map pay_ID (tbl_payouts d)), fk_violation ''idempotency_keys_payout_id_fkey'')]"

definition CreateIdempotencyKey :: "create_idempotency_params \<Rightarrow> (db, idempotency_row) action" where
  "CreateIdempotencyKey arg d =
     insert_row (idempotency_key_of arg d) (idempotency_key_constraints d)
       (\<lambda>r d. d\<lparr>tbl_idempotency_keys := tbl_idempotency_keys d @ [r]\<rparr>) d"

definition GetIdempotencyKey :: "get_idempotency_params \<Rightarrow> (db, idempotency_row) action" where
  "GetIdempotencyKey arg d =
     (if \<not> storable_text (gip_Key arg) then (Inl (PgError ''22021'' ''''), d)
      else select_one tbl_idempotency_keys
             (\<lambda>k. ik_ClientID k = gip_ClientID arg \<and> ik_Key k = gip_Key arg) d)"

section \<open>payouts\<close>

definition payout_of :: "postgres \<Rightarrow> create_payout_params \<Rightarrow> db \<Rightarrow> payout_row result" where
  "payout_of pg arg d =
     res_bind (nullable (varchar 255) (cpp_ExternalID arg)) (\<lambda>ext.
     res_bind (nullable (varchar 255) (cpp_RecipientName arg)) (\<lambda>rname.
     res_bind (nullable (varchar 255) (cpp_RecipientAccountID arg)) (\<lambda>racct.
     res_bind (numeric_10_2 (cpp_Amount arg)) (\<lambda>amount.
     res_bind (varchar 12 (cpp_Currency arg)) (\<lambda>currency.
       Inr \<lparr>pay_ID = new_uuid pg d, pay_ClientID = cpp_ClientID arg,
            pay_FundingSourceID = cpp_FundingSourceID arg, pay_Amount = amount,
            pay_Currency = currency, pay_Status = ''pending'',
            pay_CreatedAt = db_now d, pay_UpdatedAt = db_now d, pay_FailureReason = null_text,
            pay_ExternalID = ext, pay_RecipientName = rname, pay_RecipientAccountID = racct\<rparr>)))))"

definition payout_constraints :: "db \<Rightarrow> payout_row \<Rightarrow> (bool \<times> go_error) list" where
  "payout_constraints d r =
     [(0 < the (num_Int (pay_Amount r)), check_violation ''payouts_amount_check''),
      (pay_Status r \<in> set payout_statuses, check_violation ''payouts_status_check''),
      (pay_ID r \<notin> set (map pay_ID (tbl_payouts d)), unique_violation ''payouts_pkey''),
      (indexed_external_id r = None \<or>
         indexed_external_id r \<notin> set (map indexed_external_id (tbl_payouts d)),
         unique_violation ''ux_payouts_client_external_id''),
      (pay_ClientID r \<in> set (map cl_ID (tbl_clients d)), fk_violation ''payouts_client_id_fkey''),
      (pay_FundingSourceID r \<in> set (map fs_ID (tbl_funding_sources d)),
         fk_violation ''payouts_funding_source_id_fkey'')]"

definition CreatePayout :: "postgres \<Rightarrow> create_payout_params \<Rightarrow> (db, payout_row) action" where
  "CreatePayout pg arg d =
     insert_row (payout_of pg arg d) (payout_constraints d)
       (\<lambda>r d. d\<lparr>tbl_payouts := tbl_payouts d @ [r], db_uuid_seq := Suc (db_uuid_seq d)\<rparr>) d"

definition GetPayoutByClientID :: "by_client_params \<Rightarrow> (db, payout_row) action" where
  "GetPayoutByClientID arg =
     select_one tbl_payouts (\<lambda>p. pay_ClientID p = bcp_ClientID arg \<and> pay_ID p = bcp_ID arg)"

definition ListPayoutsByClientID :: "page_params \<Rightarrow> (db, payout_row list) action" where
  "ListPayoutsByClientID arg d =
     (limit_offset (pgp_Limit arg) (pgp_Offset arg)
        (rev (sort_key (\<lambda>p. (pay_CreatedAt p, pay_ID p))
               (filter (\<lambda>p. pay_ClientID p = pgp_ClientID arg) (tbl_payouts d)))), d)"

definition UpdatePayoutFailure :: "update_failure_params \<Rightarrow> (db, payout_row) action" where
  "UpdatePayoutFailure arg d =
     (case nullable text_value (ufp_FailureReason arg) of
        Inl e \<Rightarrow> (Inl e, d)
      | Inr reason \<Rightarrow>
          update_one tbl_payouts (\<lambda>p. pay_ID p = ufp_ID arg) None
            (\<lambda>p. p\<lparr>pay_Status := ''failed'', pay_FailureReason := reason, pay_UpdatedAt := db_now d\<rparr>)
            (\<lambda>rows d. d\<lparr>tbl_payouts := rows\<rparr>) d)"

definition UpdatePayoutStatus :: "update_status_params \<Rightarrow> (db, payout_row) action" where
  "UpdatePayoutStatus arg d =
     (if \<not> storable_text (usp_Status arg) then (Inl (PgError ''22021'' ''''), d)
      else
        (case varchar 50 (usp_Status arg) of
           Inl e \<Rightarrow>
             update_one tbl_payouts (\<lambda>p. pay_ID p = usp_ID arg) (Some e) (\<lambda>p. p)
               (\<lambda>rows d. d\<lparr>tbl_payouts := rows\<rparr>) d
         | Inr status \<Rightarrow>
             update_one tbl_payouts (\<lambda>p. pay_ID p = usp_ID arg)
               (first_failure [(status \<in> set payout_statuses, check_violation ''payouts_status_check'')])
               (\<lambda>p. p\<lparr>pay_Status := status, pay_UpdatedAt := db_now d\<rparr>)
               (\<lambda>rows d. d\<lparr>tbl_payouts := rows\<rparr>) d))"

section \<open>outbox_events\<close>

definition json_value :: "postgres \<Rightarrow> bytes \<Rightarrow> bytes result" where
  "json_value pg raw =
     (case pg_jsonb pg raw of None \<Rightarrow> Inl (PgError ''22P02'' '''') | Some v \<Rightarrow> Inr v)"

definition outbox_event_of :: "postgres \<Rightarrow> create_outbox_params \<Rightarrow> db \<Rightarrow> outbox_row result" where
  "outbox_event_of pg arg d =
     res_bind (varchar 255 (cop_EventType arg)) (\<lambda>type.
     res_bind (json_value pg (cop_Payload arg)) (\<lambda>payload.
       Inr \<lparr>ob_ID = new_uuid pg d, ob_EventType = type, ob_Payload = payload, ob_Status = ''pending'',
            ob_CreatedAt = db_now d, ob_ProcessedAt = None, ob_EntityID = cop_EntityID arg,
            ob_ClaimedAt = None\<rparr>))"

definition outbox_event_constraints :: "db \<Rightarrow> outbox_row \<Rightarrow> (bool \<times> go_error) list" where
  "outbox_event_constraints d r =
     [(ob_EventType r \<noteq> '''', check_violation ''outbox_events_event_type_check''),
      (ob_Status r \<in> set outbox_statuses, check_violation ''outbox_events_status_check''),
      (ob_ID r \<notin> set (map ob_ID (tbl_outbox_events d)), unique_violation ''outbox_events_pkey''),
      (ob_EntityID r \<in> set (map pay_ID (tbl_payouts d)), fk_violation ''outbox_events_entity_id_fkey'')]"

definition CreateOutboxEvent :: "postgres \<Rightarrow> create_outbox_params \<Rightarrow> (db, outbox_row) action" where
  "CreateOutboxEvent pg arg d =
     insert_row (outbox_event_of pg arg d) (outbox_event_constraints d)
       (\<lambda>r d. d\<lparr>tbl_outbox_events := tbl_outbox_events d @ [r], db_uuid_seq := Suc (db_uuid_seq d)\<rparr>) d"

text \<open>
  The \<open>next_event\<close> expression: the oldest event that is pending, or whose claim is older than
  the bound, among the rows no other transaction holds. Events of the same age are taken in
  table order (the server may take any of them).
\<close>

definition claimable :: "timestamp \<Rightarrow> outbox_row \<Rightarrow> bool" where
  "claimable reclaimBefore e \<longleftrightarrow>
     ob_Status e = ''pending'' \<or>
     ob_Status e = ''processing'' \<and>
       (case ob_ClaimedAt e of None \<Rightarrow> False | Some t \<Rightarrow> t < reclaimBefore)"

definition next_event :: "(outbox_row \<Rightarrow> bool) \<Rightarrow> db \<Rightarrow> outbox_row option" where
  "next_event P d =
     (case sort_key ob_CreatedAt
             (filter (\<lambda>e. P e \<and> ob_ID e \<notin> set (db_locked d)) (tbl_outbox_events d)) of
        [] \<Rightarrow> None
      | e # _ \<Rightarrow> Some e)"

definition claim_next :: "(outbox_row \<Rightarrow> bool) \<Rightarrow> (db, outbox_row) action" where
  "claim_next P d =
     (case next_event P d of
        None \<Rightarrow> (Inl ErrNoRows, d)
      | Some e \<Rightarrow>
          update_one tbl_outbox_events (\<lambda>r. ob_ID r = ob_ID e) None
            (\<lambda>r. r\<lparr>ob_Status := ''processing'', ob_ClaimedAt := Some (db_now d)\<rparr>)
            (\<lambda>rows d. d\<lparr>tbl_outbox_events := rows\<rparr>) d)"

definition ClaimNextPendingOutboxEvent :: "timestamp \<Rightarrow> (db, outbox_row) action" where
  "ClaimNextPendingOutboxEvent reclaimBefore = claim_next (claimable reclaimBefore)"

definition ClaimNextPendingOutboxEventByTypes :: "claim_by_types_params \<Rightarrow> (db, outbox_row) action" where
  "ClaimNextPendingOutboxEventByTypes arg =
     claim_next (\<lambda>e. ob_EventType e \<in> set (cbt_EventTypes arg) \<and> claimable (cbt_ReclaimBefore arg) e)"

definition GetPendingOutboxEvents :: "(db, outbox_row list) action" where
  "GetPendingOutboxEvents d =
     (Inr (sort_key ob_CreatedAt (filter (\<lambda>e. ob_Status e = ''pending'') (tbl_outbox_events d))), d)"

definition MarkOutboxEventAsProcessed :: "uuid \<Rightarrow> (db, outbox_row) action" where
  "MarkOutboxEventAsProcessed i d =
     update_one tbl_outbox_events (\<lambda>r. ob_ID r = i) None
       (\<lambda>r. r\<lparr>ob_Status := ''processed'', ob_ProcessedAt := Some (db_now d), ob_ClaimedAt := None\<rparr>)
       (\<lambda>rows d. d\<lparr>tbl_outbox_events := rows\<rparr>) d"

definition ReleaseOutboxEventClaim :: "uuid \<Rightarrow> (db, outbox_row) action" where
  "ReleaseOutboxEventClaim i d =
     update_one tbl_outbox_events (\<lambda>r. ob_ID r = i) None
       (\<lambda>r. r\<lparr>ob_Status := ''pending'', ob_ClaimedAt := None\<rparr>)
       (\<lambda>rows d. d\<lparr>tbl_outbox_events := rows\<rparr>) d"

section \<open>webhook_deliveries\<close>

definition webhook_delivery_of :: "postgres \<Rightarrow> create_webhook_params \<Rightarrow> db \<Rightarrow> webhook_row result" where
  "webhook_delivery_of pg arg d =
     res_bind (text_value (cwp_TargetUrl arg)) (\<lambda>url.
     res_bind (json_value pg (cwp_Payload arg)) (\<lambda>payload.
     res_bind (varchar 50 (cwp_Status arg)) (\<lambda>status.
       Inr \<lparr>wh_ID = new_uuid pg d, wh_PayoutID = cwp_PayoutID arg, wh_ClientID = cwp_ClientID arg,
            wh_TargetUrl = url, wh_Payload = payload, wh_Status = status,
            wh_AttemptCount = cwp_AttemptCount arg,
            wh_CreatedAt = db_now d, wh_UpdatedAt = db_now d\<rparr>)))"

definition webhook_delivery_constraints :: "db \<Rightarrow> webhook_row \<Rightarrow> (bool \<times> go_error) list" where
  "webhook_delivery_constraints d r =
     [(0 \<le> sint (wh_AttemptCount r), check_violation ''webhook_deliveries_attempt_count_check''),
      (wh_Status r \<in> set webhook_statuses, check_violation ''webhook_deliveries_status_check''),
      (wh_ID r \<notin> set (map wh_ID (tbl_webhook_deliveries d)), unique_violation ''webhook_deliveries_pkey''),
      (wh_PayoutID r \<in> set (map pay_ID (tbl_payouts d)), fk_violation ''webhook_deliveries_payout_id_fkey''),
      (wh_ClientID r \<in> set (map cl_ID (tbl_clients d)), fk_violation ''webhook_deliveries_client_id_fkey'')]"

definition CreateWebhookDelivery :: "postgres \<Rightarrow> create_webhook_params \<Rightarrow> (db, webhook_row) action" where
  "CreateWebhookDelivery pg arg d =
     insert_row (webhook_delivery_of pg arg d) (webhook_delivery_constraints d)
       (\<lambda>r d. d\<lparr>tbl_webhook_deliveries := tbl_webhook_deliveries d @ [r], db_uuid_seq := Suc (db_uuid_seq d)\<rparr>) d"

definition GetWebhookDelivery :: "uuid \<Rightarrow> (db, webhook_row) action" where
  "GetWebhookDelivery i = select_one tbl_webhook_deliveries (\<lambda>r. wh_ID r = i)"

definition ListWebhookDeliveriesByPayoutID :: "uuid \<Rightarrow> (db, webhook_row list) action" where
  "ListWebhookDeliveriesByPayoutID i d =
     (Inr (rev (sort_key (\<lambda>r. (wh_CreatedAt r, wh_ID r))
             (filter (\<lambda>r. wh_PayoutID r = i) (tbl_webhook_deliveries d)))), d)"

end
