(* ===== verification/Transactions.thy ===== *)
theory Transactions
  imports Prelude
begin

text \<open>
  Transactions: \<open>DBTxRunner.WithinTx\<close> of the packages \<open>payouts\<close>, \<open>execution\<close> and \<open>outbox\<close> (three
  copies that differ in one message) and the \<open>passthroughTxRunner\<close> of \<open>payouts\<close>. A transaction
  works on a private copy of the state, which \<open>Commit\<close> publishes and \<open>Rollback\<close> drops. The locale
  \<open>transaction_driver\<close> is what the driver promises, the locale \<open>transactional\<close> what the services
  rely on; the second follows from the first.
\<close>

section \<open>The driver\<close>

record 's tx_driver =
  tx_Begin :: "('s, 's) action"
  tx_Commit :: "'s \<Rightarrow> ('s, unit) action"
  tx_Rollback :: "'s \<Rightarrow> 's \<Rightarrow> 's"

record ('s, 'q) db_tx_runner =
  beginner :: "'s tx_driver option"
  queries :: "'q option"

text \<open>
  The body of \<open>WithinTx\<close>: a failing \<open>Begin\<close> ends it, an error of \<open>fn\<close> or of \<open>Commit\<close> is returned
  after the deferred \<open>Rollback\<close>. The working copy is what \<open>queries.WithTx(tx)\<close> reads and writes.
  A panic in \<open>fn\<close> also runs the deferred function, so it takes the same path.
\<close>

definition within_tx ::
  "bytes \<Rightarrow> ('s, 'q) db_tx_runner option \<Rightarrow> ('q \<Rightarrow> ('s, 'a) action) \<Rightarrow> ('s, 'a) action" where
  "within_tx msg r fn s =
     (case r of
        None \<Rightarrow> (Inl (Errorf msg), s)
      | Some r \<Rightarrow>
          (case (beginner r, queries r) of
             (Some drv, Some store) \<Rightarrow>
               (case tx_Begin drv s of
                  (Inl e, s1) \<Rightarrow> (Inl e, s1)
                | (Inr w, s1) \<Rightarrow>
                    (case fn store w of
                       (Inl e, w') \<Rightarrow> (Inl e, tx_Rollback drv w' s1)
                     | (Inr x, w') \<Rightarrow>
                         (case tx_Commit drv w' s1 of
                            (Inl e, s2) \<Rightarrow> (Inl e, tx_Rollback drv w' s2)
                          | (Inr _, s2) \<Rightarrow> (Inr x, s2))))
           | _ \<Rightarrow> (Inl (Errorf msg), s)))"

definition Payouts_WithinTx ::
  "('s, 'q) db_tx_runner option \<Rightarrow> ('q \<Rightarrow> ('s, 'a) action) \<Rightarrow> ('s, 'a) action" where
  "Payouts_WithinTx = within_tx ''payout transaction runner is not configured''"

definition Execution_WithinTx ::
  "('s, 'q) db_tx_runner option \<Rightarrow> ('q \<Rightarrow> ('s, 'a) action) \<Rightarrow> ('s, 'a) action" where
  "Execution_WithinTx = within_tx ''payout execution transaction runner is not configured''"

definition Outbox_WithinTx ::
  "('s, 'q) db_tx_runner option \<Rightarrow> ('q \<Rightarrow> ('s, 'a) action) \<Rightarrow> ('s, 'a) action" where
  "Outbox_WithinTx = within_tx ''outbox transaction runner is not configured''"

definition NewDBTxRunner :: "'s tx_driver option \<Rightarrow> 'q option \<Rightarrow> ('s, 'q) db_tx_runner option" where
  "NewDBTxRunner b q = Some \<lparr>beginner = b, queries = q\<rparr>"

definition passthrough_WithinTx ::
  "'q option \<Rightarrow> ('q \<Rightarrow> ('s, 'a) action) \<Rightarrow> ('s, 'a) action" where
  "passthrough_WithinTx store fn s =
     (case store of
        None \<Rightarrow> (Inl (Errorf ''payout transaction runner is not configured''), s)
      | Some q \<Rightarrow> fn q s)"

section \<open>What a driver promises\<close>

text \<open>
  \<open>Begin\<close> changes nothing and hands out the current state; a commit that succeeds publishes the
  working copy; one that fails has either published it (the acknowledgement was lost) or not;
  a rollback after that changes nothing more.
\<close>

locale transaction_driver =
  fixes drv :: "'s tx_driver"
  assumes begin_copy: "tx_Begin drv s = (r, s') \<Longrightarrow> s' = s \<and> (\<forall>w. r = Inr w \<longrightarrow> w = s)"
    and commit_publishes: "tx_Commit drv w s = (Inr u, s') \<Longrightarrow> s' = w"
    and commit_fails: "tx_Commit drv w s = (Inl e, s') \<Longrightarrow> s' = s \<or> s' = w"
    and rollback_keeps: "tx_Rollback drv w s = s"

locale transactional =
  fixes run :: "('q \<Rightarrow> ('s, 'a) action) \<Rightarrow> ('s, 'a) action" and store :: "'q"
  assumes committed: "run fn s = (Inr x, s') \<Longrightarrow> fn store s = (Inr x, s')"
    and all_or_nothing: "run fn s = (Inl e, s') \<Longrightarrow> s' = s \<or> (\<exists>x. fn store s = (Inr x, s'))"
    and error_of_body: "fn store s = (Inl e, t) \<Longrightarrow> \<exists>e'. run fn s = (Inl e', s)"
begin

lemma run_cases:
  assumes "run fn s = (r, s')"
  obtains (unchanged) e where "r = Inl e" "s' = s"
    | (published) x where "r = Inr x" "fn store s = (Inr x, s')"
    | (unacknowledged) e x where "r = Inl e" "fn store s = (Inr x, s')"
  using assms committed all_or_nothing by (cases r) blast+

text \<open>A relation a successful body establishes is established by the transaction.\<close>

lemma run_keeps:
  assumes "reflp R" and "\<And>x t. fn store s = (Inr x, t) \<Longrightarrow> R s t"
  shows "R s (snd (run fn s))"
proof -
  obtain r s' where run: "run fn s = (r, s')" by (cases "run fn s")
  from run show ?thesis
    by (cases rule: run_cases) (use run assms in \<open>auto intro: reflpD\<close>)
qed

lemma run_keeps_body: "reflp R \<Longrightarrow> keeps R (fn store) \<Longrightarrow> keeps R (run fn)"
  by (rule keepsI, rule run_keeps) (auto simp: keeps_def, metis snd_conv)

end

context transaction_driver
begin

lemma begin_Inr: "tx_Begin drv s = (Inr w, s') \<Longrightarrow> w = s \<and> s' = s"
  using begin_copy by blast

lemma begin_Inl: "tx_Begin drv s = (Inl e, s') \<Longrightarrow> s' = s"
  using begin_copy by blast

text \<open>The outcomes of a transaction.\<close>

lemma within_tx_cases:
  assumes "within_tx msg (Some \<lparr>beginner = Some drv, queries = Some store\<rparr>) fn s = (r, s')"
  obtains (no_begin) e where "r = Inl e" "s' = s"
    | (body_error) e t where "fn store s = (Inl e, t)" "r = Inl e" "s' = s"
    | (no_commit) x t e where "fn store s = (Inr x, t)" "r = Inl e" "s' = s \<or> s' = t"
    | (committed) x where "fn store s = (Inr x, s')" "r = Inr x"
proof -
  obtain b s1 where b: "tx_Begin drv s = (b, s1)" by (cases "tx_Begin drv s")
  show ?thesis
  proof (cases b)
    case (Inl e)
    with b assms show ?thesis by (auto simp: within_tx_def intro: no_begin dest: begin_Inl)
  next
    case (Inr w)
    with b have [simp]: "w = s" "s1 = s" by (auto dest: begin_Inr)
    obtain f t where f: "fn store s = (f, t)" by (cases "fn store s")
    obtain c s2 where c: "tx_Commit drv t s = (c, s2)" by (cases "tx_Commit drv t s")
    show ?thesis
    proof (cases f)
      case (Inl e)
      with b f Inr assms show ?thesis
        by (intro body_error [of e t]) (auto simp: within_tx_def rollback_keeps)
    next
      case body: (Inr x)
      show ?thesis
      proof (cases c)
        case (Inl e)
        with b f c Inr body assms commit_fails show ?thesis
          by (intro no_commit [of x t e]) (auto simp: within_tx_def rollback_keeps)
      next
        case (Inr u)
        with b f c \<open>b = Inr w\<close> body assms commit_publishes show ?thesis
          by (intro committed [of x]) (auto simp: within_tx_def)
      qed
    qed
  qed
qed

lemma within_tx_body_error:
  assumes "fn store s = (Inl e, t)"
  shows "\<exists>e'. within_tx msg (Some \<lparr>beginner = Some drv, queries = Some store\<rparr>) fn s = (Inl e', s)"
proof -
  obtain r s' where run: "within_tx msg (Some \<lparr>beginner = Some drv, queries = Some store\<rparr>) fn s = (r, s')"
    by (cases "within_tx msg (Some \<lparr>beginner = Some drv, queries = Some store\<rparr>) fn s")
  then show ?thesis by (cases rule: within_tx_cases) (use run assms in simp_all)
qed

lemma within_tx_transactional:
  "transactional (within_tx msg (Some \<lparr>beginner = Some drv, queries = Some store\<rparr>)) store"
  by unfold_locales (erule within_tx_cases, simp_all, erule within_tx_cases, auto intro: within_tx_body_error)

end

section \<open>The pool\<close>

text \<open>
  The behaviours of \<open>pgxpool.Pool.Begin\<close> and \<open>pgx.Tx.Commit\<close>: \<open>Begin\<close> may fail, and a commit may
  be refused or its acknowledgement be lost.
\<close>

datatype commit_outcome = Committed | Refused go_error | Unacknowledged go_error

definition pg_tx_driver :: "('s \<Rightarrow> go_error option) \<Rightarrow> ('s \<Rightarrow> commit_outcome) \<Rightarrow> 's tx_driver" where
  "pg_tx_driver begin_fault commit_fault =
     \<lparr>tx_Begin = (\<lambda>s. case begin_fault s of None \<Rightarrow> (Inr s, s) | Some e \<Rightarrow> (Inl e, s)),
      tx_Commit = (\<lambda>w s. case commit_fault w of
                      Committed \<Rightarrow> (Inr (), w)
                    | Refused e \<Rightarrow> (Inl e, s)
                    | Unacknowledged e \<Rightarrow> (Inl e, w)),
      tx_Rollback = (\<lambda>w s. s)\<rparr>"

interpretation pool: transaction_driver "pg_tx_driver begin_fault commit_fault"
  by unfold_locales (auto simp: pg_tx_driver_def split: option.splits commit_outcome.splits)

definition pool_runner ::
  "('s \<Rightarrow> go_error option) \<Rightarrow> ('s \<Rightarrow> commit_outcome) \<Rightarrow> 'q \<Rightarrow> ('s, 'q) db_tx_runner option" where
  "pool_runner bf cf store = NewDBTxRunner (Some (pg_tx_driver bf cf)) (Some store)"

interpretation pool_payouts: transactional "Payouts_WithinTx (pool_runner bf cf store)" store
  unfolding Payouts_WithinTx_def pool_runner_def NewDBTxRunner_def
  by (rule pool.within_tx_transactional)

interpretation pool_execution: transactional "Execution_WithinTx (pool_runner bf cf store)" store
  unfolding Execution_WithinTx_def pool_runner_def NewDBTxRunner_def
  by (rule pool.within_tx_transactional)

interpretation pool_outbox: transactional "Outbox_WithinTx (pool_runner bf cf store)" store
  unfolding Outbox_WithinTx_def pool_runner_def NewDBTxRunner_def
  by (rule pool.within_tx_transactional)

text \<open>Without faults a transaction runs its body and publishes it.\<close>

lemma pool_run:
  assumes "bf s = None" and "fn store s = (Inr x, s')" and "cf s' = Committed"
  shows "within_tx msg (pool_runner bf cf store) fn s = (Inr x, s')"
  using assms by (simp add: within_tx_def pool_runner_def NewDBTxRunner_def pg_tx_driver_def)

lemma pool_run_body_error:
  assumes "bf s = None" and "fn store s = (Inl e, s')"
  shows "within_tx msg (pool_runner bf cf store) fn s = (Inl e, s)"
  using assms by (simp add: within_tx_def pool_runner_def NewDBTxRunner_def pg_tx_driver_def)

lemma pool_run_Inr_iff:
  "within_tx msg (pool_runner bf cf store) fn s = (Inr x, s') \<longleftrightarrow>
     bf s = None \<and> fn store s = (Inr x, s') \<and> cf s' = Committed"
  by (auto simp: within_tx_def pool_runner_def NewDBTxRunner_def pg_tx_driver_def
      split: option.splits prod.splits sum.splits commit_outcome.splits)

text \<open>An error with a changed state is a commit whose acknowledgement was lost.\<close>

lemma pool_run_Inl:
  "within_tx msg (pool_runner bf cf store) fn s = (Inl e, s') \<Longrightarrow>
     s' = s \<or> (\<exists>x. fn store s = (Inr x, s') \<and> cf s' = Unacknowledged e)"
  by (auto simp: within_tx_def pool_runner_def NewDBTxRunner_def pg_tx_driver_def
      split: option.splits prod.splits sum.splits commit_outcome.splits)

lemmas WithinTx_defs = Payouts_WithinTx_def Execution_WithinTx_def Outbox_WithinTx_def

section \<open>Properties\<close>

text \<open>C21: a transaction is all or nothing. Whatever the pool does (a failing \<open>Begin\<close>, a refused
  commit, a commit whose acknowledgement is lost), \<open>WithinTx\<close> of the payout service leaves the
  state untouched or publishes the complete effect of a body that succeeded; it reports success
  only for the latter, and an error of the body always leaves the state untouched.\<close>

theorem payouts_within_tx_atomic:
  "case Payouts_WithinTx (pool_runner bf cf store) fn s of
     (Inr x, s') \<Rightarrow> fn store s = (Inr x, s')
   | (Inl e, s') \<Rightarrow> s' = s \<or> (\<exists>x. fn store s = (Inr x, s') \<and> cf s' = Unacknowledged e)"
  by (auto simp: Payouts_WithinTx_def pool_run_Inr_iff dest!: pool_run_Inl split: prod.split sum.split)

end
