(* ===== verification/Json_Text.thy ===== *)
theory Json_Text
  imports Go_Numbers
begin

text \<open>
  The string literals of Go's \<open>encoding/json\<close>: \<open>appendString\<close> with HTML escaping, which
  \<open>json.Marshal\<close> and \<open>json.Encoder\<close> use, the scanner's reading of a literal with the unquoting
  of the decoder, and the base64 text of a \<open>[]byte\<close>. A literal written for a valid UTF-8 string
  reads back as that string.
\<close>

section \<open>Runes\<close>

definition replacement_rune :: bytes where
  "replacement_rune = [CHR 0xEF, CHR 0xBF, CHR 0xBD]"

definition encode_rune :: "nat \<Rightarrow> bytes" where
  "encode_rune r =
     (if r < 0x80 then [char_of r]
      else if r < 0x800 then [char_of (0xC0 + r div 64), char_of (0x80 + r mod 64)]
      else if r < 0x10000
      then [char_of (0xE0 + r div 4096), char_of (0x80 + r div 64 mod 64), char_of (0x80 + r mod 64)]
      else [char_of (0xF0 + r div 262144), char_of (0x80 + r div 4096 mod 64),
            char_of (0x80 + r div 64 mod 64), char_of (0x80 + r mod 64)])"

definition surrogate :: "nat \<Rightarrow> bool" where
  "surrogate r \<longleftrightarrow> 0xD800 \<le> r \<and> r < 0xE000"

section \<open>Writing a literal\<close>

text \<open>The text for the next character and the number of bytes it stands for.\<close>

definition escape_step :: "bytes \<Rightarrow> bytes \<times> nat" where
  "escape_step s =
     (let c = hd s; b = byte c
      in if b < 128 then
           (if c = CHR ''\"'' \<or> c = CHR 0x5C then ([CHR 0x5C, c], 1)
            else if b = 8 then ([CHR 0x5C, CHR ''b''], 1)
            else if b = 12 then ([CHR 0x5C, CHR ''f''], 1)
            else if b = 10 then ([CHR 0x5C, CHR ''n''], 1)
            else if b = 13 then ([CHR 0x5C, CHR ''r''], 1)
            else if b = 9 then ([CHR 0x5C, CHR ''t''], 1)
            else if b < 32 \<or> c = CHR ''<'' \<or> c = CHR ''>'' \<or> c = CHR ''&''
            then ([CHR 0x5C, CHR ''u'', CHR ''0'', CHR ''0'', hex_digit (b div 16), hex_digit (b mod 16)], 1)
            else ([c], 1))
         else
           (let n = rune_len s
            in if n = 0 then (CHR 0x5C # ''ufffd'', 1)
               else if take n s = [CHR 0xE2, CHR 0x80, CHR 0xA8] then (CHR 0x5C # ''u2028'', n)
               else if take n s = [CHR 0xE2, CHR 0x80, CHR 0xA9] then (CHR 0x5C # ''u2029'', n)
               else (take n s, n)))"

lemma escape_step_consumes: "0 < snd (escape_step s)"
  by (auto simp: escape_step_def Let_def)

function escape :: "bytes \<Rightarrow> bytes" where
  "escape s = (if s = [] then [] else fst (escape_step s) @ escape (drop (snd (escape_step s)) s))"
  by pat_completeness auto
termination
  by (relation "measure length") (auto simp: escape_step_consumes)

declare escape.simps [simp del]

definition json_string :: "bytes \<Rightarrow> bytes" where
  "json_string s = CHR ''\"'' # escape s @ ''\"''"

section \<open>Reading a literal\<close>

definition is_hex_any :: "char \<Rightarrow> bool" where
  "is_hex_any c \<longleftrightarrow> byte_in 48 57 c \<or> byte_in 97 102 c \<or> byte_in 65 70 c"

definition hex_any_value :: "char \<Rightarrow> nat" where
  "hex_any_value c = (if byte c \<le> 57 then byte c - 48 else if byte c \<le> 70 then byte c - 55 else byte c - 87)"

fun hex4 :: "bytes \<Rightarrow> nat option" where
  "hex4 (a # b # c # d # s) =
     (if is_hex_any a \<and> is_hex_any b \<and> is_hex_any c \<and> is_hex_any d
      then Some (4096 * hex_any_value a + 256 * hex_any_value b + 16 * hex_any_value c + hex_any_value d)
      else None)"
| "hex4 _ = None"

text \<open>The code unit of an escape \<open>\uXXXX\<close> at the head of a text.\<close>

definition getu4 :: "bytes \<Rightarrow> nat option" where
  "getu4 s = (if take 2 s = [CHR 0x5C, CHR ''u''] then hex4 (drop 2 s) else None)"

text \<open>
  The character an escape starts, with the number of bytes read: a surrogate that is not
  followed by its partner is replaced.
\<close>

definition unicode_escape :: "bytes \<Rightarrow> (bytes \<times> nat) option" where
  "unicode_escape s =
     (case getu4 s of
        None \<Rightarrow> None
      | Some r \<Rightarrow>
          if surrogate r
          then (case getu4 (drop 6 s) of
                  Some r1 \<Rightarrow>
                    if r < 0xDC00 \<and> 0xDC00 \<le> r1 \<and> r1 < 0xE000
                    then Some (encode_rune ((r - 0xD800) * 1024 + (r1 - 0xDC00) + 0x10000), 12)
                    else Some (replacement_rune, 6)
                | None \<Rightarrow> Some (replacement_rune, 6))
          else Some (encode_rune r, 6))"

definition simple_escape :: "char \<Rightarrow> char option" where
  "simple_escape e =
     (if e = CHR ''\"'' \<or> e = CHR 0x5C \<or> e = CHR ''/'' then Some e
      else if e = CHR ''b'' then Some (CHR 0x08)
      else if e = CHR ''f'' then Some (CHR 0x0C)
      else if e = CHR ''n'' then Some (CHR 0x0A)
      else if e = CHR ''r'' then Some (CHR 0x0D)
      else if e = CHR ''t'' then Some (CHR 0x09)
      else None)"

definition unquote_step :: "bytes \<Rightarrow> (bytes \<times> nat) option" where
  "unquote_step s =
     (let c = hd s
      in if c = CHR 0x5C then
           (if length s < 2 then None
            else if s ! 1 = CHR ''u'' then unicode_escape s
            else map_option (\<lambda>x. ([x], 2)) (simple_escape (s ! 1)))
         else if byte c < 32 then None
         else if byte c < 128 then Some ([c], 1)
         else if rune_len s = 0 then Some (replacement_rune, 1)
         else Some (take (rune_len s) s, rune_len s))"

lemma unquote_step_consumes: "unquote_step s = Some (v, n) \<Longrightarrow> 0 < n"
  by (auto simp: unquote_step_def unicode_escape_def Let_def split: if_splits option.splits)

text \<open>The rest of a literal after its opening quote: its value and what follows it.\<close>

function unquote :: "bytes \<Rightarrow> (bytes \<times> bytes) option" where
  "unquote s =
     (if s = [] then None
      else if hd s = CHR ''\"'' then Some ([], tl s)
      else (case unquote_step s of
              None \<Rightarrow> None
            | Some (v, n) \<Rightarrow>
                (case unquote (drop n s) of
                   None \<Rightarrow> None
                 | Some (w, r) \<Rightarrow> Some (v @ w, r))))"
  by pat_completeness auto
termination
  by (relation "measure length") (auto dest: unquote_step_consumes)

declare unquote.simps [simp del]

lemma unquote_shorter: "unquote s = Some (v, r) \<Longrightarrow> length r < length s"
proof (induction s arbitrary: v r rule: unquote.induct)
  case (1 s)
  show ?case
  proof (cases "s = [] \<or> hd s = CHR ''\"''")
    case True
    with "1.prems" show ?thesis by (subst (asm) unquote.simps) (auto split: if_splits)
  next
    case False
    with "1.prems" obtain w n v' where step: "unquote_step s = Some (w, n)"
      and rest: "unquote (drop n s) = Some (v', r)"
      by (subst (asm) unquote.simps) (auto split: option.splits)
    have "length r < length (drop n s)" by (rule "1.IH") (use False step rest in auto)
    then show ?thesis by simp
  qed
qed

section \<open>A written literal reads back\<close>

lemma rune_len2_take: "rune_len2 a s \<noteq> 0 \<Longrightarrow> rune_len2 a s = 2 \<and> rune_len2 a (take 1 s @ t) = 2"
  by (cases s) (auto split: if_splits)

lemma rune_len3_take: "rune_len3 a s \<noteq> 0 \<Longrightarrow> rune_len3 a s = 3 \<and> rune_len3 a (take 2 s @ t) = 3"
  by (induction a s rule: rune_len3.induct) (auto split: if_splits)

lemma rune_len4_take: "rune_len4 a s \<noteq> 0 \<Longrightarrow> rune_len4 a s = 4 \<and> rune_len4 a (take 3 s @ t) = 4"
  by (induction a s rule: rune_len4.induct) (auto split: if_splits)

lemma rune_len_take:
  assumes "rune_len s \<noteq> 0"
  shows "rune_len (take (rune_len s) s @ t) = rune_len s"
proof (cases s)
  case (Cons a u)
  then show ?thesis
    using assms rune_len2_take [of a u t] rune_len3_take [of a u t] rune_len4_take [of a u t]
    by (auto simp: numeral_eq_Suc)
qed (use assms in simp)

lemma rune_len_ascii: "s \<noteq> [] \<Longrightarrow> byte (hd s) < 128 \<Longrightarrow> rune_len s = 1"
  by (cases s) simp_all

lemma rune_len_pos_cases: "s \<noteq> [] \<Longrightarrow> rune_len s \<noteq> 0 \<Longrightarrow> hd (take (rune_len s) s @ t) = hd s"
  by (cases s) (auto simp: take_Cons')

lemma byte_CHR [simp]: "byte (CHR 0x5C) = 92" "byte (CHR ''\"'') = 34"
  by (simp_all add: byte_def)

lemma hex_any_digit: "d < 16 \<Longrightarrow> is_hex_any (hex_digit d) \<and> hex_any_value (hex_digit d) = d"
  by (auto simp: is_hex_any_def hex_any_value_def byte_in_def hex_digit_def)



lemma unquote_control_escape:
  assumes "byte c < 128"
  shows "unquote_step (CHR 0x5C # CHR ''u'' # CHR ''0'' # CHR ''0'' #
           hex_digit (byte c div 16) # hex_digit (byte c mod 16) # t) = Some ([c], 6)"
proof -
  have zero: "is_hex_any (CHR ''0'')" "hex_any_value (CHR ''0'') = 0"
    by (simp_all add: is_hex_any_def hex_any_value_def byte_in_def byte_def)
  have "byte c div 16 < 16" "byte c mod 16 < 16" using assms by simp_all
  then have "getu4 (CHR 0x5C # CHR ''u'' # CHR ''0'' # CHR ''0'' #
      hex_digit (byte c div 16) # hex_digit (byte c mod 16) # t) = Some (byte c)"
    by (simp add: getu4_def zero hex_any_digit)
  with assms show ?thesis
    by (simp add: unquote_step_def unicode_escape_def surrogate_def encode_rune_def)
qed

lemma unquote_line_separators:
  "unquote_step (CHR 0x5C # ''u2028'' @ t) = Some ([CHR 0xE2, CHR 0x80, CHR 0xA8], 6)"
  "unquote_step (CHR 0x5C # ''u2029'' @ t) = Some ([CHR 0xE2, CHR 0x80, CHR 0xA9], 6)"
  by (simp_all add: unquote_step_def unicode_escape_def getu4_def surrogate_def encode_rune_def
      is_hex_any_def hex_any_value_def byte_in_def byte_def char_of_def bit_iff_odd)

lemma byte_named:
  "byte (CHR 0x08) = 8" "byte (CHR 0x0C) = 12" "byte (CHR 0x0A) = 10" "byte (CHR 0x0D) = 13"
  "byte (CHR 0x09) = 9"
  by (simp_all add: byte_def)

text \<open>One step of writing and the reading of what it wrote.\<close>

lemma escape_step_ascii:
  assumes "byte c < 128"
  obtains out where "escape_step (c # s) = (out, 1)" "out \<noteq> []" "hd out \<noteq> CHR ''\"''"
    "\<And>t. unquote_step (out @ t) = Some ([c], length out)"
proof -
  define b where "b = byte c"
  consider (quote) "c = CHR ''\"'' \<or> c = CHR 0x5C"
    | (named) "b = 8 \<or> b = 12 \<or> b = 10 \<or> b = 13 \<or> b = 9"
    | (control) "\<not> (c = CHR ''\"'' \<or> c = CHR 0x5C)" "\<not> (b = 8 \<or> b = 12 \<or> b = 10 \<or> b = 13 \<or> b = 9)"
        "b < 32 \<or> c = CHR ''<'' \<or> c = CHR ''>'' \<or> c = CHR ''&''"
    | (plain) "\<not> (c = CHR ''\"'' \<or> c = CHR 0x5C)" "\<not> (b = 8 \<or> b = 12 \<or> b = 10 \<or> b = 13 \<or> b = 9)"
        "\<not> (b < 32 \<or> c = CHR ''<'' \<or> c = CHR ''>'' \<or> c = CHR ''&'')"
    by blast
  then show ?thesis
  proof cases
    case quote
    with assms show ?thesis
      by (intro that [of "[CHR 0x5C, c]"])
        (auto simp: escape_step_def unquote_step_def simple_escape_def Let_def)
  next
    case named
    then have "c = CHR 0x08 \<or> c = CHR 0x0C \<or> c = CHR 0x0A \<or> c = CHR 0x0D \<or> c = CHR 0x09"
      unfolding b_def byte_named [symmetric] by (simp only: byte_inject)
    then show ?thesis
    proof (elim disjE)
    qed (rule that [of "[CHR 0x5C, CHR ''b'']"] that [of "[CHR 0x5C, CHR ''f'']"]
        that [of "[CHR 0x5C, CHR ''n'']"] that [of "[CHR 0x5C, CHR ''r'']"]
        that [of "[CHR 0x5C, CHR ''t'']"];
        simp add: escape_step_def unquote_step_def simple_escape_def byte_named)+
  next
    case control
    with assms unquote_control_escape [OF assms] show ?thesis
      by (intro that [of "[CHR 0x5C, CHR ''u'', CHR ''0'', CHR ''0'', hex_digit (b div 16), hex_digit (b mod 16)]"])
        (simp_all add: escape_step_def Let_def b_def)
  next
    case plain
    with assms show ?thesis
      by (intro that [of "[c]"]) (auto simp: escape_step_def unquote_step_def Let_def b_def)
  qed
qed

lemma escape_step_rune:
  assumes "s \<noteq> []" and "128 \<le> byte (hd s)" and "rune_len s \<noteq> 0"
  obtains out where "escape_step s = (out, rune_len s)" "out \<noteq> []" "hd out \<noteq> CHR ''\"''"
    "\<And>t. unquote_step (out @ t) = Some (take (rune_len s) s, length out)"
proof -
  consider (ls) "take (rune_len s) s = [CHR 0xE2, CHR 0x80, CHR 0xA8]"
    | (ps) "take (rune_len s) s = [CHR 0xE2, CHR 0x80, CHR 0xA9]"
    | (plain) "take (rune_len s) s \<noteq> [CHR 0xE2, CHR 0x80, CHR 0xA8]"
        "take (rune_len s) s \<noteq> [CHR 0xE2, CHR 0x80, CHR 0xA9]"
    by blast
  then show ?thesis
  proof cases
    case ls
    with assms unquote_line_separators show ?thesis
      by (intro that [of "CHR 0x5C # ''u2028''"]) (simp_all add: escape_step_def Let_def)
  next
    case ps
    with assms unquote_line_separators show ?thesis
      by (intro that [of "CHR 0x5C # ''u2029''"]) (simp_all add: escape_step_def Let_def)
  next
    case plain
    define n where "n = rune_len s"
    have hd_take: "hd (take n s @ t) = hd s" for t
      using rune_len_pos_cases assms by (simp add: n_def)
    have len: "length (take n s) = n" using rune_len_le [of s] by (simp add: n_def)
    have not_ascii: "hd s \<noteq> CHR ''\"''" "hd s \<noteq> CHR 0x5C" using assms(2) by auto
    have "unquote_step (take n s @ t) = Some (take n s, n)" for t
      using assms not_ascii hd_take [of t] len rune_len_take [OF assms(3), of t]
      by (simp add: unquote_step_def Let_def flip: n_def)
    moreover have "take n s \<noteq> []" using assms by (simp add: n_def)
    moreover have "hd (take n s) \<noteq> CHR ''\"''" using hd_take [of "[]"] not_ascii by simp
    ultimately show ?thesis
      using plain assms len by (intro that [of "take n s"]) (simp_all add: escape_step_def Let_def n_def)
  qed
qed

lemma unquote_escape:
  "valid_utf8 s \<Longrightarrow> unquote (escape s @ CHR ''\"'' # r) = Some (s, r)"
proof (induction s rule: valid_utf8.induct)
  case (1 s)
  show ?case
  proof (cases "s = []")
    case True
    then show ?thesis by (simp add: escape.simps [of "[]"] unquote.simps [of "CHR ''\"'' # r"])
  next
    case False
    have len: "rune_len s \<noteq> 0" and rest: "valid_utf8 (drop (rune_len s) s)"
      using "1.prems" False by (subst (asm) valid_utf8.simps, simp split: if_splits)+
    obtain out where step: "escape_step s = (out, rune_len s)" "out \<noteq> []" "hd out \<noteq> CHR ''\"''"
      "\<And>t. unquote_step (out @ t) = Some (take (rune_len s) s, length out)"
    proof (cases "byte (hd s) < 128")
      case True
      then have one: "rune_len s = 1" by (rule rune_len_ascii [OF False])
      obtain c u where s: "s = c # u" using False by (cases s) auto
      from True s have "byte c < 128" by simp
      from escape_step_ascii [OF this, of u] show ?thesis
        using that s one by (metis take0 take_Suc_Cons One_nat_def)
    next
      case ge: False
      then show ?thesis using escape_step_rune [OF False _ len] that by auto
    qed
    have "unquote (escape s @ CHR ''\"'' # r) =
        unquote (out @ escape (drop (rune_len s) s) @ CHR ''\"'' # r)"
      using False step(1) by (simp add: escape.simps [of s])
    also have "\<dots> = Some (take (rune_len s) s @ drop (rune_len s) s, r)"
      using step(2-4) "1.IH" [OF False len rest]
      by (subst unquote.simps) simp
    finally show ?thesis by simp
  qed
qed

section \<open>Base64\<close>

text \<open>\<open>base64.StdEncoding\<close>, the text of a \<open>[]byte\<close> member.\<close>

definition b64_digit :: "nat \<Rightarrow> char" where
  "b64_digit n =
     (if n < 26 then char_of (65 + n)
      else if n < 52 then char_of (71 + n)
      else if n < 62 then char_of (n - 4)
      else if n = 62 then CHR ''+'' else CHR ''/'')"

definition b64_value :: "char \<Rightarrow> nat option" where
  "b64_value c =
     (if byte_in 65 90 c then Some (byte c - 65)
      else if byte_in 97 122 c then Some (byte c - 71)
      else if byte_in 48 57 c then Some (byte c + 4)
      else if c = CHR ''+'' then Some 62
      else if c = CHR ''/'' then Some 63
      else None)"

fun b64_encode :: "bytes \<Rightarrow> bytes" where
  "b64_encode [] = []"
| "b64_encode [a] =
     [b64_digit (byte a div 4), b64_digit (byte a mod 4 * 16), CHR ''='', CHR ''='']"
| "b64_encode [a, b] =
     [b64_digit (byte a div 4), b64_digit (byte a mod 4 * 16 + byte b div 16),
      b64_digit (byte b mod 16 * 4), CHR ''='']"
| "b64_encode (a # b # c # s) =
     b64_digit (byte a div 4) # b64_digit (byte a mod 4 * 16 + byte b div 16) #
     b64_digit (byte b mod 16 * 4 + byte c div 64) # b64_digit (byte c mod 64) # b64_encode s"

text \<open>Bits left over before the padding are not checked, as in the non-strict decoder.\<close>

fun b64_groups :: "bytes \<Rightarrow> bytes option" where
  "b64_groups [] = Some []"
| "b64_groups (p # q # r # t # s) =
     (case (b64_value p, b64_value q, b64_value r, b64_value t) of
        (Some w, Some x, Some y, Some z) \<Rightarrow>
          map_option (\<lambda>u. char_of (w * 4 + x div 16) # char_of (x mod 16 * 16 + y div 4) #
                          char_of (y mod 4 * 64 + z) # u) (b64_groups s)
      | (Some w, Some x, Some y, None) \<Rightarrow>
          if t = CHR ''='' \<and> s = []
          then Some [char_of (w * 4 + x div 16), char_of (x mod 16 * 16 + y div 4)] else None
      | (Some w, Some x, None, None) \<Rightarrow>
          if r = CHR ''='' \<and> t = CHR ''='' \<and> s = [] then Some [char_of (w * 4 + x div 16)] else None
      | _ \<Rightarrow> None)"
| "b64_groups _ = None"

text \<open>The decoder passes over line ends.\<close>

definition b64_decode :: "bytes \<Rightarrow> bytes option" where
  "b64_decode s = b64_groups (filter (\<lambda>c. c \<noteq> CHR 0x0A \<and> c \<noteq> CHR 0x0D) s)"

lemma b64_value_digit [simp]: "n < 64 \<Longrightarrow> b64_value (b64_digit n) = Some n"
  by (auto simp: b64_value_def b64_digit_def byte_in_def byte_def)

lemma b64_value_pad: "b64_value (CHR ''='') = None"
  by (simp add: b64_value_def byte_in_def byte_def)

lemma b64_groups_encode: "b64_groups (b64_encode s) = Some s"
proof (induction s rule: b64_encode.induct)
  case (2 a)
  have "byte a < 256" by simp
  then have "byte a div 4 < 64" "byte a mod 4 * 16 < 64" by linarith+
  then show ?case by (simp add: b64_value_pad)
next
  case (3 a b)
  have "byte a < 256" "byte b < 256" by simp_all
  then have "byte a div 4 < 64" "byte a mod 4 * 16 + byte b div 16 < 64" "byte b mod 16 * 4 < 64"
    "byte b div 16 div 16 = 0" "byte b div 16 < 16"
    by linarith+
  moreover from this have "byte b div 16 mod 16 * 16 + byte b mod 16 = byte b" by simp
  ultimately show ?case by (simp add: b64_value_pad)
next
  case (4 a b c s)
  have "byte a < 256" "byte b < 256" "byte c < 256" by simp_all
  then have bounds: "byte a div 4 < 64" "byte a mod 4 * 16 + byte b div 16 < 64"
    "byte b mod 16 * 4 + byte c div 64 < 64" "byte c mod 64 < 64"
    by linarith+
  have "byte b div 16 < 16" "byte c div 64 < 4"
    using \<open>byte b < 256\<close> \<open>byte c < 256\<close> by linarith+
  then have "byte a div 4 * 4 + (byte a mod 4 * 16 + byte b div 16) div 16 = byte a"
    "(byte a mod 4 * 16 + byte b div 16) mod 16 * 16 + (byte b mod 16 * 4 + byte c div 64) div 4 = byte b"
    "(byte b mod 16 * 4 + byte c div 64) mod 4 * 64 + byte c mod 64 = byte c"
    by simp_all
  with 4 bounds show ?case by simp
qed simp

definition b64_char :: "char \<Rightarrow> bool" where
  "b64_char c \<longleftrightarrow> b64_value c \<noteq> None \<or> c = CHR ''=''"

lemma b64_char_encode: "list_all b64_char (b64_encode s)"
proof (induction s rule: b64_encode.induct)
  case (2 a)
  have "byte a div 4 < 64" "byte a mod 4 * 16 < 64" using byte_less [of a] by linarith+
  then show ?case by (simp add: b64_char_def)
next
  case (3 a b)
  have "byte a div 4 < 64" "byte a mod 4 * 16 + byte b div 16 < 64" "byte b mod 16 * 4 < 64"
    using byte_less [of a] byte_less [of b] by linarith+
  then show ?case by (simp add: b64_char_def)
next
  case (4 a b c s)
  have "byte a div 4 < 64" "byte a mod 4 * 16 + byte b div 16 < 64"
    "byte b mod 16 * 4 + byte c div 64 < 64" "byte c mod 64 < 64"
    using byte_less [of a] byte_less [of b] byte_less [of c] by linarith+
  with 4 show ?case by (simp add: b64_char_def)
qed simp

lemma b64_char_not_newline: "b64_char c \<Longrightarrow> c \<noteq> CHR 0x0A \<and> c \<noteq> CHR 0x0D"
  by (auto simp: b64_char_def b64_value_def byte_in_def byte_def)

lemma b64_char_ascii: "b64_char c \<Longrightarrow> byte c < 128"
  by (auto simp: b64_char_def b64_value_def byte_in_def byte_def split: if_splits)

lemma b64_encode_ascii: "ascii (b64_encode s)"
  using b64_char_encode [of s] by (auto simp: ascii_def list_all_iff b64_char_ascii)

lemma b64_encode_no_newline: "filter (\<lambda>c. c \<noteq> CHR 0x0A \<and> c \<noteq> CHR 0x0D) (b64_encode s) = b64_encode s"
proof (rule filter_True, rule ballI)
  fix c assume "c \<in> set (b64_encode s)"
  then have "b64_char c" using b64_char_encode [of s] by (simp add: list_all_iff)
  then show "c \<noteq> CHR 0x0A \<and> c \<noteq> CHR 0x0D" by (rule b64_char_not_newline)
qed

lemma b64_decode_encode: "b64_decode (b64_encode s) = Some s"
  by (simp add: b64_decode_def b64_encode_no_newline b64_groups_encode)

end
