(* ===== verification/Json.thy ===== *)
theory Json
  imports Json_Text
begin

text \<open>
  JSON documents as \<open>encoding/json\<close> reads and writes them: the scanner's grammar with its
  nesting limit, \<open>json.Unmarshal\<close> (a whole document) and \<open>Decoder.Decode\<close> (the first value of a
  stream), and the assignment of members to the fields of a struct: exact names before
  case-folded ones, \<open>null\<close> leaves a string as it is, an unknown member is passed over or, after
  \<open>DisallowUnknownFields\<close>, an error.
\<close>

section \<open>Values and their grammar\<close>

datatype json =
    JNull
  | JBool bool
  | JNumber bytes
  | JString bytes
  | JArray "json list"
  | JObject "(bytes \<times> json) list"

definition is_ws :: "char \<Rightarrow> bool" where
  "is_ws c \<longleftrightarrow> c = CHR '' '' \<or> c = CHR 0x09 \<or> c = CHR 0x0A \<or> c = CHR 0x0D"

definition skip_ws :: "bytes \<Rightarrow> bytes" where
  "skip_ws s = dropWhile is_ws s"

lemma skip_ws_Cons [simp]: "\<not> is_ws c \<Longrightarrow> skip_ws (c # s) = c # s"
  by (simp add: skip_ws_def)

lemma length_skip_ws: "length (skip_ws s) \<le> length s"
  by (simp add: skip_ws_def length_dropWhile_le)

lemma is_ws_punct [simp]:
  "\<not> is_ws (CHR ''{'')" "\<not> is_ws (CHR ''}'')" "\<not> is_ws (CHR '':'')" "\<not> is_ws (CHR '','')"
  "\<not> is_ws (CHR ''\"'')" "\<not> is_ws (CHR ''['')" "\<not> is_ws (CHR '']'')"
  by (simp_all add: is_ws_def)

text \<open>A number literal: the longest text of the grammar and what follows it.\<close>

definition take_digits :: "bytes \<Rightarrow> bytes \<times> bytes" where
  "take_digits s = (takeWhile is_digit s, dropWhile is_digit s)"

definition number_int :: "bytes \<Rightarrow> (bytes \<times> bytes) option" where
  "number_int s =
     (case s of
        [] \<Rightarrow> None
      | c # t \<Rightarrow> if c = CHR ''0'' then Some (''0'', t)
                 else if is_digit c then Some (take_digits s) else None)"

definition number_frac :: "bytes \<Rightarrow> (bytes \<times> bytes) option" where
  "number_frac s =
     (case s of
        [] \<Rightarrow> Some ([], [])
      | c # t \<Rightarrow>
          if c \<noteq> CHR ''.'' then Some ([], s)
          else (case take_digits t of (d, r) \<Rightarrow> if d = [] then None else Some (c # d, r)))"

definition number_exp :: "bytes \<Rightarrow> (bytes \<times> bytes) option" where
  "number_exp s =
     (case s of
        [] \<Rightarrow> Some ([], [])
      | c # t \<Rightarrow>
          if c \<noteq> CHR ''e'' \<and> c \<noteq> CHR ''E'' then Some ([], s)
          else
            (let sign = (if t \<noteq> [] \<and> (hd t = CHR ''+'' \<or> hd t = CHR ''-'') then [hd t] else [])
             in case take_digits (drop (length sign) t) of
                  (d, r) \<Rightarrow> if d = [] then None else Some (c # sign @ d, r)))"

definition json_number :: "bytes \<Rightarrow> (bytes \<times> bytes) option" where
  "json_number s =
     (let sign = (if s \<noteq> [] \<and> hd s = CHR ''-'' then ''-'' else [])
      in case number_int (drop (length sign) s) of
           None \<Rightarrow> None
         | Some (i, r) \<Rightarrow>
             (case number_frac r of
                None \<Rightarrow> None
              | Some (f, r) \<Rightarrow>
                  (case number_exp r of
                     None \<Rightarrow> None
                   | Some (e, r) \<Rightarrow> Some (sign @ i @ f @ e, r))))"

definition literal :: "bytes \<Rightarrow> 'a \<Rightarrow> bytes \<Rightarrow> ('a \<times> bytes) option" where
  "literal word v s = (if take (length word) s = word then Some (v, drop (length word) s) else None)"

text \<open>An object or array: empty, or with the content \<open>body\<close>; none at the nesting limit.\<close>

definition nested ::
  "nat \<Rightarrow> char \<Rightarrow> bytes \<Rightarrow> ('a list \<Rightarrow> json) \<Rightarrow> ('a list \<times> bytes) option \<Rightarrow> (json \<times> bytes) option" where
  "nested d close t mk body =
     (if d = 0 then None
      else if skip_ws t \<noteq> [] \<and> hd (skip_ws t) = close then Some (mk [], tl (skip_ws t))
      else map_option (\<lambda>(xs, r). (mk xs, r)) body)"

text \<open>
  The scanner. The first argument bounds the recursion (a document is read within the number of
  its bytes, see \<open>parse_fuel\<close> below), the second is the nesting that is left of
  \<open>maxNestingDepth\<close>.
\<close>

fun parse_value :: "nat \<Rightarrow> nat \<Rightarrow> bytes \<Rightarrow> (json \<times> bytes) option"
  and parse_members :: "nat \<Rightarrow> nat \<Rightarrow> bytes \<Rightarrow> ((bytes \<times> json) list \<times> bytes) option"
  and parse_elements :: "nat \<Rightarrow> nat \<Rightarrow> bytes \<Rightarrow> (json list \<times> bytes) option" where
  "parse_value 0 d s = None"
| "parse_value (Suc n) d s =
     (case skip_ws s of
        [] \<Rightarrow> None
      | c # t \<Rightarrow>
          if c = CHR ''{'' then
            nested d (CHR ''}'') t JObject (parse_members n (d - 1) t)
          else if c = CHR ''['' then
            nested d (CHR '']'') t JArray (parse_elements n (d - 1) t)
          else if c = CHR ''\"'' then map_option (\<lambda>(v, r). (JString v, r)) (unquote t)
          else if c = CHR ''n'' then literal ''null'' JNull (c # t)
          else if c = CHR ''t'' then literal ''true'' (JBool True) (c # t)
          else if c = CHR ''f'' then literal ''false'' (JBool False) (c # t)
          else map_option (\<lambda>(v, r). (JNumber v, r)) (json_number (c # t)))"
| "parse_members 0 d s = None"
| "parse_members (Suc n) d s =
     (case skip_ws s of
        [] \<Rightarrow> None
      | c # t \<Rightarrow>
          if c \<noteq> CHR ''\"'' then None
          else
            (case unquote t of
               None \<Rightarrow> None
             | Some (k, r) \<Rightarrow>
                 (case skip_ws r of
                    [] \<Rightarrow> None
                  | c # t \<Rightarrow>
                      if c \<noteq> CHR '':'' then None
                      else
                        (case parse_value n d t of
                           None \<Rightarrow> None
                         | Some (v, r) \<Rightarrow>
                             (case skip_ws r of
                                [] \<Rightarrow> None
                              | c # t \<Rightarrow>
                                  if c = CHR ''}'' then Some ([(k, v)], t)
                                  else if c = CHR '','' then
                                    map_option (\<lambda>(ms, r). ((k, v) # ms, r)) (parse_members n d t)
                                  else None)))))"
| "parse_elements 0 d s = None"
| "parse_elements (Suc n) d s =
     (case parse_value n d s of
        None \<Rightarrow> None
      | Some (v, r) \<Rightarrow>
          (case skip_ws r of
             [] \<Rightarrow> None
           | c # t \<Rightarrow>
               if c = CHR '']'' then Some ([v], t)
               else if c = CHR '','' then
                 map_option (\<lambda>(vs, r). (v # vs, r)) (parse_elements n d t)
               else None))"

lemmas parser_simps = parse_value.simps parse_members.simps parse_elements.simps

declare parser_simps [simp del]

definition maxNestingDepth :: nat where
  "maxNestingDepth = 10000"

text \<open>\<open>Decoder.Decode\<close> reads the first value of the stream; \<open>Unmarshal\<close> wants nothing after it.\<close>

definition first_value :: "bytes \<Rightarrow> json option" where
  "first_value raw = map_option fst (parse_value (2 * length raw + 1) maxNestingDepth raw)"

definition whole_document :: "bytes \<Rightarrow> json option" where
  "whole_document raw =
     (case parse_value (2 * length raw + 1) maxNestingDepth raw of
        None \<Rightarrow> None
      | Some (v, r) \<Rightarrow> if skip_ws r = [] then Some v else None)"

section \<open>The parser reads within its bound\<close>

lemma take_digits_shorter: "take_digits s = (d, r) \<Longrightarrow> length r \<le> length s"
  by (auto simp: take_digits_def length_dropWhile_le)

lemma number_int_shorter: "number_int s = Some (i, r) \<Longrightarrow> length r < length s"
  by (cases s) (auto simp: number_int_def take_digits_def length_dropWhile_le le_imp_less_Suc split: if_splits)

lemma number_frac_shorter: "number_frac s = Some (f, r) \<Longrightarrow> length r \<le> length s"
  by (cases s) (auto simp: number_frac_def take_digits_def length_dropWhile_le le_SucI split: if_splits prod.splits)

lemma number_exp_shorter: "number_exp s = Some (e, r) \<Longrightarrow> length r \<le> length s"
proof (cases s)
  case (Cons c t)
  have "length (dropWhile is_digit u) \<le> Suc (length t)" if "length u \<le> Suc (length t)" for u
    using that length_dropWhile_le [of is_digit u] by linarith
  with Cons show "number_exp s = Some (e, r) \<Longrightarrow> length r \<le> length s"
    by (auto simp: number_exp_def Let_def take_digits_def split: if_splits)
qed (simp add: number_exp_def)

lemma json_number_shorter: "json_number s = Some (v, r) \<Longrightarrow> length r < length s"
  unfolding json_number_def Let_def
  by (auto split: option.splits prod.splits
      dest!: number_int_shorter number_frac_shorter number_exp_shorter)

lemma literal_shorter: "literal word v s = Some (w, r) \<Longrightarrow> word \<noteq> [] \<Longrightarrow> length r < length s"
  by (cases s) (auto simp: literal_def split: if_splits)

lemma skip_ws_ConsD: "skip_ws s = c # t \<Longrightarrow> length t < length s"
  using length_skip_ws [of s] by auto

lemma parse_shorter:
  "parse_value n d s = Some (v, r) \<Longrightarrow> length r < length s"
  "parse_members n d s = Some (ms, r) \<Longrightarrow> length r < length s"
  "parse_elements n d s = Some (vs, r) \<Longrightarrow> length r < length s"
proof (induction n d s and n d s and n d s arbitrary: v r and ms r and vs r
    rule: parse_value_parse_members_parse_elements.induct)
  case (2 n d s)
  obtain c t where s: "skip_ws s = c # t"
    using "2.prems" by (auto simp: parser_simps split: list.splits)
  have t: "length t < length s" by (rule skip_ws_ConsD [OF s])
  have tl: "length (tl (skip_ws t)) < length s"
    using t length_skip_ws [of t] by (auto simp: less_le_trans)
  have c: "length (c # t) \<le> length s" using length_skip_ws [of s] s by simp
  show ?case
    using "2.prems" s t tl c "2.IH"
    by (auto simp: parser_simps nested_def split: if_splits
        dest!: unquote_shorter literal_shorter json_number_shorter)
       (meson less_trans less_le_trans)+
next
  case (4 n d s)
  then show ?case
    by (auto simp: parser_simps split: list.splits if_splits option.splits
        dest!: skip_ws_ConsD unquote_shorter) (meson less_trans)+
next
  case (6 n d s)
  then show ?case
    by (auto simp: parser_simps split: list.splits if_splits option.splits
        dest!: skip_ws_ConsD) (meson less_trans)+
qed (simp_all add: parser_simps)

text \<open>With the bound the entry points use, a larger one gives the same result.\<close>

lemma parse_more:
  "2 * length s < n \<Longrightarrow> n \<le> m \<Longrightarrow> parse_value m d s = parse_value n d s"
  "2 * length s + 1 < n \<Longrightarrow> n \<le> m \<Longrightarrow> parse_members m d s = parse_members n d s"
  "2 * length s + 1 < n \<Longrightarrow> n \<le> m \<Longrightarrow> parse_elements m d s = parse_elements n d s"
proof (induction n d s and n d s and n d s arbitrary: m and m and m
    rule: parse_value_parse_members_parse_elements.induct)
  case (2 n d s)
  from "2.prems" obtain m' where m: "m = Suc m'" "n \<le> m'" by (cases m) auto
  show ?case
  proof (cases "skip_ws s")
    case Nil
    with m show ?thesis by (simp add: parser_simps)
  next
    case (Cons c t)
    have "length t < length s" by (rule skip_ws_ConsD [OF Cons])
    with "2.prems" have bound: "2 * length t + 1 < n" by simp
    have members: "parse_members m' (d - 1) t = parse_members n (d - 1) t" if "c = CHR ''{''"
      using "2.IH"(1) [OF Cons that bound m(2)] .
    have elements: "parse_elements m' (d - 1) t = parse_elements n (d - 1) t"
      if "c \<noteq> CHR ''{''" "c = CHR ''[''"
      using "2.IH"(2) [OF Cons that bound m(2)] .
    show ?thesis
      unfolding m(1) parse_value.simps(2) [of _ d s] Cons list.case
      using members elements by simp
  qed
next
  case (4 n d s)
  from "4.prems" obtain m' where m: "m = Suc m'" "n \<le> m'" by (cases m) auto
  have sub: "parse_value m' d t = parse_value n d t"
    if "skip_ws s = c # s1" "c = CHR ''\"''" "unquote s1 = Some (k, r)" "skip_ws r = c' # t" "c' = CHR '':''"
    for c s1 k r c' t
  proof -
    have "length t < length s"
      using skip_ws_ConsD [OF that(1)] unquote_shorter [OF that(3)] skip_ws_ConsD [OF that(4)] by simp
    with "4.prems" have bound: "2 * length t < n" by simp
    show ?thesis
      by (rule "4.IH"(1) [OF that(1) _ that(3) refl that(4) _ bound m(2)]) (use that m in simp_all)
  qed
  have rest: "parse_members m' d u = parse_members n d u"
    if "skip_ws s = c # s1" "c = CHR ''\"''" "unquote s1 = Some (k, r)" "skip_ws r = c' # t" "c' = CHR '':''"
      "parse_value n d t = Some (v, r')" "skip_ws r' = c'' # u" "c'' \<noteq> CHR ''}''" "c'' = CHR '',''"
    for c s1 k r c' t v r' c'' u
  proof -
    have "length u + 1 < length s"
      using skip_ws_ConsD [OF that(1)] unquote_shorter [OF that(3)] skip_ws_ConsD [OF that(4)]
        parse_shorter(1) [OF that(6)] skip_ws_ConsD [OF that(7)] by simp
    with "4.prems" have bound: "2 * length u + 1 < n" by simp
    show ?thesis
      by (rule "4.IH"(2) [OF that(1) _ that(3) refl that(4) _ that(6) refl that(7) _ _ bound m(2)])
        (use that m in simp_all)
  qed
  show ?case
    unfolding m(1) by (auto simp: parser_simps sub rest split: list.split option.split)
next
  case (6 n d s)
  from "6.prems" obtain m' where m: "m = Suc m'" "n \<le> m'" by (cases m) auto
  have sub: "parse_value m' d s = parse_value n d s"
    by (rule "6.IH"(1)) (use "6.prems" m in simp_all)
  have rest: "parse_elements m' d u = parse_elements n d u"
    if "parse_value n d s = Some (v, r)" "skip_ws r = c # u" "c \<noteq> CHR '']''" "c = CHR '',''" for v r c u
  proof -
    have "length u + 1 < length s"
      using parse_shorter(1) [OF that(1)] skip_ws_ConsD [OF that(2)] by simp
    with "6.prems" have bound: "2 * length u + 1 < n" by simp
    show ?thesis
      by (rule "6.IH"(2) [OF that(1) refl that(2) _ _ bound m(2)]) (use that m in simp_all)
  qed
  show ?case
    unfolding m(1) by (auto simp: parser_simps sub rest split: list.split option.split)
qed simp_all

lemma parse_fuel: "2 * length s < n \<Longrightarrow> parse_value n d s = parse_value (2 * length s + 1) d s"
  by (rule parse_more(1)) simp_all

section \<open>Members of a struct\<close>

text \<open>
  The folding of member names: ASCII letters to upper case, and the two other runes whose
  simple folding reaches an ASCII letter (U+017F to S, U+212A to K).
\<close>

fun fold_name :: "bytes \<Rightarrow> bytes" where
  "fold_name [] = []"
| "fold_name (c # s) =
     (if byte_in 97 122 c then char_of (byte c - 32) # fold_name s
      else if take 2 (c # s) = [CHR 0xC5, CHR 0xBF] then CHR ''S'' # fold_name (tl s)
      else if take 3 (c # s) = [CHR 0xE2, CHR 0x84, CHR 0xAA] then CHR ''K'' # fold_name (tl (tl s))
      else c # fold_name s)"

text \<open>A field: its name and what decoding a value into it does (\<open>None\<close>: a type error).\<close>

type_synonym 'r field = "bytes \<times> (json \<Rightarrow> 'r \<Rightarrow> 'r option)"

definition find_field :: "'r field list \<Rightarrow> bytes \<Rightarrow> 'r field option" where
  "find_field fields k =
     (case find (\<lambda>f. fst f = k) fields of
        Some f \<Rightarrow> Some f
      | None \<Rightarrow> find (\<lambda>f. fold_name (fst f) = fold_name k) fields)"

fun assign_members :: "bool \<Rightarrow> 'r field list \<Rightarrow> (bytes \<times> json) list \<Rightarrow> 'r \<Rightarrow> 'r option" where
  "assign_members strict fields [] r = Some r"
| "assign_members strict fields ((k, v) # ms) r =
     (case find_field fields k of
        None \<Rightarrow> if strict then None else assign_members strict fields ms r
      | Some f \<Rightarrow>
          (case snd f v r of
             None \<Rightarrow> None
           | Some r' \<Rightarrow> assign_members strict fields ms r'))"

definition decode_struct :: "bool \<Rightarrow> 'r field list \<Rightarrow> json \<Rightarrow> 'r \<Rightarrow> 'r option" where
  "decode_struct strict fields v r =
     (case v of
        JNull \<Rightarrow> Some r
      | JObject ms \<Rightarrow> assign_members strict fields ms r
      | _ \<Rightarrow> None)"

text \<open>Fields of type \<open>string\<close> and \<open>[]byte\<close>.\<close>

definition text_field :: "(bytes \<Rightarrow> 'r \<Rightarrow> 'r) \<Rightarrow> json \<Rightarrow> 'r \<Rightarrow> 'r option" where
  "text_field upd v r =
     (case v of JNull \<Rightarrow> Some r | JString s \<Rightarrow> Some (upd s r) | _ \<Rightarrow> None)"

definition byte_element :: "bytes \<Rightarrow> nat \<Rightarrow> json \<Rightarrow> char option" where
  "byte_element old i v =
     (case v of
        JNull \<Rightarrow> Some (if i < length old then old ! i else CHR 0x00)
      | JNumber t \<Rightarrow>
          (case parse_digits t of
             Some n \<Rightarrow> if n < 256 then Some (char_of n) else None
           | None \<Rightarrow> None)
      | _ \<Rightarrow> None)"

fun byte_elements :: "bytes \<Rightarrow> nat \<Rightarrow> json list \<Rightarrow> bytes option" where
  "byte_elements old i [] = Some []"
| "byte_elements old i (v # vs) =
     (case byte_element old i v of
        None \<Rightarrow> None
      | Some c \<Rightarrow> map_option (Cons c) (byte_elements old (Suc i) vs))"

definition bytes_field :: "('r \<Rightarrow> bytes) \<Rightarrow> (bytes \<Rightarrow> 'r \<Rightarrow> 'r) \<Rightarrow> json \<Rightarrow> 'r \<Rightarrow> 'r option" where
  "bytes_field get upd v r =
     (case v of
        JNull \<Rightarrow> Some (upd [] r)
      | JString s \<Rightarrow> map_option (\<lambda>b. upd b r) (b64_decode s)
      | JArray vs \<Rightarrow> map_option (\<lambda>b. upd b r) (byte_elements (get r) 0 vs)
      | _ \<Rightarrow> None)"

text \<open>\<open>json.Unmarshal(raw, &v)\<close> and, with or without unknown members, \<open>Decoder.Decode(&v)\<close>.\<close>

definition Unmarshal :: "'r field list \<Rightarrow> 'r \<Rightarrow> bytes \<Rightarrow> 'r option" where
  "Unmarshal fields zero raw =
     (case whole_document raw of None \<Rightarrow> None | Some v \<Rightarrow> decode_struct False fields v zero)"

definition Decode :: "bool \<Rightarrow> 'r field list \<Rightarrow> 'r \<Rightarrow> bytes \<Rightarrow> 'r option" where
  "Decode strict fields zero raw =
     (case first_value raw of None \<Rightarrow> None | Some v \<Rightarrow> decode_struct strict fields v zero)"

section \<open>Writing documents\<close>

fun members_text :: "(bytes \<times> bytes) list \<Rightarrow> bytes" where
  "members_text [] = ''}''"
| "members_text [(k, v)] = json_string k @ '':'' @ v @ ''}''"
| "members_text ((k, v) # ms) = json_string k @ '':'' @ v @ '','' @ members_text ms"

text \<open>The object with the given names and value texts, in this order.\<close>

definition object_text :: "(bytes \<times> bytes) list \<Rightarrow> bytes" where
  "object_text ms = CHR ''{'' # members_text ms"

fun elements_text :: "bytes list \<Rightarrow> bytes" where
  "elements_text [] = '']''"
| "elements_text [v] = v @ '']''"
| "elements_text (v # vs) = v @ '','' @ elements_text vs"

definition array_text :: "bytes list \<Rightarrow> bytes" where
  "array_text vs = CHR ''['' # elements_text vs"

section \<open>A written object reads back\<close>

lemma parse_json_string:
  "valid_utf8 s \<Longrightarrow> parse_value (Suc n) d (json_string s @ r) = Some (JString s, r)"
  by (simp add: parser_simps json_string_def unquote_escape)

lemma parse_members_text:
  assumes "\<forall>(k, s) \<in> set ms. valid_utf8 k \<and> valid_utf8 s" and "ms \<noteq> []" and "length ms < n"
  shows "parse_members n d (members_text (map (\<lambda>(k, s). (k, json_string s)) ms) @ r) =
           Some (map (\<lambda>(k, s). (k, JString s)) ms, r)"
  using assms
proof (induction ms arbitrary: n)
  case (Cons m ms)
  obtain k s where m: "m = (k, s)" by (cases m)
  obtain n' where n: "n = Suc (Suc n')"
    using Cons.prems by (cases n; cases "n - 1") auto
  have utf8: "valid_utf8 k" "valid_utf8 s" using Cons.prems m by auto
  show ?case
  proof (cases ms)
    case Nil
    with utf8 m n show ?thesis
      by (simp add: parser_simps(4) json_string_def unquote_escape
          parse_json_string [unfolded json_string_def, simplified])
  next
    case (Cons m' ms')
    have "parse_members (Suc n') d (members_text (map (\<lambda>(k, s). (k, json_string s)) ms) @ r) =
        Some (map (\<lambda>(k, s). (k, JString s)) ms, r)"
      by (rule Cons.IH) (use Cons.prems Cons n in auto)
    moreover have "members_text (map (\<lambda>(k, s). (k, json_string s)) (m # ms)) =
        json_string k @ '':'' @ json_string s @ '','' @ members_text (map (\<lambda>(k, s). (k, json_string s)) ms)"
      using m Cons by (cases m') simp
    ultimately show ?thesis
      using utf8 m n
      by (simp add: parser_simps(4) json_string_def unquote_escape
          parse_json_string [unfolded json_string_def, simplified])
  qed
qed simp

lemma length_members_text: "length ms < length (members_text ms)"
  by (induction ms rule: members_text.induct) (simp_all add: json_string_def)

lemma members_text_head: "ms \<noteq> [] \<Longrightarrow> \<exists>t. members_text ms = CHR ''\"'' # t"
  by (induction ms rule: members_text.induct) (simp_all add: json_string_def)

lemma parse_object_text:
  assumes "\<forall>(k, s) \<in> set ms. valid_utf8 k \<and> valid_utf8 s" and "ms \<noteq> []"
    and "doc = object_text (map (\<lambda>(k, s). (k, json_string s)) ms) @ r"
  shows "parse_value (2 * length doc + 1) maxNestingDepth doc =
           Some (JObject (map (\<lambda>(k, s). (k, JString s)) ms), r)"
proof -
  let ?ms = "map (\<lambda>(k, s). (k, json_string s)) ms"
  obtain t where t: "members_text ?ms = CHR ''\"'' # t" using members_text_head [of ?ms] assms(2) by auto
  have "length ms < 2 * length doc"
    using length_members_text [of ?ms] assms(3) by (simp add: object_text_def)
  from parse_members_text [OF assms(1,2) this, of "maxNestingDepth - 1" r] t
  show ?thesis
    by (simp add: parser_simps(2) assms(3) object_text_def nested_def maxNestingDepth_def)
qed

lemma whole_document_object:
  assumes "\<forall>(k, s) \<in> set ms. valid_utf8 k \<and> valid_utf8 s" and "ms \<noteq> []"
  shows "whole_document (object_text (map (\<lambda>(k, s). (k, json_string s)) ms)) =
           Some (JObject (map (\<lambda>(k, s). (k, JString s)) ms))"
  using parse_object_text [OF assms, of _ "[]"] by (simp add: whole_document_def skip_ws_def)

end
