(* ===== verification/Messages.thy ===== *)
theory Messages
  imports Json Pgx_Types
begin

text \<open>
  The messages that travel between the processes: the outbox payloads of \<open>internal/outbox/payload.go\<close>
  and the job message of \<open>internal/broker/rabbitmq/payout_publisher.go\<close>, each with its encoder and
  decoder. Both directions are the JSON of theory \<open>Json\<close>; the round trips say that a worker reads
  back exactly what the API process wrote.
\<close>

section \<open>Outbox payloads\<close>

definition EventTypeProcessPayout :: bytes where
  "EventTypeProcessPayout = ''process_payout''"

definition EventTypePayoutResultWebhook :: bytes where
  "EventTypePayoutResultWebhook = ''payout_result_webhook''"

record process_payout_payload =
  ppp_PayoutID :: bytes
  ppp_ClientID :: bytes

definition zero_process_payout_payload :: process_payout_payload where
  "zero_process_payout_payload = \<lparr>ppp_PayoutID = [], ppp_ClientID = []\<rparr>"

definition process_payout_fields :: "process_payout_payload field list" where
  "process_payout_fields =
     [(''payout_id'', text_field (\<lambda>s r. r\<lparr>ppp_PayoutID := s\<rparr>)),
      (''client_id'', text_field (\<lambda>s r. r\<lparr>ppp_ClientID := s\<rparr>))]"

definition MarshalProcessPayoutPayload :: "bytes \<Rightarrow> bytes \<Rightarrow> bytes result" where
  "MarshalProcessPayoutPayload payoutID clientID =
     Inr (object_text [(''payout_id'', json_string payoutID), (''client_id'', json_string clientID)])"

text \<open>\<open>omitempty\<close> leaves the failure reason out when it is the empty string.\<close>

definition MarshalPayoutResultWebhookPayload ::
  "bytes \<Rightarrow> bytes \<Rightarrow> bytes \<Rightarrow> bytes \<Rightarrow> bytes \<Rightarrow> bytes result" where
  "MarshalPayoutResultWebhookPayload payoutID clientID targetURL status failureReason =
     Inr (object_text
       ([(''event_type'', json_string EventTypePayoutResultWebhook),
         (''payout_id'', json_string payoutID),
         (''client_id'', json_string clientID),
         (''target_url'', json_string targetURL),
         (''status'', json_string status)] @
        (if failureReason = [] then [] else [(''failure_reason'', json_string failureReason)])))"

definition UnmarshalProcessPayoutPayload :: "bytes \<Rightarrow> process_payout_payload result" where
  "UnmarshalProcessPayoutPayload raw =
     (case Unmarshal process_payout_fields zero_process_payout_payload raw of
        None \<Rightarrow> Inl (Errorf ''json'')
      | Some p \<Rightarrow> Inr p)"

section \<open>Events and job messages\<close>

record event =
  ev_ID :: bytes
  ev_EventType :: bytes
  ev_EntityID :: bytes
  ev_Payload :: bytes

definition zero_event :: event where
  "zero_event = \<lparr>ev_ID = [], ev_EventType = [], ev_EntityID = [], ev_Payload = []\<rparr>"

text \<open>
  \<open>payoutJobMessage\<close> has the fields of \<open>outbox.Event\<close>; its payload is a \<open>[]byte\<close>, written in
  base64 (a nil slice is \<open>null\<close>, and both \<open>null\<close> and the empty text decode to no bytes).
\<close>

definition payout_job_fields :: "event field list" where
  "payout_job_fields =
     [(''id'', text_field (\<lambda>s r. r\<lparr>ev_ID := s\<rparr>)),
      (''event_type'', text_field (\<lambda>s r. r\<lparr>ev_EventType := s\<rparr>)),
      (''entity_id'', text_field (\<lambda>s r. r\<lparr>ev_EntityID := s\<rparr>)),
      (''payload'', bytes_field ev_Payload (\<lambda>b r. r\<lparr>ev_Payload := b\<rparr>))]"

definition EncodePayoutJob :: "event \<Rightarrow> bytes result" where
  "EncodePayoutJob ev =
     Inr (object_text
       [(''id'', json_string (ev_ID ev)),
        (''event_type'', json_string (ev_EventType ev)),
        (''entity_id'', json_string (ev_EntityID ev)),
        (''payload'', json_string (b64_encode (ev_Payload ev)))])"

definition DecodePayoutJob :: "bytes \<Rightarrow> event result" where
  "DecodePayoutJob raw =
     (case Unmarshal payout_job_fields zero_event raw of
        None \<Rightarrow> Inl (Errorf ''json'')
      | Some ev \<Rightarrow> Inr ev)"

section \<open>Round trips\<close>

lemma names_valid [simp]:
  "valid_utf8 ''payout_id''" "valid_utf8 ''client_id''" "valid_utf8 ''id''"
  "valid_utf8 ''event_type''" "valid_utf8 ''entity_id''" "valid_utf8 ''payload''"
  by (simp_all add: byte_def)

lemma process_payout_payload_roundtrip:
  assumes "valid_utf8 p" and "valid_utf8 c"
  shows "\<exists>doc. MarshalProcessPayoutPayload p c = Inr doc \<and>
           UnmarshalProcessPayoutPayload doc = Inr \<lparr>ppp_PayoutID = p, ppp_ClientID = c\<rparr>"
proof -
  have "whole_document (object_text [(''payout_id'', json_string p), (''client_id'', json_string c)]) =
      Some (JObject [(''payout_id'', JString p), (''client_id'', JString c)])"
    using whole_document_object [of "[(''payout_id'', p), (''client_id'', c)]"] assms by simp
  then show ?thesis
    by (simp add: MarshalProcessPayoutPayload_def UnmarshalProcessPayoutPayload_def Unmarshal_def
        decode_struct_def process_payout_fields_def find_field_def text_field_def
        zero_process_payout_payload_def)
qed

lemma payout_job_roundtrip:
  assumes "valid_utf8 (ev_ID ev)" and "valid_utf8 (ev_EventType ev)" and "valid_utf8 (ev_EntityID ev)"
  shows "\<exists>doc. EncodePayoutJob ev = Inr doc \<and> DecodePayoutJob doc = Inr ev"
proof -
  have "whole_document (object_text
      [(''id'', json_string (ev_ID ev)), (''event_type'', json_string (ev_EventType ev)),
       (''entity_id'', json_string (ev_EntityID ev)),
       (''payload'', json_string (b64_encode (ev_Payload ev)))]) =
      Some (JObject [(''id'', JString (ev_ID ev)), (''event_type'', JString (ev_EventType ev)),
        (''entity_id'', JString (ev_EntityID ev)), (''payload'', JString (b64_encode (ev_Payload ev)))])"
    using whole_document_object [of "[(''id'', ev_ID ev), (''event_type'', ev_EventType ev),
        (''entity_id'', ev_EntityID ev), (''payload'', b64_encode (ev_Payload ev))]"]
      assms ascii_valid_utf8 [OF b64_encode_ascii [of "ev_Payload ev"]]
    by simp
  then show ?thesis
    by (simp add: EncodePayoutJob_def DecodePayoutJob_def Unmarshal_def decode_struct_def
        payout_job_fields_def find_field_def text_field_def bytes_field_def b64_decode_encode
        zero_event_def)
qed

end
