(* ===== verification/Request_Hash.thy ===== *)
theory Request_Hash
  imports Go_Numbers
begin

text \<open>
  \<open>createPayoutRequestHash\<close> of the payout service: the hexadecimal SHA-256 digest of the parts of
  a request, each followed by a NUL byte. \<open>crypto/sha256\<close> is written out on 32-bit words. The
  pre-image determines the parts when none of them holds a NUL, so two requests with one hash have
  the same parts or exhibit a collision of SHA-256.
\<close>

unbundle bit_operations_syntax

section \<open>SHA-256\<close>

type_synonym w32 = "32 word"

text \<open>
  The constants of the standard, by their definition: the first 32 bits of the fractional parts
  of the square roots of the first 8 primes and of the cube roots of the first 64.
\<close>

fun root_below :: "nat \<Rightarrow> nat \<Rightarrow> nat \<Rightarrow> nat \<Rightarrow> nat" where
  "root_below k 0 r n = r"
| "root_below k (Suc b) r n = root_below k b (if (r + 2 ^ b) ^ k \<le> n then r + 2 ^ b else r) n"

definition small_primes :: "nat list" where
  "small_primes = filter (\<lambda>n. list_all (\<lambda>d. n mod d \<noteq> 0) [2..<n]) [2..<312]"

definition fraction_bits :: "nat \<Rightarrow> nat \<Rightarrow> w32" where
  "fraction_bits k n = of_nat (root_below k 40 0 (n * 2 ^ (32 * k)))"

definition sha_constants :: "w32 list" where
  "sha_constants = map (fraction_bits 3) small_primes"

definition sha_initial :: "w32 list" where
  "sha_initial = map (fraction_bits 2) [2, 3, 5, 7, 11, 13, 17, 19]"

text \<open>The root found from 40 bits is the integer root when it has no more than 40 bits.\<close>

lemma root_below:
  assumes "r ^ k \<le> n" and "n < (r + 2 ^ b) ^ k"
  shows "root_below k b r n ^ k \<le> n \<and> n < Suc (root_below k b r n) ^ k"
  using assms
proof (induction k b r n rule: root_below.induct)
  case (2 k b r n)
  then show ?case by (auto simp: mult_2 add.assoc)
qed simp

text \<open>The message, a one bit, zeros, and the length in bits as eight bytes.\<close>

fun big_endian :: "nat \<Rightarrow> nat \<Rightarrow> bytes" where
  "big_endian 0 n = []"
| "big_endian (Suc k) n = big_endian k (n div 256) @ [char_of n]"

definition sha_pad :: "bytes \<Rightarrow> bytes" where
  "sha_pad msg =
     msg @ CHR 0x80 # replicate ((119 - length msg mod 64) mod 64) (CHR 0x00) @
     big_endian 8 (8 * length msg)"

definition word_of_bytes :: "bytes \<Rightarrow> w32" where
  "word_of_bytes s = of_nat (foldl (\<lambda>n c. 256 * n + byte c) 0 s)"

fun chunks :: "nat \<Rightarrow> nat \<Rightarrow> 'a list \<Rightarrow> 'a list list" where
  "chunks 0 k xs = []"
| "chunks (Suc n) k xs = take k xs # chunks n k (drop k xs)"

definition block_words :: "bytes \<Rightarrow> w32 list" where
  "block_words block = map word_of_bytes (chunks 16 4 block)"

text \<open>The message schedule, newest word first.\<close>

fun schedule :: "nat \<Rightarrow> w32 list \<Rightarrow> w32 list" where
  "schedule 0 ws = ws"
| "schedule (Suc n) ws =
     (let w2 = ws ! 1; w7 = ws ! 6; w15 = ws ! 14; w16 = ws ! 15;
          s0 = word_rotr 7 w15 XOR word_rotr 18 w15 XOR drop_bit 3 w15;
          s1 = word_rotr 17 w2 XOR word_rotr 19 w2 XOR drop_bit 10 w2
      in schedule n ((w16 + s0 + w7 + s1) # ws))"

definition sha_round :: "w32 list \<Rightarrow> w32 \<times> w32 \<Rightarrow> w32 list" where
  "sha_round v kw =
     (case v of
        [a, b, c, d, e, f, g, h] \<Rightarrow>
          (let s1 = word_rotr 6 e XOR word_rotr 11 e XOR word_rotr 25 e;
               ch = (e AND f) XOR (NOT e AND g);
               t1 = h + s1 + ch + fst kw + snd kw;
               s0 = word_rotr 2 a XOR word_rotr 13 a XOR word_rotr 22 a;
               maj = (a AND b) XOR (a AND c) XOR (b AND c);
               t2 = s0 + maj
           in [t1 + t2, a, b, c, d + t1, e, f, g])
      | _ \<Rightarrow> v)"

definition sha_block :: "w32 list \<Rightarrow> bytes \<Rightarrow> w32 list" where
  "sha_block h block =
     map2 (+) h (foldl sha_round h (zip sha_constants (rev (schedule 48 (rev (block_words block))))))"

definition word_bytes :: "w32 \<Rightarrow> bytes" where
  "word_bytes w = big_endian 4 (unat w)"

definition sha256 :: "bytes \<Rightarrow> bytes" where
  "sha256 msg =
     (let p = sha_pad msg
      in concat (map word_bytes (foldl sha_block sha_initial (chunks (length p div 64) 64 p))))"

lemma length_big_endian [simp]: "length (big_endian k n) = k"
  by (induction k n rule: big_endian.induct) simp_all

lemma length_sha_round: "length (sha_round v kw) = length v"
  by (auto simp: sha_round_def Let_def split: list.split)

lemma length_sha_rounds: "length (foldl sha_round v kws) = length v"
  by (induction kws arbitrary: v) (simp_all add: length_sha_round)

lemma length_sha_block: "length (sha_block h block) = length h"
  by (simp add: sha_block_def length_sha_rounds)

lemma length_sha_blocks: "length (foldl sha_block h bs) = length h"
  by (induction bs arbitrary: h) (simp_all add: length_sha_block)

lemma length_sha256: "length (sha256 msg) = 32"
proof -
  have "length (concat (map word_bytes ws)) = 4 * length ws" for ws
    by (induction ws) (simp_all add: word_bytes_def)
  then show ?thesis by (simp add: sha256_def Let_def length_sha_blocks sha_initial_def)
qed

section \<open>createPayoutRequestHash\<close>

text \<open>What the two \<open>Write\<close> calls per part feed to the digest.\<close>

definition hash_input :: "bytes list \<Rightarrow> bytes" where
  "hash_input parts = concat (map (\<lambda>p. p @ [CHR 0x00]) parts)"

definition createPayoutRequestHash :: "bytes list \<Rightarrow> bytes" where
  "createPayoutRequestHash parts = hex_encode (sha256 (hash_input parts))"

lemma length_request_hash: "length (createPayoutRequestHash parts) = 64"
  by (simp add: createPayoutRequestHash_def length_sha256)

lemma request_hash_nonempty [simp]: "createPayoutRequestHash parts \<noteq> []"
  using length_request_hash [of parts] by auto

lemma hex_digit_ascii: "d < 16 \<Longrightarrow> byte (hex_digit d) < 128 \<and> hex_digit d \<noteq> CHR 0x00"
proof -
  assume d: "d < 16"
  then have "48 \<le> byte (hex_digit d)" "byte (hex_digit d) < 128"
    by (auto simp: hex_digit_def)
  moreover have "byte (CHR 0x00) = 0" by (simp add: byte_def)
  ultimately show ?thesis by auto
qed

lemma hex_encode_ascii: "ascii (hex_encode s) \<and> CHR 0x00 \<notin> set (hex_encode s)"
proof (induction s)
  case (Cons c s)
  have "byte c div 16 < 16" "byte c mod 16 < 16" using byte_less [of c] by linarith+
  from this [THEN hex_digit_ascii] Cons show ?case by (auto simp: hex_encode_def)
qed (simp add: hex_encode_def)

lemma request_hash_ascii: "ascii (createPayoutRequestHash parts)" "CHR 0x00 \<notin> set (createPayoutRequestHash parts)"
  using hex_encode_ascii by (simp_all add: createPayoutRequestHash_def)

lemma nul_terminated_inject:
  assumes "CHR 0x00 \<notin> set p" and "CHR 0x00 \<notin> set q" and "p @ CHR 0x00 # r = q @ CHR 0x00 # s"
  shows "p = q \<and> r = s"
proof -
  have split: "takeWhile (\<lambda>c. c \<noteq> CHR 0x00) (u @ CHR 0x00 # v) = u" if "CHR 0x00 \<notin> set u" for u v
    using that by (subst takeWhile_append2) auto
  have "p = q" using split [OF assms(1), of r] split [OF assms(2), of s] assms(3) by simp
  with assms(3) show ?thesis by simp
qed

lemma hash_input_inject:
  assumes "\<forall>p \<in> set ps. CHR 0x00 \<notin> set p" and "\<forall>q \<in> set qs. CHR 0x00 \<notin> set q"
  shows "hash_input ps = hash_input qs \<longleftrightarrow> ps = qs"
  using assms
proof (induction ps arbitrary: qs)
  case Nil
  then show ?case by (cases qs) (auto simp: hash_input_def)
next
  case (Cons p ps)
  show ?case
  proof (cases qs)
    case (Cons q qs')
    have "p @ CHR 0x00 # hash_input ps = q @ CHR 0x00 # hash_input qs' \<longleftrightarrow>
        p = q \<and> hash_input ps = hash_input qs'"
      using Cons.prems Cons nul_terminated_inject [of p q "hash_input ps" "hash_input qs'"] by auto
    with Cons Cons.IH [of qs'] Cons.prems show ?thesis by (simp add: hash_input_def)
  qed (simp add: hash_input_def)
qed

text \<open>
  It is enough that one of two lists of the same length is free of NUL bytes: their number in the
  pre-image gives the other list away.
\<close>

lemma count_hash_input:
  "length (filter (\<lambda>c. c = CHR 0x00) (hash_input ps)) =
     length ps + length (filter (\<lambda>c. c = CHR 0x00) (concat ps))"
  by (induction ps) (simp_all add: hash_input_def)

lemma hash_input_inject_length:
  assumes "\<forall>p \<in> set ps. CHR 0x00 \<notin> set p" and "length ps = length qs"
    and "hash_input ps = hash_input qs"
  shows "ps = qs"
proof -
  have "filter (\<lambda>c. c = CHR 0x00) (concat ps) = []" using assms(1) by (auto simp: filter_empty_conv)
  with count_hash_input [of ps] count_hash_input [of qs] assms(2,3)
  have "filter (\<lambda>c. c = CHR 0x00) (concat qs) = []" by simp
  then have "\<forall>q \<in> set qs. CHR 0x00 \<notin> set q" by (auto simp: filter_empty_conv)
  with assms(1,3) show ?thesis by (simp add: hash_input_inject)
qed

lemma request_hash_collision:
  assumes "\<forall>p \<in> set ps. CHR 0x00 \<notin> set p" and "length ps = length qs"
    and "createPayoutRequestHash ps = createPayoutRequestHash qs" and "ps \<noteq> qs"
  shows "hash_input ps \<noteq> hash_input qs \<and> sha256 (hash_input ps) = sha256 (hash_input qs)"
  using assms hash_input_inject_length [OF assms(1,2)] by (auto simp: createPayoutRequestHash_def)

end
