(* ===== verification/Payout_Service.thy ===== *)
theory Payout_Service
  imports Queries Transactions Messages Request_Hash
begin

text \<open>
  The payout service of the API, \<open>internal/apps/api/services/payouts\<close>: the store it needs as a
  record of operations on a state, the transaction runners, and \<open>CreatePayout\<close>, \<open>GetPayout\<close> and
  \<open>ListPayouts\<close> with their helpers. Nothing here knows the database: the properties over it are
  in theory \<open>Payout_Creation\<close>.
\<close>

section \<open>Interfaces\<close>

text \<open>\<open>PayoutStore\<close>\<close>

record 's payout_store =
  ps_CreateIdempotencyKey :: "create_idempotency_params \<Rightarrow> ('s, idempotency_row) action"
  ps_CreateOutboxEvent :: "create_outbox_params \<Rightarrow> ('s, outbox_row) action"
  ps_CreatePayout :: "create_payout_params \<Rightarrow> ('s, payout_row) action"
  ps_GetFundingSourceByClientID :: "by_client_params \<Rightarrow> ('s, funding_source_row) action"
  ps_GetIdempotencyKey :: "get_idempotency_params \<Rightarrow> ('s, idempotency_row) action"
  ps_GetPayoutByClientID :: "by_client_params \<Rightarrow> ('s, payout_row) action"
  ps_ListPayoutsByClientID :: "page_params \<Rightarrow> ('s, payout_row list) action"

text \<open>The two implementations of \<open>TxRunner\<close>.\<close>

datatype 's payout_tx_runner =
    PassthroughTxRunner "'s payout_store option"
  | DBTxRunner "('s, 's payout_store) db_tx_runner option"

fun WithinTx :: "'s payout_tx_runner \<Rightarrow> ('s payout_store \<Rightarrow> ('s, 'a) action) \<Rightarrow> ('s, 'a) action" where
  "WithinTx (PassthroughTxRunner store) fn = passthrough_WithinTx store fn"
| "WithinTx (DBTxRunner r) fn = Payouts_WithinTx r fn"

record 's payout_service =
  svc_store :: "'s payout_store option"
  svc_txRunner :: "'s payout_tx_runner option"

record get_payout_input =
  gpi_ClientID :: bytes
  gpi_ID :: bytes

record list_payouts_input =
  lpi_ClientID :: bytes
  lpi_Limit :: "32 word"
  lpi_Offset :: "32 word"

record create_payout_input =
  in_ClientID :: bytes
  in_FundingSourceID :: bytes
  in_IdempotencyKey :: bytes
  in_ExternalID :: bytes
  in_RecipientName :: bytes
  in_RecipientAccountID :: bytes
  in_Amount :: bytes
  in_Currency :: bytes

text \<open>The service's own \<open>Payout\<close>.\<close>

record payout =
  po_ID :: bytes
  po_ClientID :: bytes
  po_FundingSourceID :: bytes
  po_ExternalID :: bytes
  po_RecipientName :: bytes
  po_RecipientAccountID :: bytes
  po_Amount :: bytes
  po_Currency :: bytes
  po_Status :: bytes
  po_FailureReason :: bytes
  po_CreatedAt :: timestamp
  po_UpdatedAt :: timestamp

definition Payouts_NewService :: "'s payout_store option \<Rightarrow> 's payout_service" where
  "Payouts_NewService store =
     \<lparr>svc_store = store, svc_txRunner = Some (PassthroughTxRunner store)\<rparr>"

definition NewServiceWithTx ::
  "'s payout_store option \<Rightarrow> 's payout_tx_runner option \<Rightarrow> 's payout_service" where
  "NewServiceWithTx store txRunner = \<lparr>svc_store = store, svc_txRunner = txRunner\<rparr>"

section \<open>Helpers\<close>

definition normalizeRequiredText :: "bytes \<Rightarrow> nat \<Rightarrow> bytes option" where
  "normalizeRequiredText raw maxLen =
     (let v = TrimSpace raw in if v = [] \<or> maxLen < length v then None else Some v)"

definition normalizeOptionalText :: "bytes \<Rightarrow> nat \<Rightarrow> bytes option" where
  "normalizeOptionalText raw maxLen =
     (let v = TrimSpace raw in if maxLen < length v then None else Some v)"

definition textParam :: "bytes \<Rightarrow> pg_text" where
  "textParam v = \<lparr>Text_String = v, Text_Valid = (v \<noteq> [])\<rparr>"

definition isUniqueConstraintViolation :: "go_error \<Rightarrow> bytes \<Rightarrow> bool" where
  "isUniqueConstraintViolation e constraint =
     (case e of PgError code name \<Rightarrow> code = ''23505'' \<and> name = constraint | _ \<Rightarrow> False)"

definition isUniqueViolation :: "go_error \<Rightarrow> bool" where
  "isUniqueViolation e = (case e of PgError code name \<Rightarrow> code = ''23505'' | _ \<Rightarrow> False)"

definition payoutFromDB :: "pgx_codec \<Rightarrow> payout_row \<Rightarrow> payout result" where
  "payoutFromDB codec p =
     res_bind (numericString (pay_Amount p)) (\<lambda>amount.
       Inr \<lparr>po_ID = UUIDString codec (pay_ID p), po_ClientID = UUIDString codec (pay_ClientID p),
            po_FundingSourceID = UUIDString codec (pay_FundingSourceID p),
            po_ExternalID = Text_String (pay_ExternalID p),
            po_RecipientName = Text_String (pay_RecipientName p),
            po_RecipientAccountID = Text_String (pay_RecipientAccountID p),
            po_Amount = amount, po_Currency = pay_Currency p, po_Status = pay_Status p,
            po_FailureReason = Text_String (pay_FailureReason p),
            po_CreatedAt = pay_CreatedAt p, po_UpdatedAt = pay_UpdatedAt p\<rparr>)"

text \<open>\<open>db.Payout{}\<close>; of its fields only the amount is ever looked at.\<close>

definition zero_payout_row :: payout_row where
  "zero_payout_row =
     \<lparr>pay_ID = 0, pay_ClientID = 0, pay_FundingSourceID = 0, pay_Amount = zero_numeric,
      pay_Currency = [], pay_Status = [], pay_CreatedAt = 0, pay_UpdatedAt = 0,
      pay_FailureReason = null_text, pay_ExternalID = null_text, pay_RecipientName = null_text,
      pay_RecipientAccountID = null_text\<rparr>"

definition marshalPayoutCreatedOutboxPayload :: "pgx_codec \<Rightarrow> payout_row \<Rightarrow> bytes result" where
  "marshalPayoutCreatedOutboxPayload codec p =
     MarshalProcessPayoutPayload (UUIDString codec (pay_ID p)) (UUIDString codec (pay_ClientID p))"

text \<open>\<open>Some\<close> payout is \<open>found = true\<close>, \<open>None\<close> is \<open>found = false\<close> without an error.\<close>

definition loadIdempotentPayout ::
  "'s payout_store \<Rightarrow> uuid \<Rightarrow> bytes \<Rightarrow> bytes \<Rightarrow> ('s, payout_row option) action" where
  "loadIdempotentPayout store clientID idempotencyKey requestHash s =
     (case ps_GetIdempotencyKey store \<lparr>gip_ClientID = clientID, gip_Key = idempotencyKey\<rparr> s of
        (Inl e, s1) \<Rightarrow> if e = ErrNoRows then (Inr None, s1) else (Inl e, s1)
      | (Inr k, s1) \<Rightarrow>
          if ik_RequestHash k \<noteq> requestHash then (Inl ErrIdempotencyConflict, s1)
          else
            (case ps_GetPayoutByClientID store \<lparr>bcp_ClientID = clientID, bcp_ID = ik_PayoutID k\<rparr> s1 of
               (Inl e, s2) \<Rightarrow> (Inl e, s2)
             | (Inr p, s2) \<Rightarrow> (Inr (Some p), s2)))"

section \<open>CreatePayout\<close>

text \<open>What \<open>CreatePayout\<close> computes from its input before it opens a transaction.\<close>

record create_payout_request =
  rq_clientID :: uuid
  rq_fundingSourceID :: uuid
  rq_externalID :: bytes
  rq_recipientName :: bytes
  rq_recipientAccountID :: bytes
  rq_amount :: numeric
  rq_currency :: bytes
  rq_idempotencyKey :: bytes
  rq_hash :: bytes

definition require :: "go_error \<Rightarrow> 'a option \<Rightarrow> 'a result" where
  "require e v = (case v of None \<Rightarrow> Inl e | Some x \<Rightarrow> Inr x)"

lemma require_iff [seq_simps]:
  "require e v = Inr x \<longleftrightarrow> v = Some x" "require e v = Inl e' \<longleftrightarrow> v = None \<and> e' = e"
  by (auto simp: require_def split: option.splits)

definition create_payout_request :: "pgx_codec \<Rightarrow> create_payout_input \<Rightarrow> create_payout_request result" where
  "create_payout_request codec inp =
     res_bind (require Payouts_ErrInvalidClientID (ParseUUID codec (in_ClientID inp))) (\<lambda>clientID.
     res_bind (require ErrInvalidFundingSourceID (ParseUUID codec (in_FundingSourceID inp))) (\<lambda>fundingSourceID.
     res_bind (require ErrInvalidPayout (normalizeOptionalText (in_ExternalID inp) 255)) (\<lambda>externalID.
     res_bind (require ErrInvalidPayout (normalizeRequiredText (in_RecipientName inp) 255)) (\<lambda>recipientName.
     res_bind (require ErrInvalidPayout (normalizeRequiredText (in_RecipientAccountID inp) 255)) (\<lambda>recipientAccountID.
     res_bind (case parsePositiveNumeric codec (in_Amount inp) of
                 Inl e \<Rightarrow> Inl ErrInvalidPayout | Inr amount \<Rightarrow> Inr amount) (\<lambda>amount.
     let currency = TrimSpace (in_Currency inp) in
     if currency = [] \<or> 12 < length currency then Inl ErrInvalidPayout
     else
       (let idempotencyKey = TrimSpace (in_IdempotencyKey inp) in
        if idempotencyKey = [] then Inl ErrInvalidIdempotencyKey
        else
          res_bind (numericString amount) (\<lambda>amountHashValue.
            Inr \<lparr>rq_clientID = clientID, rq_fundingSourceID = fundingSourceID,
                 rq_externalID = externalID, rq_recipientName = recipientName,
                 rq_recipientAccountID = recipientAccountID, rq_amount = amount,
                 rq_currency = currency, rq_idempotencyKey = idempotencyKey,
                 rq_hash = createPayoutRequestHash
                   [UUIDString codec clientID, UUIDString codec fundingSourceID, externalID,
                    recipientName, recipientAccountID, amountHashValue, currency]\<rparr>))))))))"

definition payout_params :: "create_payout_request \<Rightarrow> create_payout_params" where
  "payout_params rq =
     \<lparr>cpp_ClientID = rq_clientID rq, cpp_FundingSourceID = rq_fundingSourceID rq,
      cpp_ExternalID = textParam (rq_externalID rq),
      cpp_RecipientName = textParam (rq_recipientName rq),
      cpp_RecipientAccountID = textParam (rq_recipientAccountID rq),
      cpp_Amount = rq_amount rq, cpp_Currency = rq_currency rq\<rparr>"

text \<open>The function \<open>CreatePayout\<close> runs within the transaction.\<close>

definition create_payout_tx ::
  "pgx_codec \<Rightarrow> create_payout_request \<Rightarrow> 's payout_store \<Rightarrow> ('s, payout_row) action" where
  "create_payout_tx codec rq store =
     and_then (loadIdempotentPayout store (rq_clientID rq) (rq_idempotencyKey rq) (rq_hash rq)) (\<lambda>existing.
     case existing of
       Some p \<Rightarrow> ok p
     | None \<Rightarrow>
         and_then
           (map_error (\<lambda>e. if e = ErrNoRows then ErrFundingSourceNotFound else e)
             (ps_GetFundingSourceByClientID store
               \<lparr>bcp_ClientID = rq_clientID rq, bcp_ID = rq_fundingSourceID rq\<rparr>)) (\<lambda>_.
         and_then
           (map_error (\<lambda>e. if isUniqueConstraintViolation e ''ux_payouts_client_external_id''
                           then ErrDuplicateExternalID else e)
             (ps_CreatePayout store (payout_params rq))) (\<lambda>created.
         and_then
           (map_error (\<lambda>e. if isUniqueViolation e then ErrConcurrentIdempotencyKeyInsert else e)
             (ps_CreateIdempotencyKey store
               \<lparr>cip_Key = rq_idempotencyKey rq, cip_ClientID = rq_clientID rq,
                cip_RequestHash = rq_hash rq, cip_PayoutID = pay_ID created\<rparr>)) (\<lambda>_.
         and_then (lift_result (marshalPayoutCreatedOutboxPayload codec created)) (\<lambda>payload.
         and_then
           (ps_CreateOutboxEvent store
             \<lparr>cop_EventType = EventTypeProcessPayout, cop_EntityID = pay_ID created,
              cop_Payload = payload\<rparr>) (\<lambda>_.
         ok created))))))"

definition create_payout_run ::
  "pgx_codec \<Rightarrow> 's payout_store \<Rightarrow> 's payout_tx_runner \<Rightarrow> create_payout_request \<Rightarrow> ('s, payout_row) action" where
  "create_payout_run codec store txRunner rq s =
     (case WithinTx txRunner (create_payout_tx codec rq) s of
        (Inr p, s1) \<Rightarrow> (Inr p, s1)
      | (Inl e, s1) \<Rightarrow>
          if e = ErrConcurrentIdempotencyKeyInsert then
            (case loadIdempotentPayout store (rq_clientID rq) (rq_idempotencyKey rq) (rq_hash rq) s1 of
               (Inl e, s2) \<Rightarrow> (Inl e, s2)
             | (Inr None, s2) \<Rightarrow> (Inr zero_payout_row, s2)
             | (Inr (Some p), s2) \<Rightarrow> (Inr p, s2))
          else (Inl e, s1))"

definition Payouts_CreatePayout ::
  "pgx_codec \<Rightarrow> 's payout_service option \<Rightarrow> create_payout_input \<Rightarrow> ('s, payout) action" where
  "Payouts_CreatePayout codec svc inp =
     (case svc of
        None \<Rightarrow> fail (Errorf ''payout service is not configured'')
      | Some svc \<Rightarrow>
          (case (svc_store svc, svc_txRunner svc) of
             (Some store, Some txRunner) \<Rightarrow>
               and_then (lift_result (create_payout_request codec inp)) (\<lambda>rq.
               and_then (create_payout_run codec store txRunner rq) (\<lambda>p.
               lift_result (payoutFromDB codec p)))
           | _ \<Rightarrow> fail (Errorf ''payout service is not configured'')))"

section \<open>GetPayout and ListPayouts\<close>

definition Payouts_GetPayout ::
  "pgx_codec \<Rightarrow> 's payout_service option \<Rightarrow> get_payout_input \<Rightarrow> ('s, payout) action" where
  "Payouts_GetPayout codec svc inp =
     (case Option.bind svc svc_store of
        None \<Rightarrow> fail (Errorf ''payout service is not configured'')
      | Some store \<Rightarrow>
          and_then (lift_result (require Payouts_ErrInvalidClientID (ParseUUID codec (gpi_ClientID inp)))) (\<lambda>clientID.
          and_then (lift_result (require ErrInvalidPayoutID (ParseUUID codec (gpi_ID inp)))) (\<lambda>payoutID.
          and_then
            (map_error (\<lambda>e. if e = ErrNoRows then ErrPayoutNotFound else e)
              (ps_GetPayoutByClientID store \<lparr>bcp_ClientID = clientID, bcp_ID = payoutID\<rparr>)) (\<lambda>p.
          lift_result (payoutFromDB codec p)))))"

text \<open>The loop that maps the rows: the first error ends it.\<close>

fun map_results :: "('a \<Rightarrow> 'b result) \<Rightarrow> 'a list \<Rightarrow> 'b list result" where
  "map_results f [] = Inr []"
| "map_results f (x # xs) =
     res_bind (f x) (\<lambda>y. res_bind (map_results f xs) (\<lambda>ys. Inr (y # ys)))"

definition Payouts_ListPayouts ::
  "pgx_codec \<Rightarrow> 's payout_service option \<Rightarrow> list_payouts_input \<Rightarrow> ('s, payout list) action" where
  "Payouts_ListPayouts codec svc inp =
     (case Option.bind svc svc_store of
        None \<Rightarrow> fail (Errorf ''payout service is not configured'')
      | Some store \<Rightarrow>
          and_then (lift_result (require Payouts_ErrInvalidClientID (ParseUUID codec (lpi_ClientID inp)))) (\<lambda>clientID.
          if sint (lpi_Limit inp) \<le> 0 \<or> sint (lpi_Offset inp) < 0 then fail Payouts_ErrInvalidPagination
          else
            and_then
              (ps_ListPayoutsByClientID store
                \<lparr>pgp_ClientID = clientID, pgp_Limit = lpi_Limit inp, pgp_Offset = lpi_Offset inp\<rparr>) (\<lambda>rows.
            lift_result (map_results (payoutFromDB codec) rows))))"

lemma map_results_Inr:
  "map_results f xs = Inr ys \<longleftrightarrow> list_all2 (\<lambda>x y. f x = Inr y) xs ys"
  by (induction xs arbitrary: ys) (auto simp: seq_simps list_all2_Cons1)

end
