(* ===== verification/Client_Services.thy ===== *)
theory Client_Services
  imports Payout_Service
begin

text \<open>
  The other two services of the API: the funding sources of \<open>services/fundingsources\<close> and the
  authentication of \<open>services/auth\<close> with the client it puts into the request's context
  (\<open>internal/apps/api/auth/context.go\<close>).
\<close>

section \<open>Funding sources\<close>

record 's funding_source_store =
  fss_CreateFundingSource :: "create_funding_source_params \<Rightarrow> ('s, funding_source_row) action"
  fss_GetFundingSourceByClientID :: "by_client_params \<Rightarrow> ('s, funding_source_row) action"
  fss_ListFundingSourcesByClientID :: "page_params \<Rightarrow> ('s, funding_source_row list) action"

record 's funding_service =
  fsv_store :: "'s funding_source_store option"

record create_funding_source_input =
  cfi_ClientID :: bytes
  cfi_Name :: bytes
  cfi_Type :: bytes
  cfi_PaymentAccountID :: bytes

record get_funding_source_input =
  gfi_ClientID :: bytes
  gfi_ID :: bytes

record list_funding_sources_input =
  lfi_ClientID :: bytes
  lfi_Limit :: "32 word"
  lfi_Offset :: "32 word"

record funding_source =
  fo_ID :: bytes
  fo_ClientID :: bytes
  fo_Name :: bytes
  fo_Type :: bytes
  fo_PaymentAccountID :: bytes
  fo_Status :: bytes
  fo_CreatedAt :: timestamp
  fo_UpdatedAt :: timestamp

definition Funding_NewService :: "'s funding_source_store option \<Rightarrow> 's funding_service" where
  "Funding_NewService store = \<lparr>fsv_store = store\<rparr>"

definition fundingSourceFromDB :: "pgx_codec \<Rightarrow> funding_source_row \<Rightarrow> funding_source" where
  "fundingSourceFromDB codec r =
     \<lparr>fo_ID = UUIDString codec (fs_ID r), fo_ClientID = UUIDString codec (fs_ClientID r),
      fo_Name = fs_Name r, fo_Type = fs_Type r, fo_PaymentAccountID = fs_PaymentAccountID r,
      fo_Status = fs_Status r, fo_CreatedAt = fs_CreatedAt r, fo_UpdatedAt = fs_UpdatedAt r\<rparr>"

definition Funding_CreateFundingSource ::
  "pgx_codec \<Rightarrow> 's funding_service option \<Rightarrow> create_funding_source_input \<Rightarrow> ('s, funding_source) action" where
  "Funding_CreateFundingSource codec svc inp =
     (case Option.bind svc fsv_store of
        None \<Rightarrow> fail (Errorf ''funding source service is not configured'')
      | Some store \<Rightarrow>
          (let name = TrimSpace (cfi_Name inp);
               sourceType = TrimSpace (cfi_Type inp);
               paymentAccountID = TrimSpace (cfi_PaymentAccountID inp)
           in if name = [] \<or> sourceType = [] \<or> paymentAccountID = [] then fail ErrInvalidFundingSource
              else
                and_then (lift_result (require Funding_ErrInvalidClientID (ParseUUID codec (cfi_ClientID inp)))) (\<lambda>clientID.
                and_then
                  (fss_CreateFundingSource store
                    \<lparr>cfp_ClientID = clientID, cfp_Name = name, cfp_Type = sourceType,
                     cfp_PaymentAccountID = paymentAccountID\<rparr>) (\<lambda>source.
                ok (fundingSourceFromDB codec source)))))"

definition Funding_GetFundingSource ::
  "pgx_codec \<Rightarrow> 's funding_service option \<Rightarrow> get_funding_source_input \<Rightarrow> ('s, funding_source) action" where
  "Funding_GetFundingSource codec svc inp =
     (case Option.bind svc fsv_store of
        None \<Rightarrow> fail (Errorf ''funding source service is not configured'')
      | Some store \<Rightarrow>
          and_then (lift_result (require Funding_ErrInvalidClientID (ParseUUID codec (gfi_ClientID inp)))) (\<lambda>clientID.
          and_then (lift_result (require ErrInvalidSourceID (ParseUUID codec (gfi_ID inp)))) (\<lambda>sourceID.
          and_then
            (map_error (\<lambda>e. if e = ErrNoRows then Funding_ErrFundingSourceNotFound else e)
              (fss_GetFundingSourceByClientID store \<lparr>bcp_ClientID = clientID, bcp_ID = sourceID\<rparr>)) (\<lambda>source.
          ok (fundingSourceFromDB codec source)))))"

definition Funding_ListFundingSources ::
  "pgx_codec \<Rightarrow> 's funding_service option \<Rightarrow> list_funding_sources_input \<Rightarrow> ('s, funding_source list) action" where
  "Funding_ListFundingSources codec svc inp =
     (case Option.bind svc fsv_store of
        None \<Rightarrow> fail (Errorf ''funding source service is not configured'')
      | Some store \<Rightarrow>
          and_then (lift_result (require Funding_ErrInvalidClientID (ParseUUID codec (lfi_ClientID inp)))) (\<lambda>clientID.
          if sint (lfi_Limit inp) \<le> 0 \<or> sint (lfi_Offset inp) < 0 then fail Funding_ErrInvalidPagination
          else
            and_then
              (fss_ListFundingSourcesByClientID store
                \<lparr>pgp_ClientID = clientID, pgp_Limit = lfi_Limit inp, pgp_Offset = lfi_Offset inp\<rparr>) (\<lambda>sources.
            ok (map (fundingSourceFromDB codec) sources))))"

section \<open>Authentication\<close>

text \<open>\<open>apiauth.Client\<close>; the request's context carries at most one.\<close>

record auth_client =
  ac_ID :: bytes
  ac_Name :: bytes

record request_context =
  cx_client :: "auth_client option"

definition WithClient :: "request_context \<Rightarrow> auth_client \<Rightarrow> request_context" where
  "WithClient ctx client = ctx\<lparr>cx_client := Some client\<rparr>"

definition ClientFromContext :: "request_context \<Rightarrow> auth_client option" where
  "ClientFromContext ctx = cx_client ctx"

lemma ClientFromContext_WithClient [simp]: "ClientFromContext (WithClient ctx c) = Some c"
  by (simp add: ClientFromContext_def WithClient_def)

record 's client_store =
  cls_GetClientByApiKey :: "uuid \<Rightarrow> ('s, client_row) action"

record 's auth_service =
  asv_clients :: "'s client_store option"

definition Auth_NewService :: "'s client_store option \<Rightarrow> 's auth_service" where
  "Auth_NewService clients = \<lparr>asv_clients = clients\<rparr>"

definition AuthenticateAPIKey ::
  "pgx_codec \<Rightarrow> 's auth_service option \<Rightarrow> bytes \<Rightarrow> ('s, auth_client) action" where
  "AuthenticateAPIKey codec svc rawAPIKey =
     (case Option.bind svc asv_clients of
        None \<Rightarrow> fail (Errorf ''auth service is not configured'')
      | Some clients \<Rightarrow>
          (case ScanUUID codec rawAPIKey of
             None \<Rightarrow> fail ErrInvalidAPIKey
           | Some apiKey \<Rightarrow>
               and_then
                 (map_error (\<lambda>e. if e = ErrNoRows then ErrUnauthorized else e)
                   (cls_GetClientByApiKey clients apiKey)) (\<lambda>client.
               ok \<lparr>ac_ID = UUIDString codec (cl_ID client), ac_Name = cl_Name client\<rparr>)))"

end
