(* ===== verification/Http_Api.thy ===== *)
theory Http_Api
  imports Client_Services
begin

text \<open>
  The HTTP layer of the API: the handlers of \<open>internal/apps/api/handlers\<close>, the API-key middleware and
  the router of \<open>cmd/api/router.go\<close>. A request is what the handlers read of an \<open>http.Request\<close>; a
  response is its status, its content type and its body. The text of a time is a parameter (it
  depends on the time zone of the process).
\<close>

section \<open>Requests and responses\<close>

text \<open>
  \<open>hr_Header\<close> and \<open>hr_Query\<close> give the first value of a header or query parameter, the empty string
  when there is none. \<open>hr_Segments\<close> is the cleaned path, split at the slashes and unescaped.
\<close>

record http_request =
  hr_Method :: bytes
  hr_Segments :: "bytes list"
  hr_Header :: "bytes \<Rightarrow> bytes"
  hr_Query :: "bytes \<Rightarrow> bytes"
  hr_Body :: bytes
  hr_Context :: request_context

record http_response =
  rs_Status :: nat
  rs_ContentType :: bytes
  rs_Body :: bytes

text \<open>A handler is given the path values the pattern bound.\<close>

type_synonym 's handler = "(bytes \<Rightarrow> bytes) \<Rightarrow> http_request \<Rightarrow> 's \<Rightarrow> http_response \<times> 's"

definition http_error :: "bytes \<Rightarrow> nat \<Rightarrow> http_response" where
  "http_error message code =
     \<lparr>rs_Status = code, rs_ContentType = ''text/plain; charset=utf-8'', rs_Body = message @ [CHR 0x0A]\<rparr>"

text \<open>\<open>json.NewEncoder(w).Encode(v)\<close> of a value whose text is \<open>doc\<close>; it ends with a newline.\<close>

definition json_response :: "nat \<Rightarrow> bytes \<Rightarrow> http_response" where
  "json_response code doc =
     \<lparr>rs_Status = code, rs_ContentType = ''application/json'', rs_Body = doc @ [CHR 0x0A]\<rparr>"

text \<open>A member with \<open>omitempty\<close>.\<close>

definition optional_member :: "bytes \<Rightarrow> bytes \<Rightarrow> (bytes \<times> bytes) list" where
  "optional_member name v = (if v = [] then [] else [(name, json_string v)])"

section \<open>request_helpers.go\<close>

definition int32QueryParam :: "http_request \<Rightarrow> bytes \<Rightarrow> int \<Rightarrow> int result" where
  "int32QueryParam r name defaultValue =
     (let raw = hr_Query r name
      in if raw = [] then Inr defaultValue
         else (case ParseInt32 raw of None \<Rightarrow> Inl (Errorf ''strconv.ParseInt'') | Some v \<Rightarrow> Inr v))"

definition paginationParams :: "http_request \<Rightarrow> int \<Rightarrow> int \<Rightarrow> (int \<times> int) result" where
  "paginationParams r defaultLimit maxLimit =
     res_bind (int32QueryParam r ''limit'' defaultLimit) (\<lambda>limit.
     if limit \<le> 0 \<or> limit > maxLimit then Inl Handlers_ErrInvalidPagination
     else
       res_bind (int32QueryParam r ''offset'' 0) (\<lambda>offset.
       if offset < 0 then Inl Handlers_ErrInvalidPagination else Inr (limit, offset)))"

section \<open>clients.go\<close>

definition client_doc :: "auth_client \<Rightarrow> bytes" where
  "client_doc c = object_text [(''id'', json_string (ac_ID c)), (''name'', json_string (ac_Name c))]"

definition GetCurrentClient :: "'s handler" where
  "GetCurrentClient pv r s =
     (case ClientFromContext (hr_Context r) of
        None \<Rightarrow> (http_error ''client not found in context'' 500, s)
      | Some client \<Rightarrow> (json_response 200 (client_doc client), s))"

section \<open>payouts.go\<close>

definition defaultPayoutListLimit :: int where "defaultPayoutListLimit = 50"

definition maxPayoutListLimit :: int where "maxPayoutListLimit = 100"

definition idempotencyKeyHeader :: bytes where "idempotencyKeyHeader = ''Idempotency-Key''"

text \<open>\<open>PayoutReadService\<close>\<close>

record 's payout_read_service =
  prs_CreatePayout :: "create_payout_input \<Rightarrow> ('s, payout) action"
  prs_GetPayout :: "get_payout_input \<Rightarrow> ('s, payout) action"
  prs_ListPayouts :: "list_payouts_input \<Rightarrow> ('s, payout list) action"

record payout_request_body =
  prb_FundingSourceID :: bytes
  prb_ExternalID :: bytes
  prb_RecipientName :: bytes
  prb_RecipientAccountID :: bytes
  prb_Amount :: bytes
  prb_Currency :: bytes

definition zero_payout_request_body :: payout_request_body where
  "zero_payout_request_body =
     \<lparr>prb_FundingSourceID = [], prb_ExternalID = [], prb_RecipientName = [], prb_RecipientAccountID = [],
      prb_Amount = [], prb_Currency = []\<rparr>"

definition payout_request_fields :: "payout_request_body field list" where
  "payout_request_fields =
     [(''funding_source_id'', text_field (\<lambda>v b. b\<lparr>prb_FundingSourceID := v\<rparr>)),
      (''external_id'', text_field (\<lambda>v b. b\<lparr>prb_ExternalID := v\<rparr>)),
      (''recipient_name'', text_field (\<lambda>v b. b\<lparr>prb_RecipientName := v\<rparr>)),
      (''recipient_account_id'', text_field (\<lambda>v b. b\<lparr>prb_RecipientAccountID := v\<rparr>)),
      (''amount'', text_field (\<lambda>v b. b\<lparr>prb_Amount := v\<rparr>)),
      (''currency'', text_field (\<lambda>v b. b\<lparr>prb_Currency := v\<rparr>))]"

text \<open>\<open>payoutResponse\<close> and its JSON: the members of the tags, in order.\<close>

record payout_response =
  prr_ID :: bytes
  prr_ClientID :: bytes
  prr_FundingSourceID :: bytes
  prr_ExternalID :: bytes
  prr_RecipientName :: bytes
  prr_RecipientAccountID :: bytes
  prr_Amount :: bytes
  prr_Currency :: bytes
  prr_Status :: bytes
  prr_FailureReason :: bytes
  prr_CreatedAt :: bytes
  prr_UpdatedAt :: bytes

definition payoutResponseFromService :: "(timestamp \<Rightarrow> bytes) \<Rightarrow> payout \<Rightarrow> payout_response" where
  "payoutResponseFromService time_text p =
     \<lparr>prr_ID = po_ID p, prr_ClientID = po_ClientID p, prr_FundingSourceID = po_FundingSourceID p,
      prr_ExternalID = po_ExternalID p, prr_RecipientName = po_RecipientName p,
      prr_RecipientAccountID = po_RecipientAccountID p, prr_Amount = po_Amount p,
      prr_Currency = po_Currency p, prr_Status = po_Status p, prr_FailureReason = po_FailureReason p,
      prr_CreatedAt = time_text (po_CreatedAt p), prr_UpdatedAt = time_text (po_UpdatedAt p)\<rparr>"

definition payout_doc :: "payout_response \<Rightarrow> bytes" where
  "payout_doc p = object_text
     ([(''id'', json_string (prr_ID p)), (''client_id'', json_string (prr_ClientID p)),
       (''funding_source_id'', json_string (prr_FundingSourceID p))] @
      optional_member ''external_id'' (prr_ExternalID p) @
      optional_member ''recipient_name'' (prr_RecipientName p) @
      optional_member ''recipient_account_id'' (prr_RecipientAccountID p) @
      [(''amount'', json_string (prr_Amount p)), (''currency'', json_string (prr_Currency p)),
       (''status'', json_string (prr_Status p))] @
      optional_member ''failure_reason'' (prr_FailureReason p) @
      [(''created_at'', json_string (prr_CreatedAt p)), (''updated_at'', json_string (prr_UpdatedAt p))])"

text \<open>The status and message of each error of \<open>CreatePayout\<close>.\<close>

definition create_payout_error :: "go_error \<Rightarrow> http_response" where
  "create_payout_error err =
     (if err \<in> {ErrInvalidPayout, ErrInvalidFundingSourceID, ErrInvalidIdempotencyKey}
      then http_error ''invalid payout'' 400
      else if err = ErrIdempotencyConflict then http_error ''idempotency conflict'' 409
      else if err = ErrDuplicateExternalID then http_error ''duplicate external id'' 409
      else if err = ErrFundingSourceNotFound then http_error ''funding source not found'' 404
      else if err = Payouts_ErrInvalidClientID then http_error ''client not found in context'' 500
      else http_error ''internal server error'' 500)"

definition CreatePayout_handler ::
  "(timestamp \<Rightarrow> bytes) \<Rightarrow> 's payout_read_service option \<Rightarrow> 's handler" where
  "CreatePayout_handler time_text service pv r s =
     (case service of
        None \<Rightarrow> (http_error ''payout handler is not configured'' 500, s)
      | Some svc \<Rightarrow>
          (case ClientFromContext (hr_Context r) of
             None \<Rightarrow> (http_error ''client not found in context'' 500, s)
           | Some client \<Rightarrow>
               (let idempotencyKey = TrimSpace (hr_Header r idempotencyKeyHeader)
                in if idempotencyKey = [] then (http_error ''idempotency key is required'' 400, s)
                   else
                     (case Decode True payout_request_fields zero_payout_request_body (hr_Body r) of
                        None \<Rightarrow> (http_error ''invalid request body'' 400, s)
                      | Some req \<Rightarrow>
                          (case prs_CreatePayout svc
                             \<lparr>in_ClientID = ac_ID client, in_FundingSourceID = prb_FundingSourceID req,
                              in_IdempotencyKey = idempotencyKey, in_ExternalID = prb_ExternalID req,
                              in_RecipientName = prb_RecipientName req,
                              in_RecipientAccountID = prb_RecipientAccountID req,
                              in_Amount = prb_Amount req, in_Currency = prb_Currency req\<rparr> s of
                             (Inl err, s1) \<Rightarrow> (create_payout_error err, s1)
                           | (Inr p, s1) \<Rightarrow> (json_response 201 (payout_doc (payoutResponseFromService time_text p)), s1))))))"

definition GetPayout_handler ::
  "(timestamp \<Rightarrow> bytes) \<Rightarrow> 's payout_read_service option \<Rightarrow> 's handler" where
  "GetPayout_handler time_text service pv r s =
     (case service of
        None \<Rightarrow> (http_error ''payout handler is not configured'' 500, s)
      | Some svc \<Rightarrow>
          (case ClientFromContext (hr_Context r) of
             None \<Rightarrow> (http_error ''client not found in context'' 500, s)
           | Some client \<Rightarrow>
               (case prs_GetPayout svc \<lparr>gpi_ClientID = ac_ID client, gpi_ID = pv ''id''\<rparr> s of
                  (Inl err, s1) \<Rightarrow>
                    (if err = ErrPayoutNotFound then http_error ''payout not found'' 404
                     else if err = ErrInvalidPayoutID then http_error ''invalid payout id'' 400
                     else if err = Payouts_ErrInvalidClientID then http_error ''client not found in context'' 500
                     else http_error ''internal server error'' 500, s1)
                | (Inr p, s1) \<Rightarrow> (json_response 200 (payout_doc (payoutResponseFromService time_text p)), s1))))"

definition payoutPagination :: "http_request \<Rightarrow> (int \<times> int) result" where
  "payoutPagination r =
     (case paginationParams r defaultPayoutListLimit maxPayoutListLimit of
        Inl _ \<Rightarrow> Inl Payouts_ErrInvalidPagination
      | Inr p \<Rightarrow> Inr p)"

definition ListPayouts_handler ::
  "(timestamp \<Rightarrow> bytes) \<Rightarrow> 's payout_read_service option \<Rightarrow> 's handler" where
  "ListPayouts_handler time_text service pv r s =
     (case service of
        None \<Rightarrow> (http_error ''payout handler is not configured'' 500, s)
      | Some svc \<Rightarrow>
          (case ClientFromContext (hr_Context r) of
             None \<Rightarrow> (http_error ''client not found in context'' 500, s)
           | Some client \<Rightarrow>
               (case payoutPagination r of
                  Inl _ \<Rightarrow> (http_error ''invalid pagination'' 400, s)
                | Inr (limit, offset) \<Rightarrow>
                    (case prs_ListPayouts svc
                       \<lparr>lpi_ClientID = ac_ID client, lpi_Limit = word_of_int limit, lpi_Offset = word_of_int offset\<rparr> s of
                       (Inl err, s1) \<Rightarrow>
                         (if err = Payouts_ErrInvalidPagination then http_error ''invalid pagination'' 400
                          else if err = Payouts_ErrInvalidClientID then http_error ''client not found in context'' 500
                          else http_error ''internal server error'' 500, s1)
                     | (Inr ps, s1) \<Rightarrow>
                         (json_response 200
                           (array_text (map payout_doc (map (payoutResponseFromService time_text) ps))), s1)))))"


section \<open>funding_sources.go\<close>

definition defaultFundingSourceListLimit :: int where "defaultFundingSourceListLimit = 50"

definition maxFundingSourceListLimit :: int where "maxFundingSourceListLimit = 100"

record 's funding_source_service =
  fsr_CreateFundingSource :: "create_funding_source_input \<Rightarrow> ('s, funding_source) action"
  fsr_GetFundingSource :: "get_funding_source_input \<Rightarrow> ('s, funding_source) action"
  fsr_ListFundingSources :: "list_funding_sources_input \<Rightarrow> ('s, funding_source list) action"

record funding_source_body =
  fsb_Name :: bytes
  fsb_Type :: bytes
  fsb_PaymentAccountID :: bytes

definition zero_funding_source_body :: funding_source_body where
  "zero_funding_source_body = \<lparr>fsb_Name = [], fsb_Type = [], fsb_PaymentAccountID = []\<rparr>"

definition funding_source_fields :: "funding_source_body field list" where
  "funding_source_fields =
     [(''name'', text_field (\<lambda>v b. b\<lparr>fsb_Name := v\<rparr>)),
      (''type'', text_field (\<lambda>v b. b\<lparr>fsb_Type := v\<rparr>)),
      (''payment_account_id'', text_field (\<lambda>v b. b\<lparr>fsb_PaymentAccountID := v\<rparr>))]"

record funding_source_response =
  fsp_ID :: bytes
  fsp_ClientID :: bytes
  fsp_Name :: bytes
  fsp_Type :: bytes
  fsp_PaymentAccountID :: bytes
  fsp_Status :: bytes
  fsp_CreatedAt :: bytes
  fsp_UpdatedAt :: bytes

definition fundingSourceResponseFromService ::
  "(timestamp \<Rightarrow> bytes) \<Rightarrow> funding_source \<Rightarrow> funding_source_response" where
  "fundingSourceResponseFromService time_text f =
     \<lparr>fsp_ID = fo_ID f, fsp_ClientID = fo_ClientID f, fsp_Name = fo_Name f, fsp_Type = fo_Type f,
      fsp_PaymentAccountID = fo_PaymentAccountID f, fsp_Status = fo_Status f,
      fsp_CreatedAt = time_text (fo_CreatedAt f), fsp_UpdatedAt = time_text (fo_UpdatedAt f)\<rparr>"

definition funding_source_doc :: "funding_source_response \<Rightarrow> bytes" where
  "funding_source_doc f = object_text
     [(''id'', json_string (fsp_ID f)), (''client_id'', json_string (fsp_ClientID f)),
      (''name'', json_string (fsp_Name f)), (''type'', json_string (fsp_Type f)),
      (''payment_account_id'', json_string (fsp_PaymentAccountID f)),
      (''status'', json_string (fsp_Status f)),
      (''created_at'', json_string (fsp_CreatedAt f)), (''updated_at'', json_string (fsp_UpdatedAt f))]"

definition CreateFundingSource_handler ::
  "(timestamp \<Rightarrow> bytes) \<Rightarrow> 's funding_source_service option \<Rightarrow> 's handler" where
  "CreateFundingSource_handler time_text service pv r s =
     (case service of
        None \<Rightarrow> (http_error ''funding source handler is not configured'' 500, s)
      | Some svc \<Rightarrow>
          (case ClientFromContext (hr_Context r) of
             None \<Rightarrow> (http_error ''client not found in context'' 500, s)
           | Some client \<Rightarrow>
               (case Decode True funding_source_fields zero_funding_source_body (hr_Body r) of
                  None \<Rightarrow> (http_error ''invalid request body'' 400, s)
                | Some req \<Rightarrow>
                    (case fsr_CreateFundingSource svc
                       \<lparr>cfi_ClientID = ac_ID client, cfi_Name = fsb_Name req, cfi_Type = fsb_Type req,
                        cfi_PaymentAccountID = fsb_PaymentAccountID req\<rparr> s of
                       (Inl err, s1) \<Rightarrow>
                         (if err = ErrInvalidFundingSource then http_error ''invalid funding source'' 400
                          else if err = Funding_ErrInvalidClientID then http_error ''client not found in context'' 500
                          else http_error ''internal server error'' 500, s1)
                     | (Inr f, s1) \<Rightarrow> (json_response 201 (funding_source_doc (fundingSourceResponseFromService time_text f)), s1)))))"

definition GetFundingSource_handler ::
  "(timestamp \<Rightarrow> bytes) \<Rightarrow> 's funding_source_service option \<Rightarrow> 's handler" where
  "GetFundingSource_handler time_text service pv r s =
     (case service of
        None \<Rightarrow> (http_error ''funding source handler is not configured'' 500, s)
      | Some svc \<Rightarrow>
          (case ClientFromContext (hr_Context r) of
             None \<Rightarrow> (http_error ''client not found in context'' 500, s)
           | Some client \<Rightarrow>
               (case fsr_GetFundingSource svc \<lparr>gfi_ClientID = ac_ID client, gfi_ID = pv ''id''\<rparr> s of
                  (Inl err, s1) \<Rightarrow>
                    (if err = Funding_ErrFundingSourceNotFound then http_error ''funding source not found'' 404
                     else if err = ErrInvalidSourceID then http_error ''invalid funding source id'' 400
                     else if err = Funding_ErrInvalidClientID then http_error ''client not found in context'' 500
                     else http_error ''internal server error'' 500, s1)
                | (Inr f, s1) \<Rightarrow> (json_response 200 (funding_source_doc (fundingSourceResponseFromService time_text f)), s1))))"

definition fundingSourcePagination :: "http_request \<Rightarrow> (int \<times> int) result" where
  "fundingSourcePagination r =
     (case paginationParams r defaultFundingSourceListLimit maxFundingSourceListLimit of
        Inl _ \<Rightarrow> Inl Funding_ErrInvalidPagination
      | Inr p \<Rightarrow> Inr p)"

definition ListFundingSources_handler ::
  "(timestamp \<Rightarrow> bytes) \<Rightarrow> 's funding_source_service option \<Rightarrow> 's handler" where
  "ListFundingSources_handler time_text service pv r s =
     (case service of
        None \<Rightarrow> (http_error ''funding source handler is not configured'' 500, s)
      | Some svc \<Rightarrow>
          (case ClientFromContext (hr_Context r) of
             None \<Rightarrow> (http_error ''client not found in context'' 500, s)
           | Some client \<Rightarrow>
               (case fundingSourcePagination r of
                  Inl _ \<Rightarrow> (http_error ''invalid pagination'' 400, s)
                | Inr (limit, offset) \<Rightarrow>
                    (case fsr_ListFundingSources svc
                       \<lparr>lfi_ClientID = ac_ID client, lfi_Limit = word_of_int limit, lfi_Offset = word_of_int offset\<rparr> s of
                       (Inl err, s1) \<Rightarrow>
                         (if err = Funding_ErrInvalidPagination then http_error ''invalid pagination'' 400
                          else if err = Funding_ErrInvalidClientID then http_error ''client not found in context'' 500
                          else http_error ''internal server error'' 500, s1)
                     | (Inr fs, s1) \<Rightarrow>
                         (json_response 200
                           (array_text (map funding_source_doc (map (fundingSourceResponseFromService time_text) fs))), s1)))))"

section \<open>middleware/api_key.go\<close>

definition apiKeyHeader :: bytes where "apiKeyHeader = ''X-API-Key''"

type_synonym 's authenticator = "bytes \<Rightarrow> ('s, auth_client) action"

definition APIKey :: "'s authenticator option \<Rightarrow> 's handler \<Rightarrow> 's handler" where
  "APIKey authenticator next pv r s =
     (case authenticator of
        None \<Rightarrow> (http_error ''auth middleware is not configured'' 500, s)
      | Some authenticate \<Rightarrow>
          (let apiKey = hr_Header r apiKeyHeader
           in if apiKey = [] then (http_error ''missing api key'' 401, s)
              else
                (case authenticate apiKey s of
                   (Inl err, s1) \<Rightarrow>
                     (if err = ErrInvalidAPIKey \<or> err = ErrUnauthorized then http_error ''unauthorized'' 401
                      else http_error ''internal server error'' 500, s1)
                 | (Inr client, s1) \<Rightarrow>
                     next pv (r\<lparr>hr_Context := WithClient (hr_Context r) client\<rparr>) s1)))"

section \<open>router.go\<close>

text \<open>A pattern of the mux: a method, and segments that are literal or bind a name.\<close>

datatype segment = Literal bytes | Wildcard bytes

record 's route =
  rt_Method :: bytes
  rt_Pattern :: "segment list"
  rt_Handler :: "'s handler"

definition healthz :: "'s handler" where
  "healthz pv r s = (\<lparr>rs_Status = 200, rs_ContentType = ''text/plain; charset=utf-8'', rs_Body = ''ok''\<rparr>, s)"

definition NewRouter ::
  "'s handler \<Rightarrow> 's handler \<Rightarrow> 's handler \<Rightarrow> 's handler \<Rightarrow> 's handler \<Rightarrow> 's handler \<Rightarrow> 's handler \<Rightarrow>
   ('s handler \<Rightarrow> 's handler) \<Rightarrow> 's route list" where
  "NewRouter currentClient listSources getSource createSource listPayouts getPayout createPayout authMW =
     (let protected = (\<lambda>method pattern h. \<lparr>rt_Method = method, rt_Pattern = pattern, rt_Handler = authMW h\<rparr>)
      in [\<lparr>rt_Method = ''GET'', rt_Pattern = [Literal ''healthz''], rt_Handler = healthz\<rparr>,
          protected ''GET'' [Literal ''clients'', Literal ''me''] currentClient,
          protected ''GET'' [Literal ''funding-sources''] listSources,
          protected ''GET'' [Literal ''funding-sources'', Wildcard ''id''] getSource,
          protected ''POST'' [Literal ''funding-sources''] createSource,
          protected ''GET'' [Literal ''payouts''] listPayouts,
          protected ''GET'' [Literal ''payouts'', Wildcard ''id''] getPayout,
          protected ''POST'' [Literal ''payouts''] createPayout])"

text \<open>
  The mux: a wildcard binds one nonempty segment, a \<open>GET\<close> pattern also serves \<open>HEAD\<close>; without a
  route for the method the answer is 405, without a route for the path 404. No two patterns of the
  router match one request, so their order does not matter.
\<close>

fun match_path :: "segment list \<Rightarrow> bytes list \<Rightarrow> (bytes \<Rightarrow> bytes) option" where
  "match_path [] [] = Some (\<lambda>_. [])"
| "match_path (Literal l # ps) (s # ss) = (if l = s then match_path ps ss else None)"
| "match_path (Wildcard n # ps) (s # ss) =
     (if s = [] then None else map_option (\<lambda>pv. pv(n := s)) (match_path ps ss))"
| "match_path _ _ = None"

definition match_method :: "bytes \<Rightarrow> bytes \<Rightarrow> bool" where
  "match_method pattern method \<longleftrightarrow> pattern = method \<or> pattern = ''GET'' \<and> method = ''HEAD''"

definition ServeHTTP :: "'s route list \<Rightarrow> http_request \<Rightarrow> 's \<Rightarrow> http_response \<times> 's" where
  "ServeHTTP routes r s =
     (case filter (\<lambda>rt. match_path (rt_Pattern rt) (hr_Segments r) \<noteq> None) routes of
        [] \<Rightarrow> (http_error ''404 page not found'' 404, s)
      | rts \<Rightarrow>
          (case find (\<lambda>rt. match_method (rt_Method rt) (hr_Method r)) rts of
             None \<Rightarrow> (http_error ''Method Not Allowed'' 405, s)
           | Some rt \<Rightarrow> rt_Handler rt (the (match_path (rt_Pattern rt) (hr_Segments r))) r s))"

end
