(* ===== verification/Database_Invariant.thy ===== *)
theory Database_Invariant
  imports Queries
begin

text \<open>
  What the statements keep true of the database. \<open>wf_db\<close> collects the constraints of the
  migrations as an invariant of the tables; \<open>db_extends\<close> says how the tables may grow: rows are
  only added, and the columns that identify a payout, an event or an idempotency key never
  change. Every statement of theory \<open>Queries\<close> keeps both; the collections \<open>keeps_wf\<close> and
  \<open>keeps_ext\<close> hand these facts to the services, whose transactions are sequences of statements.
\<close>

named_theorems keeps_wf \<open>statements that keep the database well-formed\<close>

named_theorems keeps_ext \<open>statements that only extend the database\<close>

section \<open>Well-formed tables\<close>

definition client_ids :: "db \<Rightarrow> uuid set" where
  "client_ids d = set (map cl_ID (tbl_clients d))"

definition funding_source_ids :: "db \<Rightarrow> uuid set" where
  "funding_source_ids d = set (map fs_ID (tbl_funding_sources d))"

definition payout_ids :: "db \<Rightarrow> uuid set" where
  "payout_ids d = set (map pay_ID (tbl_payouts d))"

definition wf_clients :: "client_row list \<Rightarrow> bool" where
  "wf_clients rows \<longleftrightarrow> distinct (map cl_ID rows) \<and> distinct (map cl_ApiKey rows)"

definition funding_source_ok :: "uuid set \<Rightarrow> funding_source_row \<Rightarrow> bool" where
  "funding_source_ok cids r \<longleftrightarrow>
     fs_ClientID r \<in> cids \<and> fs_Status r \<in> set funding_source_statuses"

definition wf_funding_sources :: "uuid set \<Rightarrow> funding_source_row list \<Rightarrow> bool" where
  "wf_funding_sources cids rows \<longleftrightarrow>
     distinct (map fs_ID rows) \<and> (\<forall>r \<in> set rows. funding_source_ok cids r)"

text \<open>An amount in the table: a positive number of hundredths below \<open>10^10\<close>.\<close>

definition stored_amount :: "numeric \<Rightarrow> bool" where
  "stored_amount v \<longleftrightarrow> (\<exists>h. 0 < h \<and> h < 10 ^ 10 \<and> v = mk_numeric h (- 2))"

definition payout_ok :: "uuid set \<Rightarrow> uuid set \<Rightarrow> payout_row \<Rightarrow> bool" where
  "payout_ok cids fids p \<longleftrightarrow>
     pay_ClientID p \<in> cids \<and> pay_FundingSourceID p \<in> fids \<and>
     pay_Status p \<in> set payout_statuses \<and> stored_amount (pay_Amount p)"

definition wf_payouts :: "uuid set \<Rightarrow> uuid set \<Rightarrow> payout_row list \<Rightarrow> bool" where
  "wf_payouts cids fids rows \<longleftrightarrow>
     distinct (map pay_ID rows) \<and>
     distinct (filter (\<lambda>x. x \<noteq> None) (map indexed_external_id rows)) \<and>
     (\<forall>p \<in> set rows. payout_ok cids fids p)"

definition idempotency_key_ok :: "uuid set \<Rightarrow> uuid set \<Rightarrow> idempotency_row \<Rightarrow> bool" where
  "idempotency_key_ok cids pids k \<longleftrightarrow>
     ik_Key k \<noteq> '''' \<and> ik_RequestHash k \<noteq> '''' \<and> ik_ClientID k \<in> cids \<and> ik_PayoutID k \<in> pids"

definition wf_idempotency_keys :: "uuid set \<Rightarrow> uuid set \<Rightarrow> idempotency_row list \<Rightarrow> bool" where
  "wf_idempotency_keys cids pids rows \<longleftrightarrow>
     distinct (map (\<lambda>k. (ik_ClientID k, ik_Key k)) rows) \<and> distinct (map ik_PayoutID rows) \<and>
     (\<forall>k \<in> set rows. idempotency_key_ok cids pids k)"

definition outbox_ok :: "uuid set \<Rightarrow> outbox_row \<Rightarrow> bool" where
  "outbox_ok pids e \<longleftrightarrow>
     ob_EventType e \<noteq> '''' \<and> ob_Status e \<in> set outbox_statuses \<and> ob_EntityID e \<in> pids"

definition wf_outbox_events :: "uuid set \<Rightarrow> outbox_row list \<Rightarrow> bool" where
  "wf_outbox_events pids rows \<longleftrightarrow>
     distinct (map ob_ID rows) \<and> (\<forall>e \<in> set rows. outbox_ok pids e)"

definition webhook_ok :: "uuid set \<Rightarrow> uuid set \<Rightarrow> webhook_row \<Rightarrow> bool" where
  "webhook_ok cids pids r \<longleftrightarrow>
     wh_Status r \<in> set webhook_statuses \<and> 0 \<le> sint (wh_AttemptCount r) \<and>
     wh_PayoutID r \<in> pids \<and> wh_ClientID r \<in> cids"

definition wf_webhook_deliveries :: "uuid set \<Rightarrow> uuid set \<Rightarrow> webhook_row list \<Rightarrow> bool" where
  "wf_webhook_deliveries cids pids rows \<longleftrightarrow>
     distinct (map wh_ID rows) \<and> (\<forall>r \<in> set rows. webhook_ok cids pids r)"

definition wf_db :: "db \<Rightarrow> bool" where
  "wf_db d \<longleftrightarrow>
     wf_clients (tbl_clients d) \<and>
     wf_funding_sources (client_ids d) (tbl_funding_sources d) \<and>
     wf_payouts (client_ids d) (funding_source_ids d) (tbl_payouts d) \<and>
     wf_idempotency_keys (client_ids d) (payout_ids d) (tbl_idempotency_keys d) \<and>
     wf_outbox_events (payout_ids d) (tbl_outbox_events d) \<and>
     wf_webhook_deliveries (client_ids d) (payout_ids d) (tbl_webhook_deliveries d)"

lemmas wf_tables = wf_clients_def wf_funding_sources_def wf_payouts_def wf_idempotency_keys_def
  wf_outbox_events_def wf_webhook_deliveries_def

lemmas row_oks = funding_source_ok_def payout_ok_def idempotency_key_ok_def outbox_ok_def webhook_ok_def

lemmas id_sets = client_ids_def funding_source_ids_def payout_ids_def

lemma wf_empty_db: "wf_db (empty_db t)"
  by (simp add: wf_db_def wf_tables empty_db_def)

text \<open>A table's clause after an insertion.\<close>

lemma wf_append:
  "wf_clients (rows @ [c]) \<longleftrightarrow>
     wf_clients rows \<and> cl_ID c \<notin> cl_ID ` set rows \<and> cl_ApiKey c \<notin> cl_ApiKey ` set rows"
  "wf_funding_sources C (frows @ [f]) \<longleftrightarrow>
     wf_funding_sources C frows \<and> fs_ID f \<notin> fs_ID ` set frows \<and> funding_source_ok C f"
  "wf_payouts C F (prows @ [p]) \<longleftrightarrow>
     wf_payouts C F prows \<and> pay_ID p \<notin> pay_ID ` set prows \<and>
     (indexed_external_id p = None \<or> indexed_external_id p \<notin> indexed_external_id ` set prows) \<and>
     payout_ok C F p"
  "wf_idempotency_keys C P (krows @ [k]) \<longleftrightarrow>
     wf_idempotency_keys C P krows \<and>
     (ik_ClientID k, ik_Key k) \<notin> (\<lambda>k. (ik_ClientID k, ik_Key k)) ` set krows \<and>
     ik_PayoutID k \<notin> ik_PayoutID ` set krows \<and> idempotency_key_ok C P k"
  "wf_outbox_events P (erows @ [e]) \<longleftrightarrow>
     wf_outbox_events P erows \<and> ob_ID e \<notin> ob_ID ` set erows \<and> outbox_ok P e"
  "wf_webhook_deliveries C P (wrows @ [w]) \<longleftrightarrow>
     wf_webhook_deliveries C P wrows \<and> wh_ID w \<notin> wh_ID ` set wrows \<and> webhook_ok C P w"
  by (auto simp: wf_tables)

text \<open>The clauses survive the growth of the tables they refer to.\<close>

lemma wf_insert_ids:
  "wf_funding_sources C frows \<Longrightarrow> wf_funding_sources (insert c C) frows"
  "wf_payouts C F prows \<Longrightarrow> wf_payouts (insert c C) F prows"
  "wf_payouts C F prows \<Longrightarrow> wf_payouts C (insert f F) prows"
  "wf_idempotency_keys C P krows \<Longrightarrow> wf_idempotency_keys (insert c C) P krows"
  "wf_idempotency_keys C P krows \<Longrightarrow> wf_idempotency_keys C (insert p P) krows"
  "wf_outbox_events P erows \<Longrightarrow> wf_outbox_events (insert p P) erows"
  "wf_webhook_deliveries C P wrows \<Longrightarrow> wf_webhook_deliveries (insert c C) P wrows"
  "wf_webhook_deliveries C P wrows \<Longrightarrow> wf_webhook_deliveries C (insert p P) wrows"
  by (auto simp: wf_tables row_oks)

section \<open>How the tables grow\<close>

definition client_core :: "client_row \<Rightarrow> uuid \<times> uuid" where
  "client_core c = (cl_ID c, cl_ApiKey c)"

text \<open>The columns no statement updates.\<close>

definition payout_core ::
  "payout_row \<Rightarrow> uuid \<times> uuid \<times> uuid \<times> numeric \<times> bytes \<times> timestamp \<times> pg_text \<times> pg_text \<times> pg_text" where
  "payout_core p =
     (pay_ID p, pay_ClientID p, pay_FundingSourceID p, pay_Amount p, pay_Currency p, pay_CreatedAt p,
      pay_ExternalID p, pay_RecipientName p, pay_RecipientAccountID p)"

definition outbox_core :: "outbox_row \<Rightarrow> uuid \<times> bytes \<times> bytes \<times> timestamp \<times> uuid" where
  "outbox_core e = (ob_ID e, ob_EventType e, ob_Payload e, ob_CreatedAt e, ob_EntityID e)"

definition extends :: "'a list \<Rightarrow> 'a list \<Rightarrow> bool" where
  "extends xs ys \<longleftrightarrow> (\<exists>zs. ys = xs @ zs)"

lemma extends_refl [simp]: "extends xs xs"
  by (simp add: extends_def)

lemma extends_append [simp]: "extends xs (xs @ ys)"
  by (simp add: extends_def)

lemma extends_trans: "extends xs ys \<Longrightarrow> extends ys zs \<Longrightarrow> extends xs zs"
  by (auto simp: extends_def)

lemma extends_set: "extends xs ys \<Longrightarrow> x \<in> set xs \<Longrightarrow> x \<in> set ys"
  by (auto simp: extends_def)

definition db_extends :: "db \<Rightarrow> db \<Rightarrow> bool" where
  "db_extends d d' \<longleftrightarrow>
     extends (map client_core (tbl_clients d)) (map client_core (tbl_clients d')) \<and>
     extends (tbl_funding_sources d) (tbl_funding_sources d') \<and>
     extends (map payout_core (tbl_payouts d)) (map payout_core (tbl_payouts d')) \<and>
     extends (tbl_idempotency_keys d) (tbl_idempotency_keys d') \<and>
     extends (map outbox_core (tbl_outbox_events d)) (map outbox_core (tbl_outbox_events d')) \<and>
     extends (tbl_webhook_deliveries d) (tbl_webhook_deliveries d') \<and>
     db_now d' = db_now d \<and> db_locked d' = db_locked d"

lemma db_extends_refl [simp]: "db_extends d d"
  by (simp add: db_extends_def)

lemma db_extends_trans: "db_extends a b \<Longrightarrow> db_extends b c \<Longrightarrow> db_extends a c"
  unfolding db_extends_def by (auto intro: extends_trans)

lemma reflp_db_extends: "reflp db_extends" and transp_db_extends: "transp db_extends"
  by (auto simp: reflp_def transp_def intro: db_extends_trans)

definition wf_step :: "db \<Rightarrow> db \<Rightarrow> bool" where
  "wf_step d d' \<longleftrightarrow> (wf_db d \<longrightarrow> wf_db d')"

lemma reflp_wf_step: "reflp wf_step" and transp_wf_step: "transp wf_step"
  by (auto simp: wf_step_def reflp_def transp_def)

lemma keeps_wfD: "keeps wf_step m \<Longrightarrow> m d = (r, d') \<Longrightarrow> wf_db d \<Longrightarrow> wf_db d'"
  by (metis keepsD snd_conv wf_step_def)

lemma keeps_extD: "keeps db_extends m \<Longrightarrow> m d = (r, d') \<Longrightarrow> db_extends d d'"
  by (metis keepsD snd_conv)

text \<open>Rules for the three shapes of statement.\<close>

lemma keeps_select:
  assumes "reflp R" shows "keeps R (select_one tbl P)"
  using assms by (simp add: keeps_def reflpD)

lemma insert_row_cases:
  assumes "R d d"
    and "\<And>r. row = Inr r \<Longrightarrow> first_failure (cs r) = None \<Longrightarrow> R d (store r d)"
  shows "R d (snd (insert_row row cs store d))"
  using assms by (auto simp: insert_row_def split: sum.splits option.splits)

lemma update_one_cases:
  assumes "R d d"
    and "\<And>r. find P (tbl d) = Some r \<Longrightarrow> chk = None \<Longrightarrow> R d (put (update_where P f (tbl d)) d)"
  shows "R d (snd (update_one tbl P chk f put d))"
  using assms by (auto simp: update_one_def split: option.splits)

section \<open>Every statement keeps the database well-formed\<close>

lemma wf_CreateClient [keeps_wf]: "keeps wf_step (CreateClient arg)"
  unfolding keeps_def CreateClient_def
  by (rule allI, rule insert_row_cases)
    (simp_all add: wf_step_def wf_db_def id_sets wf_append wf_insert_ids client_constraints_def)

lemma wf_CreateFundingSource [keeps_wf]: "keeps wf_step (CreateFundingSource pg arg)"
  unfolding keeps_def CreateFundingSource_def
  by (rule allI, rule insert_row_cases)
    (simp_all add: wf_step_def wf_db_def id_sets wf_append wf_insert_ids
      funding_source_constraints_def funding_source_ok_def)

lemma payout_of_amount:
  "payout_of pg arg d = Inr r \<Longrightarrow> 0 < the (num_Int (pay_Amount r)) \<Longrightarrow> stored_amount (pay_Amount r)"
  by (auto simp: payout_of_def seq_simps numeric_10_2_Inr stored_amount_def mk_numeric_def)

lemma wf_CreatePayout [keeps_wf]: "keeps wf_step (CreatePayout pg arg)"
  unfolding keeps_def CreatePayout_def
proof (rule allI, rule insert_row_cases)
  fix d :: db and r
  assume row: "payout_of pg arg d = Inr r" and ok: "first_failure (payout_constraints d r) = None"
  have "stored_amount (pay_Amount r)"
    using payout_of_amount [OF row] ok by (simp add: payout_constraints_def)
  with ok show "wf_step d (d\<lparr>tbl_payouts := tbl_payouts d @ [r], db_uuid_seq := Suc (db_uuid_seq d)\<rparr>)"
    by (simp add: wf_step_def wf_db_def id_sets wf_append wf_insert_ids payout_constraints_def
        payout_ok_def)
qed (simp add: wf_step_def)

lemma wf_CreateIdempotencyKey [keeps_wf]: "keeps wf_step (CreateIdempotencyKey arg)"
  unfolding keeps_def CreateIdempotencyKey_def
  by (rule allI, rule insert_row_cases)
    (simp_all add: wf_step_def wf_db_def id_sets wf_append idempotency_key_constraints_def
      idempotency_key_ok_def)

lemma wf_CreateOutboxEvent [keeps_wf]: "keeps wf_step (CreateOutboxEvent pg arg)"
  unfolding keeps_def CreateOutboxEvent_def
  by (rule allI, rule insert_row_cases)
    (simp_all add: wf_step_def wf_db_def id_sets wf_append outbox_event_constraints_def
      outbox_ok_def)

lemma wf_CreateWebhookDelivery [keeps_wf]: "keeps wf_step (CreateWebhookDelivery pg arg)"
  unfolding keeps_def CreateWebhookDelivery_def
  by (rule allI, rule insert_row_cases)
    (simp_all add: wf_step_def wf_db_def id_sets wf_append webhook_delivery_constraints_def
      webhook_ok_def)

lemma wf_select [keeps_wf]: "keeps wf_step (select_one tbl P)"
  by (rule keeps_select) (rule reflp_wf_step)

lemma wf_reads [keeps_wf]:
  "keeps wf_step (GetClientByApiKey k)" "keeps wf_step (GetClientById i)"
  "keeps wf_step (GetFundingSourceByClientID fa)" "keeps wf_step (GetPayoutByClientID pa)"
  "keeps wf_step (ListClients l off)" "keeps wf_step (ListFundingSourcesByClientID lf)"
  "keeps wf_step (ListPayoutsByClientID lp)" "keeps wf_step (GetIdempotencyKey ga)"
  "keeps wf_step GetPendingOutboxEvents" "keeps wf_step (GetWebhookDelivery w)"
  "keeps wf_step (ListWebhookDeliveriesByPayoutID w)"
  by (simp_all add: keeps_def wf_step_def GetClientByApiKey_def GetClientById_def
      GetFundingSourceByClientID_def GetPayoutByClientID_def ListClients_def
      ListFundingSourcesByClientID_def ListPayoutsByClientID_def GetIdempotencyKey_def
      GetPendingOutboxEvents_def GetWebhookDelivery_def ListWebhookDeliveriesByPayoutID_def)

text \<open>An update that keeps the key columns keeps a table's clause.\<close>

lemma wf_update_clients:
  assumes "wf_clients rows" and "\<And>c. cl_ID (f c) = cl_ID c" and "\<And>c. cl_ApiKey (f c) = cl_ApiKey c"
  shows "wf_clients (update_where P f rows)"
  using assms by (simp add: wf_clients_def map_update_where)

lemma wf_update_payouts:
  assumes "wf_payouts C F rows" and "\<And>p. pay_ID (f p) = pay_ID p"
    and "\<And>p. indexed_external_id (f p) = indexed_external_id p"
    and "\<And>p. payout_ok C F p \<Longrightarrow> payout_ok C F (f p)"
  shows "wf_payouts C F (update_where P f rows)"
  using assms by (auto simp: wf_payouts_def map_update_where set_update_where)

lemma wf_update_outbox_events:
  assumes "wf_outbox_events I rows" and "\<And>e. ob_ID (f e) = ob_ID e"
    and "\<And>e. outbox_ok I e \<Longrightarrow> outbox_ok I (f e)"
  shows "wf_outbox_events I (update_where P f rows)"
  using assms by (auto simp: wf_outbox_events_def map_update_where set_update_where)

text \<open>
  An update of one row keeps the database well-formed when the new columns pass the row checks
  and the key columns stay.
\<close>

lemma wf_put_clients:
  assumes "wf_db d" and "\<And>c. cl_ID (f c) = cl_ID c" and "\<And>c. cl_ApiKey (f c) = cl_ApiKey c"
  shows "wf_db (d\<lparr>tbl_clients := update_where P f (tbl_clients d)\<rparr>)"
  using assms by (simp add: wf_db_def id_sets wf_update_clients map_update_where del: set_map)

lemma wf_put_payouts:
  assumes "wf_db d" and "\<And>p. pay_ID (f p) = pay_ID p"
    and "\<And>p. indexed_external_id (f p) = indexed_external_id p"
    and "\<And>C F p. payout_ok C F p \<Longrightarrow> payout_ok C F (f p)"
  shows "wf_db (d\<lparr>tbl_payouts := update_where P f (tbl_payouts d)\<rparr>)"
  using assms by (simp add: wf_db_def id_sets wf_update_payouts map_update_where del: set_map)

lemma wf_put_outbox_events:
  assumes "wf_db d" and "\<And>e. ob_ID (f e) = ob_ID e"
    and "\<And>I e. outbox_ok I e \<Longrightarrow> outbox_ok I (f e)"
  shows "wf_db (d\<lparr>tbl_outbox_events := update_where P f (tbl_outbox_events d)\<rparr>)"
  using assms by (simp add: wf_db_def id_sets wf_update_outbox_events)

lemma wf_update_one:
  assumes "wf_db d \<Longrightarrow> chk = None \<Longrightarrow> wf_db (put (update_where P f (tbl d)) d)"
  shows "wf_step d (snd (update_one tbl P chk f put d))"
  by (rule update_one_cases) (simp_all add: wf_step_def assms)

lemma wf_update_refused: "wf_step d (snd (update_one tbl P (Some e) f put d))"
  by (rule wf_update_one) simp

lemma wf_UpdateClient [keeps_wf]: "keeps wf_step (UpdateClient name i)"
proof (rule keepsI)
  fix d
  have "wf_step d (snd (update_one tbl_clients (\<lambda>c. cl_ID c = i) chk
      (\<lambda>c. c\<lparr>cl_Name := n, cl_UpdatedAt := db_now d\<rparr>) (\<lambda>rows d. d\<lparr>tbl_clients := rows\<rparr>) d))" for chk n
    by (rule wf_update_one) (rule wf_put_clients, simp_all)
  then show "wf_step d (snd (UpdateClient name i d))"
    by (auto simp: UpdateClient_def wf_update_refused reflpD [OF reflp_wf_step] split: sum.split)
qed

lemma wf_UpdateClientWebhookURL [keeps_wf]: "keeps wf_step (UpdateClientWebhookURL url i)"
proof (rule keepsI)
  fix d
  have "wf_step d (snd (update_one tbl_clients (\<lambda>c. cl_ID c = i) None
      (\<lambda>c. c\<lparr>cl_WebhookUrl := u, cl_UpdatedAt := db_now d\<rparr>) (\<lambda>rows d. d\<lparr>tbl_clients := rows\<rparr>) d))" for u
    by (rule wf_update_one) (rule wf_put_clients, simp_all)
  then show "wf_step d (snd (UpdateClientWebhookURL url i d))"
    by (simp add: UpdateClientWebhookURL_def wf_step_def split: sum.split)
qed

lemma wf_UpdatePayoutFailure [keeps_wf]: "keeps wf_step (UpdatePayoutFailure arg)"
proof (rule keepsI)
  fix d
  have "wf_step d (snd (update_one tbl_payouts (\<lambda>p. pay_ID p = i) None
      (\<lambda>p. p\<lparr>pay_Status := ''failed'', pay_FailureReason := reason, pay_UpdatedAt := db_now d\<rparr>)
      (\<lambda>rows d. d\<lparr>tbl_payouts := rows\<rparr>) d))" for i reason
    by (rule wf_update_one)
      (rule wf_put_payouts, simp_all add: payout_ok_def indexed_external_id_def payout_statuses_def)
  then show "wf_step d (snd (UpdatePayoutFailure arg d))"
    by (simp add: UpdatePayoutFailure_def wf_step_def split: sum.split)
qed

lemma wf_UpdatePayoutStatus [keeps_wf]: "keeps wf_step (UpdatePayoutStatus arg)"
proof (rule keepsI)
  fix d
  have "wf_step d (snd (update_one tbl_payouts (\<lambda>p. pay_ID p = i)
      (first_failure [(st \<in> set payout_statuses, e)])
      (\<lambda>p. p\<lparr>pay_Status := st, pay_UpdatedAt := db_now d\<rparr>) (\<lambda>rows d. d\<lparr>tbl_payouts := rows\<rparr>) d))" for i st e
    by (rule wf_update_one) (rule wf_put_payouts, simp_all add: payout_ok_def indexed_external_id_def)
  then show "wf_step d (snd (UpdatePayoutStatus arg d))"
    by (auto simp: UpdatePayoutStatus_def wf_update_refused reflpD [OF reflp_wf_step] simp del: first_failure_Cons
        split: sum.split)
qed

lemma wf_claim_next [keeps_wf]: "keeps wf_step (claim_next P)"
proof (rule keepsI)
  fix d
  have "wf_step d (snd (update_one tbl_outbox_events (\<lambda>r. ob_ID r = i) None
      (\<lambda>r. r\<lparr>ob_Status := ''processing'', ob_ClaimedAt := Some (db_now d)\<rparr>)
      (\<lambda>rows d. d\<lparr>tbl_outbox_events := rows\<rparr>) d))" for i
    by (rule wf_update_one) (rule wf_put_outbox_events, simp_all add: outbox_ok_def outbox_statuses_def)
  then show "wf_step d (snd (claim_next P d))"
    using reflpD [OF reflp_wf_step] by (simp add: claim_next_def split: option.split)
qed

lemma wf_MarkOutboxEventAsProcessed [keeps_wf]: "keeps wf_step (MarkOutboxEventAsProcessed i)"
  unfolding keeps_def MarkOutboxEventAsProcessed_def
  by (rule allI, rule wf_update_one)
    (rule wf_put_outbox_events, simp_all add: outbox_ok_def outbox_statuses_def)

lemma wf_ReleaseOutboxEventClaim [keeps_wf]: "keeps wf_step (ReleaseOutboxEventClaim i)"
  unfolding keeps_def ReleaseOutboxEventClaim_def
  by (rule allI, rule wf_update_one)
    (rule wf_put_outbox_events, simp_all add: outbox_ok_def outbox_statuses_def)

lemma wf_claims [keeps_wf]:
  "keeps wf_step (ClaimNextPendingOutboxEvent t)"
  "keeps wf_step (ClaimNextPendingOutboxEventByTypes ct)"
  unfolding ClaimNextPendingOutboxEvent_def ClaimNextPendingOutboxEventByTypes_def
  by (rule wf_claim_next)+

section \<open>Every statement only extends the tables\<close>

lemma ext_update_one:
  assumes "db_extends d (put (update_where P f (tbl d)) d)"
  shows "db_extends d (snd (update_one tbl P chk f put d))"
  by (rule update_one_cases) (simp_all add: assms)

lemma ext_put:
  "(\<And>c. client_core (fc c) = client_core c) \<Longrightarrow>
     db_extends d (d\<lparr>tbl_clients := update_where Pc fc (tbl_clients d)\<rparr>)"
  "(\<And>p. payout_core (fp p) = payout_core p) \<Longrightarrow>
     db_extends d (d\<lparr>tbl_payouts := update_where Pp fp (tbl_payouts d)\<rparr>)"
  "(\<And>e. outbox_core (fe e) = outbox_core e) \<Longrightarrow>
     db_extends d (d\<lparr>tbl_outbox_events := update_where Pe fe (tbl_outbox_events d)\<rparr>)"
  by (simp_all add: db_extends_def map_update_where)

lemma ext_inserts [keeps_ext]:
  "keeps db_extends (CreateClient cc)" "keeps db_extends (CreateFundingSource pg cf)"
  "keeps db_extends (CreatePayout pg cp)" "keeps db_extends (CreateIdempotencyKey ci)"
  "keeps db_extends (CreateOutboxEvent pg co)" "keeps db_extends (CreateWebhookDelivery pg cw)"
  unfolding keeps_def CreateClient_def CreateFundingSource_def CreatePayout_def
    CreateIdempotencyKey_def CreateOutboxEvent_def CreateWebhookDelivery_def
  by (rule allI, rule insert_row_cases, simp_all add: db_extends_def)+

lemma ext_select [keeps_ext]: "keeps db_extends (select_one tbl P)"
  by (rule keeps_select) (rule reflp_db_extends)

lemma ext_reads [keeps_ext]:
  "keeps db_extends (GetClientByApiKey k)" "keeps db_extends (GetClientById i)"
  "keeps db_extends (GetFundingSourceByClientID fa)" "keeps db_extends (GetPayoutByClientID pa)"
  "keeps db_extends (ListClients l off)" "keeps db_extends (ListFundingSourcesByClientID lf)"
  "keeps db_extends (ListPayoutsByClientID lp)" "keeps db_extends (GetIdempotencyKey ga)"
  "keeps db_extends GetPendingOutboxEvents" "keeps db_extends (GetWebhookDelivery w)"
  "keeps db_extends (ListWebhookDeliveriesByPayoutID w)"
  by (simp_all add: keeps_def GetClientByApiKey_def GetClientById_def
      GetFundingSourceByClientID_def GetPayoutByClientID_def ListClients_def
      ListFundingSourcesByClientID_def ListPayoutsByClientID_def GetIdempotencyKey_def
      GetPendingOutboxEvents_def GetWebhookDelivery_def ListWebhookDeliveriesByPayoutID_def)

lemma ext_updates [keeps_ext]:
  "keeps db_extends (UpdateClient name i)" "keeps db_extends (UpdateClientWebhookURL url i)"
  "keeps db_extends (UpdatePayoutFailure uf)" "keeps db_extends (UpdatePayoutStatus us)"
  "keeps db_extends (claim_next P)"
  "keeps db_extends (MarkOutboxEventAsProcessed i)" "keeps db_extends (ReleaseOutboxEventClaim i)"
  by (simp_all add: keeps_def UpdateClient_def UpdateClientWebhookURL_def UpdatePayoutFailure_def
      UpdatePayoutStatus_def claim_next_def MarkOutboxEventAsProcessed_def
      ReleaseOutboxEventClaim_def ext_update_one ext_put client_core_def payout_core_def
      outbox_core_def split: sum.split option.split)

lemma ext_claims [keeps_ext]:
  "keeps db_extends (ClaimNextPendingOutboxEvent t)"
  "keeps db_extends (ClaimNextPendingOutboxEventByTypes ct)"
  unfolding ClaimNextPendingOutboxEvent_def ClaimNextPendingOutboxEventByTypes_def
  by (rule ext_updates)+

end
