(* ===== verification/Payout_Creation.thy ===== *)
theory Payout_Creation
  imports Payout_Service Database_Invariant
begin

text \<open>
  What \<open>CreatePayout\<close> guarantees. The locale \<open>payout_store_contract\<close> states what the service needs
  of its store in terms of three views of the state (the idempotency keys, the payouts and the
  outbox events) and proves the life of a request once: it is recorded with its payout and its
  event, replayed when it is sent again, and refused when its key is used for another request. The
  interpretation \<open>pg\<close> discharges the contract for the SQL statements of theory \<open>Queries\<close>.
\<close>

section \<open>The contract of the store\<close>

text \<open>The request with the given key and hash was carried out and made the payout \<open>p\<close>.\<close>

definition recorded ::
  "('s \<Rightarrow> uuid \<Rightarrow> bytes \<Rightarrow> idempotency_row option) \<Rightarrow> ('s \<Rightarrow> uuid \<Rightarrow> uuid \<Rightarrow> payout_row option) \<Rightarrow>
   's \<Rightarrow> create_payout_request \<Rightarrow> payout_row \<Rightarrow> bool" where
  "recorded keys payouts s rq p \<longleftrightarrow>
     (case keys s (rq_clientID rq) (rq_idempotencyKey rq) of
        None \<Rightarrow> False
      | Some k \<Rightarrow>
          ik_RequestHash k = rq_hash rq \<and> payouts s (rq_clientID rq) (ik_PayoutID k) = Some p)"

locale payout_store_contract =
  fixes store :: "'s payout_store"
    and keys :: "'s \<Rightarrow> uuid \<Rightarrow> bytes \<Rightarrow> idempotency_row option"
    and payouts :: "'s \<Rightarrow> uuid \<Rightarrow> uuid \<Rightarrow> payout_row option"
    and events :: "'s \<Rightarrow> outbox_row list"
  assumes get_key_some:
      "keys s (gip_ClientID a) (gip_Key a) = Some k \<Longrightarrow> ps_GetIdempotencyKey store a s = (Inr k, s)"
    and get_key_none:
      "keys s (gip_ClientID a) (gip_Key a) = None \<Longrightarrow> \<exists>e. ps_GetIdempotencyKey store a s = (Inl e, s)"
    and get_payout_some:
      "payouts s (bcp_ClientID b) (bcp_ID b) = Some p \<Longrightarrow> ps_GetPayoutByClientID store b s = (Inr p, s)"
    and get_payout_none:
      "payouts s (bcp_ClientID b) (bcp_ID b) = None \<Longrightarrow>
         \<exists>e. ps_GetPayoutByClientID store b s = (Inl e, s)"
    and get_source: "snd (ps_GetFundingSourceByClientID store b s) = s"
    and create_payout:
      "ps_CreatePayout store c s = (Inr p, s') \<Longrightarrow>
         payouts s' = (payouts s)(pay_ClientID p := (payouts s (pay_ClientID p))(pay_ID p \<mapsto> p)) \<and>
         keys s' = keys s \<and> events s' = events s \<and>
         pay_ClientID p = cpp_ClientID c \<and> pay_FundingSourceID p = cpp_FundingSourceID c \<and>
         pay_Status p = ''pending''"
    and create_key:
      "ps_CreateIdempotencyKey store d s = (Inr k, s') \<Longrightarrow>
         keys s (cip_ClientID d) (cip_Key d) = None \<and>
         keys s' = (keys s)(cip_ClientID d := (keys s (cip_ClientID d))(cip_Key d \<mapsto> k)) \<and>
         payouts s' = payouts s \<and> events s' = events s \<and>
         ik_RequestHash k = cip_RequestHash d \<and> ik_PayoutID k = cip_PayoutID d"
    and create_event:
      "ps_CreateOutboxEvent store ev s = (Inr e, s') \<Longrightarrow>
         cop_EventType ev = EventTypeProcessPayout \<Longrightarrow>
         keys s' = keys s \<and> payouts s' = payouts s \<and> events s' = events s @ [e] \<and>
         ob_EventType e = EventTypeProcessPayout \<and> ob_EntityID e = cop_EntityID ev \<and>
         ob_Status e = ''pending''"
begin

lemma get_key_cases:
  obtains (found) k where "keys s (gip_ClientID a) (gip_Key a) = Some k"
      "ps_GetIdempotencyKey store a s = (Inr k, s)"
    | (missing) e where "keys s (gip_ClientID a) (gip_Key a) = None"
      "ps_GetIdempotencyKey store a s = (Inl e, s)"
  using get_key_some [of s a] get_key_none [of s a]
  by (cases "keys s (gip_ClientID a) (gip_Key a)") auto

lemma get_payout_cases:
  obtains (found) p where "payouts s (bcp_ClientID b) (bcp_ID b) = Some p"
      "ps_GetPayoutByClientID store b s = (Inr p, s)"
    | (missing) e where "payouts s (bcp_ClientID b) (bcp_ID b) = None"
      "ps_GetPayoutByClientID store b s = (Inl e, s)"
  using get_payout_some [of s b] get_payout_none [of s b]
  by (cases "payouts s (bcp_ClientID b) (bcp_ID b)") auto

text \<open>The outcomes of \<open>loadIdempotentPayout\<close>; none of them changes the state.\<close>

lemma load_cases:
  assumes "loadIdempotentPayout store c k h s = (r, s')"
  obtains (none) "s' = s" "r = Inr None" "keys s c k = None"
    | (error) e where "s' = s" "r = Inl e"
    | (replay) row p where "s' = s" "r = Inr (Some p)" "keys s c k = Some row" "ik_RequestHash row = h"
        "payouts s c (ik_PayoutID row) = Some p"
proof (cases rule: get_key_cases [of s "\<lparr>gip_ClientID = c, gip_Key = k\<rparr>"])
  case (found row)
  show ?thesis
  proof (cases rule: get_payout_cases [of s "\<lparr>bcp_ClientID = c, bcp_ID = ik_PayoutID row\<rparr>"])
    case p: (found p)
    with found assms show ?thesis
      by (auto simp: loadIdempotentPayout_def split: if_splits intro: error replay)
  next
    case (missing e)
    with found assms show ?thesis
      by (auto simp: loadIdempotentPayout_def split: if_splits intro: error)
  qed
next
  case (missing e)
  with assms show ?thesis
    by (auto simp: loadIdempotentPayout_def split: if_splits intro: error none)
qed

lemma load_recorded:
  assumes "recorded keys payouts s rq p"
  shows "loadIdempotentPayout store (rq_clientID rq) (rq_idempotencyKey rq) (rq_hash rq) s = (Inr (Some p), s)"
  using assms get_key_some [of s "\<lparr>gip_ClientID = rq_clientID rq, gip_Key = rq_idempotencyKey rq\<rparr>"]
  by (auto simp: recorded_def loadIdempotentPayout_def get_payout_some split: option.splits)

text \<open>A request that was carried out is replayed: the payout it made, and no change.\<close>

lemma tx_replay:
  "recorded keys payouts s rq p \<Longrightarrow> create_payout_tx codec rq store s = (Inr p, s)"
  by (simp add: create_payout_tx_def and_then_run_Inr [OF load_recorded] ok_def)

text \<open>A key that belongs to another request is refused.\<close>

lemma tx_conflict:
  assumes "keys s (rq_clientID rq) (rq_idempotencyKey rq) = Some k" and "ik_RequestHash k \<noteq> rq_hash rq"
  shows "create_payout_tx codec rq store s = (Inl ErrIdempotencyConflict, s)"
proof -
  have "loadIdempotentPayout store (rq_clientID rq) (rq_idempotencyKey rq) (rq_hash rq) s =
      (Inl ErrIdempotencyConflict, s)"
    using assms get_key_some [of s "\<lparr>gip_ClientID = rq_clientID rq, gip_Key = rq_idempotencyKey rq\<rparr>"]
    by (simp add: loadIdempotentPayout_def)
  then show ?thesis by (simp add: create_payout_tx_def and_then_run_Inl)
qed

text \<open>The effect of a transaction that succeeds: a replay, or all three records.\<close>

lemma tx_success:
  assumes "create_payout_tx codec rq store s = (Inr p, s')"
  obtains (replayed) "s' = s" "recorded keys payouts s rq p"
    | (created) f s1 s2 k e payload where
        "keys s (rq_clientID rq) (rq_idempotencyKey rq) = None"
        "ps_GetFundingSourceByClientID store
           \<lparr>bcp_ClientID = rq_clientID rq, bcp_ID = rq_fundingSourceID rq\<rparr> s = (Inr f, s)"
        "ps_CreatePayout store (payout_params rq) s = (Inr p, s1)"
        "ps_CreateIdempotencyKey store
           \<lparr>cip_Key = rq_idempotencyKey rq, cip_ClientID = rq_clientID rq,
            cip_RequestHash = rq_hash rq, cip_PayoutID = pay_ID p\<rparr> s1 = (Inr k, s2)"
        "marshalPayoutCreatedOutboxPayload codec p = Inr payload"
        "ps_CreateOutboxEvent store
           \<lparr>cop_EventType = EventTypeProcessPayout, cop_EntityID = pay_ID p, cop_Payload = payload\<rparr> s2 =
             (Inr e, s')"
proof -
  obtain ex s0 where load: "loadIdempotentPayout store (rq_clientID rq) (rq_idempotencyKey rq) (rq_hash rq) s =
      (Inr ex, s0)"
    and rest: "(case ex of Some p \<Rightarrow> ok p s0 = (Inr p, s') | None \<Rightarrow> True)"
    using assms by (auto simp: create_payout_tx_def seq_simps split: option.splits)
  show ?thesis
  proof (cases rule: load_cases [OF load])
    case 1
    have same: "ps_GetFundingSourceByClientID store b s = (Inr f, t) \<Longrightarrow> t = s" for b f t
      using get_source [of b s] by simp
    from 1 assms load obtain f t s1 k s2 e payload where parts:
      "ps_GetFundingSourceByClientID store
         \<lparr>bcp_ClientID = rq_clientID rq, bcp_ID = rq_fundingSourceID rq\<rparr> s = (Inr f, t)"
      "ps_CreatePayout store (payout_params rq) t = (Inr p, s1)"
      "ps_CreateIdempotencyKey store
         \<lparr>cip_Key = rq_idempotencyKey rq, cip_ClientID = rq_clientID rq,
          cip_RequestHash = rq_hash rq, cip_PayoutID = pay_ID p\<rparr> s1 = (Inr k, s2)"
      "marshalPayoutCreatedOutboxPayload codec p = Inr payload"
      "ps_CreateOutboxEvent store
         \<lparr>cop_EventType = EventTypeProcessPayout, cop_EntityID = pay_ID p, cop_Payload = payload\<rparr> s2 =
           (Inr e, s')"
      by (auto simp: create_payout_tx_def seq_simps and_then_run_Inr split: option.splits)
    from same [OF parts(1)] have "t = s" .
    with 1 parts show ?thesis by (intro created) simp_all
  next
    case (3 row q)
    with assms load have "s' = s" "p = q"
      by (auto simp: create_payout_tx_def seq_simps split: option.splits)
    with 3 show ?thesis by (intro replayed) (simp_all add: recorded_def)
  qed auto
qed

text \<open>After a success the request is recorded with the payout that is returned.\<close>

lemma tx_recorded:
  assumes "create_payout_tx codec rq store s = (Inr p, s')"
  shows "recorded keys payouts s' rq p"
  using assms
proof (cases rule: tx_success)
  case (created f s1 s2 k e payload)
  have "pay_ClientID p = rq_clientID rq"
    and pay: "payouts s1 (rq_clientID rq) (pay_ID p) = Some p"
    using create_payout [OF created(3)] by (simp_all add: payout_params_def)
  moreover have "keys s2 (rq_clientID rq) (rq_idempotencyKey rq) = Some k" "ik_RequestHash k = rq_hash rq"
    "ik_PayoutID k = pay_ID p" "payouts s2 = payouts s1"
    using create_key [OF created(4)] by simp_all
  ultimately show ?thesis
    using create_event [OF created(6)] by (simp add: recorded_def)
qed simp

text \<open>No transaction makes a second payout for a key, and none forgets a key or a payout.\<close>

lemma tx_keeps_keys:
  assumes "create_payout_tx codec rq store s = (Inr p, s')" and "keys s c k = Some row"
  shows "keys s' c k = Some row"
  using assms(1)
proof (cases rule: tx_success)
  case (created f s1 s2 k' e payload)
  have "keys s1 = keys s" using create_payout [OF created(3)] by simp
  moreover have "keys s' = keys s2" using create_event [OF created(6)] by simp
  ultimately show ?thesis
    using create_key [OF created(4)] created(1) assms(2) by auto
qed (use assms in simp)

end

section \<open>The service over a store that keeps the contract\<close>

locale payout_service_contract =
  payout_store_contract store keys payouts events
  for store :: "'s payout_store" and keys and payouts and events +
  fixes txRunner :: "'s payout_tx_runner"
  assumes runner:
    "transactional (WithinTx txRunner :: ('s payout_store \<Rightarrow> ('s, payout_row) action) \<Rightarrow> ('s, payout_row) action) store"

sublocale payout_service_contract \<subseteq> tx: transactional
    "WithinTx txRunner :: ('s payout_store \<Rightarrow> ('s, payout_row) action) \<Rightarrow> ('s, payout_row) action" store
  by (rule runner)

context payout_service_contract
begin

definition the_service :: "'s payout_service option" where
  "the_service = Some \<lparr>svc_store = Some store, svc_txRunner = Some txRunner\<rparr>"

lemma service_unfold:
  "Payouts_CreatePayout codec the_service inp s =
     (case create_payout_request codec inp of
        Inl e \<Rightarrow> (Inl e, s)
      | Inr rq \<Rightarrow>
          and_then (create_payout_run codec store txRunner rq) (\<lambda>p. lift_result (payoutFromDB codec p)) s)"
  by (simp add: Payouts_CreatePayout_def the_service_def and_then_def lift_result_def split: sum.split)

lemma run_success:
  assumes "create_payout_run codec store txRunner rq s = (Inr p, s')"
  shows "p = zero_payout_row \<and> keys s' (rq_clientID rq) (rq_idempotencyKey rq) = None \<or>
    recorded keys payouts s' rq p"
proof -
  obtain r s1 where run: "WithinTx txRunner (create_payout_tx codec rq) s = (r, s1)"
    by (cases "WithinTx txRunner (create_payout_tx codec rq) s")
  show ?thesis
  proof (cases r)
    case (Inr q)
    with run assms have "q = p" "s1 = s'" by (simp_all add: create_payout_run_def)
    with run Inr have "create_payout_tx codec rq store s = (Inr p, s')"
      by (auto intro: tx.committed [of "create_payout_tx codec rq"])
    then show ?thesis by (intro disjI2 tx_recorded)
  next
    case (Inl e)
    obtain l s2 where load: "loadIdempotentPayout store (rq_clientID rq) (rq_idempotencyKey rq) (rq_hash rq) s1 = (l, s2)"
      by (cases "loadIdempotentPayout store (rq_clientID rq) (rq_idempotencyKey rq) (rq_hash rq) s1")
    with assms run Inl have "l = Inr None \<and> s2 = s' \<and> p = zero_payout_row \<or> l = Inr (Some p) \<and> s2 = s'"
      by (auto simp: create_payout_run_def split: if_splits sum.splits option.splits)
    with load show ?thesis
      by (cases rule: load_cases [OF load]) (auto simp: recorded_def)
  qed
qed

lemma zero_payout_not_served: "payoutFromDB codec zero_payout_row = Inl ErrUnsupportedNumeric"
  by (simp add: payoutFromDB_def zero_payout_row_def zero_numeric_def numericString_def)

lemma service_success:
  assumes "Payouts_CreatePayout codec the_service inp s = (Inr v, s')"
  obtains rq p where "create_payout_request codec inp = Inr rq" "recorded keys payouts s' rq p"
    "payoutFromDB codec p = Inr v"
proof -
  obtain rq p where rq: "create_payout_request codec inp = Inr rq"
    and run: "create_payout_run codec store txRunner rq s = (Inr p, s')"
    and view: "payoutFromDB codec p = Inr v"
    using assms by (auto simp: service_unfold seq_simps split: sum.splits)
  from run_success [OF run] view zero_payout_not_served [of codec] that [OF rq _ view] show ?thesis
    by auto
qed

text \<open>Sending a recorded request again changes nothing, and can only return its payout.\<close>

lemma run_replay:
  assumes "recorded keys payouts s rq p"
  shows "snd (create_payout_run codec store txRunner rq s) = s \<and>
    (\<forall>q. fst (create_payout_run codec store txRunner rq s) = Inr q \<longrightarrow> q = p)"
proof -
  obtain r s1 where run: "WithinTx txRunner (create_payout_tx codec rq) s = (r, s1)"
    by (cases "WithinTx txRunner (create_payout_tx codec rq) s")
  then have "s1 = s" "r = Inr q \<Longrightarrow> q = p" for q
    using tx_replay [OF assms, of codec] by (cases rule: tx.run_cases; simp)+
  with run load_recorded [OF assms] show ?thesis
    by (cases r) (auto simp: create_payout_run_def)
qed

lemma service_replay:
  assumes "create_payout_request codec inp = Inr rq" and "recorded keys payouts s rq p"
    and "payoutFromDB codec p = Inr v"
  shows "snd (Payouts_CreatePayout codec the_service inp s) = s \<and>
    (\<forall>w. fst (Payouts_CreatePayout codec the_service inp s) = Inr w \<longrightarrow> w = v)"
proof -
  obtain r s1 where run: "create_payout_run codec store txRunner rq s = (r, s1)"
    by (cases "create_payout_run codec store txRunner rq s")
  with run_replay [OF assms(2), of codec] assms show ?thesis
    by (cases r) (auto simp: service_unfold and_then_def lift_result_def)
qed

lemma run_conflict:
  assumes "keys s (rq_clientID rq) (rq_idempotencyKey rq) = Some k" and "ik_RequestHash k \<noteq> rq_hash rq"
  shows "\<exists>e. create_payout_run codec store txRunner rq s = (Inl e, s)"
proof -
  note body = tx_conflict [OF assms, of codec]
  have load: "loadIdempotentPayout store (rq_clientID rq) (rq_idempotencyKey rq) (rq_hash rq) s =
      (Inl ErrIdempotencyConflict, s)"
    using assms get_key_some [of s "\<lparr>gip_ClientID = rq_clientID rq, gip_Key = rq_idempotencyKey rq\<rparr>"]
    by (simp add: loadIdempotentPayout_def)
  from tx.error_of_body [of "create_payout_tx codec rq", OF body] load show ?thesis
    by (auto simp: create_payout_run_def)
qed

text \<open>A call leaves the state, or the complete effect of a transaction that succeeded.\<close>

lemma run_state:
  assumes "create_payout_run codec store txRunner rq s = (res, s')"
  shows "s' = s \<or> (\<exists>p. create_payout_tx codec rq store s = (Inr p, s'))"
proof -
  obtain r s1 where run: "WithinTx txRunner (create_payout_tx codec rq) s = (r, s1)"
    by (cases "WithinTx txRunner (create_payout_tx codec rq) s")
  have "s' = s1"
    using assms run
    by (auto simp: create_payout_run_def split: sum.splits if_splits prod.splits option.splits
        elim: load_cases)
  with run show ?thesis
    by (cases rule: tx.run_cases) auto
qed

end

end
