(* ===== verification/Payout_Guarantees.thy ===== *)
theory Payout_Guarantees
  imports Payout_Creation
begin

text \<open>
  The payout service on PostgreSQL, as \<open>cmd/api/main.go\<close> puts it together: the store made of the
  SQL statements and the transactions of the pool. The contract of theory \<open>Payout_Creation\<close> is
  discharged here, and the properties of \<open>CreatePayout\<close>, \<open>GetPayout\<close> and \<open>ListPayouts\<close> follow.
\<close>

section \<open>The store\<close>

definition pg_payout_store :: "postgres \<Rightarrow> db payout_store" where
  "pg_payout_store pg =
     \<lparr>ps_CreateIdempotencyKey = CreateIdempotencyKey,
      ps_CreateOutboxEvent = CreateOutboxEvent pg,
      ps_CreatePayout = CreatePayout pg,
      ps_GetFundingSourceByClientID = GetFundingSourceByClientID,
      ps_GetIdempotencyKey = GetIdempotencyKey,
      ps_GetPayoutByClientID = GetPayoutByClientID,
      ps_ListPayoutsByClientID = ListPayoutsByClientID\<rparr>"

lemma pg_payout_store_simps [simp]:
  "ps_CreateIdempotencyKey (pg_payout_store pg) = CreateIdempotencyKey"
  "ps_CreateOutboxEvent (pg_payout_store pg) = CreateOutboxEvent pg"
  "ps_CreatePayout (pg_payout_store pg) = CreatePayout pg"
  "ps_GetFundingSourceByClientID (pg_payout_store pg) = GetFundingSourceByClientID"
  "ps_GetIdempotencyKey (pg_payout_store pg) = GetIdempotencyKey"
  "ps_GetPayoutByClientID (pg_payout_store pg) = GetPayoutByClientID"
  "ps_ListPayoutsByClientID (pg_payout_store pg) = ListPayoutsByClientID"
  by (simp_all add: pg_payout_store_def)

definition key_view :: "db \<Rightarrow> uuid \<Rightarrow> bytes \<Rightarrow> idempotency_row option" where
  "key_view d c k =
     (if storable_text k
      then find (\<lambda>r. ik_ClientID r = c \<and> ik_Key r = k) (tbl_idempotency_keys d) else None)"

definition payout_view :: "db \<Rightarrow> uuid \<Rightarrow> uuid \<Rightarrow> payout_row option" where
  "payout_view d c i = find (\<lambda>p. pay_ClientID p = c \<and> pay_ID p = i) (tbl_payouts d)"

text \<open>\<open>NewServiceWithTx(queries, NewDBTxRunner(dbPool, queries))\<close>\<close>

definition api_payout_service ::
  "postgres \<Rightarrow> (db \<Rightarrow> go_error option) \<Rightarrow> (db \<Rightarrow> commit_outcome) \<Rightarrow> db payout_service option" where
  "api_payout_service pg bf cf =
     Some (NewServiceWithTx (Some (pg_payout_store pg))
       (Some (DBTxRunner (pool_runner bf cf (pg_payout_store pg)))))"

lemma CreatePayout_Inr:
  "CreatePayout pg c d = (Inr p, d') \<Longrightarrow>
     payout_of pg c d = Inr p \<and> first_failure (payout_constraints d p) = None \<and>
     d' = d\<lparr>tbl_payouts := tbl_payouts d @ [p], db_uuid_seq := Suc (db_uuid_seq d)\<rparr>"
  by (auto simp: CreatePayout_def seq_simps)

lemma CreateIdempotencyKey_Inr:
  "CreateIdempotencyKey a d = (Inr k, d') \<Longrightarrow>
     idempotency_key_of a d = Inr k \<and> first_failure (idempotency_key_constraints d k) = None \<and>
     d' = d\<lparr>tbl_idempotency_keys := tbl_idempotency_keys d @ [k]\<rparr>"
  by (auto simp: CreateIdempotencyKey_def seq_simps)

lemma CreateOutboxEvent_Inr:
  "CreateOutboxEvent pg a d = (Inr e, d') \<Longrightarrow>
     outbox_event_of pg a d = Inr e \<and> first_failure (outbox_event_constraints d e) = None \<and>
     d' = d\<lparr>tbl_outbox_events := tbl_outbox_events d @ [e], db_uuid_seq := Suc (db_uuid_seq d)\<rparr>"
  by (auto simp: CreateOutboxEvent_def seq_simps)

lemma text_value_Inr [seq_simps]: "text_value s = Inr t \<longleftrightarrow> storable_text s \<and> t = s"
  by (auto simp: text_value_def)

lemma pg_create_payout:
  assumes "CreatePayout pg c d = (Inr p, d')"
  shows "payout_view d' = (payout_view d)(pay_ClientID p := (payout_view d (pay_ClientID p))(pay_ID p \<mapsto> p)) \<and>
    key_view d' = key_view d \<and> tbl_outbox_events d' = tbl_outbox_events d \<and>
    pay_ClientID p = cpp_ClientID c \<and> pay_FundingSourceID p = cpp_FundingSourceID c \<and>
    pay_Status p = ''pending''"
proof -
  note facts = CreatePayout_Inr [OF assms]
  then have new: "pay_ID p \<notin> pay_ID ` set (tbl_payouts d)" by (simp add: payout_constraints_def)
  have "payout_view d' c' i =
      ((payout_view d)(pay_ClientID p := (payout_view d (pay_ClientID p))(pay_ID p \<mapsto> p))) c' i" for c' i
  proof (cases "pay_ClientID p = c' \<and> pay_ID p = i")
    case True
    then have "\<not> (pay_ClientID x = c' \<and> pay_ID x = i)" if "x \<in> set (tbl_payouts d)" for x
      using that new by (metis image_eqI)
    then have "find (\<lambda>x. pay_ClientID x = c' \<and> pay_ID x = i) (tbl_payouts d) = None"
      by (simp add: find_None_iff)
    with True facts show ?thesis by (auto simp: payout_view_def find_append)
  next
    case False
    then show ?thesis using facts by (auto simp: payout_view_def find_append split: option.split)
  qed
  with facts show ?thesis
    by (auto simp: key_view_def payout_of_def seq_simps intro!: ext)
qed

lemma pg_create_key:
  assumes "CreateIdempotencyKey a d = (Inr k, d')"
  shows "key_view d (cip_ClientID a) (cip_Key a) = None \<and>
    key_view d' = (key_view d)(cip_ClientID a := (key_view d (cip_ClientID a))(cip_Key a \<mapsto> k)) \<and>
    payout_view d' = payout_view d \<and> tbl_outbox_events d' = tbl_outbox_events d \<and>
    ik_RequestHash k = cip_RequestHash a \<and> ik_PayoutID k = cip_PayoutID a"
proof -
  note facts = CreateIdempotencyKey_Inr [OF assms]
  then have k: "ik_Key k = cip_Key a" "ik_ClientID k = cip_ClientID a" "storable_text (cip_Key a)"
    "ik_RequestHash k = cip_RequestHash a" "ik_PayoutID k = cip_PayoutID a"
    by (auto simp: idempotency_key_of_def seq_simps)
  have new: "(cip_ClientID a, cip_Key a) \<notin> (\<lambda>r. (ik_ClientID r, ik_Key r)) ` set (tbl_idempotency_keys d)"
    using facts k by (simp add: idempotency_key_constraints_def)
  then have none: "\<not> (ik_ClientID r = cip_ClientID a \<and> ik_Key r = cip_Key a)"
    if "r \<in> set (tbl_idempotency_keys d)" for r
    using that by (force simp: image_iff)
  then have "key_view d (cip_ClientID a) (cip_Key a) = None"
    by (auto simp: key_view_def find_None_iff)
  moreover have "key_view d' c i =
      ((key_view d)(cip_ClientID a := (key_view d (cip_ClientID a))(cip_Key a \<mapsto> k))) c i" for c i
  proof (cases "c = cip_ClientID a \<and> i = cip_Key a")
    case True
    with none have "find (\<lambda>r. ik_ClientID r = c \<and> ik_Key r = i) (tbl_idempotency_keys d) = None"
      by (simp add: find_None_iff)
    with True facts k show ?thesis by (simp add: key_view_def find_append)
  next
    case False
    then show ?thesis using facts k by (auto simp: key_view_def find_append split: option.split)
  qed
  ultimately show ?thesis using facts k by (auto simp: payout_view_def intro!: ext)
qed

lemma varchar_event_type: "varchar 255 EventTypeProcessPayout = Inr EventTypeProcessPayout"
  by (rule varchar_short) (simp_all add: EventTypeProcessPayout_def storable_text_def byte_def)

lemma pg_create_event:
  assumes "CreateOutboxEvent pg a d = (Inr e, d')" and "cop_EventType a = EventTypeProcessPayout"
  shows "key_view d' = key_view d \<and> payout_view d' = payout_view d \<and>
    tbl_outbox_events d' = tbl_outbox_events d @ [e] \<and> ob_EventType e = EventTypeProcessPayout \<and>
    ob_EntityID e = cop_EntityID a \<and> ob_Status e = ''pending''"
  using CreateOutboxEvent_Inr [OF assms(1)] assms(2)
  by (auto simp: key_view_def payout_view_def outbox_event_of_def seq_simps varchar_event_type
      intro!: ext)

lemma GetIdempotencyKey_view:
  "key_view d (gip_ClientID a) (gip_Key a) = Some k \<Longrightarrow> GetIdempotencyKey a d = (Inr k, d)"
  "key_view d (gip_ClientID a) (gip_Key a) = None \<Longrightarrow> \<exists>e. GetIdempotencyKey a d = (Inl e, d)"
  by (auto simp: key_view_def GetIdempotencyKey_def select_one_def split: if_splits)

lemma GetPayoutByClientID_view:
  "payout_view d (bcp_ClientID b) (bcp_ID b) = Some p \<Longrightarrow> GetPayoutByClientID b d = (Inr p, d)"
  "payout_view d (bcp_ClientID b) (bcp_ID b) = None \<Longrightarrow> GetPayoutByClientID b d = (Inl ErrNoRows, d)"
  by (simp_all add: payout_view_def GetPayoutByClientID_def select_one_def)

interpretation pg: payout_store_contract "pg_payout_store pg" key_view payout_view tbl_outbox_events
proof
  fix d :: db and b :: by_client_params
  show "snd (ps_GetFundingSourceByClientID (pg_payout_store pg) b d) = d"
    by (simp add: GetFundingSourceByClientID_def)
qed (auto simp: GetIdempotencyKey_view GetPayoutByClientID_view
    dest: pg_create_payout pg_create_key pg_create_event)

lemma WithinTx_DBTxRunner: "WithinTx (DBTxRunner r) = Payouts_WithinTx r"
  by (rule ext) simp

interpretation api: payout_service_contract "pg_payout_store pg" key_view payout_view tbl_outbox_events
  "DBTxRunner (pool_runner bf cf (pg_payout_store pg))"
  by (intro payout_service_contract.intro pg.payout_store_contract_axioms
      payout_service_contract_axioms.intro, unfold WithinTx_DBTxRunner)
    (rule pool_payouts.transactional_axioms)

lemma api_payout_service_eq: "api_payout_service pg bf cf = api.the_service pg bf cf"
  by (simp add: api_payout_service_def api.the_service_def NewServiceWithTx_def)

section \<open>The effect of a creation\<close>

text \<open>
  The database after a request was carried out for the first time: one payout, its idempotency
  key and its outbox event were added, and nothing else changed.
\<close>

definition payout_created ::
  "postgres \<Rightarrow> pgx_codec \<Rightarrow> create_payout_request \<Rightarrow> db \<Rightarrow> payout_row \<Rightarrow> db \<Rightarrow> bool" where
  "payout_created pg codec rq d p d' \<longleftrightarrow>
     (\<exists>k e doc.
        d' = d\<lparr>tbl_payouts := tbl_payouts d @ [p],
               tbl_idempotency_keys := tbl_idempotency_keys d @ [k],
               tbl_outbox_events := tbl_outbox_events d @ [e],
               db_uuid_seq := db_uuid_seq d + 2\<rparr> \<and>
        key_view d (rq_clientID rq) (rq_idempotencyKey rq) = None \<and>
        (\<exists>f \<in> set (tbl_funding_sources d). fs_ClientID f = rq_clientID rq \<and> fs_ID f = rq_fundingSourceID rq) \<and>
        pay_ClientID p = rq_clientID rq \<and> pay_FundingSourceID p = rq_fundingSourceID rq \<and>
        pay_Status p = ''pending'' \<and> numeric_10_2 (rq_amount rq) = Inr (pay_Amount p) \<and>
        ik_ClientID k = rq_clientID rq \<and> ik_Key k = rq_idempotencyKey rq \<and>
        ik_RequestHash k = rq_hash rq \<and> ik_PayoutID k = pay_ID p \<and>
        ob_EventType e = EventTypeProcessPayout \<and> ob_EntityID e = pay_ID p \<and>
        ob_Status e = ''pending'' \<and> ob_ClaimedAt e = None \<and>
        marshalPayoutCreatedOutboxPayload codec p = Inr doc \<and> pg_jsonb pg doc = Some (ob_Payload e))"

lemma create_payout_tx_created:
  assumes "create_payout_tx codec rq (pg_payout_store pg) d = (Inr p, d')"
  shows "d' = d \<and> recorded key_view payout_view d rq p \<or> payout_created pg codec rq d p d'"
  using assms
proof (cases rule: pg.tx_success)
  case (created f d1 d2 k e doc)
  have source: "\<exists>f \<in> set (tbl_funding_sources d). fs_ClientID f = rq_clientID rq \<and> fs_ID f = rq_fundingSourceID rq"
    using created(2) by (auto simp: GetFundingSourceByClientID_def seq_simps dest!: find_SomeD)
  have p: "payout_of pg (payout_params rq) d = Inr p"
    "d1 = d\<lparr>tbl_payouts := tbl_payouts d @ [p], db_uuid_seq := Suc (db_uuid_seq d)\<rparr>"
    using CreatePayout_Inr created(3) by simp_all
  have k: "idempotency_key_of \<lparr>cip_Key = rq_idempotencyKey rq, cip_ClientID = rq_clientID rq,
      cip_RequestHash = rq_hash rq, cip_PayoutID = pay_ID p\<rparr> d1 = Inr k"
    "d2 = d1\<lparr>tbl_idempotency_keys := tbl_idempotency_keys d1 @ [k]\<rparr>"
    using CreateIdempotencyKey_Inr created(4) by simp_all
  have e: "outbox_event_of pg \<lparr>cop_EventType = EventTypeProcessPayout, cop_EntityID = pay_ID p,
      cop_Payload = doc\<rparr> d2 = Inr e"
    "d' = d2\<lparr>tbl_outbox_events := tbl_outbox_events d2 @ [e], db_uuid_seq := Suc (db_uuid_seq d2)\<rparr>"
    using CreateOutboxEvent_Inr created(6) by simp_all
  have "payout_created pg codec rq d p d'"
    unfolding payout_created_def
    by (rule exI [of _ k], rule exI [of _ e], rule exI [of _ doc])
      (use p k e created(1,5) source in \<open>auto simp: payout_of_def payout_params_def idempotency_key_of_def
         outbox_event_of_def json_value_def varchar_event_type seq_simps split: option.splits\<close>)
  then show ?thesis ..
qed simp

lemma payout_created_recorded:
  assumes "payout_created pg codec rq d p d'" and "recorded key_view payout_view d' rq q"
    and "create_payout_tx codec rq (pg_payout_store pg) d = (Inr p, d')"
  shows "q = p"
  using pg.tx_recorded [OF assms(3)] assms(2) by (auto simp: recorded_def split: option.splits)

lemma hundredths_text: "\<exists>t. numericString (mk_numeric h (- 2)) = Inr t"
  using numericString_defined [of "mk_numeric h (- 2)" h] by (auto simp: mk_numeric_def usable_numeric_def)

lemma stored_amount_text: "numeric_10_2 v = Inr w \<Longrightarrow> \<exists>t. numericString w = Inr t"
  using hundredths_text by (auto simp: numeric_10_2_Inr)

lemma created_view_defined: "payout_created pg codec rq d p d' \<Longrightarrow> \<exists>v. payoutFromDB codec p = Inr v"
proof -
  assume "payout_created pg codec rq d p d'"
  then have "numeric_10_2 (rq_amount rq) = Inr (pay_Amount p)" by (auto simp: payout_created_def)
  from stored_amount_text [OF this] show ?thesis by (auto simp: payoutFromDB_def)
qed

text \<open>The outcomes of a call, in terms of the database.\<close>

lemma api_create_run:
  assumes "create_payout_run codec (pg_payout_store pg) (DBTxRunner (pool_runner bf cf (pg_payout_store pg))) rq d =
    (res, d')"
  shows "d' = d \<or> (\<exists>p. payout_created pg codec rq d p d' \<and> recorded key_view payout_view d' rq p \<and>
    (\<forall>e. res = Inl e \<longrightarrow> cf d' = Unacknowledged e))"
proof (cases "d' = d")
  case False
  with api.run_state [OF assms] obtain p where tx: "create_payout_tx codec rq (pg_payout_store pg) d = (Inr p, d')"
    by blast
  from create_payout_tx_created [OF tx] False have created: "payout_created pg codec rq d p d'" by blast
  note rec = pg.tx_recorded [OF tx]
  obtain r d1 where run: "Payouts_WithinTx (pool_runner bf cf (pg_payout_store pg)) (create_payout_tx codec rq) d = (r, d1)"
    by (cases "Payouts_WithinTx (pool_runner bf cf (pg_payout_store pg)) (create_payout_tx codec rq) d")
  have "cf d' = Unacknowledged e" if res: "res = Inl e" for e
  proof -
    from assms run res have fail: "d' = d1" if "r = Inl e'" for e'
      using that by (auto simp: create_payout_run_def split: if_splits prod.splits sum.splits option.splits
          elim: pg.load_cases)
    obtain e' where r: "r = Inl e'" using assms run res by (cases r) (auto simp: create_payout_run_def)
    then have d1: "d1 = d'" using fail by simp
    have "e' \<noteq> ErrConcurrentIdempotencyKeyInsert"
      using assms run r d1 res pg.load_recorded [OF rec] by (auto simp: create_payout_run_def)
    then have "e = e'" using assms run r res by (simp add: create_payout_run_def)
    with run r d1 False show ?thesis
      by (auto simp: Payouts_WithinTx_def dest!: pool_run_Inl)
  qed
  with created rec show ?thesis by blast
qed simp

section \<open>Records outlive later activity\<close>

text \<open>Lookups by columns no statement updates survive any growth of the table.\<close>

lemma find_core:
  assumes "\<And>x. P x = Q (core x)"
  shows "map_option core (find P xs) = find Q (map core xs)"
  by (induction xs) (simp_all add: assms)

lemma find_extends:
  assumes "extends (map core xs) (map core ys)" and "\<And>x. P x = Q (core x)" and "find P xs = Some x"
  shows "\<exists>y. find P ys = Some y \<and> core y = core x"
proof -
  obtain zs where "map core ys = map core xs @ zs" using assms(1) by (auto simp: extends_def)
  moreover have "find Q (map core xs) = Some (core x)"
    using find_core [of P Q core xs, OF assms(2)] assms(3) by (metis option.simps(9))
  ultimately have "find Q (map core ys) = Some (core x)" by (simp add: find_append)
  with find_core [of P Q core ys, OF assms(2)] show ?thesis by (cases "find P ys") auto
qed

lemma key_view_extends:
  "db_extends d d' \<Longrightarrow> key_view d c k = Some row \<Longrightarrow> key_view d' c k = Some row"
  by (auto simp: db_extends_def extends_def key_view_def find_append split: if_splits)

lemma payout_view_extends:
  assumes "db_extends d d'" and "payout_view d c i = Some p"
  shows "\<exists>p'. payout_view d' c i = Some p' \<and> payout_core p' = payout_core p"
  unfolding payout_view_def
  by (rule find_extends [where Q = "\<lambda>x. fst (snd x) = c \<and> fst x = i"])
    (use assms in \<open>simp_all add: db_extends_def payout_view_def, simp add: payout_core_def\<close>)

lemma recorded_extends:
  assumes "db_extends d d'" and "recorded key_view payout_view d rq p"
  shows "\<exists>p'. recorded key_view payout_view d' rq p' \<and> payout_core p' = payout_core p"
proof -
  obtain k where k: "key_view d (rq_clientID rq) (rq_idempotencyKey rq) = Some k"
    "ik_RequestHash k = rq_hash rq" "payout_view d (rq_clientID rq) (ik_PayoutID k) = Some p"
    using assms(2) by (auto simp: recorded_def split: option.splits)
  from payout_view_extends [OF assms(1) k(3)] key_view_extends [OF assms(1) k(1)] k(2)
  show ?thesis by (auto simp: recorded_def)
qed

text \<open>The part of the service's view that never changes.\<close>

definition view_core :: "payout \<Rightarrow> bytes list" where
  "view_core v =
     [po_ID v, po_ClientID v, po_FundingSourceID v, po_ExternalID v, po_RecipientName v,
      po_RecipientAccountID v, po_Amount v, po_Currency v]"

lemma view_core_eq:
  "payoutFromDB codec p = Inr v \<Longrightarrow> payoutFromDB codec q = Inr w \<Longrightarrow> payout_core p = payout_core q \<Longrightarrow>
     view_core v = view_core w"
  by (auto simp: payoutFromDB_def payout_core_def view_core_def seq_simps)

lemma view_defined:
  "payoutFromDB codec p = Inr v \<Longrightarrow> payout_core p = payout_core q \<Longrightarrow> \<exists>w. payoutFromDB codec q = Inr w"
  by (auto simp: payoutFromDB_def payout_core_def seq_simps)

lemma run_replay_no_fault:
  assumes "recorded key_view payout_view d rq p" and "bf d = None" and "cf d = Committed"
  shows "create_payout_run codec (pg_payout_store pg) (DBTxRunner (pool_runner bf cf (pg_payout_store pg))) rq d =
    (Inr p, d)"
  using pool_run [of bf d "create_payout_tx codec rq" "pg_payout_store pg" p d cf,
      OF assms(2) pg.tx_replay [OF assms(1)] assms(3)]
  by (simp add: create_payout_run_def Payouts_WithinTx_def)

section \<open>Invariants of the tables\<close>

text \<open>Every payout has its idempotency key and its \<open>process_payout\<close> event with its payload.\<close>

definition payout_backed :: "postgres \<Rightarrow> pgx_codec \<Rightarrow> db \<Rightarrow> payout_row \<Rightarrow> bool" where
  "payout_backed pg codec d p \<longleftrightarrow>
     (\<exists>k \<in> set (tbl_idempotency_keys d). ik_PayoutID k = pay_ID p \<and> ik_ClientID k = pay_ClientID p) \<and>
     (\<exists>e \<in> set (tbl_outbox_events d). ob_EventType e = EventTypeProcessPayout \<and> ob_EntityID e = pay_ID p \<and>
        (\<exists>doc. marshalPayoutCreatedOutboxPayload codec p = Inr doc \<and> pg_jsonb pg doc = Some (ob_Payload e)))"

definition payouts_backed :: "postgres \<Rightarrow> pgx_codec \<Rightarrow> db \<Rightarrow> bool" where
  "payouts_backed pg codec d \<longleftrightarrow> (\<forall>p \<in> set (tbl_payouts d). payout_backed pg codec d p)"

lemma payout_backed_cong:
  "payout_core p = payout_core q \<Longrightarrow> payout_backed pg codec d p = payout_backed pg codec d q"
  by (simp add: payout_backed_def payout_core_def marshalPayoutCreatedOutboxPayload_def)

lemma payout_created_backed:
  assumes "payouts_backed pg codec d" and "payout_created pg codec rq d p d'"
  shows "payouts_backed pg codec d'"
proof -
  from assms(2) have "payout_backed pg codec d' p" "tbl_payouts d' = tbl_payouts d @ [p]"
    and "extends (tbl_idempotency_keys d) (tbl_idempotency_keys d')"
    and "extends (tbl_outbox_events d) (tbl_outbox_events d')"
    by (auto simp: payout_created_def payout_backed_def)
  with assms(1) show ?thesis
    by (auto simp: payouts_backed_def payout_backed_def dest: extends_set)
      (meson extends_set)+
qed

lemma create_payout_tx_keeps:
  "keeps wf_step (create_payout_tx codec rq (pg_payout_store pg))"
  "keeps db_extends (create_payout_tx codec rq (pg_payout_store pg))"
proof -
  have load: "keeps wf_step (loadIdempotentPayout (pg_payout_store pg) c k h)"
    "keeps db_extends (loadIdempotentPayout (pg_payout_store pg) c k h)" for c k h
    using pg.load_cases [of pg c k h]
    by (auto simp: keeps_def wf_step_def split_beta intro: db_extends_refl) (metis db_extends_refl prod.collapse)+
  show "keeps wf_step (create_payout_tx codec rq (pg_payout_store pg))"
    unfolding create_payout_tx_def
    by (auto intro!: keeps_intros keeps_lift_result keeps_wf load reflp_wf_step transp_wf_step
        split: option.split)
  show "keeps db_extends (create_payout_tx codec rq (pg_payout_store pg))"
    unfolding create_payout_tx_def
    by (auto intro!: keeps_intros keeps_lift_result keeps_ext load reflp_db_extends transp_db_extends
        split: option.split)
qed

text \<open>Whatever a call does, it is the identity or a successful transaction on the database.\<close>

lemma api_create_state:
  assumes "Payouts_CreatePayout codec (api_payout_service pg bf cf) inp d = (r, d')"
  obtains (same) "d' = d"
    | (created) rq p where "create_payout_request codec inp = Inr rq"
        "create_payout_tx codec rq (pg_payout_store pg) d = (Inr p, d')" "payout_created pg codec rq d p d'"
proof (cases "create_payout_request codec inp")
  case (Inl e)
  with assms same show ?thesis by (simp add: api_payout_service_eq api.service_unfold)
next
  case (Inr rq)
  obtain res d1 where run: "create_payout_run codec (pg_payout_store pg)
      (DBTxRunner (pool_runner bf cf (pg_payout_store pg))) rq d = (res, d1)"
    by (cases "create_payout_run codec (pg_payout_store pg) (DBTxRunner (pool_runner bf cf (pg_payout_store pg))) rq d")
  then have "d1 = d'"
    using assms Inr
    by (auto simp: api_payout_service_eq api.service_unfold and_then_def lift_result_def split: sum.splits)
  with api.run_state [OF run] create_payout_tx_created same created [OF Inr] show ?thesis by metis
qed

lemma api_create_keeps:
  assumes "Payouts_CreatePayout codec (api_payout_service pg bf cf) inp d = (r, d')"
  shows "wf_step d d' \<and> db_extends d d'"
  using assms
proof (cases rule: api_create_state)
  case same
  then show ?thesis by (simp add: wf_step_def)
next
  case (created rq p)
  with create_payout_tx_keeps [of codec rq pg, THEN keepsD, of d] show ?thesis by simp
qed

lemma api_create_wf: "keeps wf_step (Payouts_CreatePayout codec (api_payout_service pg bf cf) inp)"
  and api_create_extends: "keeps db_extends (Payouts_CreatePayout codec (api_payout_service pg bf cf) inp)"
  by (rule keepsI, metis api_create_keeps prod.collapse)+

section \<open>The request and its columns\<close>

text \<open>The parts of a request its hash is taken of.\<close>

definition hash_parts :: "pgx_codec \<Rightarrow> create_payout_request \<Rightarrow> bytes list" where
  "hash_parts codec rq =
     [UUIDString codec (rq_clientID rq), UUIDString codec (rq_fundingSourceID rq), rq_externalID rq,
      rq_recipientName rq, rq_recipientAccountID rq,
      (case numericString (rq_amount rq) of Inr t \<Rightarrow> t | Inl _ \<Rightarrow> []), rq_currency rq]"

lemma create_payout_request_Inr:
  assumes "create_payout_request codec inp = Inr rq"
  shows "rq_externalID rq = TrimSpace (in_ExternalID inp)" "length (rq_externalID rq) \<le> 255"
    "rq_recipientName rq = TrimSpace (in_RecipientName inp)" "length (rq_recipientName rq) \<le> 255"
    "rq_recipientName rq \<noteq> []"
    "rq_recipientAccountID rq = TrimSpace (in_RecipientAccountID inp)"
    "length (rq_recipientAccountID rq) \<le> 255" "rq_recipientAccountID rq \<noteq> []"
    "rq_currency rq = TrimSpace (in_Currency inp)" "length (rq_currency rq) \<le> 12" "rq_currency rq \<noteq> []"
    "rq_idempotencyKey rq = TrimSpace (in_IdempotencyKey inp)" "rq_idempotencyKey rq \<noteq> []"
    "parsePositiveNumeric codec (in_Amount inp) = Inr (rq_amount rq)"
    "rq_hash rq = createPayoutRequestHash (hash_parts codec rq)"
  using assms
  by (auto simp: create_payout_request_def Let_def seq_simps normalizeOptionalText_def
      normalizeRequiredText_def hash_parts_def split: if_splits sum.splits)

lemma varchar_limits: "length s \<le> n \<Longrightarrow> varchar n s = Inl e \<Longrightarrow> e = PgError ''22021'' ''''"
  using rune_count_le [of s] by (auto simp: varchar_def split: if_splits)

lemma varchar_same: "length s \<le> n \<Longrightarrow> varchar n s = Inr t \<Longrightarrow> t = s"
  using rune_count_le [of s] by (auto simp: varchar_def split: if_splits)

lemma nullable_same:
  "length s \<le> n \<Longrightarrow> nullable (varchar n) (textParam s) = Inr t \<Longrightarrow> Text_String t = s"
  by (auto simp: nullable_def textParam_def null_text_def dest: varchar_same split: if_splits sum.splits)

lemma numeric_refused: "usable_numeric v \<Longrightarrow> numeric_10_2 v = Inl e \<Longrightarrow> e = PgError ''22003'' ''''"
  by (auto simp: numeric_10_2_def usable_numeric_def Let_def split: if_splits)

lemma nullable_Inl [seq_simps]:
  "nullable col t = Inl e \<longleftrightarrow> Text_Valid t \<and> col (Text_String t) = Inl e"
  by (auto simp: nullable_def split: sum.splits)

lemma stored_amount_close:
  assumes "numeric_10_2 v = Inr w" and "0 < the (num_Int v)"
  shows "\<bar>numeric_value w - numeric_value v\<bar> \<le> 1 / 200"
proof -
  obtain i where i: "num_Int v = Some i" using assms(1) by (auto simp: numeric_10_2_Inr usable_numeric_def)
  have "numeric_value w = rat_of_int (hundredths i (sint (num_Exp v))) / 100"
    using assms(1) i by (simp add: numeric_10_2_Inr numeric_value_def mk_numeric_def)
  with hundredths_close [OF i] assms(2) i show ?thesis by (simp only: option.sel)
qed

section \<open>Properties\<close>

text \<open>C1: what a successful \<open>CreatePayout\<close> means. The input was valid; the database now holds, for
  the client and the trimmed idempotency key, the hash of this request and its payout, which is the
  one returned; and either nothing changed (the request had been carried out before) or exactly one
  payout, one key and one \<open>process_payout\<close> event were added together.\<close>

theorem create_payout_success:
  assumes "Payouts_CreatePayout codec (api_payout_service pg bf cf) inp d = (Inr v, d')"
  shows "\<exists>rq p. create_payout_request codec inp = Inr rq \<and> payoutFromDB codec p = Inr v \<and>
    recorded key_view payout_view d' rq p \<and> (d' = d \<or> payout_created pg codec rq d p d')"
proof -
  obtain rq p where rq: "create_payout_request codec inp = Inr rq"
    and run: "create_payout_run codec (pg_payout_store pg) (DBTxRunner (pool_runner bf cf (pg_payout_store pg))) rq d = (Inr p, d')"
    and view: "payoutFromDB codec p = Inr v"
    using assms by (auto simp: api_payout_service_eq api.service_unfold seq_simps split: sum.splits)
  have rec: "recorded key_view payout_view d' rq p"
    using api.run_success [OF run] view api.zero_payout_not_served [of codec] by auto
  from api_create_run [OF run] have "d' = d \<or> payout_created pg codec rq d p d'"
  proof
    assume "\<exists>q. payout_created pg codec rq d q d' \<and> recorded key_view payout_view d' rq q \<and>
      (\<forall>e. Inr p = Inl e \<longrightarrow> cf d' = Unacknowledged e)"
    then obtain q where "payout_created pg codec rq d q d'" "recorded key_view payout_view d' rq q" by blast
    with rec show ?thesis by (auto simp: recorded_def split: option.splits)
  qed simp
  with rq view rec show ?thesis by blast
qed

text \<open>C2: a failing \<open>CreatePayout\<close> leaves no partial payout. Whatever fails (validation, a statement,
  the transaction, the connection), the database is unchanged; the one exception is a commit whose
  acknowledgement was lost, and then the complete creation took place.\<close>

theorem create_payout_failure:
  assumes "Payouts_CreatePayout codec (api_payout_service pg bf cf) inp d = (Inl e, d')"
  shows "d' = d \<or>
    (\<exists>rq p. create_payout_request codec inp = Inr rq \<and> payout_created pg codec rq d p d' \<and>
       cf d' = Unacknowledged e)"
proof (cases "create_payout_request codec inp")
  case (Inl e')
  with assms show ?thesis by (simp add: api_payout_service_eq api.service_unfold)
next
  case (Inr rq)
  obtain r d1 where run: "create_payout_run codec (pg_payout_store pg)
      (DBTxRunner (pool_runner bf cf (pg_payout_store pg))) rq d = (r, d1)"
    by (cases "create_payout_run codec (pg_payout_store pg) (DBTxRunner (pool_runner bf cf (pg_payout_store pg))) rq d")
  have d1: "d1 = d'" and r: "r = Inl e \<or> (\<exists>p. r = Inr p \<and> payoutFromDB codec p = Inl e)"
    using assms run Inr
    by (auto simp: api_payout_service_eq api.service_unfold and_then_def lift_result_def split: sum.splits)
  show ?thesis
  proof (cases "d' = d")
    case False
    with api_create_run [OF run] d1 obtain q where q: "payout_created pg codec rq d q d'"
      "recorded key_view payout_view d' rq q" "\<And>e. r = Inl e \<Longrightarrow> cf d' = Unacknowledged e"
      by blast
    have "r \<noteq> Inr p" if "payoutFromDB codec p = Inl e" for p
    proof
      assume "r = Inr p"
      with run d1 api.run_success have "p = zero_payout_row \<and> key_view d' (rq_clientID rq) (rq_idempotencyKey rq) = None \<or>
          recorded key_view payout_view d' rq p"
        by blast
      then have "p = q" using q(2) by (auto simp: recorded_def split: option.splits)
      with created_view_defined [OF q(1)] that show False by auto
    qed
    with r q Inr show ?thesis by blast
  qed simp
qed


text \<open>C17: an idempotency key stands for one request. When a client's key is on record with the hash of
  another request, \<open>CreatePayout\<close> fails and changes nothing; without a fault of the pool the error is
  \<open>ErrIdempotencyConflict\<close>.\<close>

theorem create_payout_conflict:
  assumes "create_payout_request codec inp = Inr rq"
    and "key_view d (rq_clientID rq) (rq_idempotencyKey rq) = Some k"
    and "ik_RequestHash k \<noteq> rq_hash rq"
  shows "\<exists>e. Payouts_CreatePayout codec (api_payout_service pg bf cf) inp d = (Inl e, d) \<and>
    (bf d = None \<longrightarrow> e = ErrIdempotencyConflict)"
proof -
  obtain e where run: "create_payout_run codec (pg_payout_store pg)
      (DBTxRunner (pool_runner bf cf (pg_payout_store pg))) rq d = (Inl e, d)"
    using api.run_conflict [OF assms(2,3)] by blast
  have "e = ErrIdempotencyConflict" if "bf d = None"
    using run pool_run_body_error [of bf d "create_payout_tx codec rq", OF that pg.tx_conflict [OF assms(2,3)]]
    by (simp add: create_payout_run_def Payouts_WithinTx_def)
  with run assms(1) show ?thesis
    by (auto simp: api_payout_service_eq api.service_unfold and_then_run_Inl)
qed

text \<open>C15: the transactional outbox. Every payout has its idempotency key and a \<open>process_payout\<close> event
  with its payload, so no accepted payout lacks the event that will carry it to the workers. Every
  call of \<open>CreatePayout\<close>, whatever its outcome, keeps this true.\<close>

theorem create_payout_keeps_backed:
  assumes "payouts_backed pg codec d"
  shows "payouts_backed pg codec (snd (Payouts_CreatePayout codec (api_payout_service pg bf cf) inp d))"
proof -
  obtain r d' where run: "Payouts_CreatePayout codec (api_payout_service pg bf cf) inp d = (r, d')"
    by (cases "Payouts_CreatePayout codec (api_payout_service pg bf cf) inp d")
  from api_create_state [OF run] assms payout_created_backed run show ?thesis by (metis snd_conv)
qed


text \<open>C19: validation protects the columns. For a request the service accepts, computing the row of the
  new payout fails only for text the server cannot store (22021) or an amount of \<open>10^8\<close> or more
  (22003); no text is too long for its column, and nothing is cut. The amount that is stored differs
  from the positive amount of the request by at most half a cent.\<close>

theorem accepted_request_fits_columns:
  assumes "create_payout_request codec inp = Inr rq"
  shows "case payout_of pg (payout_params rq) d of
      Inl e \<Rightarrow> e = PgError ''22021'' '''' \<or> e = PgError ''22003'' ''''
    | Inr p \<Rightarrow>
        Text_String (pay_ExternalID p) = TrimSpace (in_ExternalID inp) \<and>
        Text_String (pay_RecipientName p) = TrimSpace (in_RecipientName inp) \<and>
        Text_String (pay_RecipientAccountID p) = TrimSpace (in_RecipientAccountID inp) \<and>
        pay_Currency p = TrimSpace (in_Currency inp) \<and> 0 < numeric_value (rq_amount rq) \<and>
        \<bar>numeric_value (pay_Amount p) - numeric_value (rq_amount rq)\<bar> \<le> 1 / 200"
proof (cases "payout_of pg (payout_params rq) d")
  case (Inl e)
  have "usable_numeric (rq_amount rq)"
    using create_payout_request_Inr(14) [OF assms] by (simp add: parsePositiveNumeric_Inr)
  with Inl create_payout_request_Inr(2,4,7,10) [OF assms]
  have "e = PgError ''22021'' '''' \<or> e = PgError ''22003'' ''''"
    by (auto simp: payout_of_def payout_params_def textParam_def seq_simps
        dest: varchar_limits numeric_refused)
  with Inl show ?thesis by simp
next
  case (Inr p)
  note rq = create_payout_request_Inr [OF assms]
  from Inr rq(2,4,7,10) have "Text_String (pay_ExternalID p) = rq_externalID rq"
    "Text_String (pay_RecipientName p) = rq_recipientName rq"
    "Text_String (pay_RecipientAccountID p) = rq_recipientAccountID rq"
    "pay_Currency p = rq_currency rq" "numeric_10_2 (rq_amount rq) = Inr (pay_Amount p)"
    by (auto simp: payout_of_def payout_params_def seq_simps dest: nullable_same varchar_same)
  with rq stored_amount_close [of "rq_amount rq"] parsed_positive [OF rq(14)] show ?thesis
    by (simp add: Inr parsePositiveNumeric_Inr)
qed


end
