(* ===== verification/Api_Router.thy ===== *)
theory Api_Router
  imports Http_Api Payout_Guarantees
begin

text \<open>
  The API as \<open>cmd/api/main.go\<close> puts it together: the three services on PostgreSQL, their handlers,
  and the router with the API-key middleware; and what every request goes through, the route and the
  authentication.
\<close>

section \<open>The services on the database\<close>

definition pg_funding_store :: "postgres \<Rightarrow> db funding_source_store" where
  "pg_funding_store pg =
     \<lparr>fss_CreateFundingSource = CreateFundingSource pg,
      fss_GetFundingSourceByClientID = GetFundingSourceByClientID,
      fss_ListFundingSourcesByClientID = ListFundingSourcesByClientID\<rparr>"

definition pg_client_store :: "db client_store" where
  "pg_client_store = \<lparr>cls_GetClientByApiKey = GetClientByApiKey\<rparr>"

definition api_funding_service :: "postgres \<Rightarrow> db funding_service option" where
  "api_funding_service pg = Some (Funding_NewService (Some (pg_funding_store pg)))"

definition api_authenticator :: "pgx_codec \<Rightarrow> db authenticator option" where
  "api_authenticator codec = Some (AuthenticateAPIKey codec (Some (Auth_NewService (Some pg_client_store))))"

definition NewPayoutsHandler :: "pgx_codec \<Rightarrow> 's payout_service option \<Rightarrow> 's payout_read_service option" where
  "NewPayoutsHandler codec svc = Some
     \<lparr>prs_CreatePayout = Payouts_CreatePayout codec svc, prs_GetPayout = Payouts_GetPayout codec svc,
      prs_ListPayouts = Payouts_ListPayouts codec svc\<rparr>"

definition NewFundingSourcesHandler ::
  "pgx_codec \<Rightarrow> 's funding_service option \<Rightarrow> 's funding_source_service option" where
  "NewFundingSourcesHandler codec svc = Some
     \<lparr>fsr_CreateFundingSource = Funding_CreateFundingSource codec svc,
      fsr_GetFundingSource = Funding_GetFundingSource codec svc,
      fsr_ListFundingSources = Funding_ListFundingSources codec svc\<rparr>"

text \<open>The router of a running API; \<open>bf\<close> and \<open>cf\<close> are the faults of the pool's transactions.\<close>

definition api_router ::
  "pgx_codec \<Rightarrow> postgres \<Rightarrow> (db \<Rightarrow> go_error option) \<Rightarrow> (db \<Rightarrow> commit_outcome) \<Rightarrow> (timestamp \<Rightarrow> bytes) \<Rightarrow>
   db route list" where
  "api_router codec pg bf cf time_text =
     (let payoutsHandler = NewPayoutsHandler codec (api_payout_service pg bf cf);
          fundingSourcesHandler = NewFundingSourcesHandler codec (api_funding_service pg)
      in NewRouter GetCurrentClient
           (ListFundingSources_handler time_text fundingSourcesHandler)
           (GetFundingSource_handler time_text fundingSourcesHandler)
           (CreateFundingSource_handler time_text fundingSourcesHandler)
           (ListPayouts_handler time_text payoutsHandler)
           (GetPayout_handler time_text payoutsHandler)
           (CreatePayout_handler time_text payoutsHandler)
           (APIKey (api_authenticator codec)))"

section \<open>Routing\<close>

definition not_found :: http_response where
  "not_found = http_error ''404 page not found'' 404"

definition method_not_allowed :: http_response where
  "method_not_allowed = http_error ''Method Not Allowed'' 405"

text \<open>
  The routes by hand: the reference the router's table is compared with. \<open>get\<close> and \<open>post\<close> are the
  handlers of a path, \<open>None\<close> a method without a route.
\<close>

definition by_method :: "'s handler option \<Rightarrow> 's handler option \<Rightarrow> 's handler" where
  "by_method get post pv r s =
     (let h = (if hr_Method r = ''GET'' \<or> hr_Method r = ''HEAD'' then get
               else if hr_Method r = ''POST'' then post else None)
      in case h of None \<Rightarrow> (method_not_allowed, s) | Some h \<Rightarrow> h pv r s)"

lemma match_path_cases:
  "match_path [Literal l] ss = (if ss = [l] then Some (\<lambda>_. []) else None)"
  "match_path [Literal l, Literal m] ss = (if ss = [l, m] then Some (\<lambda>_. []) else None)"
  "match_path [Literal l, Wildcard n] ss =
     (case ss of [a, b] \<Rightarrow> if a = l \<and> b \<noteq> [] then Some ((\<lambda>_. [])(n := b)) else None | _ \<Rightarrow> None)"
  by ((cases ss; cases "tl ss"; cases "tl (tl ss)"; auto)+)

lemma serve_none:
  "filter (\<lambda>rt. match_path (rt_Pattern rt) (hr_Segments r) \<noteq> None) routes = [] \<Longrightarrow>
     ServeHTTP routes r s = (not_found, s)"
  by (simp add: ServeHTTP_def not_found_def)

lemma serve_one:
  assumes "filter (\<lambda>rt. match_path (rt_Pattern rt) (hr_Segments r) \<noteq> None) routes =
      [\<lparr>rt_Method = ''GET'', rt_Pattern = p, rt_Handler = g\<rparr>]"
    and "match_path p (hr_Segments r) = Some pv"
  shows "ServeHTTP routes r s = by_method (Some g) None pv r s"
  using assms by (simp add: ServeHTTP_def by_method_def match_method_def method_not_allowed_def)

lemma serve_two:
  assumes "filter (\<lambda>rt. match_path (rt_Pattern rt) (hr_Segments r) \<noteq> None) routes =
      [\<lparr>rt_Method = ''GET'', rt_Pattern = p, rt_Handler = g\<rparr>,
       \<lparr>rt_Method = ''POST'', rt_Pattern = p, rt_Handler = h\<rparr>]"
    and "match_path p (hr_Segments r) = Some pv"
  shows "ServeHTTP routes r s = by_method (Some g) (Some h) pv r s"
  using assms by (auto simp: ServeHTTP_def by_method_def match_method_def method_not_allowed_def)

lemma serve_routes:
  "ServeHTTP (NewRouter cc ls gs cs lp gp cp mw) r s =
     (let go = (\<lambda>get post pv. by_method get post pv r s) in
      case hr_Segments r of
        [a] \<Rightarrow>
          if a = ''healthz'' then go (Some healthz) None (\<lambda>_. [])
          else if a = ''funding-sources'' then go (Some (mw ls)) (Some (mw cs)) (\<lambda>_. [])
          else if a = ''payouts'' then go (Some (mw lp)) (Some (mw cp)) (\<lambda>_. [])
          else (not_found, s)
      | [a, b] \<Rightarrow>
          if a = ''clients'' \<and> b = ''me'' then go (Some (mw cc)) None (\<lambda>_. [])
          else if a = ''funding-sources'' \<and> b \<noteq> [] then go (Some (mw gs)) None ((\<lambda>_. [])(''id'' := b))
          else if a = ''payouts'' \<and> b \<noteq> [] then go (Some (mw gp)) None ((\<lambda>_. [])(''id'' := b))
          else (not_found, s)
      | _ \<Rightarrow> (not_found, s))"
  (is "ServeHTTP ?routes r s = _")
proof -
  note rules = NewRouter_def Let_def match_path_cases
  consider (none) "hr_Segments r = []" | (one) a where "hr_Segments r = [a]"
    | (two) a b where "hr_Segments r = [a, b]" | (many) a b c t where "hr_Segments r = a # b # c # t"
    by (metis list.exhaust)
  then show ?thesis
  proof cases
    case none
    then have "ServeHTTP ?routes r s = (not_found, s)" by (intro serve_none) (simp add: rules)
    with none show ?thesis by simp
  next
    case many
    then have "ServeHTTP ?routes r s = (not_found, s)" by (intro serve_none) (simp add: rules)
    with many show ?thesis by simp
  next
    case (one a)
    consider "a = ''healthz''" | "a = ''funding-sources''" | "a = ''payouts''"
      | (other) "a \<notin> {''healthz'', ''funding-sources'', ''payouts''}" by blast
    then show ?thesis
    proof cases
      case 1
      with one have "ServeHTTP ?routes r s = by_method (Some healthz) None (\<lambda>_. []) r s"
        by (intro serve_one [where p = "[Literal ''healthz'']"]) (simp_all add: rules)
      with one 1 show ?thesis by simp
    next
      case 2
      with one have "ServeHTTP ?routes r s = by_method (Some (mw ls)) (Some (mw cs)) (\<lambda>_. []) r s"
        by (intro serve_two [where p = "[Literal ''funding-sources'']"]) (simp_all add: rules)
      with one 2 show ?thesis by simp
    next
      case 3
      with one have "ServeHTTP ?routes r s = by_method (Some (mw lp)) (Some (mw cp)) (\<lambda>_. []) r s"
        by (intro serve_two [where p = "[Literal ''payouts'']"]) (simp_all add: rules)
      with one 3 show ?thesis by simp
    next
      case other
      then have "ServeHTTP ?routes r s = (not_found, s)" by (intro serve_none) (auto simp: rules one)
      with one other show ?thesis by simp
    qed
  next
    case (two a b)
    consider "a = ''clients''" "b = ''me''" | "a = ''funding-sources''" "b \<noteq> []" | "a = ''payouts''" "b \<noteq> []"
      | (other) "\<not> (a = ''clients'' \<and> b = ''me'')" "\<not> (a = ''funding-sources'' \<and> b \<noteq> [])" "\<not> (a = ''payouts'' \<and> b \<noteq> [])"
      by blast
    then show ?thesis
    proof cases
      case 1
      with two have "ServeHTTP ?routes r s = by_method (Some (mw cc)) None (\<lambda>_. []) r s"
        by (intro serve_one [where p = "[Literal ''clients'', Literal ''me'']"]) (simp_all add: rules)
      with two 1 show ?thesis by simp
    next
      case 2
      with two have "ServeHTTP ?routes r s = by_method (Some (mw gs)) None ((\<lambda>_. [])(''id'' := b)) r s"
        by (intro serve_one [where p = "[Literal ''funding-sources'', Wildcard ''id'']"]) (simp_all add: rules)
      with two 2 show ?thesis by simp
    next
      case 3
      with two have "ServeHTTP ?routes r s = by_method (Some (mw gp)) None ((\<lambda>_. [])(''id'' := b)) r s"
        by (intro serve_one [where p = "[Literal ''payouts'', Wildcard ''id'']"]) (simp_all add: rules)
      with two 3 show ?thesis by simp
    next
      case other
      then have "ServeHTTP ?routes r s = (not_found, s)" by (intro serve_none) (auto simp: rules two)
      with two other show ?thesis by auto
    qed
  qed
qed

section \<open>Authentication\<close>

text \<open>The client whose key the request carries.\<close>

definition authenticated :: "pgx_codec \<Rightarrow> http_request \<Rightarrow> db \<Rightarrow> client_row option" where
  "authenticated codec r d =
     (if hr_Header r apiKeyHeader = [] then None
      else Option.bind (ScanUUID codec (hr_Header r apiKeyHeader))
        (\<lambda>k. find (\<lambda>c. cl_ApiKey c = k) (tbl_clients d)))"

definition auth_view :: "pgx_codec \<Rightarrow> client_row \<Rightarrow> auth_client" where
  "auth_view codec c = \<lparr>ac_ID = UUIDString codec (cl_ID c), ac_Name = cl_Name c\<rparr>"

definition refused :: "http_request \<Rightarrow> http_response" where
  "refused r =
     (if hr_Header r apiKeyHeader = [] then http_error ''missing api key'' 401
      else http_error ''unauthorized'' 401)"

definition with_client :: "pgx_codec \<Rightarrow> client_row \<Rightarrow> http_request \<Rightarrow> http_request" where
  "with_client codec c r = r\<lparr>hr_Context := WithClient (hr_Context r) (auth_view codec c)\<rparr>"

lemma with_client_simps [simp]:
  "hr_Header (with_client codec c r) = hr_Header r" "hr_Query (with_client codec c r) = hr_Query r"
  "hr_Body (with_client codec c r) = hr_Body r" "hr_Method (with_client codec c r) = hr_Method r"
  "ClientFromContext (hr_Context (with_client codec c r)) = Some (auth_view codec c)"
  "ac_ID (auth_view codec c) = UUIDString codec (cl_ID c)"
  by (simp_all add: with_client_def auth_view_def)

lemma APIKey_authenticated:
  "APIKey (api_authenticator codec) next pv r d =
     (case authenticated codec r d of
        None \<Rightarrow> (refused r, d)
      | Some c \<Rightarrow> next pv (with_client codec c r) d)"
  by (simp add: APIKey_def api_authenticator_def AuthenticateAPIKey_def Auth_NewService_def
      pg_client_store_def GetClientByApiKey_def select_one_def authenticated_def refused_def
      with_client_def auth_view_def and_then_def map_error_def fail_def ok_def Let_def
      split: option.split)

text \<open>The outcome of a request: no protected handler ran, or one ran for the authenticated client.\<close>

definition protected_handler ::
  "pgx_codec \<Rightarrow> postgres \<Rightarrow> (db \<Rightarrow> go_error option) \<Rightarrow> (db \<Rightarrow> commit_outcome) \<Rightarrow> (timestamp \<Rightarrow> bytes) \<Rightarrow>
   http_request \<Rightarrow> db handler option" where
  "protected_handler codec pg bf cf time_text r =
     (let payoutsHandler = NewPayoutsHandler codec (api_payout_service pg bf cf);
          fundingSourcesHandler = NewFundingSourcesHandler codec (api_funding_service pg);
          get = (hr_Method r = ''GET'' \<or> hr_Method r = ''HEAD'');
          post = (hr_Method r = ''POST'')
      in case hr_Segments r of
           [a] \<Rightarrow>
             if a = ''funding-sources'' \<and> get then Some (ListFundingSources_handler time_text fundingSourcesHandler)
             else if a = ''funding-sources'' \<and> post then Some (CreateFundingSource_handler time_text fundingSourcesHandler)
             else if a = ''payouts'' \<and> get then Some (ListPayouts_handler time_text payoutsHandler)
             else if a = ''payouts'' \<and> post then Some (CreatePayout_handler time_text payoutsHandler)
             else None
         | [a, b] \<Rightarrow>
             if a = ''clients'' \<and> b = ''me'' \<and> get then Some GetCurrentClient
             else if a = ''funding-sources'' \<and> b \<noteq> [] \<and> get
             then Some (\<lambda>_. GetFundingSource_handler time_text fundingSourcesHandler ((\<lambda>_. [])(''id'' := b)))
             else if a = ''payouts'' \<and> b \<noteq> [] \<and> get
             then Some (\<lambda>_. GetPayout_handler time_text payoutsHandler ((\<lambda>_. [])(''id'' := b)))
             else None
         | _ \<Rightarrow> None)"

definition health_ok :: http_response where
  "health_ok = \<lparr>rs_Status = 200, rs_ContentType = ''text/plain; charset=utf-8'', rs_Body = ''ok''\<rparr>"

lemma healthz_ok: "healthz pv r s = (health_ok, s)"
  by (simp add: healthz_def health_ok_def)

text \<open>A route that is not protected answers without looking at the database.\<close>

lemma serve_unprotected:
  assumes "protected_handler codec pg bf cf time_text r = None"
  shows "\<exists>rs \<in> {health_ok, not_found, method_not_allowed}.
    \<forall>d. ServeHTTP (api_router codec pg bf cf time_text) r d = (rs, d)"
proof -
  note run = api_router_def Let_def serve_routes by_method_def healthz_ok
  consider (other) "hr_Segments r = []" | (one) a where "hr_Segments r = [a]"
    | (two) a b where "hr_Segments r = [a, b]" | (many) a b c t where "hr_Segments r = a # b # c # t"
    by (metis list.exhaust)
  then show ?thesis
  proof cases
    case (one a)
    show ?thesis
      using assms
      by (cases "a \<in> {''funding-sources'', ''payouts''}"; cases "a = ''healthz''")
        (auto simp: run one protected_handler_def split: if_splits)
  next
    case (two a b)
    show ?thesis
      using assms
      by (cases "a \<in> {''funding-sources'', ''payouts''} \<and> b \<noteq> []"; cases "a = ''clients'' \<and> b = ''me''")
        (auto simp: run two protected_handler_def split: if_splits)
  qed (auto simp: run)
qed

lemma serve_protected:
  assumes "protected_handler codec pg bf cf time_text r = Some h"
  shows "ServeHTTP (api_router codec pg bf cf time_text) r d =
    (case authenticated codec r d of
       None \<Rightarrow> (refused r, d)
     | Some c \<Rightarrow> h (\<lambda>_. []) (with_client codec c r) d)"
  using assms unfolding api_router_def Let_def serve_routes
  by (auto simp: by_method_def protected_handler_def Let_def APIKey_authenticated
      split: list.split_asm list.split if_splits)

lemma serve_api_cases:
  assumes "ServeHTTP (api_router codec pg bf cf time_text) r d = (rs, d')"
  obtains (fixed) "protected_handler codec pg bf cf time_text r = None" "d' = d"
      "rs \<in> {health_ok, not_found, method_not_allowed}"
    | (refusal) h where "protected_handler codec pg bf cf time_text r = Some h"
      "authenticated codec r d = None" "d' = d" "rs = refused r"
    | (handled) h c where "protected_handler codec pg bf cf time_text r = Some h"
      "authenticated codec r d = Some c" "h (\<lambda>_. []) (with_client codec c r) d = (rs, d')"
proof (cases "protected_handler codec pg bf cf time_text r")
  case None
  from serve_unprotected [OF None] assms fixed [OF None] show thesis by auto
next
  case (Some h)
  show thesis
  proof (cases "authenticated codec r d")
    case None
    with serve_protected [OF Some, of d] assms refusal [OF Some] show thesis by simp
  next
    case (Some c)
    with serve_protected [OF \<open>protected_handler codec pg bf cf time_text r = Some h\<close>, of d] assms
      handled [OF \<open>protected_handler codec pg bf cf time_text r = Some h\<close>]
    show thesis by simp
  qed
qed

end
