(* ===== verification/Api_Guarantees.thy ===== *)
theory Api_Guarantees
  imports Api_Router "HOL-Library.Multiset"
begin

text \<open>
  What the API promises its clients: who may do what (\<open>api_requires_key\<close>,
  \<open>requests_change_own_rows\<close>, \<open>reads_see_own_rows\<close>), what is read back
  (\<open>created_payout_reads_back\<close>) and how lists are cut into pages.
\<close>

section \<open>The services as functions of the database\<close>

text \<open>What the two reading operations compute from the rows of a table.\<close>

definition payout_of_rows :: "pgx_codec \<Rightarrow> get_payout_input \<Rightarrow> payout_row list \<Rightarrow> payout result" where
  "payout_of_rows codec inp rows =
     res_bind (require Payouts_ErrInvalidClientID (ScanUUID codec (gpi_ClientID inp))) (\<lambda>c.
     res_bind (require ErrInvalidPayoutID (ScanUUID codec (gpi_ID inp))) (\<lambda>i.
       case find (\<lambda>p. pay_ClientID p = c \<and> pay_ID p = i) rows of
         None \<Rightarrow> Inl ErrPayoutNotFound
       | Some p \<Rightarrow> payoutFromDB codec p))"

definition newest_first :: "('r \<Rightarrow> timestamp \<times> uuid) \<Rightarrow> 'r list \<Rightarrow> 'r list" where
  "newest_first key rows = rev (sort_key key rows)"

definition page :: "32 word \<Rightarrow> 32 word \<Rightarrow> 'r list \<Rightarrow> 'r list" where
  "page l off rows = take (nat (sint l)) (drop (nat (sint off)) rows)"

abbreviation payout_age :: "payout_row \<Rightarrow> timestamp \<times> uuid" where
  "payout_age p \<equiv> (pay_CreatedAt p, pay_ID p)"

abbreviation funding_source_age :: "funding_source_row \<Rightarrow> timestamp \<times> uuid" where
  "funding_source_age f \<equiv> (fs_CreatedAt f, fs_ID f)"

definition payouts_of_rows ::
  "pgx_codec \<Rightarrow> list_payouts_input \<Rightarrow> (uuid \<Rightarrow> payout_row list) \<Rightarrow> payout list result" where
  "payouts_of_rows codec inp rows =
     res_bind (require Payouts_ErrInvalidClientID (ScanUUID codec (lpi_ClientID inp))) (\<lambda>c.
       if sint (lpi_Limit inp) \<le> 0 \<or> sint (lpi_Offset inp) < 0 then Inl Payouts_ErrInvalidPagination
       else map_results (payoutFromDB codec)
              (page (lpi_Limit inp) (lpi_Offset inp) (newest_first payout_age (rows c))))"

definition source_of_rows ::
  "pgx_codec \<Rightarrow> get_funding_source_input \<Rightarrow> funding_source_row list \<Rightarrow> funding_source result" where
  "source_of_rows codec inp rows =
     res_bind (require Funding_ErrInvalidClientID (ScanUUID codec (gfi_ClientID inp))) (\<lambda>c.
     res_bind (require ErrInvalidSourceID (ScanUUID codec (gfi_ID inp))) (\<lambda>i.
       case find (\<lambda>f. fs_ClientID f = c \<and> fs_ID f = i) rows of
         None \<Rightarrow> Inl Funding_ErrFundingSourceNotFound
       | Some f \<Rightarrow> Inr (fundingSourceFromDB codec f)))"

definition sources_of_rows ::
  "pgx_codec \<Rightarrow> list_funding_sources_input \<Rightarrow> (uuid \<Rightarrow> funding_source_row list) \<Rightarrow> funding_source list result" where
  "sources_of_rows codec inp rows =
     res_bind (require Funding_ErrInvalidClientID (ScanUUID codec (lfi_ClientID inp))) (\<lambda>c.
       if sint (lfi_Limit inp) \<le> 0 \<or> sint (lfi_Offset inp) < 0 then Inl Funding_ErrInvalidPagination
       else Inr (map (fundingSourceFromDB codec)
              (page (lfi_Limit inp) (lfi_Offset inp) (newest_first funding_source_age (rows c)))))"

text \<open>A client's rows.\<close>

definition own_payouts :: "db \<Rightarrow> uuid \<Rightarrow> payout_row list" where
  "own_payouts d c = filter (\<lambda>p. pay_ClientID p = c) (tbl_payouts d)"

definition own_sources :: "db \<Rightarrow> uuid \<Rightarrow> funding_source_row list" where
  "own_sources d c = filter (\<lambda>f. fs_ClientID f = c) (tbl_funding_sources d)"

lemma service_store:
  "Option.bind (api_payout_service pg bf cf) svc_store = Some (pg_payout_store pg)"
  "Option.bind (api_funding_service pg) fsv_store = Some (pg_funding_store pg)"
  by (simp_all add: api_payout_service_def NewServiceWithTx_def api_funding_service_def Funding_NewService_def)

lemmas read_simps = service_store and_then_lift require_def lift_result_def and_then_def map_error_def
  select_one_def ok_def fail_def res_bind_def

lemma GetPayout_rows:
  "Payouts_GetPayout codec (api_payout_service pg bf cf) inp d = (payout_of_rows codec inp (tbl_payouts d), d)"
  by (simp add: Payouts_GetPayout_def payout_of_rows_def GetPayoutByClientID_def read_simps
      split: option.split)

lemma ListPayouts_rows:
  "Payouts_ListPayouts codec (api_payout_service pg bf cf) inp d =
     (payouts_of_rows codec inp (own_payouts d), d)"
  by (simp add: Payouts_ListPayouts_def payouts_of_rows_def ListPayoutsByClientID_def limit_offset_def
      own_payouts_def newest_first_def page_def read_simps split: option.split)

lemma GetFundingSource_rows:
  "Funding_GetFundingSource codec (api_funding_service pg) inp d =
     (source_of_rows codec inp (tbl_funding_sources d), d)"
  by (simp add: Funding_GetFundingSource_def source_of_rows_def GetFundingSourceByClientID_def
      pg_funding_store_def read_simps split: option.split)

lemma ListFundingSources_rows:
  "Funding_ListFundingSources codec (api_funding_service pg) inp d =
     (sources_of_rows codec inp (own_sources d), d)"
  by (simp add: Funding_ListFundingSources_def sources_of_rows_def ListFundingSourcesByClientID_def
      limit_offset_def own_sources_def newest_first_def page_def pg_funding_store_def read_simps
      split: option.split)

lemma find_filter: "find (\<lambda>x. P x \<and> Q x) xs = find Q (filter P xs)"
  by (induction xs) auto

lemma find_own:
  "find (\<lambda>p. pay_ClientID p = c \<and> pay_ID p = i) (tbl_payouts d) = find (\<lambda>p. pay_ID p = i) (own_payouts d c)"
  "find (\<lambda>f. fs_ClientID f = c \<and> fs_ID f = j) (tbl_funding_sources d) = find (\<lambda>f. fs_ID f = j) (own_sources d c)"
  by (simp_all add: find_filter own_payouts_def own_sources_def)

lemma CreateFundingSource_cases:
  assumes "Funding_CreateFundingSource codec (api_funding_service pg) inp d = (res, d')"
  obtains (failed) e where "res = Inl e" "d' = d"
    | (created) c f where "ScanUUID codec (cfi_ClientID inp) = Some c" "fs_ClientID f = c"
        "res = Inr (fundingSourceFromDB codec f)"
        "d' = d\<lparr>tbl_funding_sources := tbl_funding_sources d @ [f], db_uuid_seq := Suc (db_uuid_seq d)\<rparr>"
proof (cases res)
  case (Inl e)
  then have "d' = d" using assms
    by (auto simp: Funding_CreateFundingSource_def service_store pg_funding_store_def Let_def
        CreateFundingSource_def seq_simps split: if_splits)
  with failed Inl show ?thesis by blast
next
  case (Inr v)
  with assms obtain c f where c: "ScanUUID codec (cfi_ClientID inp) = Some c" and v: "v = fundingSourceFromDB codec f"
    and f: "fs_ClientID f = c"
      "d' = d\<lparr>tbl_funding_sources := tbl_funding_sources d @ [f], db_uuid_seq := Suc (db_uuid_seq d)\<rparr>"
    by (auto simp: Funding_CreateFundingSource_def service_store pg_funding_store_def Let_def
        CreateFundingSource_def funding_source_of_def seq_simps split: if_splits)
  with created Inr show ?thesis by blast
qed

section \<open>Who may do what\<close>

text \<open>A request adds one funding source of its client, or one payout of it with its key and event.\<close>

definition adds_own_rows :: "uuid \<Rightarrow> db \<Rightarrow> db \<Rightarrow> bool" where
  "adds_own_rows c d d' \<longleftrightarrow>
     (\<exists>f. fs_ClientID f = c \<and>
        d' = d\<lparr>tbl_funding_sources := tbl_funding_sources d @ [f], db_uuid_seq := Suc (db_uuid_seq d)\<rparr>) \<or>
     (\<exists>p k e. pay_ClientID p = c \<and> ik_ClientID k = c \<and> ik_PayoutID k = pay_ID p \<and> ob_EntityID e = pay_ID p \<and>
        (\<exists>f \<in> set (tbl_funding_sources d). fs_ID f = pay_FundingSourceID p \<and> fs_ClientID f = c) \<and>
        d' = d\<lparr>tbl_payouts := tbl_payouts d @ [p], tbl_idempotency_keys := tbl_idempotency_keys d @ [k],
               tbl_outbox_events := tbl_outbox_events d @ [e], db_uuid_seq := db_uuid_seq d + 2\<rparr>)"

lemma payout_created_adds: "payout_created pg codec rq d p d' \<Longrightarrow> adds_own_rows (rq_clientID rq) d d'"
  unfolding payout_created_def adds_own_rows_def
  by (elim exE conjE, rule disjI2, (intro exI conjI; (assumption | fastforce)))

lemma create_payout_request_client:
  "create_payout_request codec inp = Inr rq \<Longrightarrow> ScanUUID codec (in_ClientID inp) = Some (rq_clientID rq)"
  by (auto simp: create_payout_request_def Let_def seq_simps split: if_splits sum.splits)

lemma authenticatedD:
  "authenticated codec r d = Some c \<Longrightarrow>
     c \<in> set (tbl_clients d) \<and> ScanUUID codec (hr_Header r apiKeyHeader) = Some (cl_ApiKey c)"
  by (auto simp: authenticated_def bind_eq_Some_conv dest: find_SomeD split: if_splits)

lemma not_authenticated:
  "\<forall>c \<in> set (tbl_clients d). ScanUUID codec (hr_Header r apiKeyHeader) \<noteq> Some (cl_ApiKey c) \<Longrightarrow>
     authenticated codec r d = None"
  using authenticatedD by (cases "authenticated codec r d") blast+

lemma CreatePayout_handler_cases:
  assumes run: "CreatePayout_handler time_text (NewPayoutsHandler codec (api_payout_service pg bf cf)) pv
      (with_client codec c r) d = (rs, d')"
  obtains (refused) "d' = d" "rs_Status rs \<noteq> 201"
    | (failed) inp err where "in_ClientID inp = UUIDString codec (cl_ID c)"
        "Payouts_CreatePayout codec (api_payout_service pg bf cf) inp d = (Inl err, d')"
        "rs = create_payout_error err"
    | (served) inp v where "in_ClientID inp = UUIDString codec (cl_ID c)"
        "Payouts_CreatePayout codec (api_payout_service pg bf cf) inp d = (Inr v, d')"
        "rs = json_response 201 (payout_doc (payoutResponseFromService time_text v))"
proof -
  note step = CreatePayout_handler_def NewPayoutsHandler_def Let_def
  show thesis
  proof (cases "TrimSpace (hr_Header r idempotencyKeyHeader) = [] \<or>
      Decode True payout_request_fields zero_payout_request_body (hr_Body r) = None")
    case True
    with run have "d' = d" "rs_Status rs = 400" by (auto simp: step http_error_def split: if_splits)
    then show thesis by (intro refused) simp_all
  next
    case False
    then obtain body where body: "TrimSpace (hr_Header r idempotencyKeyHeader) \<noteq> []"
      "Decode True payout_request_fields zero_payout_request_body (hr_Body r) = Some body"
      by auto
    define inp where "inp =
      \<lparr>in_ClientID = UUIDString codec (cl_ID c), in_FundingSourceID = prb_FundingSourceID body,
       in_IdempotencyKey = TrimSpace (hr_Header r idempotencyKeyHeader), in_ExternalID = prb_ExternalID body,
       in_RecipientName = prb_RecipientName body, in_RecipientAccountID = prb_RecipientAccountID body,
       in_Amount = prb_Amount body, in_Currency = prb_Currency body\<rparr>"
    have client: "in_ClientID inp = UUIDString codec (cl_ID c)" by (simp add: inp_def)
    obtain res d1 where call: "Payouts_CreatePayout codec (api_payout_service pg bf cf) inp d = (res, d1)"
      by (cases "Payouts_CreatePayout codec (api_payout_service pg bf cf) inp d")
    show thesis
    proof (cases res)
      case (Inl err)
      with run body call have "d1 = d'" "rs = create_payout_error err" by (simp_all add: step inp_def)
      with failed [OF client] call Inl show thesis by blast
    next
      case (Inr v)
      with run body call have "d1 = d'" "rs = json_response 201 (payout_doc (payoutResponseFromService time_text v))"
        by (simp_all add: step inp_def)
      with served [OF client] call Inr show thesis by blast
    qed
  qed
qed

lemma create_payout_error_status: "rs_Status (create_payout_error e) \<noteq> 201"
  by (simp add: create_payout_error_def http_error_def)

lemma CreatePayout_handler_scope:
  assumes "uuid_codec (ScanUUID codec) (UUIDString codec)"
    and run: "CreatePayout_handler time_text (NewPayoutsHandler codec (api_payout_service pg bf cf)) pv
      (with_client codec c r) d = (rs, d')"
  shows "d' = d \<or> adds_own_rows (cl_ID c) d d' \<and> (rs_Status rs = 201 \<or> (\<exists>e. cf d' = Unacknowledged e))"
  using run
proof (cases rule: CreatePayout_handler_cases)
  case (failed inp err)
  from create_payout_failure [OF failed(2)] show ?thesis
  proof (elim disjE exE conjE)
    fix rq p
    assume "create_payout_request codec inp = Inr rq" "payout_created pg codec rq d p d'" "cf d' = Unacknowledged err"
    then show ?thesis
      using payout_created_adds create_payout_request_client [of codec inp rq] failed(1)
        uuid_codec.scan_text [OF assms(1)] by (metis option.inject)
  qed simp
next
  case (served inp v)
  from create_payout_success [OF served(2)] show ?thesis
    using payout_created_adds create_payout_request_client [of codec inp] served(1,3)
      uuid_codec.scan_text [OF assms(1)] by (auto simp: json_response_def)
qed simp

lemma CreateFundingSource_handler_scope:
  assumes "uuid_codec (ScanUUID codec) (UUIDString codec)"
    and "CreateFundingSource_handler time_text (NewFundingSourcesHandler codec (api_funding_service pg)) pv
      (with_client codec c r) d = (rs, d')"
  shows "d' = d \<or> adds_own_rows (cl_ID c) d d' \<and> rs_Status rs = 201"
proof -
  have "d' = d" if "Decode True funding_source_fields zero_funding_source_body (hr_Body r) = None"
    using assms(2) that by (simp add: CreateFundingSource_handler_def NewFundingSourcesHandler_def)
  moreover have ?thesis
    if dec: "Decode True funding_source_fields zero_funding_source_body (hr_Body r) = Some body" for body
  proof -
    define inp where "inp = \<lparr>cfi_ClientID = UUIDString codec (cl_ID c), cfi_Name = fsb_Name body,
      cfi_Type = fsb_Type body, cfi_PaymentAccountID = fsb_PaymentAccountID body\<rparr>"
    obtain res d1 where call: "Funding_CreateFundingSource codec (api_funding_service pg) inp d = (res, d1)"
      by (cases "Funding_CreateFundingSource codec (api_funding_service pg) inp d")
    then have d1: "d1 = d'" and ok: "\<And>v. res = Inr v \<Longrightarrow> rs_Status rs = 201"
      using assms(2) dec
      by (auto simp: CreateFundingSource_handler_def NewFundingSourcesHandler_def inp_def json_response_def
          split: sum.splits)
    from call show ?thesis
      by (cases rule: CreateFundingSource_cases)
        (use d1 ok uuid_codec.scan_text [OF assms(1)] in \<open>auto simp: inp_def adds_own_rows_def\<close>)
  qed
  ultimately show ?thesis
    by (cases "Decode True funding_source_fields zero_funding_source_body (hr_Body r)") auto
qed

lemma reading_handlers_keep:
  "snd (GetCurrentClient pv r s) = s"
  "snd (GetPayout_handler time_text (NewPayoutsHandler codec (api_payout_service pg bf cf)) pv r d) = d"
  "snd (ListPayouts_handler time_text (NewPayoutsHandler codec (api_payout_service pg bf cf)) pv r d) = d"
  "snd (GetFundingSource_handler time_text (NewFundingSourcesHandler codec (api_funding_service pg)) pv r d) = d"
  "snd (ListFundingSources_handler time_text (NewFundingSourcesHandler codec (api_funding_service pg)) pv r d) = d"
  by (auto simp: GetCurrentClient_def GetPayout_handler_def ListPayouts_handler_def GetFundingSource_handler_def
      ListFundingSources_handler_def NewPayoutsHandler_def NewFundingSourcesHandler_def GetPayout_rows
      ListPayouts_rows GetFundingSource_rows ListFundingSources_rows
      split: option.splits sum.splits)

text \<open>The protected handlers: the two that write, or one that reads.\<close>

lemma protected_handler_cases:
  assumes "protected_handler codec pg bf cf time_text r = Some h"
  obtains (create_payout) "hr_Method r = ''POST''"
      "h = CreatePayout_handler time_text (NewPayoutsHandler codec (api_payout_service pg bf cf))"
    | (create_source) "hr_Method r = ''POST''"
      "h = CreateFundingSource_handler time_text (NewFundingSourcesHandler codec (api_funding_service pg))"
    | (me) "h = GetCurrentClient"
    | (list_payouts) "h = ListPayouts_handler time_text (NewPayoutsHandler codec (api_payout_service pg bf cf))"
    | (list_sources) "h = ListFundingSources_handler time_text (NewFundingSourcesHandler codec (api_funding_service pg))"
    | (get_payout) i where
      "h = (\<lambda>_. GetPayout_handler time_text (NewPayoutsHandler codec (api_payout_service pg bf cf)) ((\<lambda>_. [])(''id'' := i)))"
    | (get_source) i where
      "h = (\<lambda>_. GetFundingSource_handler time_text (NewFundingSourcesHandler codec (api_funding_service pg)) ((\<lambda>_. [])(''id'' := i)))"
  using assms unfolding protected_handler_def Let_def
  by (elim option.distinct [THEN notE] | auto split: list.splits if_splits)+

text \<open>What a reading handler answers to a client is computed from the client's own rows.\<close>

lemma reading_handlers_own:
  assumes "own_payouts d1 (cl_ID c) = own_payouts d2 (cl_ID c)"
    and "own_sources d1 (cl_ID c) = own_sources d2 (cl_ID c)"
    and codec: "uuid_codec (ScanUUID codec) (UUIDString codec)"
  shows "fst (GetPayout_handler time_text (NewPayoutsHandler codec (api_payout_service pg bf cf)) pv (with_client codec c r) d1) =
      fst (GetPayout_handler time_text (NewPayoutsHandler codec (api_payout_service pg bf' cf')) pv (with_client codec c r) d2)"
    and "fst (ListPayouts_handler time_text (NewPayoutsHandler codec (api_payout_service pg bf cf)) pv (with_client codec c r) d1) =
      fst (ListPayouts_handler time_text (NewPayoutsHandler codec (api_payout_service pg bf' cf')) pv (with_client codec c r) d2)"
    and "fst (GetFundingSource_handler time_text (NewFundingSourcesHandler codec (api_funding_service pg)) pv (with_client codec c r) d1) =
      fst (GetFundingSource_handler time_text (NewFundingSourcesHandler codec (api_funding_service pg)) pv (with_client codec c r) d2)"
    and "fst (ListFundingSources_handler time_text (NewFundingSourcesHandler codec (api_funding_service pg)) pv (with_client codec c r) d1) =
      fst (ListFundingSources_handler time_text (NewFundingSourcesHandler codec (api_funding_service pg)) pv (with_client codec c r) d2)"
proof -
  note scan = uuid_codec.scan_text [OF codec]
  have "payout_of_rows codec \<lparr>gpi_ClientID = UUIDString codec (cl_ID c), gpi_ID = i\<rparr> (tbl_payouts d1) =
      payout_of_rows codec \<lparr>gpi_ClientID = UUIDString codec (cl_ID c), gpi_ID = i\<rparr> (tbl_payouts d2)" for i
    by (simp add: payout_of_rows_def find_own scan require_def res_bind_def assms(1) split: option.split)
  then show "fst (GetPayout_handler time_text (NewPayoutsHandler codec (api_payout_service pg bf cf)) pv (with_client codec c r) d1) =
      fst (GetPayout_handler time_text (NewPayoutsHandler codec (api_payout_service pg bf' cf')) pv (with_client codec c r) d2)"
    by (simp add: GetPayout_handler_def NewPayoutsHandler_def GetPayout_rows split: sum.split)
  have "payouts_of_rows codec \<lparr>lpi_ClientID = UUIDString codec (cl_ID c), lpi_Limit = l, lpi_Offset = off\<rparr> (own_payouts d1) =
      payouts_of_rows codec \<lparr>lpi_ClientID = UUIDString codec (cl_ID c), lpi_Limit = l, lpi_Offset = off\<rparr> (own_payouts d2)" for l off
    by (simp add: payouts_of_rows_def scan require_def assms(1))
  then show "fst (ListPayouts_handler time_text (NewPayoutsHandler codec (api_payout_service pg bf cf)) pv (with_client codec c r) d1) =
      fst (ListPayouts_handler time_text (NewPayoutsHandler codec (api_payout_service pg bf' cf')) pv (with_client codec c r) d2)"
    by (simp add: ListPayouts_handler_def NewPayoutsHandler_def ListPayouts_rows split: sum.split)
  have "source_of_rows codec \<lparr>gfi_ClientID = UUIDString codec (cl_ID c), gfi_ID = i\<rparr> (tbl_funding_sources d1) =
      source_of_rows codec \<lparr>gfi_ClientID = UUIDString codec (cl_ID c), gfi_ID = i\<rparr> (tbl_funding_sources d2)" for i
    by (simp add: source_of_rows_def find_own scan require_def res_bind_def assms(2) split: option.split)
  then show "fst (GetFundingSource_handler time_text (NewFundingSourcesHandler codec (api_funding_service pg)) pv (with_client codec c r) d1) =
      fst (GetFundingSource_handler time_text (NewFundingSourcesHandler codec (api_funding_service pg)) pv (with_client codec c r) d2)"
    by (simp add: GetFundingSource_handler_def NewFundingSourcesHandler_def GetFundingSource_rows split: sum.split)
  have "sources_of_rows codec \<lparr>lfi_ClientID = UUIDString codec (cl_ID c), lfi_Limit = l, lfi_Offset = off\<rparr> (own_sources d1) =
      sources_of_rows codec \<lparr>lfi_ClientID = UUIDString codec (cl_ID c), lfi_Limit = l, lfi_Offset = off\<rparr> (own_sources d2)" for l off
    by (simp add: sources_of_rows_def scan require_def assms(2))
  then show "fst (ListFundingSources_handler time_text (NewFundingSourcesHandler codec (api_funding_service pg)) pv (with_client codec c r) d1) =
      fst (ListFundingSources_handler time_text (NewFundingSourcesHandler codec (api_funding_service pg)) pv (with_client codec c r) d2)"
    by (simp add: ListFundingSources_handler_def NewFundingSourcesHandler_def ListFundingSources_rows split: sum.split)
qed

section \<open>Properties\<close>

text \<open>C14: without a valid API key nothing happens and nothing is shown. When no client has the key of
  the request, the database is unchanged and the answer is one of five that do not depend on it: the
  health check, 404, 405, or one of the two refusals.\<close>

theorem api_requires_key:
  assumes "\<forall>c \<in> set (tbl_clients d). ScanUUID codec (hr_Header r apiKeyHeader) \<noteq> Some (cl_ApiKey c)"
  shows "snd (ServeHTTP (api_router codec pg bf cf time_text) r d) = d \<and>
    fst (ServeHTTP (api_router codec pg bf cf time_text) r d) \<in>
      {\<lparr>rs_Status = 200, rs_ContentType = ''text/plain; charset=utf-8'', rs_Body = ''ok''\<rparr>,
       http_error ''404 page not found'' 404, http_error ''Method Not Allowed'' 405,
       http_error ''missing api key'' 401, http_error ''unauthorized'' 401}"
proof -
  from not_authenticated [OF assms] have none: "authenticated codec r d = None" .
  obtain rs d' where run: "ServeHTTP (api_router codec pg bf cf time_text) r d = (rs, d')"
    by (cases "ServeHTTP (api_router codec pg bf cf time_text) r d")
  then show ?thesis
    by (cases rule: serve_api_cases)
      (use none run in \<open>auto simp: refused_def health_ok_def not_found_def method_not_allowed_def\<close>)
qed

text \<open>C13: a request can only add to the data of its own client. Whatever a request is and whatever
  fails, the database is unchanged, or the request is a \<open>POST\<close> with the key of a client and added one
  funding source of that client, or one payout of it, drawn on one of its own funding sources, with
  its key and event. The answer is then 201, unless the commit's acknowledgement was lost.\<close>

theorem requests_change_own_rows:
  assumes "uuid_codec (ScanUUID codec) (UUIDString codec)"
    and "ServeHTTP (api_router codec pg bf cf time_text) r d = (rs, d')"
  shows "d' = d \<or>
    (\<exists>c \<in> set (tbl_clients d). ScanUUID codec (hr_Header r apiKeyHeader) = Some (cl_ApiKey c) \<and>
       hr_Method r = ''POST'' \<and> adds_own_rows (cl_ID c) d d' \<and>
       (rs_Status rs = 201 \<or> (\<exists>e. cf d' = Unacknowledged e)))"
  using assms(2)
proof (cases rule: serve_api_cases)
  case (handled h c)
  note run = handled(3)
  from handled(1) show ?thesis
  proof (cases rule: protected_handler_cases)
    case create_payout
    with CreatePayout_handler_scope [OF assms(1) run [unfolded create_payout(2)]] authenticatedD [OF handled(2)]
    show ?thesis by blast
  next
    case create_source
    with CreateFundingSource_handler_scope [OF assms(1) run [unfolded create_source(2)]] authenticatedD [OF handled(2)]
    show ?thesis by blast
  qed (use arg_cong [OF run, of snd] in \<open>simp_all add: reading_handlers_keep\<close>)
qed simp_all

text \<open>C34: a client sees its own data only. Two databases with the same clients and, for the client of
  the request, the same payouts and the same funding sources, answer every \<open>GET\<close> alike, whatever the
  other clients' rows, the keys and the events are.\<close>

theorem reads_see_own_rows:
  assumes "uuid_codec (ScanUUID codec) (UUIDString codec)"
    and "hr_Method r \<noteq> ''POST''" and "tbl_clients d1 = tbl_clients d2"
    and "\<forall>c \<in> set (tbl_clients d1). ScanUUID codec (hr_Header r apiKeyHeader) = Some (cl_ApiKey c) \<longrightarrow>
      own_payouts d1 (cl_ID c) = own_payouts d2 (cl_ID c) \<and> own_sources d1 (cl_ID c) = own_sources d2 (cl_ID c)"
  shows "fst (ServeHTTP (api_router codec pg bf cf time_text) r d1) =
    fst (ServeHTTP (api_router codec pg bf cf time_text) r d2)"
proof -
  have auth: "authenticated codec r d1 = authenticated codec r d2"
    by (simp add: authenticated_def assms(3))
  have same: "fst (h (\<lambda>_. []) (with_client codec c r) d1) = fst (h (\<lambda>_. []) (with_client codec c r) d2)"
    if h: "protected_handler codec pg bf cf time_text r = Some h" and c: "authenticated codec r d1 = Some c" for h c
  proof -
    from authenticatedD [OF c] assms(4)
    have own: "own_payouts d1 (cl_ID c) = own_payouts d2 (cl_ID c)" "own_sources d1 (cl_ID c) = own_sources d2 (cl_ID c)"
      by blast+
    from h show ?thesis
      by (cases rule: protected_handler_cases)
        (use assms(2) reading_handlers_own [OF own assms(1)] in \<open>simp_all add: GetCurrentClient_def\<close>)
  qed
  show ?thesis
  proof (cases "protected_handler codec pg bf cf time_text r")
    case None
    from serve_unprotected [OF None] show ?thesis by auto
  next
    case (Some h)
    with same [OF Some] auth show ?thesis
      by (simp add: serve_protected [OF Some] split: option.split)
  qed
qed

section \<open>Reading back\<close>

lemma GetPayout_handler_rows:
  assumes "uuid_codec (ScanUUID codec) (UUIDString codec)" and "pv ''id'' = UUIDString codec i"
  shows "GetPayout_handler time_text (NewPayoutsHandler codec (api_payout_service pg bf cf)) pv (with_client codec c r) d =
    (case payout_view d (cl_ID c) i of
       None \<Rightarrow> http_error ''payout not found'' 404
     | Some p \<Rightarrow>
         (case payoutFromDB codec p of
            Inr v \<Rightarrow> json_response 200 (payout_doc (payoutResponseFromService time_text v))
          | Inl e \<Rightarrow> http_error ''internal server error'' 500), d)"
proof -
  have "payoutFromDB codec p = Inl e \<Longrightarrow>
      e \<noteq> ErrPayoutNotFound \<and> e \<noteq> ErrInvalidPayoutID \<and> e \<noteq> Payouts_ErrInvalidClientID" for p e
    by (auto simp: payoutFromDB_def numericString_def seq_simps Let_def split: if_splits option.splits)
  then show ?thesis
    by (auto simp: GetPayout_handler_def NewPayoutsHandler_def GetPayout_rows payout_of_rows_def payout_view_def
        uuid_codec.scan_text [OF assms(1)] assms(2) require_def split: option.split sum.split)
qed

lemma serve_get_payout:
  assumes "hr_Method g = ''GET''" and "hr_Segments g = [''payouts'', i]" and "i \<noteq> []"
    and "authenticated codec g d = Some c"
  shows "ServeHTTP (api_router codec pg bf cf time_text) g d =
    GetPayout_handler time_text (NewPayoutsHandler codec (api_payout_service pg bf cf)) ((\<lambda>_. [])(''id'' := i))
      (with_client codec c g) d"
  using serve_protected [of codec pg bf cf time_text g] assms by (simp add: protected_handler_def)

lemma payout_view_other:
  assumes "wf_db d" and "payout_view d c i = Some p" and "c' \<noteq> c"
  shows "payout_view d c' i = None"
proof (rule ccontr)
  assume "payout_view d c' i \<noteq> None"
  then obtain q where "payout_view d c' i = Some q" by blast
  with assms(2) have pq: "p \<in> set (tbl_payouts d)" "q \<in> set (tbl_payouts d)" "pay_ID p = pay_ID q"
    "pay_ClientID p \<noteq> pay_ClientID q"
    using assms(3) by (auto simp: payout_view_def dest!: find_SomeD)
  from assms(1) have "distinct (map pay_ID (tbl_payouts d))" by (simp add: wf_db_def wf_tables)
  with pq show False by (metis distinct_map inj_onD)
qed

text \<open>C35: what was created can be read back, and by its owner only. When \<open>POST /payouts\<close> is answered
  201, the body describes a payout of the client in the database; \<open>GET /payouts/{id}\<close> with its id and the same API key then answers
  200 with the same body, and for the key of any other client 404.\<close>

theorem created_payout_reads_back:
  assumes "uuid_codec (ScanUUID codec) (UUIDString codec)" and "wf_db d"
    and "hr_Method r = ''POST''" and "hr_Segments r = [''payouts'']" and "authenticated codec r d = Some c"
    and "ServeHTTP (api_router codec pg bf cf time_text) r d = (rs, d')" and "rs_Status rs = 201"
  shows "\<exists>p v. p \<in> set (tbl_payouts d') \<and> pay_ClientID p = cl_ID c \<and> payoutFromDB codec p = Inr v \<and>
    rs = json_response 201 (payout_doc (payoutResponseFromService time_text v)) \<and>
    (\<forall>g. hr_Method g = ''GET'' \<and> hr_Segments g = [''payouts'', po_ID v] \<longrightarrow>
       (hr_Header g apiKeyHeader = hr_Header r apiKeyHeader \<longrightarrow>
          ServeHTTP (api_router codec pg bf cf time_text) g d' = (rs\<lparr>rs_Status := 200\<rparr>, d')) \<and>
       (\<forall>c'. authenticated codec g d' = Some c' \<and> cl_ID c' \<noteq> cl_ID c \<longrightarrow>
          ServeHTTP (api_router codec pg bf cf time_text) g d' = (http_error ''payout not found'' 404, d')))"
proof -
  note scan = uuid_codec.scan_text [OF assms(1)]
  have "CreatePayout_handler time_text (NewPayoutsHandler codec (api_payout_service pg bf cf)) (\<lambda>_. [])
      (with_client codec c r) d = (rs, d')"
    using serve_protected [of codec pg bf cf time_text r] assms(3-6) by (simp add: protected_handler_def)
  then obtain inp v where inp: "in_ClientID inp = UUIDString codec (cl_ID c)"
    and create: "Payouts_CreatePayout codec (api_payout_service pg bf cf) inp d = (Inr v, d')"
    and rs: "rs = json_response 201 (payout_doc (payoutResponseFromService time_text v))"
    by (cases rule: CreatePayout_handler_cases) (use assms(7) in \<open>auto simp: create_payout_error_status\<close>)
  from create_payout_success [OF create] obtain rq p
    where rq: "create_payout_request codec inp = Inr rq" and v: "payoutFromDB codec p = Inr v"
      and rec: "recorded key_view payout_view d' rq p" by blast
  have client: "rq_clientID rq = cl_ID c"
    using create_payout_request_client [OF rq] inp scan by simp
  from rec obtain i where view: "payout_view d' (cl_ID c) i = Some p"
    by (auto simp: recorded_def client split: option.splits)
  then have p: "pay_ID p = i" "p \<in> set (tbl_payouts d')" "pay_ClientID p = cl_ID c"
    by (auto simp: payout_view_def dest: find_SomeD)
  with v have po: "po_ID v = UUIDString codec i" by (auto simp: payoutFromDB_def seq_simps)
  have ne: "po_ID v \<noteq> []" using po uuid_codec.text_nonempty [OF assms(1)] by simp
  have wf: "wf_db d'" by (rule keeps_wfD [OF api_create_wf create assms(2)])
  have "tbl_clients d' = tbl_clients d"
    using create by (cases rule: api_create_state) (simp_all add: payout_created_def, auto)
  then have auth: "authenticated codec g d' = authenticated codec r d"
    if "hr_Header g apiKeyHeader = hr_Header r apiKeyHeader" for g :: http_request
    using that by (simp add: authenticated_def)
  show ?thesis
  proof (intro exI [of _ p] exI [of _ v] conjI allI impI rs v p; elim conjE)
    fix g :: http_request assume g: "hr_Method g = ''GET''" "hr_Segments g = [''payouts'', po_ID v]"
      and key: "hr_Header g apiKeyHeader = hr_Header r apiKeyHeader"
    then show "ServeHTTP (api_router codec pg bf cf time_text) g d' = (rs\<lparr>rs_Status := 200\<rparr>, d')"
      using serve_get_payout [OF g ne, of codec d' c pg bf cf time_text] auth [OF key] assms(5)
        GetPayout_handler_rows [OF assms(1), of "(\<lambda>_. [])(''id'' := po_ID v)" i] po view v
      by (simp add: rs json_response_def)
  next
    fix g :: http_request and c' :: client_row assume g: "hr_Method g = ''GET''" "hr_Segments g = [''payouts'', po_ID v]"
      and other: "authenticated codec g d' = Some c'" "cl_ID c' \<noteq> cl_ID c"
    with payout_view_other [OF wf view other(2)]
    show "ServeHTTP (api_router codec pg bf cf time_text) g d' = (http_error ''payout not found'' 404, d')"
      using serve_get_payout [OF g ne other(1), of pg bf cf time_text]
        GetPayout_handler_rows [OF assms(1), of "(\<lambda>_. [])(''id'' := po_ID v)" i] po
      by simp
  qed
qed

section \<open>Pages\<close>

lemma in_int32_nat: "n < 2 ^ 31 \<Longrightarrow> in_int32 (int n)"
  by (simp add: in_int32_def)

lemma int32_word: "in_int32 i \<Longrightarrow> sint (word_of_int i :: 32 word) = i"
  by (simp add: in_int32_def sint_sbintrunc' signed_take_bit_int_eq_self)

text \<open>A query parameter as a number, with its default.\<close>

definition query_value :: "http_request \<Rightarrow> bytes \<Rightarrow> int \<Rightarrow> int option" where
  "query_value r name v = (if hr_Query r name = [] then Some v else ParseInt32 (hr_Query r name))"

lemma payoutPagination_values:
  "payoutPagination r =
     (case (query_value r ''limit'' 50, query_value r ''offset'' 0) of
        (Some l, Some off) \<Rightarrow>
          if 1 \<le> l \<and> l \<le> 100 \<and> 0 \<le> off then Inr (l, off) else Inl Payouts_ErrInvalidPagination
      | _ \<Rightarrow> Inl Payouts_ErrInvalidPagination)"
  by (auto simp: payoutPagination_def paginationParams_def int32QueryParam_def defaultPayoutListLimit_def
      maxPayoutListLimit_def query_value_def res_bind_def Let_def split: option.split)

lemma payoutPagination_Inr:
  assumes "payoutPagination r = Inr (l, off)"
  shows "1 \<le> l \<and> l \<le> 100 \<and> 0 \<le> off \<and> in_int32 off"
  using assms
  by (auto simp: payoutPagination_values query_value_def in_int32_def dest!: ParseInt32_range
      split: if_splits option.splits)

lemma payoutPagination_with_client [simp]:
  "payoutPagination (with_client codec c r) = payoutPagination r"
  by (simp add: payoutPagination_values query_value_def split: option.split)

lemma concat_pages:
  "concat (map (\<lambda>k. take l (drop (k * l) xs)) [0..<n]) = take (n * l) xs"
  by (induction n) (simp_all add: take_add add.commute [of l])

lemma map_results_total:
  assumes "\<And>x. x \<in> set xs \<Longrightarrow> f x = Inr (g x)"
  shows "map_results f xs = Inr (map g xs)"
  using assms by (induction xs) auto

lemma stored_payout_served:
  assumes "wf_db d" and "p \<in> set (tbl_payouts d)"
  shows "\<exists>v. payoutFromDB codec p = Inr v"
proof -
  from assms have "stored_amount (pay_Amount p)" by (simp add: wf_db_def wf_tables payout_ok_def)
  then have "\<exists>t. numericString (pay_Amount p) = Inr t" using hundredths_text by (auto simp: stored_amount_def)
  then show ?thesis by (auto simp: payoutFromDB_def seq_simps)
qed

lemma newest_first_set [simp]: "set (newest_first key rows) = set rows"
  by (simp add: newest_first_def)

lemma newest_first_sorted:
  "sorted_wrt (\<lambda>p q. key q \<le> key p) (newest_first key rows)" "mset (newest_first key rows) = mset rows"
  using sorted_sort_key [of key rows] by (simp_all add: newest_first_def sorted_wrt_rev sorted_map)

lemma serve_list_payouts:
  assumes "hr_Method r = ''GET''" and "hr_Segments r = [''payouts'']" and "authenticated codec r d = Some c"
  shows "ServeHTTP (api_router codec pg bf cf time_text) r d =
    ListPayouts_handler time_text (NewPayoutsHandler codec (api_payout_service pg bf cf)) (\<lambda>_. []) (with_client codec c r) d"
  using serve_protected [of codec pg bf cf time_text r] assms by (simp add: protected_handler_def)

text \<open>The served view of a client's payouts, newest first.\<close>

definition listing :: "pgx_codec \<Rightarrow> db \<Rightarrow> uuid \<Rightarrow> payout list" where
  "listing codec d c =
     map (\<lambda>p. case payoutFromDB codec p of Inr v \<Rightarrow> v) (newest_first payout_age (own_payouts d c))"

lemma list_payouts_response:
  assumes codec: "uuid_codec (ScanUUID codec) (UUIDString codec)" and wf: "wf_db d"
    and "payoutPagination r = Inr (l, off)"
  shows "ListPayouts_handler time_text (NewPayoutsHandler codec (api_payout_service pg bf cf)) pv (with_client codec c r) d =
    (json_response 200 (array_text (map payout_doc (map (payoutResponseFromService time_text)
       (take (nat l) (drop (nat off) (listing codec d (cl_ID c))))))), d)"
proof -
  have bounds: "in_int32 l" "in_int32 off" "0 < l" "0 \<le> off"
    using payoutPagination_Inr [OF assms(3)] by (auto simp: in_int32_def)
  have "payouts_of_rows codec
      \<lparr>lpi_ClientID = UUIDString codec (cl_ID c), lpi_Limit = word_of_int l, lpi_Offset = word_of_int off\<rparr> (own_payouts d) =
      Inr (take (nat l) (drop (nat off) (listing codec d (cl_ID c))))"
  proof -
    have "payoutFromDB codec p = Inr (case payoutFromDB codec p of Inr v \<Rightarrow> v)"
      if "p \<in> set (take (nat l) (drop (nat off) (newest_first payout_age (own_payouts d (cl_ID c)))))" for p
    proof -
      from that have "p \<in> set (newest_first payout_age (own_payouts d (cl_ID c)))"
        by (meson in_set_takeD in_set_dropD)
      then have "p \<in> set (tbl_payouts d)" by (simp add: own_payouts_def)
      from stored_payout_served [OF wf this] show ?thesis by (metis sum.case(2))
    qed
    from map_results_total [OF this] show ?thesis
      using bounds
      by (simp add: payouts_of_rows_def page_def uuid_codec.scan_text [OF codec] require_def int32_word
          listing_def take_map drop_map)
  qed
  with assms(3) show ?thesis
    by (simp add: ListPayouts_handler_def NewPayoutsHandler_def ListPayouts_rows)
qed

text \<open>C36: the bounds of a list. For an authenticated \<open>GET /payouts\<close> the limit is the parameter
  \<open>limit\<close> or 50, the offset the parameter \<open>offset\<close> or 0; when the limit is between 1 and 100 and the
  offset is a 32-bit number that is not negative, the answer is 200 with at most that many payouts;
  every other value, malformed, too large or negative, is answered 400.\<close>

theorem listing_is_bounded:
  assumes "uuid_codec (ScanUUID codec) (UUIDString codec)" and "wf_db d"
    and "hr_Method r = ''GET''" and "hr_Segments r = [''payouts'']" and "authenticated codec r d = Some c"
  shows "\<exists>rs. ServeHTTP (api_router codec pg bf cf time_text) r d = (rs, d) \<and>
    (case (query_value r ''limit'' 50, query_value r ''offset'' 0) of
       (Some l, Some off) \<Rightarrow>
         if 1 \<le> l \<and> l \<le> 100 \<and> 0 \<le> off
         then \<exists>vs. length vs \<le> nat l \<and> set vs \<subseteq> set (listing codec d (cl_ID c)) \<and>
           rs = json_response 200 (array_text (map payout_doc (map (payoutResponseFromService time_text) vs)))
         else rs = http_error ''invalid pagination'' 400
     | _ \<Rightarrow> rs = http_error ''invalid pagination'' 400)"
proof (cases "payoutPagination r")
  case (Inr p)
  obtain l off where p: "p = (l, off)" by (cases p)
  define vs where "vs = take (nat l) (drop (nat off) (listing codec d (cl_ID c)))"
  define rs where "rs = json_response 200 (array_text (map payout_doc (map (payoutResponseFromService time_text) vs)))"
  from list_payouts_response [OF assms(1,2), of r l off time_text pg bf cf "\<lambda>_. []" c] Inr p
  have run: "ServeHTTP (api_router codec pg bf cf time_text) r d = (rs, d)"
    by (simp add: serve_list_payouts [OF assms(3-5)] rs_def vs_def)
  have "set vs \<subseteq> set (listing codec d (cl_ID c))" "length vs \<le> nat l"
    by (auto simp: vs_def dest: in_set_takeD in_set_dropD)
  then have vs: "\<exists>vs. length vs \<le> nat l \<and> set vs \<subseteq> set (listing codec d (cl_ID c)) \<and>
      rs = json_response 200 (array_text (map payout_doc (map (payoutResponseFromService time_text) vs)))"
    unfolding rs_def by blast
  moreover from Inr p have "query_value r ''limit'' 50 = Some l" "query_value r ''offset'' 0 = Some off"
    "1 \<le> l" "l \<le> 100" "0 \<le> off"
    by (auto simp: payoutPagination_values split: option.splits if_splits)
  ultimately show ?thesis using run by (intro exI [of _ rs]) simp
next
  case (Inl e)
  then have "ServeHTTP (api_router codec pg bf cf time_text) r d = (http_error ''invalid pagination'' 400, d)"
    by (simp add: serve_list_payouts [OF assms(3-5)] ListPayouts_handler_def NewPayoutsHandler_def)
  with Inl show ?thesis
    by (intro exI [of _ "http_error ''invalid pagination'' 400"])
      (auto simp: payoutPagination_values split: option.splits if_splits)
qed

text \<open>C37: the pages of a list make up the list. For a client and any page size from 1 to 100, the pages
  at the offsets \<open>0, l, 2l, ...\<close> (while the offset is a 32-bit number) are consecutive pieces of one
  list, which holds exactly the client's payouts, the newest first; together they are the whole list.\<close>

theorem payout_pages_cover:
  assumes "uuid_codec (ScanUUID codec) (UUIDString codec)" and "wf_db d"
    and "0 < l" and "l \<le> 100" and "length (own_payouts d (cl_ID c)) \<le> n * l" and "n * l < 2 ^ 31"
  shows "\<exists>vs rows. mset rows = mset (own_payouts d (cl_ID c)) \<and>
    sorted_wrt (\<lambda>p q. payout_age q \<le> payout_age p) rows \<and>
    list_all2 (\<lambda>p v. payoutFromDB codec p = Inr v) rows vs \<and>
    concat (map (\<lambda>k. take l (drop (k * l) vs)) [0..<n]) = vs \<and>
    (\<forall>k < n. \<forall>r. hr_Method r = ''GET'' \<and> hr_Segments r = [''payouts''] \<and> authenticated codec r d = Some c \<and>
       hr_Query r ''limit'' = int_text (int l) \<and> hr_Query r ''offset'' = int_text (int (k * l)) \<longrightarrow>
       ServeHTTP (api_router codec pg bf cf time_text) r d =
         (json_response 200 (array_text (map payout_doc (map (payoutResponseFromService time_text)
            (take l (drop (k * l) vs))))), d))"
proof -
  define rows where "rows = newest_first payout_age (own_payouts d (cl_ID c))"
  define vs where "vs = listing codec d (cl_ID c)"
  have len: "length vs \<le> n * l"
    using assms(5) by (simp add: vs_def listing_def newest_first_def)
  have "payoutFromDB codec p = Inr (case payoutFromDB codec p of Inr v \<Rightarrow> v)" if "p \<in> set rows" for p
    using stored_payout_served [OF assms(2), of p codec] that
    by (auto simp: rows_def own_payouts_def)
  then have view: "list_all2 (\<lambda>p v. payoutFromDB codec p = Inr v) rows vs"
    by (simp add: vs_def listing_def rows_def list_all2_map2 list_all2_same)
  have page: "ServeHTTP (api_router codec pg bf cf time_text) r d =
      (json_response 200 (array_text (map payout_doc (map (payoutResponseFromService time_text)
         (take l (drop (k * l) vs))))), d)"
    if "k < n" "hr_Method r = ''GET''" "hr_Segments r = [''payouts'']" "authenticated codec r d = Some c"
      "hr_Query r ''limit'' = int_text (int l)" "hr_Query r ''offset'' = int_text (int (k * l))"
    for k and r :: http_request
  proof -
    have "k * l < 2 ^ 31" using assms(6) that(1) mult_le_mono1 [of k n l] by linarith
    then have "in_int32 (int (k * l))" by (rule in_int32_nat)
    moreover have "in_int32 (int l)" using assms(4) by (simp add: in_int32_def)
    moreover have "int_text i \<noteq> []" for i by (simp add: int_text_def)
    ultimately have "payoutPagination r = Inr (int l, int (k * l))"
      using assms(3,4) that(5,6) ParseInt32_int_text
      by (simp add: payoutPagination_values query_value_def)
    from list_payouts_response [OF assms(1,2) this] that(2-4)
    show ?thesis by (simp add: serve_list_payouts vs_def nat_int flip: of_nat_mult)
  qed
  show ?thesis
    using newest_first_sorted [of payout_age "own_payouts d (cl_ID c)"] view len page
    by (intro exI [of _ vs] exI [of _ rows]) (simp add: rows_def concat_pages)
qed

end
