(* ===== verification/Payout_Witnesses.thy ===== *)
theory Payout_Witnesses
  imports Payout_Guarantees
begin

text \<open>
  A small world in which the properties of theory \<open>Payout_Guarantees\<close> are put to work: a database
  with one client and one funding source, a server that numbers its UUIDs, and one request. The
  witnesses apply each property to it.
\<close>

section \<open>The world\<close>

definition ex_pg :: postgres where
  "ex_pg =
     \<lparr>pg_uuid_v4 = (\<lambda>n. of_nat (n + 16)),
      pg_jsonb = (\<lambda>raw. if whole_document raw = None then None else Some raw)\<rparr>"

definition ex_db :: db where
  "ex_db = (empty_db 1000)
     \<lparr>tbl_clients :=
        [\<lparr>cl_ID = 1, cl_Name = ''Acme'', cl_ApiKey = 3, cl_CreatedAt = 0, cl_UpdatedAt = 0,
          cl_WebhookUrl = \<lparr>Text_String = ''https://acme.example'', Text_Valid = True\<rparr>\<rparr>],
      tbl_funding_sources :=
        [\<lparr>fs_ID = 2, fs_ClientID = 1, fs_Name = ''Main'', fs_Type = ''bank'',
          fs_PaymentAccountID = ''acct'', fs_Status = ''active'', fs_CreatedAt = 0, fs_UpdatedAt = 0\<rparr>]\<rparr>"

definition ex_input :: create_payout_input where
  "ex_input =
     \<lparr>in_ClientID = canonical_uuid 1, in_FundingSourceID = canonical_uuid 2, in_IdempotencyKey = '' k-1 '',
      in_ExternalID = ''e-1'', in_RecipientName = '' Ada '', in_RecipientAccountID = ''acct-9'',
      in_Amount = ''12.50'', in_Currency = ''EUR''\<rparr>"

definition ex_hash :: bytes where
  "ex_hash = createPayoutRequestHash
     [canonical_uuid 1, canonical_uuid 2, ''e-1'', ''Ada'', ''acct-9'', ''12.50'', ''EUR'']"

definition ex_request :: create_payout_request where
  "ex_request =
     \<lparr>rq_clientID = 1, rq_fundingSourceID = 2, rq_externalID = ''e-1'', rq_recipientName = ''Ada'',
      rq_recipientAccountID = ''acct-9'', rq_amount = mk_numeric 1250 (- 2), rq_currency = ''EUR'',
      rq_idempotencyKey = ''k-1'', rq_hash = ex_hash\<rparr>"

definition ex_payout :: payout_row where
  "ex_payout =
     \<lparr>pay_ID = 16, pay_ClientID = 1, pay_FundingSourceID = 2, pay_Amount = mk_numeric 1250 (- 2),
      pay_Currency = ''EUR'', pay_Status = ''pending'', pay_CreatedAt = 1000, pay_UpdatedAt = 1000,
      pay_FailureReason = null_text, pay_ExternalID = \<lparr>Text_String = ''e-1'', Text_Valid = True\<rparr>,
      pay_RecipientName = \<lparr>Text_String = ''Ada'', Text_Valid = True\<rparr>,
      pay_RecipientAccountID = \<lparr>Text_String = ''acct-9'', Text_Valid = True\<rparr>\<rparr>"

definition ex_doc :: bytes where
  "ex_doc = object_text [(''payout_id'', json_string (canonical_uuid 16)), (''client_id'', json_string (canonical_uuid 1))]"

definition ex_event :: outbox_row where
  "ex_event =
     \<lparr>ob_ID = 17, ob_EventType = EventTypeProcessPayout, ob_Payload = ex_doc, ob_Status = ''pending'',
      ob_CreatedAt = 1000, ob_ProcessedAt = None, ob_EntityID = 16, ob_ClaimedAt = None\<rparr>"

definition ex_db1 :: db where
  "ex_db1 = ex_db
     \<lparr>tbl_payouts := [ex_payout],
      tbl_idempotency_keys :=
        [\<lparr>ik_Key = ''k-1'', ik_ClientID = 1, ik_RequestHash = ex_hash, ik_PayoutID = 16, ik_CreatedAt = 1000\<rparr>],
      tbl_outbox_events := [ex_event], db_uuid_seq := 2\<rparr>"

definition ex_view :: payout where
  "ex_view =
     \<lparr>po_ID = canonical_uuid 16, po_ClientID = canonical_uuid 1, po_FundingSourceID = canonical_uuid 2,
      po_ExternalID = ''e-1'', po_RecipientName = ''Ada'', po_RecipientAccountID = ''acct-9'',
      po_Amount = ''12.50'', po_Currency = ''EUR'', po_Status = ''pending'', po_FailureReason = '''',
      po_CreatedAt = 1000, po_UpdatedAt = 1000\<rparr>"

text \<open>A pool without faults.\<close>

abbreviation ex_service :: "db payout_service option" where
  "ex_service \<equiv> api_payout_service ex_pg (\<lambda>_. None) (\<lambda>_. Committed)"

section \<open>The request runs\<close>

lemma ex_texts:
  "TrimSpace ''e-1'' = ''e-1''" "TrimSpace '' Ada '' = ''Ada''" "TrimSpace ''acct-9'' = ''acct-9''"
  "TrimSpace ''EUR'' = ''EUR''" "TrimSpace '' k-1 '' = ''k-1''"
  by code_simp+

lemma ex_amount:
  "parsePositiveNumeric canonical_codec ''12.50'' = Inr (mk_numeric 1250 (- 2))"
  "numericString (mk_numeric 1250 (- 2)) = Inr ''12.50''"
  "numeric_10_2 (mk_numeric 1250 (- 2)) = Inr (mk_numeric 1250 (- 2))"
  by code_simp+

lemma ex_columns:
  "varchar 255 ''e-1'' = Inr ''e-1''" "varchar 255 ''Ada'' = Inr ''Ada''"
  "varchar 255 ''acct-9'' = Inr ''acct-9''" "varchar 12 ''EUR'' = Inr ''EUR''"
  "storable_text ''k-1''"
  by code_simp+

lemma ex_create_request: "create_payout_request canonical_codec ex_input = Inr ex_request"
  by (simp add: create_payout_request_def ex_input_def ex_request_def ex_hash_def require_def
      normalizeOptionalText_def normalizeRequiredText_def Let_def ex_texts ex_amount canonical.scan_text)

lemma event_type_nonempty: "EventTypeProcessPayout \<noteq> []"
  by (simp add: EventTypeProcessPayout_def)

lemma ex_uuid: "pg_uuid_v4 ex_pg n = of_nat (n + 16)"
  by (simp add: ex_pg_def)

lemma ex_document: "pg_jsonb ex_pg ex_doc = Some ex_doc"
  using whole_document_object [of "[(''payout_id'', canonical_uuid 16), (''client_id'', canonical_uuid 1)]"]
  by (simp add: ex_pg_def ex_doc_def canonical.text_valid_utf8)

lemma ex_hash_storable: "storable_text ex_hash" "ex_hash \<noteq> []"
  using ascii_valid_utf8 [OF request_hash_ascii(1)] request_hash_ascii(2)
  by (simp_all add: ex_hash_def storable_text_def)

lemma ex_tx:
  "create_payout_tx canonical_codec ex_request (pg_payout_store ex_pg) ex_db = (Inr ex_payout, ex_db1)"
proof -
  have load: "loadIdempotentPayout (pg_payout_store ex_pg) 1 ''k-1'' ex_hash ex_db = (Inr None, ex_db)"
    by (simp add: loadIdempotentPayout_def GetIdempotencyKey_def select_one_def ex_columns ex_db_def empty_db_def)
  have source: "GetFundingSourceByClientID \<lparr>bcp_ClientID = 1, bcp_ID = 2\<rparr> ex_db = (Inr (hd (tbl_funding_sources ex_db)), ex_db)"
    by (simp add: GetFundingSourceByClientID_def select_one_def ex_db_def empty_db_def)
  have payout: "CreatePayout ex_pg (payout_params ex_request) ex_db =
      (Inr ex_payout, ex_db\<lparr>tbl_payouts := [ex_payout], db_uuid_seq := Suc 0\<rparr>)"
    by (simp add: CreatePayout_def insert_row_Inr payout_of_def payout_params_def ex_request_def
        textParam_def nullable_def ex_columns ex_amount new_uuid_def ex_pg_def ex_db_def empty_db_def
        ex_payout_def payout_constraints_def payout_statuses_def indexed_external_id_def)
  have key: "CreateIdempotencyKey
      \<lparr>cip_Key = ''k-1'', cip_ClientID = 1, cip_RequestHash = ex_hash, cip_PayoutID = 16\<rparr>
      (ex_db\<lparr>tbl_payouts := [ex_payout], db_uuid_seq := Suc 0\<rparr>) =
      (Inr (hd (tbl_idempotency_keys ex_db1)), ex_db1\<lparr>tbl_outbox_events := [], db_uuid_seq := Suc 0\<rparr>)"
    by (simp add: CreateIdempotencyKey_def insert_row_Inr idempotency_key_of_def text_value_def ex_columns
        ex_hash_storable idempotency_key_constraints_def ex_db_def ex_db1_def empty_db_def ex_payout_def)
  have event: "CreateOutboxEvent ex_pg
      \<lparr>cop_EventType = EventTypeProcessPayout, cop_EntityID = 16, cop_Payload = ex_doc\<rparr>
      (ex_db1\<lparr>tbl_outbox_events := [], db_uuid_seq := Suc 0\<rparr>) = (Inr ex_event, ex_db1)"
    by (simp add: CreateOutboxEvent_def insert_row_Inr outbox_event_of_def varchar_event_type json_value_def
        ex_document ex_uuid new_uuid_def ex_event_def outbox_event_constraints_def outbox_statuses_def
        ex_db_def ex_db1_def empty_db_def ex_payout_def event_type_nonempty)
  have doc: "marshalPayoutCreatedOutboxPayload canonical_codec ex_payout = Inr ex_doc"
    by (simp add: marshalPayoutCreatedOutboxPayload_def MarshalProcessPayoutPayload_def ex_doc_def ex_payout_def)
  have ids: "rq_clientID ex_request = 1" "rq_fundingSourceID ex_request = 2"
    "rq_idempotencyKey ex_request = ''k-1''" "rq_hash ex_request = ex_hash" "pay_ID ex_payout = 16"
    by (simp_all add: ex_request_def ex_payout_def)
  show ?thesis
    by (simp add: create_payout_tx_def ids load and_then_def map_error_def
        lift_result_def ok_def source payout key event doc)
qed

lemma ex_payout_view: "payoutFromDB canonical_codec ex_payout = Inr ex_view"
  by (simp add: payoutFromDB_def ex_payout_def ex_view_def ex_amount null_text_def)

lemma ex_create:
  "Payouts_CreatePayout canonical_codec ex_service ex_input ex_db = (Inr ex_view, ex_db1)"
proof -
  have "create_payout_run canonical_codec (pg_payout_store ex_pg)
      (DBTxRunner (pool_runner (\<lambda>_. None) (\<lambda>_. Committed) (pg_payout_store ex_pg))) ex_request ex_db =
      (Inr ex_payout, ex_db1)"
    using pool_run [of "\<lambda>_. None" ex_db "create_payout_tx canonical_codec ex_request", OF refl ex_tx refl]
    by (simp add: create_payout_run_def Payouts_WithinTx_def)
  then show ?thesis
    by (simp add: api_payout_service_eq api.service_unfold ex_create_request and_then_run_Inr
        lift_result_def ex_payout_view)
qed

text \<open>A pool that loses the acknowledgement of every commit.\<close>

abbreviation ex_lossy_service :: "db payout_service option" where
  "ex_lossy_service \<equiv>
     api_payout_service ex_pg (\<lambda>_. None) (\<lambda>_. Unacknowledged ContextDeadlineExceeded)"

lemma ex_create_lossy:
  "Payouts_CreatePayout canonical_codec ex_lossy_service ex_input ex_db = (Inl ContextDeadlineExceeded, ex_db1)"
proof -
  have "Payouts_WithinTx (pool_runner (\<lambda>_. None) (\<lambda>_. Unacknowledged ContextDeadlineExceeded) (pg_payout_store ex_pg))
      (create_payout_tx canonical_codec ex_request) ex_db = (Inl ContextDeadlineExceeded, ex_db1)"
    by (simp add: Payouts_WithinTx_def within_tx_def pool_runner_def NewDBTxRunner_def pg_tx_driver_def ex_tx)
  then show ?thesis
    by (simp add: api_payout_service_eq api.service_unfold ex_create_request and_then_def create_payout_run_def)
qed

lemma ex_not_created: "ex_db1 \<noteq> ex_db"
  by (simp add: ex_db1_def ex_db_def empty_db_def)

lemma ex_payouts_backed: "payouts_backed ex_pg canonical_codec ex_db"
  by (simp add: payouts_backed_def ex_db_def empty_db_def)

section \<open>Witnesses\<close>

theorem create_payout_success_witness:
  "\<exists>rq p. create_payout_request canonical_codec ex_input = Inr rq \<and>
     payoutFromDB canonical_codec p = Inr ex_view \<and> recorded key_view payout_view ex_db1 rq p \<and>
     (ex_db1 = ex_db \<or> payout_created ex_pg canonical_codec rq ex_db p ex_db1)"
  by (rule create_payout_success [OF ex_create])

theorem create_payout_failure_witness:
  "\<exists>rq p. create_payout_request canonical_codec ex_input = Inr rq \<and>
     payout_created ex_pg canonical_codec rq ex_db p ex_db1"
  using create_payout_failure [OF ex_create_lossy] ex_not_created by auto


theorem create_payout_keeps_backed_witness: "payouts_backed ex_pg canonical_codec ex_db1"
  using create_payout_keeps_backed [OF ex_payouts_backed, of "\<lambda>_. None" "\<lambda>_. Committed" ex_input]
  by (simp add: ex_create)

theorem accepted_request_fits_columns_witness:
  "Text_String (pay_RecipientName ex_payout) = ''Ada'' \<and>
   \<bar>numeric_value (pay_Amount ex_payout) - numeric_value (rq_amount ex_request)\<bar> \<le> 1 / 200"
proof -
  have "payout_of ex_pg (payout_params ex_request) ex_db = Inr ex_payout"
    by (simp add: payout_of_def payout_params_def ex_request_def textParam_def nullable_def ex_columns
        ex_amount new_uuid_def ex_pg_def ex_db_def empty_db_def ex_payout_def)
  with accepted_request_fits_columns [OF ex_create_request, of ex_pg ex_db] show ?thesis
    by (simp add: ex_input_def ex_texts)
qed

text \<open>The same request with other white space, sent again.\<close>

definition ex_input_again :: create_payout_input where
  "ex_input_again = ex_input\<lparr>in_IdempotencyKey := ''k-1'', in_RecipientName := ''Ada''\<rparr>"

lemma ex_create_again:
  "create_payout_request canonical_codec ex_input_again = Inr ex_request"
  "Payouts_CreatePayout canonical_codec ex_service ex_input_again ex_db1 = (Inr ex_view, ex_db1)"
proof -
  have "TrimSpace ''k-1'' = ''k-1''" "TrimSpace ''Ada'' = ''Ada''" by code_simp+
  then show rq: "create_payout_request canonical_codec ex_input_again = Inr ex_request"
    by (simp add: create_payout_request_def ex_input_def ex_input_again_def ex_request_def ex_hash_def require_def
        normalizeOptionalText_def normalizeRequiredText_def Let_def ex_texts ex_amount canonical.scan_text)
  show "Payouts_CreatePayout canonical_codec ex_service ex_input_again ex_db1 = (Inr ex_view, ex_db1)"
    using run_replay_no_fault [OF pg.tx_recorded [OF ex_tx], of "\<lambda>_. None" "\<lambda>_. Committed" canonical_codec]
    by (simp add: api_payout_service_eq api.service_unfold rq and_then_def lift_result_def ex_payout_view)
qed

lemma ex_hash_parts: "\<forall>part \<in> set (hash_parts canonical_codec ex_request). CHR 0x00 \<notin> set part"
proof -
  have "canonical_uuid 1 = ''00000000-0000-0000-0000-000000000001''"
    "canonical_uuid 2 = ''00000000-0000-0000-0000-000000000002''"
    by code_simp+
  then show ?thesis by (simp add: hash_parts_def ex_request_def ex_amount)
qed


text \<open>The key is on record for another request.\<close>

theorem create_payout_conflict_witness:
  "Payouts_CreatePayout canonical_codec ex_service ex_input
     (ex_db1\<lparr>tbl_idempotency_keys :=
        [\<lparr>ik_Key = ''k-1'', ik_ClientID = 1, ik_RequestHash = ''other'', ik_PayoutID = 16, ik_CreatedAt = 1000\<rparr>]\<rparr>) =
   (Inl ErrIdempotencyConflict,
     ex_db1\<lparr>tbl_idempotency_keys :=
        [\<lparr>ik_Key = ''k-1'', ik_ClientID = 1, ik_RequestHash = ''other'', ik_PayoutID = 16, ik_CreatedAt = 1000\<rparr>]\<rparr>)"
proof -
  let ?k = "\<lparr>ik_Key = ''k-1'', ik_ClientID = 1, ik_RequestHash = ''other'', ik_PayoutID = 16, ik_CreatedAt = 1000\<rparr>"
  let ?d = "ex_db1\<lparr>tbl_idempotency_keys := [?k]\<rparr>"
  have key: "key_view ?d (rq_clientID ex_request) (rq_idempotencyKey ex_request) = Some ?k"
    by (simp add: key_view_def ex_request_def ex_columns)
  have "length ex_hash = 64" by (simp add: ex_hash_def length_request_hash)
  then have "length (ik_RequestHash ?k) \<noteq> length (rq_hash ex_request)" by (simp add: ex_request_def)
  then have "ik_RequestHash ?k \<noteq> rq_hash ex_request" by metis
  from create_payout_conflict [OF ex_create_request key this, of ex_pg "\<lambda>_. None" "\<lambda>_. Committed"]
  show ?thesis by auto
qed

end
