(* ===== verification/Provider.thy ===== *)
theory Provider
  imports Payout_Status Go_Strings
begin

text \<open>
  The payout provider: the interface \<open>internal/provider\<close> with \<open>ValidateResult\<close>, and its only
  implementation, \<open>internal/providersimulator\<close>. The locale \<open>valid_provider\<close> is what a provider owes
  its caller: every result it returns passes \<open>ValidateResult\<close>. The execution handler does not call
  \<open>ValidateResult\<close> itself, so it relies on this.
\<close>

section \<open>internal/provider\<close>

record execute_payout_input =
  ei_PayoutID :: bytes
  ei_FundingSourceID :: bytes
  ei_PaymentAccountID :: bytes
  ei_Amount :: bytes
  ei_Currency :: bytes

record execute_payout_result =
  er_Status :: bytes
  er_FailureReason :: bytes

text \<open>\<open>PayoutProvider\<close>: \<open>ExecutePayout\<close> acts on the state of the world.\<close>

type_synonym 's payout_provider = "execute_payout_input \<Rightarrow> ('s, execute_payout_result) action"

definition ValidateResult :: "execute_payout_result \<Rightarrow> unit result" where
  "ValidateResult res =
     (if er_Status res = status_text StatusSucceeded then
        (if TrimSpace (er_FailureReason res) \<noteq> [] then Inl ErrInvalidResult else Inr ())
      else if er_Status res = status_text StatusFailed then
        (if TrimSpace (er_FailureReason res) = [] then Inl ErrInvalidResult else Inr ())
      else Inl ErrInvalidResult)"

definition valid_result :: "execute_payout_result \<Rightarrow> bool" where
  "valid_result res \<longleftrightarrow> ValidateResult res = Inr ()"

text \<open>A valid result is final, and carries a reason exactly when it is a failure.\<close>

lemma valid_result_cases:
  assumes "valid_result res"
  obtains (succeeded) "er_Status res = status_text StatusSucceeded" "TrimSpace (er_FailureReason res) = []"
    | (failed) "er_Status res = status_text StatusFailed" "TrimSpace (er_FailureReason res) \<noteq> []"
  using assms by (auto simp: valid_result_def ValidateResult_def split: if_splits)

locale valid_provider =
  fixes provider :: "'s payout_provider"
  assumes valid: "provider inp s = (Inr res, s') \<Longrightarrow> valid_result res"
begin

lemma final_status:
  assumes "provider inp s = (Inr res, s')"
  shows "\<exists>st. terminal st \<and> er_Status res = status_text st \<and>
    (st = StatusFailed \<longleftrightarrow> TrimSpace (er_FailureReason res) \<noteq> [])"
  using valid [OF assms] by (cases rule: valid_result_cases) (auto simp: terminal_def)

end

section \<open>internal/providersimulator\<close>

record simulator_config =
  sim_Outcome :: bytes
  sim_FailureReason :: bytes

definition OutcomeSucceeded :: bytes where "OutcomeSucceeded = ''succeeded''"

definition OutcomeFailed :: bytes where "OutcomeFailed = ''failed''"

definition simulator_result :: "simulator_config \<Rightarrow> execute_payout_result result" where
  "simulator_result config =
     (let outcome = (if sim_Outcome config = [] then OutcomeSucceeded else sim_Outcome config)
      in if outcome = OutcomeSucceeded then
           Inr \<lparr>er_Status = status_text StatusSucceeded, er_FailureReason = []\<rparr>
         else if outcome = OutcomeFailed then
           (let reason = TrimSpace (sim_FailureReason config)
            in Inr \<lparr>er_Status = status_text StatusFailed,
                    er_FailureReason =
                      (if reason = [] then ''provider simulator rejected payout'' else reason)\<rparr>)
         else Inl ErrInvalidOutcome)"

text \<open>\<open>ctx\<close> is what \<open>ctx.Err()\<close> returns in the given state.\<close>

definition Simulator_ExecutePayout ::
  "('s \<Rightarrow> go_error option) \<Rightarrow> simulator_config \<Rightarrow> 's payout_provider" where
  "Simulator_ExecutePayout ctx config inp s =
     (case ctx s of
        Some e \<Rightarrow> (Inl e, s)
      | None \<Rightarrow>
          (case simulator_result config of
             Inl e \<Rightarrow> (Inl e, s)
           | Inr res \<Rightarrow>
               (case ValidateResult res of
                  Inl e \<Rightarrow> (Inl e, s)
                | Inr _ \<Rightarrow> (Inr res, s))))"

interpretation simulator: valid_provider "Simulator_ExecutePayout ctx config"
  by unfold_locales
    (auto simp: Simulator_ExecutePayout_def valid_result_def split: option.splits sum.splits)

lemma simulator_reason_nonempty: "TrimSpace ''provider simulator rejected payout'' \<noteq> []"
  by code_simp

lemma simulator_never_invalid: "simulator_result config = Inr res \<Longrightarrow> valid_result res"
  using simulator_reason_nonempty
  by (auto simp: simulator_result_def Let_def valid_result_def ValidateResult_def split: if_splits)

section \<open>Properties\<close>

text \<open>The simulator is a valid provider and total in its configuration. It never returns an
  invalid result: on a live context it fails exactly for an unknown outcome, with
  \<open>ErrInvalidOutcome\<close>, and otherwise returns a final status with a reason exactly when it failed;
  a cancelled context gives the context's error. It never changes the state.\<close>

lemma simulator_outcome:
  "Simulator_ExecutePayout ctx config inp s =
     (case ctx s of
        Some e \<Rightarrow> Inl e
      | None \<Rightarrow>
          if sim_Outcome config \<in> {[], ''succeeded''} then
            Inr \<lparr>er_Status = ''succeeded'', er_FailureReason = []\<rparr>
          else if sim_Outcome config = ''failed'' then
            Inr \<lparr>er_Status = ''failed'', er_FailureReason =
              (if TrimSpace (sim_FailureReason config) = [] then ''provider simulator rejected payout''
               else TrimSpace (sim_FailureReason config))\<rparr>
          else Inl ErrInvalidOutcome, s)"
  using simulator_reason_nonempty
  by (auto simp: Simulator_ExecutePayout_def simulator_result_def ValidateResult_def OutcomeSucceeded_def
      OutcomeFailed_def Let_def split: option.splits)

end
