(* ===== verification/Execution.thy ===== *)
theory Execution
  imports Queries Transactions Messages Provider
begin

text \<open>
  The execution handler of the payout worker, \<open>internal/apps/payoutworker/execution\<close>: one event is
  handled in two transactions with the call of the provider between them. \<open>prepareExecution\<close> moves
  a pending payout to \<open>processing\<close>, \<open>recordExecutionResult\<close> stores the outcome and, for a client
  with a webhook URL, the event that announces it.
\<close>

section \<open>Interfaces\<close>

record 's exec_store =
  xs_CreateOutboxEvent :: "create_outbox_params \<Rightarrow> ('s, outbox_row) action"
  xs_GetClientById :: "uuid \<Rightarrow> ('s, client_row) action"
  xs_GetFundingSourceByClientID :: "by_client_params \<Rightarrow> ('s, funding_source_row) action"
  xs_GetPayoutByClientID :: "by_client_params \<Rightarrow> ('s, payout_row) action"
  xs_UpdatePayoutFailure :: "update_failure_params \<Rightarrow> ('s, payout_row) action"
  xs_UpdatePayoutStatus :: "update_status_params \<Rightarrow> ('s, payout_row) action"

text \<open>
  The handler's fields; \<open>None\<close> is a nil interface. The runner hands its function a store that may
  be nil, which the functions test.
\<close>

type_synonym 's exec_tx_runner = "('s, 's exec_store option) db_tx_runner option"

record 's execution_handler =
  hd_txRunner :: "'s exec_tx_runner option"
  hd_provider :: "'s payout_provider option"

definition NewHandler :: "'s exec_tx_runner option \<Rightarrow> 's payout_provider option \<Rightarrow> 's execution_handler" where
  "NewHandler txRunner provider = \<lparr>hd_txRunner = txRunner, hd_provider = provider\<rparr>"

section \<open>The event's payload\<close>

record parsed_payload =
  pp_payoutID :: uuid
  pp_clientID :: uuid

definition parsePayoutCreatedOutboxPayload :: "pgx_codec \<Rightarrow> bytes \<Rightarrow> parsed_payload result" where
  "parsePayoutCreatedOutboxPayload codec raw =
     (case UnmarshalProcessPayoutPayload raw of
        Inl e \<Rightarrow> Inl ErrInvalidOutboxPayload
      | Inr payload \<Rightarrow>
          (case ParseUUID codec (ppp_PayoutID payload) of
             None \<Rightarrow> Inl ErrInvalidOutboxEntity
           | Some payoutID \<Rightarrow>
               (case ParseUUID codec (ppp_ClientID payload) of
                  None \<Rightarrow> Inl ErrInvalidOutboxEntity
                | Some clientID \<Rightarrow> Inr \<lparr>pp_payoutID = payoutID, pp_clientID = clientID\<rparr>)))"

section \<open>First transaction\<close>

record prepared_execution =
  pr_payout :: payout_row
  pr_fundingSource :: funding_source_row
  pr_amount :: bytes
  pr_shouldExecute :: bool

definition prepareExecutionInTx ::
  "parsed_payload \<Rightarrow> 's exec_store \<Rightarrow> ('s, prepared_execution) action" where
  "prepareExecutionInTx payload store =
     and_then (xs_GetPayoutByClientID store
                 \<lparr>bcp_ClientID = pp_clientID payload, bcp_ID = pp_payoutID payload\<rparr>) (\<lambda>payout.
     and_then (xs_GetFundingSourceByClientID store
                 \<lparr>bcp_ClientID = pp_clientID payload, bcp_ID = pay_FundingSourceID payout\<rparr>) (\<lambda>source.
     let execute = (\<lambda>payout.
           and_then (lift_result (Execution_numericString (pay_Amount payout))) (\<lambda>amount.
           ok \<lparr>pr_payout = payout, pr_fundingSource = source, pr_amount = amount, pr_shouldExecute = True\<rparr>))
     in if pay_Status payout = status_text StatusPending then
          and_then (xs_UpdatePayoutStatus store
                      \<lparr>usp_Status = status_text StatusProcessing, usp_ID = pay_ID payout\<rparr>) execute
        else if pay_Status payout = status_text StatusProcessing then execute payout
        else if pay_Status payout = status_text StatusSucceeded then
          ok \<lparr>pr_payout = payout, pr_fundingSource = source, pr_amount = [], pr_shouldExecute = False\<rparr>
        else fail ErrPayoutNotReadyForExecution))"

definition with_store :: "('s exec_store \<Rightarrow> ('s, 'a) action) \<Rightarrow> 's exec_store option \<Rightarrow> ('s, 'a) action" where
  "with_store fn store =
     (case store of None \<Rightarrow> fail (Errorf ''payout execution store is not configured'') | Some q \<Rightarrow> fn q)"

definition prepareExecution :: "'s exec_tx_runner \<Rightarrow> parsed_payload \<Rightarrow> ('s, prepared_execution) action" where
  "prepareExecution txRunner payload =
     Execution_WithinTx txRunner (with_store (prepareExecutionInTx payload))"

section \<open>Second transaction\<close>

definition createWebhookOutboxEventIfConfigured ::
  "pgx_codec \<Rightarrow> payout_row \<Rightarrow> 's exec_store \<Rightarrow> ('s, unit) action" where
  "createWebhookOutboxEventIfConfigured codec payout store =
     and_then (xs_GetClientById store (pay_ClientID payout)) (\<lambda>client.
     let targetURL = TrimSpace (Text_String (cl_WebhookUrl client)) in
     if \<not> Text_Valid (cl_WebhookUrl client) \<or> targetURL = [] then ok ()
     else
       and_then (lift_result
         (MarshalPayoutResultWebhookPayload (UUIDString codec (pay_ID payout))
            (UUIDString codec (pay_ClientID payout)) targetURL (pay_Status payout)
            (Text_String (pay_FailureReason payout)))) (\<lambda>payload.
       and_then (xs_CreateOutboxEvent store
         \<lparr>cop_EventType = EventTypePayoutResultWebhook, cop_EntityID = pay_ID payout,
          cop_Payload = payload\<rparr>) (\<lambda>_. ok ())))"

definition failure_reason :: "execute_payout_result \<Rightarrow> pg_text" where
  "failure_reason res =
     \<lparr>Text_String = er_FailureReason res, Text_Valid = (TrimSpace (er_FailureReason res) \<noteq> [])\<rparr>"

definition recordExecutionResultInTx ::
  "pgx_codec \<Rightarrow> prepared_execution \<Rightarrow> execute_payout_result \<Rightarrow> 's exec_store \<Rightarrow> ('s, unit) action" where
  "recordExecutionResultInTx codec prepared res store =
     (if er_Status res = status_text StatusSucceeded then
        and_then (xs_UpdatePayoutStatus store
          \<lparr>usp_Status = status_text StatusSucceeded, usp_ID = pay_ID (pr_payout prepared)\<rparr>) (\<lambda>final.
        createWebhookOutboxEventIfConfigured codec final store)
      else if er_Status res = status_text StatusFailed then
        and_then (xs_UpdatePayoutFailure store
          \<lparr>ufp_FailureReason = failure_reason res, ufp_ID = pay_ID (pr_payout prepared)\<rparr>) (\<lambda>final.
        createWebhookOutboxEventIfConfigured codec final store)
      else fail ErrUnsupportedProviderResult)"

definition recordExecutionResult ::
  "pgx_codec \<Rightarrow> 's exec_tx_runner \<Rightarrow> prepared_execution \<Rightarrow> execute_payout_result \<Rightarrow> ('s, unit) action" where
  "recordExecutionResult codec txRunner prepared res =
     Execution_WithinTx txRunner (with_store (recordExecutionResultInTx codec prepared res))"

section \<open>HandleEvent\<close>

definition execute_input :: "pgx_codec \<Rightarrow> prepared_execution \<Rightarrow> execute_payout_input" where
  "execute_input codec prepared =
     \<lparr>ei_PayoutID = UUIDString codec (pay_ID (pr_payout prepared)),
      ei_FundingSourceID = UUIDString codec (fs_ID (pr_fundingSource prepared)),
      ei_PaymentAccountID = fs_PaymentAccountID (pr_fundingSource prepared),
      ei_Amount = pr_amount prepared,
      ei_Currency = pay_Currency (pr_payout prepared)\<rparr>"

definition HandleEvent :: "pgx_codec \<Rightarrow> 's execution_handler option \<Rightarrow> event \<Rightarrow> ('s, unit) action" where
  "HandleEvent codec h ev =
     (case h of
        None \<Rightarrow> fail (Errorf ''payout execution handler is not configured'')
      | Some h \<Rightarrow>
          (case (hd_txRunner h, hd_provider h) of
             (Some txRunner, Some provider) \<Rightarrow>
               if ev_EventType ev \<noteq> EventTypeProcessPayout then fail ErrUnsupportedEvent
               else
                 and_then (lift_result (parsePayoutCreatedOutboxPayload codec (ev_Payload ev))) (\<lambda>payload.
                 and_then (prepareExecution txRunner payload) (\<lambda>prepared.
                 if \<not> pr_shouldExecute prepared then ok ()
                 else
                   and_then (provider (execute_input codec prepared)) (\<lambda>res.
                   recordExecutionResult codec txRunner prepared res)))
           | _ \<Rightarrow> fail (Errorf ''payout execution handler is not configured'')))"

end
