(* ===== verification/Worlds.thy ===== *)
theory Worlds
  imports Database_Invariant
begin

text \<open>
  A process outside the API acts on a world: the database beside whatever else it talks to (the
  provider, the broker). A statement acts on the first component (\<open>on_db\<close>), a call of the other
  system on the second (\<open>off_db\<close>).
\<close>

definition on_db :: "(db, 'a) action \<Rightarrow> (db \<times> 'p, 'a) action" where
  "on_db m w = (case m (fst w) of (r, d) \<Rightarrow> (r, (d, snd w)))"

definition off_db :: "('p, 'a) action \<Rightarrow> (db \<times> 'p, 'a) action" where
  "off_db m w = (case m (snd w) of (r, p) \<Rightarrow> (r, (fst w, p)))"

lemma on_db_Inr [seq_simps]: "on_db m w = (Inr x, w') \<longleftrightarrow> m (fst w) = (Inr x, fst w') \<and> snd w' = snd w"
  by (cases w'; auto simp: on_db_def split: prod.splits)

lemma on_db_Inl [seq_simps]: "on_db m w = (Inl e, w') \<longleftrightarrow> m (fst w) = (Inl e, fst w') \<and> snd w' = snd w"
  by (cases w'; auto simp: on_db_def split: prod.splits)

text \<open>A relation between databases that every statement keeps, on the worker's states.\<close>

definition db_rel :: "(db \<Rightarrow> db \<Rightarrow> bool) \<Rightarrow> db \<times> 'p \<Rightarrow> db \<times> 'p \<Rightarrow> bool" where
  "db_rel R w w' \<longleftrightarrow> R (fst w) (fst w')"

lemma keeps_on_db: "keeps R m \<Longrightarrow> keeps (db_rel R) (on_db m)"
  by (auto simp: keeps_def db_rel_def on_db_def split_beta)

lemma reflp_db_rel: "reflp R \<Longrightarrow> reflp (db_rel R)"
  by (auto simp: reflp_def db_rel_def)

lemma transp_db_rel: "transp R \<Longrightarrow> transp (db_rel R)"
  unfolding transp_def db_rel_def by blast

lemma keeps_off_db: "reflp R \<Longrightarrow> keeps (db_rel R) (off_db m)"
  by (auto simp: keeps_def db_rel_def off_db_def split_beta reflpD)

end
