(* ===== verification/Execution_Guarantees.thy ===== *)
theory Execution_Guarantees
  imports Execution Payout_Guarantees Worlds
begin

text \<open>
  The execution handler on PostgreSQL. The state is the database beside whatever the provider keeps
  outside of it; the statements act on the first component, the provider on the second. The
  properties follow a payout through one delivery of its event: how its status moves, when the
  provider is called, what is recorded, and what a redelivery does.
\<close>

section \<open>The worker's world\<close>

definition outside_db :: "'p payout_provider \<Rightarrow> (db \<times> 'p) payout_provider" where
  "outside_db f inp = off_db (f inp)"

definition pg_exec_store :: "postgres \<Rightarrow> (db \<times> 'p) exec_store" where
  "pg_exec_store pg =
     \<lparr>xs_CreateOutboxEvent = (\<lambda>a. on_db (CreateOutboxEvent pg a)),
      xs_GetClientById = (\<lambda>a. on_db (GetClientById a)),
      xs_GetFundingSourceByClientID = (\<lambda>a. on_db (GetFundingSourceByClientID a)),
      xs_GetPayoutByClientID = (\<lambda>a. on_db (GetPayoutByClientID a)),
      xs_UpdatePayoutFailure = (\<lambda>a. on_db (UpdatePayoutFailure a)),
      xs_UpdatePayoutStatus = (\<lambda>a. on_db (UpdatePayoutStatus a))\<rparr>"

lemma pg_exec_store_simps [simp]:
  "xs_CreateOutboxEvent (pg_exec_store pg) a = on_db (CreateOutboxEvent pg a)"
  "xs_GetClientById (pg_exec_store pg) i = on_db (GetClientById i)"
  "xs_GetFundingSourceByClientID (pg_exec_store pg) b = on_db (GetFundingSourceByClientID b)"
  "xs_GetPayoutByClientID (pg_exec_store pg) b = on_db (GetPayoutByClientID b)"
  "xs_UpdatePayoutFailure (pg_exec_store pg) f = on_db (UpdatePayoutFailure f)"
  "xs_UpdatePayoutStatus (pg_exec_store pg) u = on_db (UpdatePayoutStatus u)"
  by (simp_all add: pg_exec_store_def)

text \<open>The handler as \<open>cmd/payout-worker/main.go\<close> makes it, with any provider.\<close>

definition worker_handler ::
  "postgres \<Rightarrow> (db \<times> 'p \<Rightarrow> go_error option) \<Rightarrow> (db \<times> 'p \<Rightarrow> commit_outcome) \<Rightarrow> 'p payout_provider \<Rightarrow>
   (db \<times> 'p) execution_handler option" where
  "worker_handler pg bf cf f =
     Some (NewHandler (Some (pool_runner bf cf (Some (pg_exec_store pg)))) (Some (outside_db f)))"

lemma keeps_outside: "reflp R \<Longrightarrow> keeps (db_rel R) (outside_db f inp)"
  by (simp add: outside_db_def keeps_off_db)

text \<open>The whole handler keeps such a relation.\<close>

lemma keeps_handler:
  assumes "reflp R" and "transp R"
    and "\<And>a. keeps R (CreateOutboxEvent pg a)" and "\<And>i. keeps R (GetClientById i)"
    and "\<And>b. keeps R (GetFundingSourceByClientID b)" and "\<And>b. keeps R (GetPayoutByClientID b)"
    and "\<And>u. keeps R (UpdatePayoutFailure u)" and "\<And>u. keeps R (UpdatePayoutStatus u)"
  shows "keeps (db_rel R) (HandleEvent codec (worker_handler pg bf cf f) ev)"
proof -
  have rt: "reflp (db_rel R)" "transp (db_rel R)"
    using assms(1,2) by (simp_all add: reflp_db_rel transp_db_rel)
  note stmts = assms(3-8) [THEN keeps_on_db]
  have webhook: "keeps (db_rel R) (createWebhookOutboxEventIfConfigured codec q (pg_exec_store pg))" for q
    unfolding createWebhookOutboxEventIfConfigured_def
    by (auto intro!: keeps_intros keeps_lift_result rt stmts simp: Let_def)
  have record_tx: "keeps (db_rel R) (recordExecutionResultInTx codec prep res (pg_exec_store pg))" for prep res
    unfolding recordExecutionResultInTx_def by (auto intro!: keeps_intros rt stmts webhook)
  have prepare_tx: "keeps (db_rel R) (prepareExecutionInTx payload (pg_exec_store pg))" for payload
    unfolding prepareExecutionInTx_def
    by (auto intro!: keeps_intros keeps_lift_result rt stmts simp: Let_def)
  have "keeps (db_rel R) (recordExecutionResult codec (pool_runner bf cf (Some (pg_exec_store pg))) prep res)"
    for prep res
    unfolding recordExecutionResult_def
    by (rule pool_execution.run_keeps_body [OF rt(1)]) (simp add: with_store_def record_tx)
  moreover have "keeps (db_rel R) (prepareExecution (pool_runner bf cf (Some (pg_exec_store pg))) payload)"
    for payload
    unfolding prepareExecution_def
    by (rule pool_execution.run_keeps_body [OF rt(1)]) (simp add: with_store_def prepare_tx)
  ultimately show ?thesis
    unfolding HandleEvent_def worker_handler_def NewHandler_def
    by (auto intro!: keeps_intros keeps_lift_result rt keeps_outside assms(1))
qed

section \<open>Statements on one payout\<close>

definition set_payout_status :: "uuid \<Rightarrow> payout_status \<Rightarrow> db \<Rightarrow> db" where
  "set_payout_status i st d =
     d\<lparr>tbl_payouts := update_where (\<lambda>q. pay_ID q = i)
        (\<lambda>q. q\<lparr>pay_Status := status_text st, pay_UpdatedAt := db_now d\<rparr>) (tbl_payouts d)\<rparr>"

definition set_payout_failed :: "uuid \<Rightarrow> pg_text \<Rightarrow> db \<Rightarrow> db" where
  "set_payout_failed i reason d =
     d\<lparr>tbl_payouts := update_where (\<lambda>q. pay_ID q = i)
        (\<lambda>q. q\<lparr>pay_Status := status_text StatusFailed, pay_FailureReason := reason, pay_UpdatedAt := db_now d\<rparr>)
        (tbl_payouts d)\<rparr>"

text \<open>The payout of a client after an update by its id.\<close>

lemma payout_find_update:
  assumes "\<And>p. pay_ID (f p) = pay_ID p" and "\<And>p. pay_ClientID (f p) = pay_ClientID p"
  shows "find (\<lambda>p. pay_ClientID p = c \<and> pay_ID p = i) (update_where (\<lambda>p. pay_ID p = i) f rows) =
    map_option f (find (\<lambda>p. pay_ClientID p = c \<and> pay_ID p = i) rows)"
  by (induction rows) (auto simp: assms)

lemma status_texts:
  "storable_text ''pending''" "storable_text ''processing''" "storable_text ''succeeded''" "storable_text ''failed''"
  by (simp_all add: storable_text_def byte_def)

lemma status_column: "storable_text (status_text st)" "varchar 50 (status_text st) = Inr (status_text st)"
  by (cases st; simp add: status_texts varchar_short)+

lemma status_listed [simp]: "status_text st \<in> set payout_statuses"
  by (auto simp: payout_statuses_iff)

lemma UpdatePayoutStatus_run:
  "UpdatePayoutStatus \<lparr>usp_Status = status_text st, usp_ID = i\<rparr> d =
     (case find (\<lambda>q. pay_ID q = i) (tbl_payouts d) of
        None \<Rightarrow> (Inl ErrNoRows, d)
      | Some q \<Rightarrow>
          (Inr (q\<lparr>pay_Status := status_text st, pay_UpdatedAt := db_now d\<rparr>), set_payout_status i st d))"
  by (auto simp: UpdatePayoutStatus_def status_column update_one_def set_payout_status_def
      first_failure.simps split: option.split)

lemma UpdatePayoutFailure_run:
  "UpdatePayoutFailure \<lparr>ufp_FailureReason = t, ufp_ID = i\<rparr> d =
     (case nullable text_value t of
        Inl e \<Rightarrow> (Inl e, d)
      | Inr reason \<Rightarrow>
          (case find (\<lambda>q. pay_ID q = i) (tbl_payouts d) of
             None \<Rightarrow> (Inl ErrNoRows, d)
           | Some q \<Rightarrow>
               (Inr (q\<lparr>pay_Status := status_text StatusFailed, pay_FailureReason := reason,
                       pay_UpdatedAt := db_now d\<rparr>), set_payout_failed i reason d)))"
  by (auto simp: UpdatePayoutFailure_def update_one_def set_payout_failed_def
      split: option.split sum.split)


section \<open>The first transaction\<close>

text \<open>The payout as the handler runs it, and the database in which it runs.\<close>

definition running :: "db \<Rightarrow> payout_row \<Rightarrow> payout_row" where
  "running d q =
     (if pay_Status q = status_text StatusPending
      then q\<lparr>pay_Status := status_text StatusProcessing, pay_UpdatedAt := db_now d\<rparr> else q)"

definition started :: "payout_row \<Rightarrow> db \<Rightarrow> db" where
  "started q d =
     (if pay_Status q = status_text StatusPending
      then set_payout_status (pay_ID q) StatusProcessing d else d)"

definition ready :: "payout_row \<Rightarrow> bool" where
  "ready q \<longleftrightarrow> pay_Status q = status_text StatusPending \<or> pay_Status q = status_text StatusProcessing"

lemma running_columns [simp]:
  "pay_ID (running d q) = pay_ID q" "pay_ClientID (running d q) = pay_ClientID q"
  "pay_Amount (running d q) = pay_Amount q" "pay_Currency (running d q) = pay_Currency q"
  by (simp_all add: running_def)

lemma payout_by_id:
  assumes "wf_db d" and "payout_view d c i = Some q"
  shows "find (\<lambda>p. pay_ID p = i) (tbl_payouts d) = Some q" "pay_ID q = i" "pay_ClientID q = c"
proof -
  have q: "q \<in> set (tbl_payouts d)" "pay_ClientID q = c" "pay_ID q = i"
    using find_SomeD [OF assms(2) [unfolded payout_view_def]] by auto
  then show "pay_ID q = i" "pay_ClientID q = c" by simp_all
  show "find (\<lambda>p. pay_ID p = i) (tbl_payouts d) = Some q"
    using assms(1) q by (auto intro!: find_unique [of pay_ID] simp: wf_db_def wf_payouts_def)
qed

lemma stored_payout:
  assumes "wf_db d" and "payout_view d c i = Some q"
  shows "stored_amount (pay_Amount q)" "\<exists>st. pay_Status q = status_text st"
proof -
  have "q \<in> set (tbl_payouts d)"
    using find_SomeD [OF assms(2) [unfolded payout_view_def]] by simp
  with assms(1) have "payout_ok (client_ids d) (funding_source_ids d) q"
    by (simp add: wf_db_def wf_payouts_def)
  then show "stored_amount (pay_Amount q)" "\<exists>st. pay_Status q = status_text st"
    by (simp_all add: payout_ok_def payout_statuses_iff)
qed

text \<open>A stored amount always has a text, so the handler never stops on an amount.\<close>

lemma stored_amount_execution_text: "stored_amount v \<Longrightarrow> \<exists>t. Execution_numericString v = Inr t"
proof -
  assume "stored_amount v"
  then obtain h where "v = mk_numeric h (- 2)" by (auto simp: stored_amount_def)
  then have "usable_numeric v" "num_Int v = Some h" "num_Exp v \<noteq> 0x80000000"
    by (simp_all add: mk_numeric_def usable_numeric_def)
  with numericString_defined [OF this] show ?thesis by (simp add: numericString_copies)
qed

definition source_view :: "db \<Rightarrow> uuid \<Rightarrow> uuid \<Rightarrow> funding_source_row option" where
  "source_view d c i = find (\<lambda>r. fs_ClientID r = c \<and> fs_ID r = i) (tbl_funding_sources d)"

definition amount_text :: "payout_row \<Rightarrow> bytes" where
  "amount_text q = (case Execution_numericString (pay_Amount q) of Inr t \<Rightarrow> t | Inl _ \<Rightarrow> [])"

text \<open>What the first transaction returns, on every branch.\<close>

definition preparation ::
  "db \<Rightarrow> parsed_payload \<Rightarrow> prepared_execution result \<times> db" where
  "preparation d payload =
     (case payout_view d (pp_clientID payload) (pp_payoutID payload) of
        None \<Rightarrow> (Inl ErrNoRows, d)
      | Some q \<Rightarrow>
          (case source_view d (pp_clientID payload) (pay_FundingSourceID q) of
             None \<Rightarrow> (Inl ErrNoRows, d)
           | Some src \<Rightarrow>
               if ready q then
                 (Inr \<lparr>pr_payout = running d q, pr_fundingSource = src, pr_amount = amount_text q,
                       pr_shouldExecute = True\<rparr>, started q d)
               else if pay_Status q = status_text StatusSucceeded then
                 (Inr \<lparr>pr_payout = q, pr_fundingSource = src, pr_amount = [], pr_shouldExecute = False\<rparr>, d)
               else (Inl ErrPayoutNotReadyForExecution, d)))"

lemma GetPayout_on_db:
  "on_db (GetPayoutByClientID \<lparr>bcp_ClientID = c, bcp_ID = i\<rparr>) (d, p) =
     (case payout_view d c i of None \<Rightarrow> (Inl ErrNoRows, (d, p)) | Some q \<Rightarrow> (Inr q, (d, p)))"
  by (simp add: on_db_def GetPayoutByClientID_def select_one_def payout_view_def split: option.split)

lemma GetSource_on_db:
  "on_db (GetFundingSourceByClientID \<lparr>bcp_ClientID = c, bcp_ID = i\<rparr>) (d, p) =
     (case source_view d c i of None \<Rightarrow> (Inl ErrNoRows, (d, p)) | Some q \<Rightarrow> (Inr q, (d, p)))"
  by (simp add: on_db_def GetFundingSourceByClientID_def select_one_def source_view_def split: option.split)

lemma prepare_tx_eq:
  assumes "wf_db d"
  shows "prepareExecutionInTx payload (pg_exec_store pg) (d, p) =
    (case preparation d payload of (r, d') \<Rightarrow> (r, (d', p)))"
proof (cases "payout_view d (pp_clientID payload) (pp_payoutID payload)")
  case None
  then show ?thesis
    by (simp add: prepareExecutionInTx_def and_then_def GetPayout_on_db preparation_def)
next
  case (Some q)
  note q = payout_by_id [OF assms Some]
  obtain t where t: "Execution_numericString (pay_Amount q) = Inr t"
    using stored_amount_execution_text [OF stored_payout(1) [OF assms Some]] by blast
  show ?thesis
  proof (cases "source_view d (pp_clientID payload) (pay_FundingSourceID q)")
    case None
    with Some show ?thesis
      by (simp add: prepareExecutionInTx_def and_then_def GetPayout_on_db GetSource_on_db preparation_def)
  next
    case src: (Some src)
    have "on_db (UpdatePayoutStatus \<lparr>usp_Status = status_text StatusProcessing, usp_ID = pay_ID q\<rparr>) (d, p) =
        (Inr (q\<lparr>pay_Status := status_text StatusProcessing, pay_UpdatedAt := db_now d\<rparr>),
         (set_payout_status (pay_ID q) StatusProcessing d, p))"
      using q by (simp add: on_db_def UpdatePayoutStatus_run del: status_text.simps)
    with Some src t show ?thesis
      by (auto simp: prepareExecutionInTx_def and_then_def GetPayout_on_db GetSource_on_db preparation_def
          ready_def running_def started_def amount_text_def ok_def fail_def lift_result_def
          simp del: status_text.simps)
  qed
qed


section \<open>The second transaction\<close>

definition webhook_url :: "client_row \<Rightarrow> bytes" where
  "webhook_url client = (if Text_Valid (cl_WebhookUrl client) then TrimSpace (Text_String (cl_WebhookUrl client)) else [])"

definition client_view :: "db \<Rightarrow> uuid \<Rightarrow> client_row option" where
  "client_view d i = find (\<lambda>c. cl_ID c = i) (tbl_clients d)"

text \<open>
  The announcement of a final payout: nothing for a client without a webhook URL, otherwise one
  pending \<open>payout_result_webhook\<close> event about the payout, with its payload.
\<close>

definition announced :: "postgres \<Rightarrow> pgx_codec \<Rightarrow> payout_row \<Rightarrow> db \<Rightarrow> db \<Rightarrow> bool" where
  "announced pg codec q d d' \<longleftrightarrow>
     (case client_view d (pay_ClientID q) of
        None \<Rightarrow> False
      | Some client \<Rightarrow>
          if webhook_url client = [] then d' = d
          else
            (\<exists>doc e. MarshalPayoutResultWebhookPayload (UUIDString codec (pay_ID q))
                 (UUIDString codec (pay_ClientID q)) (webhook_url client) (pay_Status q)
                 (Text_String (pay_FailureReason q)) = Inr doc \<and>
               pg_jsonb pg doc = Some (ob_Payload e) \<and> ob_EventType e = EventTypePayoutResultWebhook \<and>
               ob_EntityID e = pay_ID q \<and> ob_Status e = ''pending'' \<and>
               d' = d\<lparr>tbl_outbox_events := tbl_outbox_events d @ [e], db_uuid_seq := Suc (db_uuid_seq d)\<rparr>))"

lemma varchar_webhook_type: "varchar 255 EventTypePayoutResultWebhook = Inr EventTypePayoutResultWebhook"
  by (rule varchar_short) (simp_all add: EventTypePayoutResultWebhook_def storable_text_def byte_def)

lemma create_webhook_event:
  assumes "CreateOutboxEvent pg \<lparr>cop_EventType = EventTypePayoutResultWebhook, cop_EntityID = i, cop_Payload = doc\<rparr> d =
    (Inr e, d')"
  shows "pg_jsonb pg doc = Some (ob_Payload e) \<and> ob_EventType e = EventTypePayoutResultWebhook \<and>
    ob_EntityID e = i \<and> ob_Status e = ''pending'' \<and>
    d' = d\<lparr>tbl_outbox_events := tbl_outbox_events d @ [e], db_uuid_seq := Suc (db_uuid_seq d)\<rparr>"
  using CreateOutboxEvent_Inr [OF assms]
  by (auto simp: outbox_event_of_def json_value_def varchar_webhook_type seq_simps split: option.splits)

lemma announce_Inr:
  assumes "createWebhookOutboxEventIfConfigured codec q (pg_exec_store pg) (d, p) = (Inr u, w)"
  shows "announced pg codec q d (fst w) \<and> snd w = p"
  using assms
  by (auto simp: createWebhookOutboxEventIfConfigured_def seq_simps Let_def announced_def webhook_url_def
      client_view_def GetClientById_def select_one_def
      split: if_splits option.splits dest!: create_webhook_event)

lemma announced_tables:
  assumes "announced pg codec q d d'"
  shows "tbl_payouts d' = tbl_payouts d" "tbl_clients d' = tbl_clients d"
    "tbl_funding_sources d' = tbl_funding_sources d" "db_now d' = db_now d"
  using assms by (auto simp: announced_def split: option.splits if_splits)

text \<open>The payout after the provider's answer.\<close>

definition final_row :: "db \<Rightarrow> execute_payout_result \<Rightarrow> payout_row \<Rightarrow> payout_row" where
  "final_row d res q =
     (if er_Status res = status_text StatusSucceeded
      then q\<lparr>pay_Status := status_text StatusSucceeded, pay_UpdatedAt := db_now d\<rparr>
      else q\<lparr>pay_Status := status_text StatusFailed,
             pay_FailureReason := (if Text_Valid (failure_reason res) then failure_reason res else null_text),
             pay_UpdatedAt := db_now d\<rparr>)"

definition finished :: "execute_payout_result \<Rightarrow> payout_row \<Rightarrow> db \<Rightarrow> db" where
  "finished res q d =
     d\<lparr>tbl_payouts := update_where (\<lambda>r. pay_ID r = pay_ID q) (final_row d res) (tbl_payouts d)\<rparr>"

definition final_result :: "execute_payout_result \<Rightarrow> bool" where
  "final_result res \<longleftrightarrow> er_Status res \<in> {status_text StatusSucceeded, status_text StatusFailed}"

lemma nullable_text_Inr: "nullable text_value t = Inr t' \<Longrightarrow> t' = (if Text_Valid t then t else null_text)"
  by (cases t) (auto simp: nullable_def text_value_def split: if_splits sum.splits)

lemma final_row_cases:
  "er_Status res = status_text StatusSucceeded \<Longrightarrow>
     final_row d res = (\<lambda>q. q\<lparr>pay_Status := status_text StatusSucceeded, pay_UpdatedAt := db_now d\<rparr>)"
  "er_Status res = status_text StatusFailed \<Longrightarrow>
     final_row d res = (\<lambda>q. q\<lparr>pay_Status := status_text StatusFailed,
       pay_FailureReason := (if Text_Valid (failure_reason res) then failure_reason res else null_text),
       pay_UpdatedAt := db_now d\<rparr>)"
  by (simp_all add: final_row_def fun_eq_iff del: status_text.simps)

lemma record_tx_Inr:
  assumes "recordExecutionResultInTx codec prep res (pg_exec_store pg) (d, p) = (Inr u, w)"
    and "find (\<lambda>r. pay_ID r = pay_ID (pr_payout prep)) (tbl_payouts d) = Some q"
  shows "final_result res \<and> snd w = p \<and>
    announced pg codec (final_row d res q) (finished res q d) (fst w)"
proof -
  have id: "pay_ID (pr_payout prep) = pay_ID q" using find_SomeD [OF assms(2)] by simp
  consider (succeeded) "er_Status res = status_text StatusSucceeded"
    | (failed) "er_Status res = status_text StatusFailed" "er_Status res \<noteq> status_text StatusSucceeded"
    using assms(1) by (auto simp: recordExecutionResultInTx_def seq_simps simp del: status_text.simps split: if_splits)
  then have "final_result res \<and>
    createWebhookOutboxEventIfConfigured codec (final_row d res q) (pg_exec_store pg) (finished res q d, p) = (Inr u, w)"
  proof cases
    case succeeded
    have "UpdatePayoutStatus \<lparr>usp_Status = status_text StatusSucceeded, usp_ID = pay_ID q\<rparr> d =
        (Inr (final_row d res q), finished res q d)"
      using assms(2) succeeded
      by (simp add: UpdatePayoutStatus_run final_row_cases finished_def set_payout_status_def id del: status_text.simps)
    with assms(1) succeeded show ?thesis
      by (simp add: recordExecutionResultInTx_def and_then_def on_db_def final_result_def id del: status_text.simps)
  next
    case failed
    obtain t where t: "nullable text_value (failure_reason res) = Inr t"
      using assms(1) failed
      by (cases "nullable text_value (failure_reason res)")
        (simp_all add: recordExecutionResultInTx_def and_then_def on_db_def UpdatePayoutFailure_run id del: status_text.simps)
    have "UpdatePayoutFailure \<lparr>ufp_FailureReason = failure_reason res, ufp_ID = pay_ID q\<rparr> d =
        (Inr (final_row d res q), finished res q d)"
      using assms(2) failed t nullable_text_Inr [OF t]
      by (simp add: UpdatePayoutFailure_run final_row_cases finished_def set_payout_failed_def id del: status_text.simps)
    with assms(1) failed show ?thesis
      by (simp add: recordExecutionResultInTx_def and_then_def on_db_def final_result_def id del: status_text.simps)
  qed
  then show ?thesis by (auto dest: announce_Inr)
qed


section \<open>One delivery\<close>

lemma prepare_run:
  assumes "wf_db d"
    and "prepareExecution (pool_runner bf cf (Some (pg_exec_store pg))) payload (d, p) = (r, w)"
  obtains (refused) e where "r = Inl e" "w = (d, p)"
    | (published) prep where "r = Inr prep" "preparation d payload = (Inr prep, fst w)" "snd w = p"
    | (unacknowledged) e prep where "r = Inl e" "preparation d payload = (Inr prep, fst w)" "snd w = p"
proof -
  have body: "preparation d payload = (Inr prep, fst w) \<and> snd w = p"
    if "with_store (prepareExecutionInTx payload) (Some (pg_exec_store pg)) (d, p) = (Inr prep, w)" for prep
    using that prepare_tx_eq [OF assms(1), of payload pg p]
    by (cases "preparation d payload") (auto simp: with_store_def)
  from assms(2) [unfolded prepareExecution_def] show ?thesis
  proof (cases rule: pool_execution.run_cases)
    case (unchanged e)
    with refused show ?thesis by simp
  next
    case (published prep)
    with body that(2) show ?thesis by simp
  next
    case (unacknowledged e prep)
    with body that(3) show ?thesis by simp
  qed
qed

lemma preparation_Inr:
  assumes "preparation d payload = (Inr prep, d1)"
  obtains q src where "payout_view d (pp_clientID payload) (pp_payoutID payload) = Some q"
    "source_view d (pp_clientID payload) (pay_FundingSourceID q) = Some src"
    "ready q \<and> d1 = started q d \<and>
       prep = \<lparr>pr_payout = running d q, pr_fundingSource = src, pr_amount = amount_text q, pr_shouldExecute = True\<rparr> \<or>
     pay_Status q = status_text StatusSucceeded \<and> \<not> ready q \<and> d1 = d \<and> \<not> pr_shouldExecute prep"
proof (cases "payout_view d (pp_clientID payload) (pp_payoutID payload)")
  case None
  with assms show ?thesis by (simp add: preparation_def)
next
  case (Some q)
  with assms obtain src where "source_view d (pp_clientID payload) (pay_FundingSourceID q) = Some src"
    by (auto simp: preparation_def split: option.splits)
  with assms Some that show ?thesis
    by (auto simp: preparation_def simp del: status_text.simps split: if_splits)
qed

lemma started_find:
  assumes "find (\<lambda>r. pay_ID r = pay_ID q) (tbl_payouts d) = Some q"
  shows "find (\<lambda>r. pay_ID r = pay_ID q) (tbl_payouts (started q d)) = Some (running d q)"
  using assms by (simp add: started_def running_def set_payout_status_def find_update_where_same)

text \<open>The payout the event of a delivery is about.\<close>

definition addressed :: "pgx_codec \<Rightarrow> event \<Rightarrow> db \<Rightarrow> payout_row \<Rightarrow> funding_source_row \<Rightarrow> bool" where
  "addressed codec ev d q src \<longleftrightarrow>
     ev_EventType ev = EventTypeProcessPayout \<and>
     (case parsePayoutCreatedOutboxPayload codec (ev_Payload ev) of
        Inl _ \<Rightarrow> False
      | Inr payload \<Rightarrow>
          payout_view d (pp_clientID payload) (pp_payoutID payload) = Some q \<and>
          source_view d (pp_clientID payload) (pay_FundingSourceID q) = Some src)"

definition payment :: "pgx_codec \<Rightarrow> payout_row \<Rightarrow> funding_source_row \<Rightarrow> execute_payout_input" where
  "payment codec q src =
     \<lparr>ei_PayoutID = UUIDString codec (pay_ID q), ei_FundingSourceID = UUIDString codec (fs_ID src),
      ei_PaymentAccountID = fs_PaymentAccountID src, ei_Amount = amount_text q, ei_Currency = pay_Currency q\<rparr>"

text \<open>The provider answered and the answer is on record.\<close>

definition executed ::
  "postgres \<Rightarrow> pgx_codec \<Rightarrow> execute_payout_result \<Rightarrow> payout_row \<Rightarrow> db \<Rightarrow> db \<Rightarrow> bool" where
  "executed pg codec res q d d' \<longleftrightarrow>
     final_result res \<and>
     announced pg codec (final_row d res (running d q)) (finished res q (started q d)) d'"

lemma started_now [simp]: "db_now (started q d) = db_now d"
  by (simp add: started_def set_payout_status_def)

lemma final_row_now: "db_now d = db_now d' \<Longrightarrow> final_row d = final_row d'"
  by (simp add: final_row_def fun_eq_iff)

lemma record_run:
  assumes "find (\<lambda>r. pay_ID r = pay_ID q) (tbl_payouts d) = Some q" and "pr_payout prep = running d q"
    and "recordExecutionResult codec (pool_runner bf cf (Some (pg_exec_store pg))) prep res (started q d, p) = (r, w)"
  obtains (refused) e where "r = Inl e" "w = (started q d, p)"
    | (published) "r = Inr ()" "executed pg codec res q d (fst w)" "snd w = p"
    | (unacknowledged) e where "r = Inl e" "executed pg codec res q d (fst w)" "snd w = p"
proof -
  have body: "executed pg codec res q d (fst w) \<and> snd w = p"
    if "with_store (recordExecutionResultInTx codec prep res) (Some (pg_exec_store pg)) (started q d, p) = (Inr u, w)" for u
    using record_tx_Inr [of codec prep res pg "started q d" p u w "running d q"] that started_find [OF assms(1)] assms(2)
    by (simp add: with_store_def executed_def finished_def final_row_now [of "started q d" d])
  from assms(3) [unfolded recordExecutionResult_def] show ?thesis
    by (cases rule: pool_execution.run_cases) (auto intro: that dest: body)
qed

lemma handle_cases:
  assumes "wf_db d" and "HandleEvent codec (worker_handler pg bf cf f) ev (d, p) = (r, (d', p'))"
  obtains (refused) e where "r = Inl e" "d' = d" "p' = p"
    | (unstarted) e q src where "addressed codec ev d q src" "ready q" "r = Inl e" "d' = started q d" "p' = p"
    | (repeated) q src where "addressed codec ev d q src" "pay_Status q = status_text StatusSucceeded"
        "d' = d" "p' = p"
    | (unanswered) e q src where "addressed codec ev d q src" "ready q"
        "f (payment codec q src) p = (Inl e, p')" "r = Inl e" "d' = started q d"
    | (unrecorded) e res q src where "addressed codec ev d q src" "ready q"
        "f (payment codec q src) p = (Inr res, p')" "r = Inl e" "d' = started q d"
    | (recorded) res q src where "addressed codec ev d q src" "ready q"
        "f (payment codec q src) p = (Inr res, p')" "executed pg codec res q d d'"
proof (cases "ev_EventType ev = EventTypeProcessPayout")
  case False
  with assms(2) show ?thesis
    by (intro refused) (auto simp: HandleEvent_def worker_handler_def NewHandler_def fail_def)
next
  case type: True
  show ?thesis
  proof (cases "parsePayoutCreatedOutboxPayload codec (ev_Payload ev)")
    case (Inl e)
    with assms(2) type show ?thesis
      by (intro refused)
        (auto simp: HandleEvent_def worker_handler_def NewHandler_def and_then_def lift_result_def)
  next
    case (Inr payload)
    let ?run = "pool_runner bf cf (Some (pg_exec_store pg))"
    obtain r1 w1 where prep: "prepareExecution ?run payload (d, p) = (r1, w1)"
      by (cases "prepareExecution ?run payload (d, p)")
    have rest: "(r, (d', p')) = (case r1 of Inl e \<Rightarrow> (Inl e, w1) | Inr prepared \<Rightarrow>
        if \<not> pr_shouldExecute prepared then (Inr (), w1)
        else and_then (outside_db f (execute_input codec prepared)) (recordExecutionResult codec ?run prepared) w1)"
      using assms(2) type Inr prep
      by (cases r1)
        (auto simp: HandleEvent_def worker_handler_def NewHandler_def and_then_lift
          and_then_run_Inl and_then_run_Inr ok_iff)
    have addr: "addressed codec ev d q src"
      if "payout_view d (pp_clientID payload) (pp_payoutID payload) = Some q"
        "source_view d (pp_clientID payload) (pay_FundingSourceID q) = Some src" for q src
      using that type Inr by (simp add: addressed_def)
    from assms(1) prep show ?thesis
    proof (cases rule: prepare_run)
      case (refused e)
      with rest that(1) show ?thesis by simp
    next
      case (unacknowledged e pr)
      from unacknowledged(2) show ?thesis
      proof (cases rule: preparation_Inr)
        case (1 q src)
        with unacknowledged rest addr [OF 1(1,2)] that(1) [of e] that(2) [of q src e] show ?thesis
          by (cases w1) auto
      qed
    next
      case (published pr)
      from published(2) show ?thesis
      proof (cases rule: preparation_Inr)
        case (1 q src)
        note a = addr [OF 1(1,2)]
        from 1(3) show ?thesis
        proof (elim disjE conjE)
          assume "pay_Status q = status_text StatusSucceeded" "fst w1 = d" "\<not> pr_shouldExecute pr"
          with published rest a that(3) [of q src] show ?thesis by (cases w1) auto
        next
          assume rdy: "ready q" and w1: "fst w1 = started q d"
            and pr: "pr = \<lparr>pr_payout = running d q, pr_fundingSource = src, pr_amount = amount_text q,
              pr_shouldExecute = True\<rparr>"
          have pay: "execute_input codec pr = payment codec q src"
            by (simp add: execute_input_def payment_def pr)
          obtain a1 p1 where ans: "f (payment codec q src) p = (a1, p1)" by (cases "f (payment codec q src) p")
          have rest': "(r, (d', p')) = (case a1 of Inl e \<Rightarrow> (Inl e, (started q d, p1))
              | Inr res \<Rightarrow> recordExecutionResult codec ?run pr res (started q d, p1))"
            using rest published w1 ans pay pr
            by (cases w1) (simp add: and_then_def outside_db_def off_db_def split: sum.splits)
          show ?thesis
          proof (cases a1)
            case (Inl e)
            with rest' ans a rdy that(4) [of q src e] show ?thesis by simp
          next
            case (Inr res)
            from payout_by_id [OF assms(1) 1(1)]
            have q: "find (\<lambda>r. pay_ID r = pay_ID q) (tbl_payouts d) = Some q" by simp
            from q _ rest' [unfolded Inr sum.case, symmetric] show ?thesis
              by (cases rule: record_run)
                (use pr Inr ans a rdy that(5) [of q src res] that(6) [of q src res] in auto)
          qed
        qed
      qed
    qed
  qed
qed


section \<open>What a delivery keeps\<close>

lemma handler_extends:
  "keeps (db_rel db_extends) (HandleEvent codec (worker_handler pg bf cf f) ev)"
  by (rule keeps_handler) (simp_all add: keeps_ext reflp_db_extends transp_db_extends)

lemma handler_wf: "keeps (db_rel wf_step) (HandleEvent codec (worker_handler pg bf cf f) ev)"
  by (rule keeps_handler) (simp_all add: keeps_wf reflp_wf_step transp_wf_step)

lemma handler_step:
  assumes "HandleEvent codec (worker_handler pg bf cf f) ev (d, p) = (r, (d', p'))"
  shows "db_extends d d'" "wf_db d \<Longrightarrow> wf_db d'"
proof -
  have "db_rel R (d, p) (snd (HandleEvent codec (worker_handler pg bf cf f) ev (d, p)))"
    if "keeps (db_rel R) (HandleEvent codec (worker_handler pg bf cf f) ev)" for R
    using that by (rule keepsD)
  from this [OF handler_extends] this [OF handler_wf] assms
  show "db_extends d d'" "wf_db d \<Longrightarrow> wf_db d'" by (simp_all add: db_rel_def wf_step_def)
qed

definition advanced :: "payout_row \<Rightarrow> payout_row \<Rightarrow> bool" where
  "advanced q q' \<longleftrightarrow>
     payout_core q' = payout_core q \<and>
     (\<exists>a b. pay_Status q = status_text a \<and> pay_Status q' = status_text b \<and> may_become a b)"

definition payouts_advanced :: "db \<Rightarrow> db \<Rightarrow> bool" where
  "payouts_advanced d d' \<longleftrightarrow> list_all2 advanced (tbl_payouts d) (tbl_payouts d')"

lemma advanced_refl: "wf_db d \<Longrightarrow> r \<in> set (tbl_payouts d) \<Longrightarrow> advanced r r"
  by (auto simp: advanced_def wf_db_def wf_payouts_def payout_ok_def payout_statuses_iff)

lemma payouts_advanced_refl: "wf_db d \<Longrightarrow> payouts_advanced d d"
  by (auto simp: payouts_advanced_def intro!: list.rel_refl_strong advanced_refl)

lemma payouts_advanced_trans:
  assumes "payouts_advanced a b" and "payouts_advanced b c" shows "payouts_advanced a c"
proof -
  have "advanced x z" if "advanced x y" "advanced y z" for x y z
    using that by (auto simp: advanced_def intro: may_become_trans simp del: status_text.simps)
  with assms show ?thesis
    unfolding payouts_advanced_def by (rule list_all2_trans [rotated])
qed

lemma same_id: "wf_db d \<Longrightarrow> payout_view d c i = Some q \<Longrightarrow> r \<in> set (tbl_payouts d) \<Longrightarrow> pay_ID r = i \<Longrightarrow> r = q"
  using find_unique [of pay_ID "tbl_payouts d" r "\<lambda>p. pay_ID p = i"] payout_by_id(1) [of d c i q]
  by (auto simp: wf_db_def wf_payouts_def)

lemma addressed_view:
  assumes "addressed codec ev d q src" and "wf_db d"
  shows "payout_view d (pay_ClientID q) (pay_ID q) = Some q"
proof -
  obtain payload :: parsed_payload
    where "payout_view d (pp_clientID payload) (pp_payoutID payload) = Some q"
    using assms(1) by (auto simp: addressed_def split: sum.splits)
  with payout_by_id(2,3) [OF assms(2) this] show ?thesis by simp
qed

lemma started_advanced:
  assumes "wf_db d" and "addressed codec ev d q src"
  shows "payouts_advanced d (started q d)"
proof (cases "pay_Status q = status_text StatusPending")
  case True
  note q = addressed_view [OF assms(2,1)]
  have "advanced r (if pay_ID r = pay_ID q then r\<lparr>pay_Status := status_text StatusProcessing, pay_UpdatedAt := db_now d\<rparr> else r)"
    if r: "r \<in> set (tbl_payouts d)" for r
  proof (cases "pay_ID r = pay_ID q")
    case id: True
    with q r assms(1) have "r = q" by (auto intro: same_id)
    with True id show ?thesis
      by (auto simp: advanced_def payout_core_def simp del: status_text.simps
          intro!: exI [of _ StatusPending] exI [of _ StatusProcessing] status_step_may_become)
  qed (simp add: advanced_refl [OF assms(1) r])
  with True show ?thesis
    by (simp add: payouts_advanced_def started_def set_payout_status_def list_all2_update_where del: status_text.simps)
qed (simp add: started_def payouts_advanced_refl assms(1))

lemma final_row_advanced:
  assumes "final_result res" and "ready q"
  shows "advanced (running d q) (final_row d res (running d q))"
proof -
  from assms(2) have "pay_Status (running d q) = status_text StatusProcessing"
    by (auto simp: ready_def running_def simp del: status_text.simps)
  moreover obtain st where "er_Status res = status_text st" "status_step StatusProcessing st"
    "pay_Status (final_row d res (running d q)) = status_text st"
    using assms(1) by (auto simp: final_result_def final_row_def simp del: status_text.simps)
  ultimately show "advanced (running d q) (final_row d res (running d q))"
    by (auto simp: advanced_def payout_core_def final_row_def simp del: status_text.simps intro: status_step_may_become)
qed

lemma final_row_status: "final_result res \<Longrightarrow> pay_Status (final_row d res q) = er_Status res"
  by (auto simp: final_result_def final_row_def simp del: status_text.simps)

lemma running_view:
  assumes "wf_db d" and "addressed codec ev d q src"
  shows "payout_view (started q d) (pay_ClientID q) (pay_ID q) = Some (running d q)" "wf_db (started q d)"
proof -
  note q = addressed_view [OF assms(2,1)]
  have upd: "wf_db (set_payout_status i StatusProcessing d)" for i
    using assms(1) unfolding set_payout_status_def
    by (rule wf_put_payouts) (auto simp: indexed_external_id_def payout_ok_def simp del: status_text.simps)
  then show "wf_db (started q d)"
    using assms(1) by (simp add: started_def)
  from q show "payout_view (started q d) (pay_ClientID q) (pay_ID q) = Some (running d q)"
    by (simp add: payout_view_def started_def running_def set_payout_status_def payout_find_update)
qed


lemma final_row_columns [simp]:
  "pay_ID (final_row d res q) = pay_ID q" "pay_ClientID (final_row d res q) = pay_ClientID q"
  "payout_core (final_row d res q) = payout_core q"
  by (simp_all add: final_row_def payout_core_def)

lemma running_core [simp]: "payout_core (running d q) = payout_core q"
  by (simp add: running_def payout_core_def)

text \<open>The payout after its execution, and the other payouts.\<close>

lemma executed_advanced:
  assumes "wf_db d" and "addressed codec ev d q src" and "ready q" and "executed pg codec res q d d'"
  shows "payouts_advanced d d'"
    and "payout_view d' (pay_ClientID q) (pay_ID q) = Some (final_row d res (running d q))"
    and "pay_Status (final_row d res (running d q)) = er_Status res"
proof -
  let ?s = "started q d"
  have res: "final_result res" and ann: "announced pg codec (final_row d res (running d q)) (finished res q ?s) d'"
    using assms(4) by (simp_all add: executed_def)
  note tables = announced_tables [OF ann]
  note view = running_view [OF assms(1,2)]
  have row: "final_row ?s = final_row d" by (rule final_row_now) simp
  note same = same_id [OF view(2,1)]
  have "advanced r (if pay_ID r = pay_ID q then final_row d res r else r)" if "r \<in> set (tbl_payouts ?s)" for r
    using same [OF that] final_row_advanced [OF res assms(3), of d] advanced_refl [OF view(2) that] by auto
  then have "payouts_advanced ?s d'"
    by (simp add: payouts_advanced_def tables finished_def row list_all2_update_where)
  with started_advanced [OF assms(1,2)] show "payouts_advanced d d'" by (rule payouts_advanced_trans)
  from view(1) show "payout_view d' (pay_ClientID q) (pay_ID q) = Some (final_row d res (running d q))"
    by (simp add: payout_view_def tables finished_def row payout_find_update)
  show "pay_Status (final_row d res (running d q)) = er_Status res"
    by (rule final_row_status [OF res])
qed

lemma handler_advanced:
  assumes "wf_db d" and "HandleEvent codec (worker_handler pg bf cf f) ev (d, p) = (r, (d', p'))"
  shows "payouts_advanced d d'"
  using assms
  by (cases rule: handle_cases)
    (use assms(1) in \<open>auto intro: payouts_advanced_refl started_advanced executed_advanced\<close>)

section \<open>Deliveries of one event\<close>

text \<open>A provider that keeps a log of what it is asked for.\<close>

definition logged :: "'x payout_provider \<Rightarrow> (execute_payout_input list \<times> 'x) payout_provider" where
  "logged f inp w = (case f inp (snd w) of (r, x) \<Rightarrow> (r, (fst w @ [inp], x)))"

text \<open>
  The queue delivers the event again and again; each time the pool may fail in another way, and
  between two deliveries the rest of the system may extend the database (but leaves payouts alone).
\<close>

fun deliveries ::
  "postgres \<Rightarrow> pgx_codec \<Rightarrow> 'p payout_provider \<Rightarrow> event \<Rightarrow>
   ((db \<times> 'p \<Rightarrow> go_error option) \<times> (db \<times> 'p \<Rightarrow> commit_outcome)) list \<Rightarrow> db \<times> 'p \<Rightarrow> db \<times> 'p" where
  "deliveries pg codec f ev [] w = w"
| "deliveries pg codec f ev ((bf, cf) # faults) w =
     deliveries pg codec f ev faults (snd (HandleEvent codec (worker_handler pg bf cf f) ev w))"

lemma logged_payment: "logged f inp (reqs, x) = (r, (reqs', x')) \<Longrightarrow> reqs' = reqs @ [inp]"
  by (auto simp: logged_def split: prod.splits)

text \<open>The payment of an event stays what it is while the database is extended.\<close>

lemma source_view_extends:
  "db_extends d d' \<Longrightarrow> source_view d c i = Some src \<Longrightarrow> source_view d' c i = Some src"
  by (auto simp: db_extends_def extends_def source_view_def find_append)

lemma addressed_extends:
  assumes "addressed codec ev d q src" and "db_extends d d'"
  obtains q' where "addressed codec ev d' q' src" "payment codec q' src = payment codec q src"
    "payout_core q' = payout_core q"
proof -
  obtain payload :: parsed_payload where p: "parsePayoutCreatedOutboxPayload codec (ev_Payload ev) = Inr payload"
    "ev_EventType ev = EventTypeProcessPayout"
    "payout_view d (pp_clientID payload) (pp_payoutID payload) = Some q"
    "source_view d (pp_clientID payload) (pay_FundingSourceID q) = Some src"
    using assms(1) by (auto simp: addressed_def split: sum.splits)
  from payout_view_extends [OF assms(2) p(3)] obtain q' where
    q': "payout_view d' (pp_clientID payload) (pp_payoutID payload) = Some q'" "payout_core q' = payout_core q" by blast
  with p source_view_extends [OF assms(2) p(4)] have "addressed codec ev d' q' src"
    by (simp add: addressed_def payout_core_def)
  moreover have "payment codec q' src = payment codec q src"
    using q'(2) by (simp add: payment_def amount_text_def payout_core_def)
  ultimately show ?thesis using that q'(2) by blast
qed

lemma addressed_unique:
  "addressed codec ev d q src \<Longrightarrow> addressed codec ev d q' src' \<Longrightarrow> q' = q \<and> src' = src"
  by (auto simp: addressed_def split: sum.splits)

text \<open>One delivery asks for the event's payment at most once.\<close>

lemma delivery_log:
  assumes "wf_db d" and "HandleEvent codec (worker_handler pg bf cf (logged f)) ev (d, (reqs, x)) = (r, (d', (reqs', x')))"
  shows "reqs' = reqs \<or> (\<exists>q src. addressed codec ev d q src \<and> ready q \<and> reqs' = reqs @ [payment codec q src])"
  using assms by (cases rule: handle_cases) (auto dest: logged_payment)

lemma failed_payout_refused:
  assumes "wf_db d" and "addressed codec ev d q src" and "pay_Status q = status_text StatusFailed"
  shows "\<exists>e. HandleEvent codec (worker_handler pg bf cf f) ev (d, p) = (Inl e, (d, p)) \<and>
    (bf (d, p) = None \<longrightarrow> e = ErrPayoutNotReadyForExecution)"
proof -
  obtain payload where parse: "parsePayoutCreatedOutboxPayload codec (ev_Payload ev) = Inr payload"
    and type: "ev_EventType ev = EventTypeProcessPayout"
    and q: "payout_view d (pp_clientID payload) (pp_payoutID payload) = Some q"
      "source_view d (pp_clientID payload) (pay_FundingSourceID q) = Some src"
    using assms(2) by (auto simp: addressed_def split: sum.splits)
  have body: "with_store (prepareExecutionInTx payload) (Some (pg_exec_store pg)) (d, p) =
      (Inl ErrPayoutNotReadyForExecution, (d, p))"
    using prepare_tx_eq [OF assms(1), of payload pg p] q assms(3)
    by (simp add: with_store_def preparation_def ready_def del: status_text.simps)
  obtain e where e: "prepareExecution (pool_runner bf cf (Some (pg_exec_store pg))) payload (d, p) = (Inl e, (d, p))"
    unfolding prepareExecution_def
    using pool_execution.error_of_body
      [where fn = "with_store (prepareExecutionInTx payload)" and store = "Some (pg_exec_store pg)", OF body]
    by blast
  have "e = ErrPayoutNotReadyForExecution" if "bf (d, p) = None"
    using e pool_run_body_error
      [where fn = "with_store (prepareExecutionInTx payload)" and store = "Some (pg_exec_store pg)" and bf = bf, OF that body]
    by (simp add: prepareExecution_def Execution_WithinTx_def)
  moreover have "HandleEvent codec (worker_handler pg bf cf f) ev (d, p) = (Inl e, (d, p))"
    unfolding HandleEvent_def worker_handler_def NewHandler_def
    by (simp add: and_then_lift parse type and_then_def [of "prepareExecution _ _"] e)
  ultimately show ?thesis by (intro exI [of _ e] conjI impI)
qed

section \<open>Properties\<close>


text \<open>C6: an event is acknowledged only when its payout is settled. If \<open>HandleEvent\<close> returns no error,
  the event named a payout with its funding source; either that payout had succeeded before, and then
  nothing changed and the provider was not called, or the provider was asked for exactly this payment,
  answered with a final status, and the payout now has that status, with the event that announces it to
  the client's webhook.\<close>

theorem handled_event_settles_payout:
  assumes "wf_db d" and "HandleEvent codec (worker_handler pg bf cf f) ev (d, p) = (Inr (), (d', p'))"
  shows "\<exists>q src. addressed codec ev d q src \<and>
    (pay_Status q = status_text StatusSucceeded \<and> d' = d \<and> p' = p \<or>
     ready q \<and> (\<exists>res q'. f (payment codec q src) p = (Inr res, p') \<and> final_result res \<and>
       payout_view d' (pay_ClientID q) (pay_ID q) = Some q' \<and> payout_core q' = payout_core q \<and>
       pay_Status q' = er_Status res \<and> announced pg codec q' (finished res q (started q d)) d'))"
  using assms
proof (cases rule: handle_cases)
  case (recorded res q src)
  note adv = executed_advanced [OF assms(1) recorded(1,2,4)]
  from recorded(4) have "final_result res"
    "announced pg codec (final_row d res (running d q)) (finished res q (started q d)) d'"
    by (simp_all add: executed_def)
  with recorded adv show ?thesis by (metis final_row_columns(3) running_core)
qed auto

text \<open>C7: a delivery that fails loses nothing. If \<open>HandleEvent\<close> returns an error, then either nothing
  changed and the provider was not called, or the payout was pending or processing and is now processing,
  so the next delivery of the event will execute it, or the complete execution is on record.\<close>

theorem failed_delivery_keeps_payout:
  assumes "wf_db d" and "HandleEvent codec (worker_handler pg bf cf f) ev (d, p) = (Inl e, (d', p'))"
  shows "d' = d \<and> p' = p \<or>
    (\<exists>q src. addressed codec ev d q src \<and> ready q \<and>
       (d' = started q d \<and> payout_view d' (pay_ClientID q) (pay_ID q) = Some (running d q) \<and>
          pay_Status (running d q) = status_text StatusProcessing \<and>
          (p' = p \<or> p' = snd (f (payment codec q src) p)) \<or>
        (\<exists>res. f (payment codec q src) p = (Inr res, p') \<and> executed pg codec res q d d')))"
proof -
  have proc: "pay_Status (running d q) = status_text StatusProcessing" if "ready q" for q
    using that by (auto simp: ready_def running_def simp del: status_text.simps)
  note view = running_view [OF assms(1)]
  from assms show ?thesis
    by (cases rule: handle_cases) (use proc view in \<open>(metis snd_conv)+\<close>)
qed

text \<open>C22: a failed payout never settles its event. When the event of a payout that has failed is delivered
  again, \<open>HandleEvent\<close> changes nothing and returns an error, so the delivery is put back on the queue
  every time; without a fault of the pool the error is \<open>ErrPayoutNotReadyForExecution\<close>.\<close>

theorem failed_payout_never_acknowledged:
  assumes "wf_db d" and "addressed codec ev d q src" and "pay_Status q = status_text StatusFailed"
  shows "\<exists>e. HandleEvent codec (worker_handler pg bf cf f) ev (d, p) = (Inl e, (d, p)) \<and>
    (bf (d, p) = None \<longrightarrow> e = ErrPayoutNotReadyForExecution)"
  by (rule failed_payout_refused [OF assms])


text \<open>C9: the provider is asked at least once, and always for the same payment. However often the event of
  a payout is delivered and whatever faults the pool and the provider show, every request the provider
  receives for it is the same: the identifiers, the amount and the currency of this payout and this
  funding source, at most one request per delivery. A provider that recognises a repeated payout id
  therefore pays once.\<close>

theorem deliveries_repeat_one_payment:
  assumes "wf_db d" and "addressed codec ev d q src"
  shows "\<exists>n \<le> length faults.
    fst (snd (deliveries pg codec (logged f) ev faults (d, (reqs, x)))) = reqs @ replicate n (payment codec q src)"
  using assms
proof (induction faults arbitrary: d q reqs x)
  case Nil
  then show ?case by simp
next
  case (Cons fault faults)
  obtain bf cf where fault: "fault = (bf, cf)" by (cases fault)
  obtain r d1 reqs1 x1 where run:
    "HandleEvent codec (worker_handler pg bf cf (logged f)) ev (d, (reqs, x)) = (r, (d1, (reqs1, x1)))"
    by (metis prod.collapse)
  have ext: "db_extends d d1" and wf: "wf_db d1"
    using handler_step [OF run] Cons.prems(1) by simp_all
  from addressed_extends [OF Cons.prems(2) ext] obtain q1 where
    q1: "addressed codec ev d1 q1 src" "payment codec q1 src = payment codec q src" by metis
  from Cons.IH [OF wf q1(1), of reqs1 x1] q1(2) obtain n where n: "n \<le> length faults"
    "fst (snd (deliveries pg codec (logged f) ev faults (d1, (reqs1, x1)))) = reqs1 @ replicate n (payment codec q src)"
    by auto
  have "reqs1 = reqs \<or> reqs1 = reqs @ [payment codec q src]"
    using delivery_log [OF Cons.prems(1) run] addressed_unique [OF Cons.prems(2)] by blast
  then show ?case
  proof
    assume "reqs1 = reqs"
    with n run fault show ?thesis by (intro exI [of _ n]) simp
  next
    assume "reqs1 = reqs @ [payment codec q src]"
    with n run fault show ?thesis by (intro exI [of _ "Suc n"]) simp
  qed
qed



end
