(* ===== verification/Execution_Witnesses.thy ===== *)
theory Execution_Witnesses
  imports Payout_Witnesses Execution_Guarantees
begin

text \<open>
  The example world of theory \<open>Payout_Witnesses\<close>, one step on: the event of its payout is delivered
  to a worker whose provider is the simulator. The witnesses apply the properties of theory
  \<open>Execution_Guarantees\<close> to this delivery and to its repetitions.
\<close>

section \<open>The delivery\<close>

definition ex_job :: event where
  "ex_job =
     \<lparr>ev_ID = canonical_uuid 17, ev_EventType = EventTypeProcessPayout, ev_EntityID = canonical_uuid 16,
      ev_Payload = ex_doc\<rparr>"

definition ex_paid :: payout_row where
  "ex_paid = ex_payout\<lparr>pay_Status := status_text StatusSucceeded\<rparr>"

definition ex_webhook_doc :: bytes where
  "ex_webhook_doc = object_text
     [(''event_type'', json_string EventTypePayoutResultWebhook),
      (''payout_id'', json_string (canonical_uuid 16)), (''client_id'', json_string (canonical_uuid 1)),
      (''target_url'', json_string ''https://acme.example''),
      (''status'', json_string (status_text StatusSucceeded))]"

definition ex_webhook_event :: outbox_row where
  "ex_webhook_event =
     \<lparr>ob_ID = 18, ob_EventType = EventTypePayoutResultWebhook, ob_Payload = ex_webhook_doc,
      ob_Status = ''pending'', ob_CreatedAt = 1000, ob_ProcessedAt = None, ob_EntityID = 16,
      ob_ClaimedAt = None\<rparr>"

definition ex_db2 :: db where
  "ex_db2 = ex_db1\<lparr>tbl_payouts := [ex_paid], tbl_outbox_events := [ex_event, ex_webhook_event], db_uuid_seq := 3\<rparr>"

text \<open>The simulator on a context that is never cancelled.\<close>

definition ex_provider :: "unit payout_provider" where
  "ex_provider = Simulator_ExecutePayout (\<lambda>_. None) \<lparr>sim_Outcome = [], sim_FailureReason = []\<rparr>"

abbreviation ex_handler :: "(db \<times> unit) execution_handler option" where
  "ex_handler \<equiv> worker_handler ex_pg (\<lambda>_. None) (\<lambda>_. Committed) ex_provider"

abbreviation ex_runner :: "(db \<times> unit) exec_tx_runner" where
  "ex_runner \<equiv> pool_runner (\<lambda>_. None) (\<lambda>_. Committed) (Some (pg_exec_store ex_pg))"

lemma ex_wf_db: "wf_db ex_db"
  by (simp add: wf_db_def wf_tables row_oks id_sets ex_db_def empty_db_def funding_source_statuses_def)

lemma ex_wf_db1: "wf_db ex_db1"
  using keeps_wfD [OF create_payout_tx_keeps(1) ex_tx ex_wf_db] .

lemma ex_parse:
  "parsePayoutCreatedOutboxPayload canonical_codec ex_doc = Inr \<lparr>pp_payoutID = 16, pp_clientID = 1\<rparr>"
  using process_payout_payload_roundtrip [of "canonical_uuid 16" "canonical_uuid 1"]
  by (simp add: MarshalProcessPayoutPayload_def ex_doc_def canonical.text_valid_utf8
      parsePayoutCreatedOutboxPayload_def canonical.scan_text)

lemma ex_views:
  "payout_view ex_db1 1 16 = Some ex_payout"
  "source_view ex_db1 1 2 = Some (hd (tbl_funding_sources ex_db))"
  "client_view ex_db1 1 = Some (hd (tbl_clients ex_db))"
  by (simp_all add: payout_view_def source_view_def client_view_def ex_db1_def ex_db_def empty_db_def ex_payout_def)

lemma ex_addressed:
  "addressed canonical_codec ex_job ex_db1 ex_payout (hd (tbl_funding_sources ex_db))"
  using ex_views by (simp add: addressed_def ex_job_def ex_parse ex_payout_def)

lemma ex_ready: "ready ex_payout"
  by (simp add: ready_def ex_payout_def)

lemma ex_prepared:
  "preparation ex_db1 \<lparr>pp_payoutID = 16, pp_clientID = 1\<rparr> =
     (Inr \<lparr>pr_payout = running ex_db1 ex_payout, pr_fundingSource = hd (tbl_funding_sources ex_db),
           pr_amount = amount_text ex_payout, pr_shouldExecute = True\<rparr>, started ex_payout ex_db1)"
  using ex_views ex_ready by (simp add: preparation_def ex_payout_def)

lemma ex_answer: "ex_provider inp p = (Inr \<lparr>er_Status = ''succeeded'', er_FailureReason = []\<rparr>, p)"
  by (simp add: ex_provider_def Simulator_ExecutePayout_def simulator_result_def OutcomeSucceeded_def
      ValidateResult_def)

lemma ex_webhook_document: "pg_jsonb ex_pg ex_webhook_doc = Some ex_webhook_doc"
  using whole_document_object [of
      "[(''event_type'', EventTypePayoutResultWebhook), (''payout_id'', canonical_uuid 16),
        (''client_id'', canonical_uuid 1), (''target_url'', ''https://acme.example''),
        (''status'', status_text StatusSucceeded)]"]
  by (simp add: ex_pg_def ex_webhook_doc_def canonical.text_valid_utf8 EventTypePayoutResultWebhook_def byte_def)

lemma webhook_type_nonempty: "EventTypePayoutResultWebhook \<noteq> []"
  by (simp add: EventTypePayoutResultWebhook_def)

lemma ex_record:
  "recordExecutionResultInTx canonical_codec
     \<lparr>pr_payout = running ex_db1 ex_payout, pr_fundingSource = src, pr_amount = a, pr_shouldExecute = True\<rparr>
     \<lparr>er_Status = ''succeeded'', er_FailureReason = []\<rparr> (pg_exec_store ex_pg) (started ex_payout ex_db1, ()) =
   (Inr (), (ex_db2, ()))"
proof -
  have upd: "UpdatePayoutStatus \<lparr>usp_Status = status_text StatusSucceeded, usp_ID = 16\<rparr> (started ex_payout ex_db1) =
      (Inr ex_paid, ex_db1\<lparr>tbl_payouts := [ex_paid]\<rparr>)"
    by (simp add: UpdatePayoutStatus_run [of StatusSucceeded, simplified] started_def set_payout_status_def
        ex_db1_def ex_payout_def ex_paid_def ex_db_def empty_db_def)
  have client: "GetClientById 1 (ex_db1\<lparr>tbl_payouts := [ex_paid]\<rparr>) =
      (Inr (hd (tbl_clients ex_db)), ex_db1\<lparr>tbl_payouts := [ex_paid]\<rparr>)"
    by (simp add: GetClientById_def select_one_def ex_db1_def ex_db_def empty_db_def)
  have url: "cl_WebhookUrl (hd (tbl_clients ex_db)) = \<lparr>Text_String = ''https://acme.example'', Text_Valid = True\<rparr>"
    by (simp add: ex_db_def)
  have trim: "TrimSpace ''https://acme.example'' = ''https://acme.example''" by code_simp
  have event: "CreateOutboxEvent ex_pg
      \<lparr>cop_EventType = EventTypePayoutResultWebhook, cop_EntityID = 16, cop_Payload = ex_webhook_doc\<rparr>
      (ex_db1\<lparr>tbl_payouts := [ex_paid]\<rparr>) = (Inr ex_webhook_event, ex_db2)"
    by (simp add: CreateOutboxEvent_def insert_row_Inr outbox_event_of_def varchar_webhook_type json_value_def
        ex_webhook_document ex_uuid new_uuid_def ex_webhook_event_def outbox_event_constraints_def
        outbox_statuses_def ex_db_def ex_db1_def ex_db2_def empty_db_def ex_payout_def ex_paid_def ex_event_def
        webhook_type_nonempty)
  have doc: "MarshalPayoutResultWebhookPayload (canonical_uuid 16) (canonical_uuid 1) ''https://acme.example''
      ''succeeded'' [] = Inr ex_webhook_doc"
    by (simp add: MarshalPayoutResultWebhookPayload_def ex_webhook_doc_def)
  have ids: "pay_ID ex_payout = 16" "pay_ClientID ex_paid = 1" "pay_ID ex_paid = 16"
    "pay_Status ex_paid = ''succeeded''" "Text_String (pay_FailureReason ex_paid) = []"
    by (simp_all add: ex_payout_def ex_paid_def null_text_def)
  show ?thesis
    using upd
    by (simp add: recordExecutionResultInTx_def ids createWebhookOutboxEventIfConfigured_def and_then_def on_db_def
        client url trim Let_def lift_result_def doc event ok_def)
qed

lemma ex_first_tx:
  "prepareExecution ex_runner \<lparr>pp_payoutID = 16, pp_clientID = 1\<rparr> (ex_db1, ()) =
      (Inr \<lparr>pr_payout = running ex_db1 ex_payout, pr_fundingSource = hd (tbl_funding_sources ex_db),
            pr_amount = amount_text ex_payout, pr_shouldExecute = True\<rparr>, (started ex_payout ex_db1, ()))"
  using prepare_tx_eq [OF ex_wf_db1, of "\<lparr>pp_payoutID = 16, pp_clientID = 1\<rparr>" ex_pg "()"] ex_prepared
  by (simp add: prepareExecution_def Execution_WithinTx_def pool_run_Inr_iff with_store_def)

lemma ex_handled: "HandleEvent canonical_codec ex_handler ex_job (ex_db1, ()) = (Inr (), (ex_db2, ()))"
proof -
  have two: "recordExecutionResult canonical_codec ex_runner
      \<lparr>pr_payout = running ex_db1 ex_payout, pr_fundingSource = hd (tbl_funding_sources ex_db),
       pr_amount = amount_text ex_payout, pr_shouldExecute = True\<rparr>
      \<lparr>er_Status = ''succeeded'', er_FailureReason = []\<rparr> (started ex_payout ex_db1, ()) = (Inr (), (ex_db2, ()))"
    by (simp add: recordExecutionResult_def Execution_WithinTx_def pool_run_Inr_iff with_store_def ex_record)
  show ?thesis
    by (simp add: HandleEvent_def worker_handler_def NewHandler_def ex_job_def lift_result_def ex_parse
        and_then_def ex_first_tx outside_db_def off_db_def ex_answer two)
qed

section \<open>Witnesses\<close>


theorem handled_event_settles_payout_witness:
  "\<exists>q'. payout_view ex_db2 1 16 = Some q' \<and> pay_Status q' = ''succeeded''"
proof -
  have "\<not> pay_Status ex_payout = status_text StatusSucceeded"
    "pay_ClientID ex_payout = 1" "pay_ID ex_payout = 16"
    by (simp_all add: ex_payout_def)
  with handled_event_settles_payout [OF ex_wf_db1 ex_handled] addressed_unique [OF ex_addressed]
  show ?thesis by (force simp: ex_answer)
qed

text \<open>The provider cannot be reached.\<close>

theorem failed_delivery_keeps_payout_witness:
  "\<exists>d'. HandleEvent canonical_codec
        (worker_handler ex_pg (\<lambda>_. None) (\<lambda>_. Committed) (\<lambda>_ p. (Inl ContextDeadlineExceeded, p))) ex_job (ex_db1, ()) =
      (Inl ContextDeadlineExceeded, (d', ())) \<and>
    (\<exists>q'. payout_view d' 1 16 = Some q' \<and> pay_Status q' = ''processing'')"
proof -
  have run: "HandleEvent canonical_codec
      (worker_handler ex_pg (\<lambda>_. None) (\<lambda>_. Committed) (\<lambda>_ p. (Inl ContextDeadlineExceeded, p))) ex_job (ex_db1, ()) =
      (Inl ContextDeadlineExceeded, (started ex_payout ex_db1, ()))"
    by (simp add: HandleEvent_def worker_handler_def NewHandler_def ex_job_def lift_result_def ex_parse
        and_then_def ex_first_tx outside_db_def off_db_def)
  have "map pay_Status (tbl_payouts (started ex_payout ex_db1)) \<noteq> map pay_Status (tbl_payouts ex_db1)"
    by (simp add: started_def set_payout_status_def ex_db1_def ex_payout_def)
  then have new: "started ex_payout ex_db1 \<noteq> ex_db1" by metis
  have ids: "pay_ClientID ex_payout = 1" "pay_ID ex_payout = 16" by (simp_all add: ex_payout_def)
  from failed_delivery_keeps_payout [OF ex_wf_db1 run] new addressed_unique [OF ex_addressed]
  have "payout_view (started ex_payout ex_db1) 1 16 = Some (running ex_db1 ex_payout) \<and>
      pay_Status (running ex_db1 ex_payout) = ''processing''"
    using ids by force
  with run show ?thesis by blast
qed

text \<open>The payout has failed, and its event is delivered again.\<close>

definition ex_db_failed :: db where
  "ex_db_failed = set_payout_failed 16 null_text ex_db1"

lemma ex_wf_failed: "wf_db ex_db_failed"
  unfolding ex_db_failed_def set_payout_failed_def
  using ex_wf_db1
  by (rule wf_put_payouts) (auto simp: indexed_external_id_def payout_ok_def simp del: status_text.simps)

lemma ex_addressed_failed:
  "addressed canonical_codec ex_job ex_db_failed
     (ex_payout\<lparr>pay_Status := ''failed'', pay_FailureReason := null_text, pay_UpdatedAt := 1000\<rparr>)
     (hd (tbl_funding_sources ex_db))"
  by (simp add: addressed_def ex_job_def ex_parse payout_view_def source_view_def ex_db_failed_def
      set_payout_failed_def ex_db1_def ex_db_def empty_db_def ex_payout_def)

theorem failed_payout_never_acknowledged_witness:
  "HandleEvent canonical_codec ex_handler ex_job (ex_db_failed, ()) =
     (Inl ErrPayoutNotReadyForExecution, (ex_db_failed, ()))"
  using failed_payout_never_acknowledged [OF ex_wf_failed ex_addressed_failed, of ex_pg "\<lambda>_. None" "\<lambda>_. Committed" ex_provider "()"]
  by auto

theorem deliveries_repeat_one_payment_witness:
  "\<exists>n \<le> 2. fst (snd (deliveries ex_pg canonical_codec (logged ex_provider) ex_job
       [((\<lambda>_. None), (\<lambda>_. Refused ContextCanceled)), ((\<lambda>_. None), (\<lambda>_. Committed))] (ex_db1, ([], ())))) =
     replicate n (payment canonical_codec ex_payout (hd (tbl_funding_sources ex_db)))"
  using deliveries_repeat_one_payment [OF ex_wf_db1 ex_addressed, where pg = ex_pg and f = ex_provider
      and faults = "[((\<lambda>_. None), (\<lambda>_. Refused ContextCanceled)), ((\<lambda>_. None), (\<lambda>_. Committed))]"
      and reqs = "[]" and x = "()"]
  by (simp add: numeral_2_eq_2)

lemma ex_wf_db2: "wf_db ex_db2"
  using handler_step(2) [OF ex_handled ex_wf_db1] .

lemma ex_addressed_paid: "addressed canonical_codec ex_job ex_db2 ex_paid (hd (tbl_funding_sources ex_db))"
  by (simp add: addressed_def ex_job_def ex_parse payout_view_def source_view_def ex_db2_def ex_db1_def ex_db_def
      empty_db_def ex_paid_def ex_payout_def)


end
