(* ===== verification/Api_Witnesses.thy ===== *)
theory Api_Witnesses
  imports Api_Guarantees Execution_Witnesses
begin

text \<open>
  Requests to the API on the small world of theory \<open>Payout_Witnesses\<close>: the client with the key 3, and
  a second one with the key 5.
\<close>

section \<open>Requests\<close>

definition ex_request_of :: "bytes \<Rightarrow> bytes \<Rightarrow> bytes list \<Rightarrow> (bytes \<Rightarrow> bytes) \<Rightarrow> bytes \<Rightarrow> http_request" where
  "ex_request_of method key segments query body =
     \<lparr>hr_Method = method, hr_Segments = segments,
      hr_Header = (\<lambda>h. if h = ''X-API-Key'' then key else if h = ''Idempotency-Key'' then '' k-1 '' else []),
      hr_Query = query, hr_Body = body, hr_Context = \<lparr>cx_client = None\<rparr>\<rparr>"

lemma ex_request_of_simps [simp]:
  "hr_Method (ex_request_of m k s q b) = m" "hr_Segments (ex_request_of m k s q b) = s"
  "hr_Query (ex_request_of m k s q b) = q" "hr_Body (ex_request_of m k s q b) = b"
  "hr_Header (ex_request_of m k s q b) apiKeyHeader = k"
  "hr_Header (ex_request_of m k s q b) idempotencyKeyHeader = '' k-1 ''"
  by (simp_all add: ex_request_of_def apiKeyHeader_def idempotencyKeyHeader_def)

definition ex_body :: bytes where
  "ex_body = object_text
     [(''funding_source_id'', json_string (canonical_uuid 2)), (''external_id'', json_string ''e-1''),
      (''recipient_name'', json_string ''Ada''), (''recipient_account_id'', json_string ''acct-9''),
      (''amount'', json_string ''12.50''), (''currency'', json_string ''EUR'')]"

definition ex_post :: http_request where
  "ex_post = ex_request_of ''POST'' (canonical_uuid 3) [''payouts''] (\<lambda>_. []) ex_body"

text \<open>A second client without any rows.\<close>

definition ex_db_two :: db where
  "ex_db_two = ex_db\<lparr>tbl_clients := tbl_clients ex_db @
     [\<lparr>cl_ID = 4, cl_Name = ''Other'', cl_ApiKey = 5, cl_CreatedAt = 0, cl_UpdatedAt = 0,
       cl_WebhookUrl = null_text\<rparr>]\<rparr>"

abbreviation ex_router :: "db route list" where
  "ex_router \<equiv> api_router canonical_codec ex_pg (\<lambda>_. None) (\<lambda>_. Committed) (\<lambda>_. ''now'')"

lemma ex_codec: "uuid_codec (ScanUUID canonical_codec) (UUIDString canonical_codec)"
  unfolding canonical_codec_simps by (rule canonical.uuid_codec_axioms)

lemma ex_scan_empty: "scan_canonical_uuid [] = None"
  by code_simp

lemma ex_body_decoded:
  "Decode True payout_request_fields zero_payout_request_body ex_body = Some
     \<lparr>prb_FundingSourceID = canonical_uuid 2, prb_ExternalID = ''e-1'', prb_RecipientName = ''Ada'',
      prb_RecipientAccountID = ''acct-9'', prb_Amount = ''12.50'', prb_Currency = ''EUR''\<rparr>"
  by code_simp

lemma ex_authenticated:
  "authenticated canonical_codec (ex_request_of m (canonical_uuid 3) s q b) d = Some c \<longleftrightarrow>
     find (\<lambda>c. cl_ApiKey c = 3) (tbl_clients d) = Some c"
  by (simp add: authenticated_def canonical.text_nonempty canonical.scan_text)

theorem api_requires_key_witness:
  "ServeHTTP ex_router (ex_request_of ''POST'' [] [''payouts''] (\<lambda>_. []) ex_body) ex_db =
     (http_error ''missing api key'' 401, ex_db)"
proof -
  let ?r = "ex_request_of ''POST'' [] [''payouts''] (\<lambda>_. []) ex_body"
  have "\<forall>c \<in> set (tbl_clients ex_db). ScanUUID canonical_codec (hr_Header ?r apiKeyHeader) \<noteq> Some (cl_ApiKey c)"
    by (simp add: ex_scan_empty)
  from api_requires_key [OF this, of ex_pg "\<lambda>_. None" "\<lambda>_. Committed" "\<lambda>_. ''now''"]
  have state: "snd (ServeHTTP ex_router ?r ex_db) = ex_db" by blast
  have "fst (ServeHTTP ex_router ?r ex_db) = refused ?r"
    using serve_protected [of canonical_codec ex_pg "\<lambda>_. None" "\<lambda>_. Committed" "\<lambda>_. ''now''" ?r]
    by (simp add: protected_handler_def authenticated_def)
  with state show ?thesis by (simp add: refused_def prod_eq_iff)
qed

section \<open>A payout is created and read back\<close>

definition ex_client :: client_row where
  "ex_client =
     \<lparr>cl_ID = 1, cl_Name = ''Acme'', cl_ApiKey = 3, cl_CreatedAt = 0, cl_UpdatedAt = 0,
      cl_WebhookUrl = \<lparr>Text_String = ''https://acme.example'', Text_Valid = True\<rparr>\<rparr>"

abbreviation ex_response :: http_response where
  "ex_response \<equiv> json_response 201 (payout_doc (payoutResponseFromService (\<lambda>_. ''now'') ex_view))"

lemma ex_clients:
  "cl_ID ex_client = 1" "cl_ApiKey ex_client = 3" "tbl_clients ex_db = [ex_client]" "tbl_clients ex_db1 = [ex_client]"
  by (simp_all add: ex_client_def ex_db_def ex_db1_def)

lemma ex_key_client:
  "authenticated canonical_codec (ex_request_of m (canonical_uuid 3) s q b) ex_db = Some ex_client"
  "authenticated canonical_codec (ex_request_of m (canonical_uuid 3) s q b) ex_db1 = Some ex_client"
  by (simp_all add: ex_authenticated ex_clients)

lemma ex_create_trimmed: "Payouts_CreatePayout canonical_codec ex_service ex_input_again ex_db = (Inr ex_view, ex_db1)"
  using ex_create by (simp add: api_payout_service_eq api.service_unfold ex_create_request ex_create_again(1))

lemma ex_post_run: "ServeHTTP ex_router ex_post ex_db = (ex_response, ex_db1)"
proof -
  have "ex_input_again =
      \<lparr>in_ClientID = canonical_uuid 1, in_FundingSourceID = canonical_uuid 2, in_IdempotencyKey = ''k-1'',
       in_ExternalID = ''e-1'', in_RecipientName = ''Ada'', in_RecipientAccountID = ''acct-9'',
       in_Amount = ''12.50'', in_Currency = ''EUR''\<rparr>"
    by (simp add: ex_input_again_def ex_input_def)
  with ex_create_trimmed ex_key_client(1) [of "''POST''" "[''payouts'']" "\<lambda>_. []" ex_body] ex_clients(1)
  show ?thesis
    using serve_protected [of canonical_codec ex_pg "\<lambda>_. None" "\<lambda>_. Committed" "\<lambda>_. ''now''" ex_post _ ex_db]
    by (simp add: protected_handler_def ex_post_def CreatePayout_handler_def NewPayoutsHandler_def
        ex_body_decoded ex_texts)
qed

theorem requests_change_own_rows_witness:
  "\<exists>c \<in> set (tbl_clients ex_db). scan_canonical_uuid (canonical_uuid 3) = Some (cl_ApiKey c) \<and>
     adds_own_rows (cl_ID c) ex_db ex_db1"
  using requests_change_own_rows [OF ex_codec ex_post_run] ex_not_created by (auto simp: ex_post_def)

theorem created_payout_reads_back_witness:
  "ServeHTTP ex_router (ex_request_of ''GET'' (canonical_uuid 3) [''payouts'', canonical_uuid 16] (\<lambda>_. []) []) ex_db1 =
     (ex_response\<lparr>rs_Status := 200\<rparr>, ex_db1)"
proof -
  let ?g = "ex_request_of ''GET'' (canonical_uuid 3) [''payouts'', canonical_uuid 16] (\<lambda>_. []) []"
  have "\<exists>p v. p \<in> set (tbl_payouts ex_db1) \<and> pay_ClientID p = cl_ID ex_client \<and>
    payoutFromDB canonical_codec p = Inr v \<and>
    ex_response = json_response 201 (payout_doc (payoutResponseFromService (\<lambda>_. ''now'') v)) \<and>
    (\<forall>g. hr_Method g = ''GET'' \<and> hr_Segments g = [''payouts'', po_ID v] \<longrightarrow>
       (hr_Header g apiKeyHeader = hr_Header ex_post apiKeyHeader \<longrightarrow>
          ServeHTTP ex_router g ex_db1 = (ex_response\<lparr>rs_Status := 200\<rparr>, ex_db1)) \<and>
       (\<forall>c'. authenticated canonical_codec g ex_db1 = Some c' \<and> cl_ID c' \<noteq> cl_ID ex_client \<longrightarrow>
          ServeHTTP ex_router g ex_db1 = (http_error ''payout not found'' 404, ex_db1)))"
    by (rule created_payout_reads_back [OF ex_codec ex_wf_db _ _ _ ex_post_run])
      (simp_all add: ex_post_def ex_key_client json_response_def)
  then obtain p v where "p \<in> set (tbl_payouts ex_db1)" and v: "payoutFromDB canonical_codec p = Inr v"
    and again: "hr_Segments ?g = [''payouts'', po_ID v] \<Longrightarrow> hr_Header ?g apiKeyHeader = hr_Header ex_post apiKeyHeader \<Longrightarrow>
      ServeHTTP ex_router ?g ex_db1 = (ex_response\<lparr>rs_Status := 200\<rparr>, ex_db1)"
    by (metis ex_request_of_simps(1))
  then have "p = ex_payout" by (simp add: ex_db1_def)
  with v have "v = ex_view" by (simp add: ex_payout_view)
  with again show ?thesis by (simp add: ex_post_def ex_view_def)
qed

section \<open>Lists\<close>

theorem reads_see_own_rows_witness:
  "fst (ServeHTTP ex_router (ex_request_of ''GET'' (canonical_uuid 5) [''payouts''] (\<lambda>_. []) []) ex_db_two) =
   fst (ServeHTTP ex_router (ex_request_of ''GET'' (canonical_uuid 5) [''payouts''] (\<lambda>_. []) [])
     (ex_db_two\<lparr>tbl_payouts := [ex_payout], tbl_funding_sources := []\<rparr>))"
  by (rule reads_see_own_rows [OF ex_codec])
    (auto simp: canonical.scan_text ex_db_two_def ex_db_def empty_db_def own_payouts_def own_sources_def ex_payout_def)

theorem listing_is_bounded_witness:
  "ServeHTTP ex_router
     (ex_request_of ''GET'' (canonical_uuid 3) [''payouts''] (\<lambda>n. if n = ''limit'' then ''101'' else []) []) ex_db1 =
   (http_error ''invalid pagination'' 400, ex_db1)"
proof -
  have "ParseInt32 ''101'' = Some 101" by code_simp
  with listing_is_bounded [OF ex_codec ex_wf_db1 _ _ ex_key_client(2), of "''GET''" "[''payouts'']"
      "\<lambda>n. if n = ''limit'' then ''101'' else []" "[]" ex_pg "\<lambda>_. None" "\<lambda>_. Committed" "\<lambda>_. ''now''"]
  show ?thesis by (auto simp: query_value_def)
qed

theorem payout_pages_cover_witness:
  "\<exists>v. payoutFromDB canonical_codec ex_payout = Inr v \<and>
     ServeHTTP ex_router
       (ex_request_of ''GET'' (canonical_uuid 3) [''payouts''] (\<lambda>n. if n = ''limit'' then ''1'' else ''0'') []) ex_db1 =
     (json_response 200 (array_text [payout_doc (payoutResponseFromService (\<lambda>_. ''now'') v)]), ex_db1)"
proof -
  have own: "own_payouts ex_db1 (cl_ID ex_client) = [ex_payout]"
    by (simp add: own_payouts_def ex_clients(1) ex_db1_def ex_payout_def)
  have texts: "int_text 1 = ''1''" "int_text 0 = ''0''" by code_simp+
  from payout_pages_cover [OF ex_codec ex_wf_db1, of 1 ex_client 1 ex_pg "\<lambda>_. None" "\<lambda>_. Committed" "\<lambda>_. ''now''"]
  obtain vs rows where "mset rows = {#ex_payout#}" and view: "list_all2 (\<lambda>p v. payoutFromDB canonical_codec p = Inr v) rows vs"
    and page: "\<forall>r. hr_Method r = ''GET'' \<and> hr_Segments r = [''payouts''] \<and>
      authenticated canonical_codec r ex_db1 = Some ex_client \<and>
      hr_Query r ''limit'' = ''1'' \<and> hr_Query r ''offset'' = ''0'' \<longrightarrow>
      ServeHTTP ex_router r ex_db1 = (json_response 200 (array_text (map payout_doc
        (map (payoutResponseFromService (\<lambda>_. ''now'')) (take 1 vs)))), ex_db1)"
    by (auto simp: own texts)
  then obtain v where "vs = [v]" "payoutFromDB canonical_codec ex_payout = Inr v"
    by (auto simp: list_all2_Cons1)
  with page ex_key_client(2) show ?thesis by auto
qed

end
