(* ===== verification/Outbox_Relay.thy ===== *)
theory Outbox_Relay
  imports Queries Transactions Messages
begin

text \<open>
  The outbox relay, \<open>internal/outbox/relay.go\<close>: it claims the oldest pending event in a transaction
  of its own, hands it to a dispatcher, and marks it processed in a second transaction, or releases
  the claim when the dispatcher fails. \<open>Run\<close> repeats this for as long as the context lives; the loop
  may never end, so it is a partial function.
\<close>

section \<open>Interfaces and configuration\<close>

record 's event_store =
  es_ClaimNextPendingOutboxEvent :: "timestamp \<Rightarrow> ('s, outbox_row) action"
  es_ClaimNextPendingOutboxEventByTypes :: "claim_by_types_params \<Rightarrow> ('s, outbox_row) action"
  es_MarkOutboxEventAsProcessed :: "uuid \<Rightarrow> ('s, outbox_row) action"
  es_ReleaseOutboxEventClaim :: "uuid \<Rightarrow> ('s, outbox_row) action"

type_synonym 's relay_tx_runner = "('s, 's event_store) db_tx_runner option"

text \<open>\<open>EventDispatcher\<close> and \<open>EventHandler\<close>: both act on one event.\<close>

type_synonym 's event_dispatcher = "event \<Rightarrow> ('s, unit) action"

text \<open>A \<open>time.Duration\<close> is a signed 64-bit number of nanoseconds.\<close>

type_synonym duration = "64 word"

definition Second :: duration where "Second = 1000000000"

record relay_config =
  rc_PollInterval :: duration
  rc_ClaimTimeout :: duration
  rc_EventTypes :: "bytes list"

record 's relay =
  rl_txRunner :: "'s relay_tx_runner option"
  rl_dispatcher :: "'s event_dispatcher option"
  rl_config :: relay_config

definition relay_defaults :: "relay_config \<Rightarrow> relay_config" where
  "relay_defaults config =
     (let config = (if sint (rc_PollInterval config) \<le> 0 then config\<lparr>rc_PollInterval := Second\<rparr> else config)
      in if sint (rc_ClaimTimeout config) \<le> 0 then config\<lparr>rc_ClaimTimeout := 30 * Second\<rparr> else config)"

definition NewRelay ::
  "'s relay_tx_runner option \<Rightarrow> 's event_dispatcher option \<Rightarrow> relay_config \<Rightarrow> 's relay" where
  "NewRelay txRunner dispatcher config =
     \<lparr>rl_txRunner = txRunner, rl_dispatcher = dispatcher, rl_config = relay_defaults config\<rparr>"

definition NewInlineDispatcher :: "'s event_dispatcher option \<Rightarrow> 's event_dispatcher" where
  "NewInlineDispatcher handler ev =
     (case handler of
        None \<Rightarrow> fail (Errorf ''outbox inline dispatcher is not configured'')
      | Some h \<Rightarrow> h ev)"

section \<open>One event\<close>

text \<open>
  \<open>time.Now().Add(-r.config.ClaimTimeout)\<close> as the microseconds of a \<open>timestamptz\<close>; \<open>now\<close> is the
  wall clock in nanoseconds.
\<close>

definition reclaim_before :: "relay_config \<Rightarrow> int \<Rightarrow> timestamp" where
  "reclaim_before config now = (now + sint (- rc_ClaimTimeout config)) div 1000"

definition claim_body :: "relay_config \<Rightarrow> timestamp \<Rightarrow> 's event_store \<Rightarrow> ('s, outbox_row) action" where
  "claim_body config before store =
     (if rc_EventTypes config \<noteq> [] then
        es_ClaimNextPendingOutboxEventByTypes store
          \<lparr>cbt_EventTypes = rc_EventTypes config, cbt_ReclaimBefore = before\<rparr>
      else es_ClaimNextPendingOutboxEvent store before)"

text \<open>The event with \<open>claimed = true\<close>, or \<open>None\<close> for \<open>claimed = false\<close>.\<close>

definition claimNextPendingEvent ::
  "relay_config \<Rightarrow> 's relay_tx_runner \<Rightarrow> timestamp \<Rightarrow> ('s, outbox_row option) action" where
  "claimNextPendingEvent config txRunner before s =
     (case Outbox_WithinTx txRunner (claim_body config before) s of
        (Inl e, s') \<Rightarrow> if e = ErrNoRows then (Inr None, s') else (Inl e, s')
      | (Inr ev, s') \<Rightarrow> (Inr (Some ev), s'))"

definition markProcessed :: "'s relay_tx_runner \<Rightarrow> uuid \<Rightarrow> ('s, unit) action" where
  "markProcessed txRunner i =
     Outbox_WithinTx txRunner
       (\<lambda>store. and_then (es_MarkOutboxEventAsProcessed store i) (\<lambda>_. ok ()))"

definition releaseClaim :: "'s relay_tx_runner \<Rightarrow> uuid \<Rightarrow> ('s, unit) action" where
  "releaseClaim txRunner i =
     Outbox_WithinTx txRunner
       (\<lambda>store. and_then (es_ReleaseOutboxEventClaim store i) (\<lambda>_. ok ()))"

definition dispatch_event :: "pgx_codec \<Rightarrow> outbox_row \<Rightarrow> event" where
  "dispatch_event codec row =
     \<lparr>ev_ID = UUIDString codec (ob_ID row), ev_EventType = ob_EventType row,
      ev_EntityID = UUIDString codec (ob_EntityID row), ev_Payload = ob_Payload row\<rparr>"

text \<open>After the claim: dispatch, then mark or release.\<close>

definition finish_claim ::
  "pgx_codec \<Rightarrow> 's relay_tx_runner \<Rightarrow> 's event_dispatcher \<Rightarrow> outbox_row \<Rightarrow> ('s, bool) action" where
  "finish_claim codec txRunner dispatch row s =
     (case dispatch (dispatch_event codec row) s of
        (Inl e, s1) \<Rightarrow>
          (case releaseClaim txRunner (ob_ID row) s1 of
             (Inl releaseErr, s2) \<Rightarrow> (Inl releaseErr, s2)
           | (Inr _, s2) \<Rightarrow> (Inl e, s2))
      | (Inr _, s1) \<Rightarrow>
          (case markProcessed txRunner (ob_ID row) s1 of
             (Inl e, s2) \<Rightarrow> (Inl e, s2)
           | (Inr _, s2) \<Rightarrow> (Inr True, s2)))"

definition RunOnce :: "pgx_codec \<Rightarrow> ('s \<Rightarrow> int) \<Rightarrow> 's relay option \<Rightarrow> ('s, bool) action" where
  "RunOnce codec clock r s =
     (case r of
        None \<Rightarrow> (Inl (Errorf ''outbox relay is not configured''), s)
      | Some r \<Rightarrow>
          (case (rl_txRunner r, rl_dispatcher r) of
             (Some txRunner, Some dispatch) \<Rightarrow>
               (case claimNextPendingEvent (rl_config r) txRunner (reclaim_before (rl_config r) (clock s)) s of
                  (Inl e, s1) \<Rightarrow> (Inl e, s1)
                | (Inr None, s1) \<Rightarrow> (Inr False, s1)
                | (Inr (Some row), s1) \<Rightarrow> finish_claim codec txRunner dispatch row s1)
           | _ \<Rightarrow> (Inl (Errorf ''outbox relay is not configured''), s)))"

section \<open>The loop\<close>

text \<open>
  \<open>wait\<close> is the \<open>select\<close> between the context and the ticker: the error of the context, or a tick
  after which the world may look different. The result is the error \<open>Run\<close> returns; the loop has no
  other way to end.
\<close>

partial_function (option) relay_loop ::
  "('s, bool) action \<Rightarrow> ('s \<Rightarrow> go_error option \<times> 's) \<Rightarrow> 's \<Rightarrow> (go_error \<times> 's) option" where
  "relay_loop run_once wait s =
     (case run_once s of
        (Inl e, s1) \<Rightarrow> Some (e, s1)
      | (Inr dispatched, s1) \<Rightarrow>
          if dispatched then relay_loop run_once wait s1
          else
            (case wait s1 of
               (Some e, s2) \<Rightarrow> Some (e, s2)
             | (None, s2) \<Rightarrow> relay_loop run_once wait s2))"

definition Relay_Run ::
  "pgx_codec \<Rightarrow> ('s \<Rightarrow> int) \<Rightarrow> ('s \<Rightarrow> go_error option \<times> 's) \<Rightarrow> 's relay option \<Rightarrow> 's \<Rightarrow> (go_error \<times> 's) option" where
  "Relay_Run codec clock wait r s =
     (case r of
        None \<Rightarrow> Some (Errorf ''outbox relay is not configured'', s)
      | Some rl \<Rightarrow>
          if rl_txRunner rl = None \<or> rl_dispatcher rl = None
          then Some (Errorf ''outbox relay is not configured'', s)
          else relay_loop (RunOnce codec clock r) wait s)"

end
