(* ===== verification/Amqp_Client.thy ===== *)
theory Amqp_Client
  imports Outbox_Relay
begin

text \<open>
  The RabbitMQ client, \<open>internal/platform/rabbitmq/client.go\<close>. The methods of the AMQP library are
  fields of the records \<open>amqp_channel\<close> and \<open>amqp_connection\<close>: what a call does to the broker is an
  argument of the model. A \<open>select\<close> over channels is a function of the state that returns what
  arrived first; \<open>publishMu\<close> lets one \<open>Publish\<close> run at a time, so a call is one action here.
\<close>

section \<open>The AMQP library\<close>

record exchange_declaration =
  xd_Name :: bytes
  xd_Kind :: bytes
  xd_Durable :: bool
  xd_AutoDelete :: bool
  xd_Internal :: bool
  xd_NoWait :: bool

record queue_declaration =
  qd_Name :: bytes
  qd_Durable :: bool
  qd_AutoDelete :: bool
  qd_Exclusive :: bool
  qd_NoWait :: bool

record queue_binding =
  qb_Queue :: bytes
  qb_Key :: bytes
  qb_Exchange :: bytes
  qb_NoWait :: bool

record publishing =
  pb_ContentType :: bytes
  pb_Body :: bytes
  pb_DeliveryMode :: "8 word"

definition Persistent :: "8 word" where "Persistent = 2"

definition ExchangeDirect :: bytes where "ExchangeDirect = ''direct''"

record publication =
  pn_Exchange :: bytes
  pn_Key :: bytes
  pn_Mandatory :: bool
  pn_Immediate :: bool
  pn_Msg :: publishing

record confirmation =
  cn_DeliveryTag :: "64 word"
  cn_Ack :: bool

record amqp_return =
  rt_ReplyCode :: "16 word"
  rt_ReplyText :: bytes

record 's raw_delivery =
  rd_Body :: bytes
  rd_Ack :: "bool \<Rightarrow> ('s, unit) action"
  rd_Nack :: "bool \<Rightarrow> bool \<Rightarrow> ('s, unit) action"

record consumer_declaration =
  cd_Queue :: bytes
  cd_Consumer :: bytes
  cd_AutoAck :: bool
  cd_Exclusive :: bool
  cd_NoLocal :: bool
  cd_NoWait :: bool

text \<open>What a \<open>select\<close> of the client may see; \<open>None\<close> is a closed channel.\<close>

datatype interrupt = ContextDone go_error | TimerFired

datatype confirm_arrival = Interrupted interrupt | ConfirmationArrived "confirmation option"

datatype publish_arrival = ReturnArrived "amqp_return option" | OtherArrival confirm_arrival

datatype 's consume_arrival = ConsumeDone go_error | DeliveryArrived "'s raw_delivery option"

record 's amqp_channel =
  ch_Confirm :: "bool \<Rightarrow> ('s, unit) action"
  ch_ExchangeDeclare :: "exchange_declaration \<Rightarrow> ('s, unit) action"
  ch_QueueDeclare :: "queue_declaration \<Rightarrow> ('s, unit) action"
  ch_QueueBind :: "queue_binding \<Rightarrow> ('s, unit) action"
  ch_PublishWithContext :: "publication \<Rightarrow> ('s, unit) action"
  ch_Consume :: "consumer_declaration \<Rightarrow> ('s, 's \<Rightarrow> 's consume_arrival \<times> 's) action"
  ch_Close :: "('s, unit) action"
  ch_FirstSelect :: "duration \<Rightarrow> 's \<Rightarrow> publish_arrival \<times> 's"
  ch_SecondSelect :: "duration \<Rightarrow> 's \<Rightarrow> confirm_arrival \<times> 's"

record 's amqp_connection =
  co_Channel :: "('s, 's amqp_channel) action"
  co_Close :: "('s, unit) action"

section \<open>The client\<close>

definition defaultPublishConfirmTimeout :: duration where
  "defaultPublishConfirmTimeout = 5 * Second"

record topology =
  tp_ExchangeName :: bytes
  tp_QueueName :: bytes
  tp_RoutingKey :: bytes

text \<open>The notification channels are used only for being nil or not; what they carry is in the selects.\<close>

record 's amqp_client =
  cl_conn :: "'s amqp_connection option"
  cl_channel :: "'s amqp_channel option"
  cl_publishConfirmTimeout :: duration
  cl_publishConfirmations :: bool
  cl_publishReturns :: bool

text \<open>A close in an error path: its own error is dropped.\<close>

definition ignoring :: "('s, unit) action \<Rightarrow> ('s, unit) action" where
  "ignoring m s = (Inr (), snd (m s))"

definition Amqp_Open ::
  "(bytes \<Rightarrow> ('s, 's amqp_connection) action) \<Rightarrow> bytes \<Rightarrow> ('s, 's amqp_client) action" where
  "Amqp_Open Dial url s =
     (if url = [] then (Inl (Errorf ''rabbitmq url is required''), s)
      else
        (case Dial url s of
           (Inl e, s1) \<Rightarrow> (Inl e, s1)
         | (Inr conn, s1) \<Rightarrow>
             (case co_Channel conn s1 of
                (Inl e, s2) \<Rightarrow> (Inl e, snd (ignoring (co_Close conn) s2))
              | (Inr channel, s2) \<Rightarrow>
                  (case ch_Confirm channel False s2 of
                     (Inl e, s3) \<Rightarrow>
                       (Inl e, snd (ignoring (co_Close conn) (snd (ignoring (ch_Close channel) s3))))
                   | (Inr _, s3) \<Rightarrow>
                       (Inr \<lparr>cl_conn = Some conn, cl_channel = Some channel,
                             cl_publishConfirmTimeout = defaultPublishConfirmTimeout,
                             cl_publishConfirmations = True, cl_publishReturns = True\<rparr>, s3)))))"

definition Amqp_Close :: "'s amqp_client option \<Rightarrow> ('s, unit) action" where
  "Amqp_Close c s =
     (case c of
        None \<Rightarrow> (Inr (), s)
      | Some c \<Rightarrow>
          (let (closeErr, s1) = (case cl_channel c of None \<Rightarrow> (Inr (), s) | Some ch \<Rightarrow> ch_Close ch s);
               (connErr, s2) = (case cl_conn c of None \<Rightarrow> (Inr (), s1) | Some co \<Rightarrow> co_Close co s1)
           in (case closeErr of Inl e \<Rightarrow> (Inl e, s2) | Inr _ \<Rightarrow> (connErr, s2))))"

definition EnsureQueue :: "'s amqp_client option \<Rightarrow> bytes \<Rightarrow> ('s, unit) action" where
  "EnsureQueue c name =
     (case Option.bind c cl_channel of
        None \<Rightarrow> fail (Errorf ''rabbitmq client is not configured'')
      | Some ch \<Rightarrow>
          if name = [] then fail (Errorf ''rabbitmq queue name is required'')
          else ch_QueueDeclare ch
            \<lparr>qd_Name = name, qd_Durable = True, qd_AutoDelete = False, qd_Exclusive = False, qd_NoWait = False\<rparr>)"

definition EnsureTopology :: "'s amqp_client option \<Rightarrow> topology \<Rightarrow> ('s, unit) action" where
  "EnsureTopology c t =
     (case Option.bind c cl_channel of
        None \<Rightarrow> fail (Errorf ''rabbitmq client is not configured'')
      | Some ch \<Rightarrow>
          if tp_ExchangeName t = [] then fail (Errorf ''rabbitmq exchange name is required'')
          else if tp_QueueName t = [] then fail (Errorf ''rabbitmq queue name is required'')
          else if tp_RoutingKey t = [] then fail (Errorf ''rabbitmq routing key is required'')
          else
            and_then (ch_ExchangeDeclare ch
              \<lparr>xd_Name = tp_ExchangeName t, xd_Kind = ExchangeDirect, xd_Durable = True,
               xd_AutoDelete = False, xd_Internal = False, xd_NoWait = False\<rparr>) (\<lambda>_.
            and_then (EnsureQueue c (tp_QueueName t)) (\<lambda>_.
            ch_QueueBind ch
              \<lparr>qb_Queue = tp_QueueName t, qb_Key = tp_RoutingKey t, qb_Exchange = tp_ExchangeName t,
               qb_NoWait = False\<rparr>)))"

section \<open>Publishing\<close>

definition interrupt_error :: "interrupt \<Rightarrow> go_error" where
  "interrupt_error i =
     (case i of ContextDone e \<Rightarrow> e | TimerFired \<Rightarrow> Errorf ''rabbitmq publish confirmation timed out'')"

text \<open>What both selects make of a confirmation; \<open>settled\<close> is the result of a positive one.\<close>

definition confirm_result :: "unit result \<Rightarrow> confirm_arrival \<Rightarrow> unit result" where
  "confirm_result settled a =
     (case a of
        Interrupted i \<Rightarrow> Inl (interrupt_error i)
      | ConfirmationArrived None \<Rightarrow> Inl (Errorf ''rabbitmq publish confirmations channel closed'')
      | ConfirmationArrived (Some c) \<Rightarrow>
          if \<not> cn_Ack c then Inl (Errorf ''rabbitmq publish was negatively acknowledged'')
          else settled)"

definition waitForPublishConfirm :: "duration \<Rightarrow> 's amqp_channel \<Rightarrow> ('s, unit) action" where
  "waitForPublishConfirm publishConfirmTimeout ch s =
     (let timeout = (if sint publishConfirmTimeout \<le> 0 then defaultPublishConfirmTimeout
                     else publishConfirmTimeout)
      in (case ch_FirstSelect ch timeout s of
            (ReturnArrived None, s1) \<Rightarrow> (Inl (Errorf ''rabbitmq publish returns channel closed''), s1)
          | (ReturnArrived (Some returned), s1) \<Rightarrow>
              (case ch_SecondSelect ch timeout s1 of
                 (a, s2) \<Rightarrow> (confirm_result (Inl (Errorf ''rabbitmq publish was returned'')) a, s2))
          | (OtherArrival a, s1) \<Rightarrow> (confirm_result (Inr ()) a, s1)))"

definition Publish :: "'s amqp_client option \<Rightarrow> bytes \<Rightarrow> bytes \<Rightarrow> bytes \<Rightarrow> ('s, unit) action" where
  "Publish c exchange routingKey body =
     (case c of
        None \<Rightarrow> fail (Errorf ''rabbitmq client is not configured'')
      | Some client \<Rightarrow>
          (case cl_channel client of
             None \<Rightarrow> fail (Errorf ''rabbitmq client is not configured'')
           | Some ch \<Rightarrow>
               if exchange = [] then fail (Errorf ''rabbitmq exchange name is required'')
               else if routingKey = [] then fail (Errorf ''rabbitmq routing key is required'')
               else if \<not> cl_publishConfirmations client
               then fail (Errorf ''rabbitmq publish confirmations are not configured'')
               else if \<not> cl_publishReturns client
               then fail (Errorf ''rabbitmq publish returns are not configured'')
               else
                 and_then (ch_PublishWithContext ch
                   \<lparr>pn_Exchange = exchange, pn_Key = routingKey, pn_Mandatory = True, pn_Immediate = False,
                    pn_Msg = \<lparr>pb_ContentType = ''application/json'', pb_Body = body, pb_DeliveryMode = Persistent\<rparr>\<rparr>)
                   (\<lambda>_. waitForPublishConfirm (cl_publishConfirmTimeout client) ch)))"

section \<open>Consuming\<close>

record 's delivery =
  dl_Body :: bytes
  dl_Ack :: "('s, unit) action"
  dl_Nack :: "bool \<Rightarrow> ('s, unit) action"

definition amqpDelivery :: "'s raw_delivery \<Rightarrow> 's delivery" where
  "amqpDelivery d =
     \<lparr>dl_Body = rd_Body d, dl_Ack = rd_Ack d False, dl_Nack = rd_Nack d False\<rparr>"

partial_function (option) consume_loop ::
  "('s \<Rightarrow> 's consume_arrival \<times> 's) \<Rightarrow> ('s delivery \<Rightarrow> ('s, unit) action) \<Rightarrow> 's \<Rightarrow> (go_error \<times> 's) option" where
  "consume_loop select_next handler s =
     (case select_next s of
        (ConsumeDone e, s1) \<Rightarrow> Some (e, s1)
      | (DeliveryArrived None, s1) \<Rightarrow> Some (Errorf ''rabbitmq deliveries channel closed'', s1)
      | (DeliveryArrived (Some message), s1) \<Rightarrow>
          (case handler (amqpDelivery message) s1 of
             (Inl e, s2) \<Rightarrow> Some (e, s2)
           | (Inr _, s2) \<Rightarrow> consume_loop select_next handler s2))"

text \<open>\<open>Consume\<close> never returns nil: its value is the error it ends with, or \<open>None\<close> if it runs forever.\<close>

definition Consume ::
  "'s amqp_client option \<Rightarrow> bytes \<Rightarrow> ('s delivery \<Rightarrow> ('s, unit) action) option \<Rightarrow> 's \<Rightarrow> (go_error \<times> 's) option" where
  "Consume c queue handler s =
     (case Option.bind c cl_channel of
        None \<Rightarrow> Some (Errorf ''rabbitmq client is not configured'', s)
      | Some ch \<Rightarrow>
          if queue = [] then Some (Errorf ''rabbitmq queue name is required'', s)
          else
            (case handler of
               None \<Rightarrow> Some (Errorf ''rabbitmq consumer handler is not configured'', s)
             | Some h \<Rightarrow>
                 (case ch_Consume ch
                    \<lparr>cd_Queue = queue, cd_Consumer = [], cd_AutoAck = False, cd_Exclusive = False,
                     cd_NoLocal = False, cd_NoWait = False\<rparr> s of
                    (Inl e, s1) \<Rightarrow> Some (e, s1)
                  | (Inr select_next, s1) \<Rightarrow> consume_loop select_next h s1)))"

end
