(* ===== verification/Payout_Publisher.thy ===== *)
theory Payout_Publisher
  imports Amqp_Client
begin

text \<open>
  The publisher of payout jobs, \<open>internal/broker/rabbitmq/payout_publisher.go\<close>: the dispatcher the relay
  of the API process uses. The encoding of a job is in theory \<open>Messages\<close>.
\<close>

type_synonym 's message_publisher = "bytes \<Rightarrow> bytes \<Rightarrow> bytes \<Rightarrow> ('s, unit) action"

definition PayoutExchangeName :: bytes where "PayoutExchangeName = ''payout.jobs''"

definition PayoutRoutingKey :: bytes where "PayoutRoutingKey = ''payout.process''"

record 's payout_publisher =
  pp_publisher :: "'s message_publisher option"
  pp_exchangeName :: bytes
  pp_routingKey :: bytes

definition NewPayoutPublisher :: "'s message_publisher option \<Rightarrow> bytes \<Rightarrow> bytes \<Rightarrow> 's payout_publisher" where
  "NewPayoutPublisher publisher exchangeName routingKey =
     \<lparr>pp_publisher = publisher, pp_exchangeName = exchangeName, pp_routingKey = routingKey\<rparr>"

definition NewPayoutTopology :: "bytes \<Rightarrow> topology" where
  "NewPayoutTopology queueName =
     \<lparr>tp_ExchangeName = PayoutExchangeName, tp_QueueName = queueName, tp_RoutingKey = PayoutRoutingKey\<rparr>"

definition Publisher_Dispatch :: "'s payout_publisher option \<Rightarrow> 's event_dispatcher" where
  "Publisher_Dispatch p ev =
     (case p of
        None \<Rightarrow> fail (Errorf ''rabbitmq payout publisher is not configured'')
      | Some p \<Rightarrow>
          (case pp_publisher p of
             None \<Rightarrow> fail (Errorf ''rabbitmq payout publisher is not configured'')
           | Some publish \<Rightarrow>
               if pp_exchangeName p = [] then fail (Errorf ''rabbitmq payout exchange name is required'')
               else if pp_routingKey p = [] then fail (Errorf ''rabbitmq payout routing key is required'')
               else
                 and_then (lift_result (EncodePayoutJob ev)) (\<lambda>body.
                 publish (pp_exchangeName p) (pp_routingKey p) body)))"

end
