(* ===== verification/Payout_Worker.thy ===== *)
theory Payout_Worker
  imports Amqp_Client
begin

text \<open>
  The payout worker, \<open>internal/apps/payoutworker/worker.go\<close>: it consumes the queue and settles every
  delivery once, by the outcome of the execution handler.
\<close>

text \<open>\<open>messageConsumer\<close>: \<open>Consume\<close> with the queue and the handler of deliveries.\<close>

type_synonym 's message_consumer =
  "bytes \<Rightarrow> ('s delivery \<Rightarrow> ('s, unit) action) option \<Rightarrow> 's \<Rightarrow> (go_error \<times> 's) option"

record 's worker =
  wk_consumer :: "'s message_consumer option"
  wk_handler :: "'s event_dispatcher option"
  wk_queueName :: bytes

definition Worker_New :: "'s message_consumer option \<Rightarrow> 's event_dispatcher option \<Rightarrow> bytes \<Rightarrow> 's worker" where
  "Worker_New consumer handler queueName =
     \<lparr>wk_consumer = consumer, wk_handler = handler, wk_queueName = queueName\<rparr>"

definition handleDelivery :: "'s event_dispatcher \<Rightarrow> 's delivery \<Rightarrow> ('s, unit) action" where
  "handleDelivery handle_event delivery s =
     (case DecodePayoutJob (dl_Body delivery) of
        Inl err \<Rightarrow>
          (case dl_Nack delivery False s of
             (Inl nackErr, s1) \<Rightarrow> (Inl nackErr, s1)
           | (Inr _, s1) \<Rightarrow> (Inr (), s1))
      | Inr ev \<Rightarrow>
          (case handle_event ev s of
             (Inl err, s1) \<Rightarrow>
               (case dl_Nack delivery True s1 of
                  (Inl nackErr, s2) \<Rightarrow> (Inl nackErr, s2)
                | (Inr _, s2) \<Rightarrow> (Inr (), s2))
           | (Inr _, s1) \<Rightarrow>
               (case dl_Ack delivery s1 of
                  (Inl e, s2) \<Rightarrow> (Inl e, s2)
                | (Inr _, s2) \<Rightarrow> (Inr (), s2))))"

definition Worker_Run :: "'s worker option \<Rightarrow> 's \<Rightarrow> (go_error \<times> 's) option" where
  "Worker_Run w s =
     (case w of
        None \<Rightarrow> Some (Errorf ''payout worker is not configured'', s)
      | Some w \<Rightarrow>
          (case (wk_consumer w, wk_handler w) of
             (Some consume, Some handle_event) \<Rightarrow>
               if wk_queueName w = [] then Some (Errorf ''payout worker queue name is required'', s)
               else consume (wk_queueName w) (Some (handleDelivery handle_event)) s
           | _ \<Rightarrow> Some (Errorf ''payout worker is not configured'', s)))"

end
