(* ===== verification/Runtime.thy ===== *)
theory Runtime
  imports Payout_Publisher Payout_Worker Execution
begin

text \<open>
  The processes: the settings they read from the environment, the start of the API and of the worker
  (\<open>cmd/api/main.go\<close>, \<open>cmd/payout-worker/main.go\<close>, \<open>internal/platform/postgres\<close>), and
  \<open>runApplication\<close>, which runs the HTTP server and the relay side by side and shuts both down.
\<close>

section \<open>strconv.ParseBool and time.ParseDuration\<close>

definition ParseBool :: "bytes \<Rightarrow> bool option" where
  "ParseBool s =
     (if s \<in> {''1'', ''t'', ''T'', ''true'', ''TRUE'', ''True''} then Some True
      else if s \<in> {''0'', ''f'', ''F'', ''false'', ''FALSE'', ''False''} then Some False
      else None)"

text \<open>
  \<open>time.ParseDuration\<close>: a sign, then terms of a decimal number and a unit, summed in \<open>uint64\<close>. The
  part after a decimal point is computed in floating point by the library,
  \<open>uint64(float64(f) * (float64(unit) / scale))\<close>; it is the argument \<open>fraction\<close>, given \<open>f\<close>, the unit
  and the number of digits.
\<close>

definition unit_nanoseconds :: "bytes \<Rightarrow> nat option" where
  "unit_nanoseconds u =
     (if u = ''ns'' then Some 1
      else if u \<in> {''us'', [CHR 0xC2, CHR 0xB5, CHR ''s''], [CHR 0xCE, CHR 0xBC, CHR ''s'']} then Some (10 ^ 3)
      else if u = ''ms'' then Some (10 ^ 6)
      else if u = ''s'' then Some (10 ^ 9)
      else if u = ''m'' then Some (60 * 10 ^ 9)
      else if u = ''h'' then Some (3600 * 10 ^ 9)
      else None)"

fun leadingInt :: "nat \<Rightarrow> bytes \<Rightarrow> (nat \<times> bytes) option" where
  "leadingInt x [] = Some (x, [])"
| "leadingInt x (c # s) =
     (if \<not> is_digit c then Some (x, c # s)
      else if x > 2 ^ 63 div 10 then None
      else (let y = x * 10 + digit_value c in if y > 2 ^ 63 then None else leadingInt y s))"

text \<open>The fraction, the number of its digits that count, and the rest; digits that overflow are skipped.\<close>

fun leadingFraction :: "nat \<Rightarrow> nat \<Rightarrow> bool \<Rightarrow> bytes \<Rightarrow> nat \<times> nat \<times> bytes" where
  "leadingFraction x digits overflow [] = (x, digits, [])"
| "leadingFraction x digits overflow (c # s) =
     (if \<not> is_digit c then (x, digits, c # s)
      else if overflow then leadingFraction x digits True s
      else if x > (2 ^ 63 - 1) div 10 then leadingFraction x digits True s
      else
        (let y = x * 10 + digit_value c
         in if y > 2 ^ 63 then leadingFraction x digits True s
            else leadingFraction y (Suc digits) False s))"

definition unit_char :: "char \<Rightarrow> bool" where
  "unit_char c \<longleftrightarrow> c \<noteq> CHR ''.'' \<and> \<not> is_digit c"

definition duration_term :: "(nat \<Rightarrow> nat \<Rightarrow> nat \<Rightarrow> nat) \<Rightarrow> bytes \<Rightarrow> (nat \<times> bytes) option" where
  "duration_term fraction s =
     (case leadingInt 0 s of
        None \<Rightarrow> None
      | Some (v, s1) \<Rightarrow>
          (let pre = (length s1 \<noteq> length s);
               dot = (s1 \<noteq> [] \<and> hd s1 = CHR ''.'');
               (f, digits, s2) = (if dot then leadingFraction 0 0 False (tl s1) else (0, 0, s1));
               post = (dot \<and> length s2 \<noteq> length (tl s1));
               u = takeWhile unit_char s2
           in if \<not> pre \<and> \<not> post then None
              else
                (case unit_nanoseconds u of
                   None \<Rightarrow> None
                 | Some unit_ns \<Rightarrow>
                     if v > 2 ^ 63 div unit_ns then None
                     else
                       (let w = v * unit_ns + (if f > 0 then fraction f unit_ns digits else 0)
                        in if w > 2 ^ 63 then None else Some (w, dropWhile unit_char s2)))))"

lemma leadingInt_length: "leadingInt x s = Some (v, s') \<Longrightarrow> length s' \<le> length s"
  by (induction x s rule: leadingInt.induct) (auto simp: Let_def split: if_splits)

lemma leadingFraction_length: "leadingFraction x k b s = (f, n, s') \<Longrightarrow> length s' \<le> length s"
  by (induction s arbitrary: x k b) (auto simp: Let_def split: if_splits intro: le_SucI)

lemma unit_nanoseconds_pos: "unit_nanoseconds u = Some n \<Longrightarrow> 0 < n \<and> u \<noteq> []"
  by (auto simp: unit_nanoseconds_def split: if_splits)

lemma unit_consumed: "takeWhile P s \<noteq> [] \<Longrightarrow> length (dropWhile P s) < length s"
  by (cases s) (auto simp: length_dropWhile_le le_imp_less_Suc split: if_splits)

text \<open>Every term consumes its unit, so the loop over the terms ends.\<close>

lemma duration_term_length: "duration_term fraction s = Some (w, s') \<Longrightarrow> length s' < length s"
  by (auto simp: duration_term_def Let_def split: option.splits if_splits prod.splits
      dest!: leadingInt_length leadingFraction_length unit_nanoseconds_pos unit_consumed)

function duration_terms :: "(nat \<Rightarrow> nat \<Rightarrow> nat \<Rightarrow> nat) \<Rightarrow> nat \<Rightarrow> bytes \<Rightarrow> nat option" where
  "duration_terms fraction d s =
     (if s = [] then Some d
      else
        (case duration_term fraction s of
           None \<Rightarrow> None
         | Some (w, s') \<Rightarrow>
             (let d' = (d + w) mod 2 ^ 64
              in if d' > 2 ^ 63 then None else duration_terms fraction d' s')))"
  by pat_completeness auto

termination
  by (relation "measure (\<lambda>(fraction, d, s). length s)") (auto dest: duration_term_length)

declare duration_terms.simps [simp del]

definition ParseDuration :: "(nat \<Rightarrow> nat \<Rightarrow> nat \<Rightarrow> nat) \<Rightarrow> bytes \<Rightarrow> duration option" where
  "ParseDuration fraction s =
     (let signed = (s \<noteq> [] \<and> hd s \<in> {CHR ''-'', CHR ''+''});
          neg = (s \<noteq> [] \<and> hd s = CHR ''-'');
          body = (if signed then tl s else s)
      in if body = ''0'' then Some 0
         else if body = [] then None
         else
           (case duration_terms fraction 0 body of
              None \<Rightarrow> None
            | Some d \<Rightarrow>
                if neg then Some (- of_nat d)
                else if d > 2 ^ 63 - 1 then None
                else Some (of_nat d)))"

section \<open>Settings\<close>

text \<open>\<open>os.Getenv\<close> gives the empty string for a variable that is not set.\<close>

type_synonym environment = "bytes \<Rightarrow> bytes"

definition loadStringEnv :: "environment \<Rightarrow> bytes \<Rightarrow> bytes \<Rightarrow> bytes" where
  "loadStringEnv env name fallback = (let raw = env name in if raw = [] then fallback else raw)"

definition loadBoolEnv :: "environment \<Rightarrow> bytes \<Rightarrow> bool \<Rightarrow> bool result" where
  "loadBoolEnv env name fallback =
     (let raw = env name
      in if raw = [] then Inr fallback
         else (case ParseBool raw of None \<Rightarrow> Inl (Errorf ''strconv.ParseBool'') | Some v \<Rightarrow> Inr v))"

definition loadDurationEnv ::
  "(nat \<Rightarrow> nat \<Rightarrow> nat \<Rightarrow> nat) \<Rightarrow> environment \<Rightarrow> bytes \<Rightarrow> duration \<Rightarrow> duration result" where
  "loadDurationEnv fraction env name fallback =
     (let raw = env name
      in if raw = [] then Inr fallback
         else (case ParseDuration fraction raw of None \<Rightarrow> Inl (Errorf ''time: invalid duration'') | Some v \<Rightarrow> Inr v))"

section \<open>runApplication\<close>

definition normalizeServeError :: "go_error option \<Rightarrow> go_error option" where
  "normalizeServeError err = (if err = None \<or> err = Some ErrServerClosed then None else err)"

definition normalizeOutboxRelayError :: "go_error option \<Rightarrow> go_error option" where
  "normalizeOutboxRelayError err = (if err = None \<or> err = Some ContextCanceled then None else err)"

fun firstNonNilError :: "go_error option list \<Rightarrow> go_error option" where
  "firstNonNilError [] = None"
| "firstNonNilError (err # errs) = (if err \<noteq> None then err else firstNonNilError errs)"

text \<open>
  A run, seen from \<open>runApplication\<close>: which case the first \<open>select\<close> takes, and what the two goroutines and
  \<open>srv.Shutdown\<close> end with. \<open>Blocked\<close> is a goroutine that never ends.
\<close>

datatype select_case = ServerDone | RelayDone | ContextCancelled

datatype outcome = Blocked | Ended "go_error option"

record app_run =
  run_first :: select_case
  run_serve :: outcome
  run_relay :: outcome
  run_shutdown :: "go_error option"

text \<open>\<open>Some\<close> result is a return of \<open>runApplication\<close>, \<open>None\<close> a run that never returns.\<close>

definition runApplication :: "bool \<Rightarrow> bool \<Rightarrow> bool \<Rightarrow> app_run \<Rightarrow> go_error option option" where
  "runApplication srv serve runOutboxRelay r =
     (if \<not> srv \<or> \<not> serve then Some (Some (Errorf ''http server is not configured''))
      else
        (let receive_server = (case run_serve r of Blocked \<Rightarrow> None | Ended e \<Rightarrow> Some (normalizeServeError e));
             receive_relay = (case run_relay r of Blocked \<Rightarrow> None | Ended e \<Rightarrow> Some (normalizeOutboxRelayError e))
         in
         Option.bind
           (case run_first r of
              ServerDone \<Rightarrow> map_option (\<lambda>e. (e, True, None, \<not> runOutboxRelay)) receive_server
            | RelayDone \<Rightarrow>
                if runOutboxRelay then map_option (\<lambda>e. (None, False, e, True)) receive_relay else None
            | ContextCancelled \<Rightarrow> Some (None, False, None, \<not> runOutboxRelay))
           (\<lambda>(serverErr, serverDoneReceived, outboxRelayErr, outboxRelayDoneReceived).
         let serverErr =
               (case run_shutdown r of
                  None \<Rightarrow> serverErr
                | Some err \<Rightarrow>
                    if err = ErrServerClosed then serverErr
                    else firstNonNilError [serverErr, Some (Errorf ''shutdown server'')])
         in
         Option.bind (if serverDoneReceived then Some serverErr
                      else map_option (\<lambda>e. firstNonNilError [serverErr, e]) receive_server) (\<lambda>serverErr.
         Option.bind (if outboxRelayDoneReceived then Some outboxRelayErr
                      else map_option (\<lambda>e. firstNonNilError [outboxRelayErr, e]) receive_relay) (\<lambda>outboxRelayErr.
         Some (if serverErr \<noteq> None then serverErr
               else if outboxRelayErr \<noteq> None then outboxRelayErr
               else None))))))"

section \<open>postgres.Open\<close>

text \<open>The driver's pool; \<open>'c\<close> is a parsed configuration, \<open>'p\<close> a pool.\<close>

record ('s, 'c, 'p) pgx_pool =
  pgxpool_ParseConfig :: "bytes \<Rightarrow> 'c result"
  pgxpool_NewWithConfig :: "'c \<Rightarrow> ('s, 'p) action"
  pool_Ping :: "'p \<Rightarrow> ('s, unit) action"
  pool_Close :: "'p \<Rightarrow> 's \<Rightarrow> 's"

definition Postgres_Open :: "('s, 'c, 'p) pgx_pool \<Rightarrow> bytes \<Rightarrow> ('s, 'p) action" where
  "Postgres_Open drv dbURL s =
     (if dbURL = [] then (Inl (Errorf ''db url is required''), s)
      else
        (case pgxpool_ParseConfig drv dbURL of
           Inl e \<Rightarrow> (Inl e, s)
         | Inr cfg \<Rightarrow>
             (case pgxpool_NewWithConfig drv cfg s of
                (Inl e, s1) \<Rightarrow> (Inl e, s1)
              | (Inr pool, s1) \<Rightarrow>
                  (case pool_Ping drv pool s1 of
                     (Inl e, s2) \<Rightarrow> (Inl e, pool_Close drv pool s2)
                   | (Inr _, s2) \<Rightarrow> (Inr pool, s2)))))"

section \<open>The API process\<close>

text \<open>
  The world of a process outside the database and the broker it starts: \<open>pr_runner\<close> is
  \<open>outbox.NewDBTxRunner(dbPool, queries)\<close> of an open pool, \<open>pr_dial\<close> the AMQP library's \<open>Dial\<close>.
\<close>

record ('s, 'c, 'p) api_platform =
  pr_pgx :: "('s, 'c, 'p) pgx_pool"
  pr_dial :: "bytes \<Rightarrow> ('s, 's amqp_connection) action"
  pr_runner :: "'p \<Rightarrow> 's relay_tx_runner"

record api_settings =
  st_payoutQueueName :: bytes
  st_outboxRelayEnabled :: bool
  st_pollInterval :: duration
  st_claimTimeout :: duration

text \<open>An error of the start is what \<open>log.Fatalf\<close> ends the process with.\<close>

definition api_settings_of ::
  "(nat \<Rightarrow> nat \<Rightarrow> nat \<Rightarrow> nat) \<Rightarrow> environment \<Rightarrow> api_settings result" where
  "api_settings_of fraction env =
     (let payoutQueueName = loadStringEnv env ''PAYOUT_QUEUE_NAME'' ''payout.jobs'' in
      res_bind (loadBoolEnv env ''PROCESSOR_ENABLED'' False) (\<lambda>outboxRelayEnabled.
      res_bind (loadDurationEnv fraction env ''PROCESSOR_POLL_INTERVAL'' Second) (\<lambda>pollInterval.
      res_bind (loadDurationEnv fraction env ''PROCESSOR_CLAIM_TIMEOUT'' (30 * Second)) (\<lambda>claimTimeout.
      Inr \<lparr>st_payoutQueueName = payoutQueueName, st_outboxRelayEnabled = outboxRelayEnabled,
           st_pollInterval = pollInterval, st_claimTimeout = claimTimeout\<rparr>))))"

definition start_relay ::
  "('s, 'c, 'p) api_platform \<Rightarrow> environment \<Rightarrow> api_settings \<Rightarrow> 'p \<Rightarrow> ('s, 's relay option) action" where
  "start_relay platform env settings dbPool =
     (if st_outboxRelayEnabled settings then
        and_then (Amqp_Open (pr_dial platform) (env ''RABBITMQ_URL'')) (\<lambda>rabbitmqClient.
        let payoutTopology = NewPayoutTopology (st_payoutQueueName settings) in
        and_then (EnsureTopology (Some rabbitmqClient) payoutTopology) (\<lambda>_.
        ok (Some (NewRelay (Some (pr_runner platform dbPool))
          (Some (Publisher_Dispatch (Some (NewPayoutPublisher (Some (Publish (Some rabbitmqClient)))
             (tp_ExchangeName payoutTopology) (tp_RoutingKey payoutTopology)))))
          \<lparr>rc_PollInterval = st_pollInterval settings, rc_ClaimTimeout = st_claimTimeout settings,
           rc_EventTypes = [EventTypeProcessPayout]\<rparr>))))
      else ok None)"

definition api_start ::
  "(nat \<Rightarrow> nat \<Rightarrow> nat \<Rightarrow> nat) \<Rightarrow> ('s, 'c, 'p) api_platform \<Rightarrow> environment \<Rightarrow> ('s, 'p \<times> 's relay option) action" where
  "api_start fraction platform env =
     and_then (lift_result (api_settings_of fraction env)) (\<lambda>settings.
     and_then (Postgres_Open (pr_pgx platform) (env ''DB_URL'')) (\<lambda>dbPool.
     and_then (start_relay platform env settings dbPool) (\<lambda>outboxRelay.
     ok (dbPool, outboxRelay))))"

text \<open>
  The rest of \<open>main\<close>: the relay's \<open>Run\<close> and the server under \<open>runApplication\<close>. \<open>run_relay\<close> of the run is
  what \<open>Run\<close> returns; the result is the error the process ends with, nil after a graceful stop.
\<close>

definition api_serve :: "'s relay option \<Rightarrow> app_run \<Rightarrow> go_error option option" where
  "api_serve outboxRelay r = runApplication True True (outboxRelay \<noteq> None) r"

text \<open>The outcome of the goroutine that runs the relay.\<close>

definition relay_outcome :: "(go_error \<times> 's) option \<Rightarrow> outcome" where
  "relay_outcome res = (case res of None \<Rightarrow> Blocked | Some (e, _) \<Rightarrow> Ended (Some e))"

section \<open>The worker process\<close>

record ('s, 'c, 'p) worker_platform =
  wp_pgx :: "('s, 'c, 'p) pgx_pool"
  wp_dial :: "bytes \<Rightarrow> ('s, 's amqp_connection) action"
  wp_runner :: "'p \<Rightarrow> 's exec_tx_runner"
  wp_context_err :: "'s \<Rightarrow> go_error option"

definition worker_start ::
  "pgx_codec \<Rightarrow> ('s, 'c, 'p) worker_platform \<Rightarrow> environment \<Rightarrow> ('s, 's worker) action" where
  "worker_start codec platform env =
     (let payoutQueueName = loadStringEnv env ''PAYOUT_QUEUE_NAME'' ''payout.jobs'' in
      and_then (Postgres_Open (wp_pgx platform) (env ''DB_URL'')) (\<lambda>dbPool.
      and_then (Amqp_Open (wp_dial platform) (env ''RABBITMQ_URL'')) (\<lambda>rabbitmqClient.
      let payoutTopology = NewPayoutTopology payoutQueueName in
      and_then (EnsureTopology (Some rabbitmqClient) payoutTopology) (\<lambda>_.
      ok (Worker_New (Some (Consume (Some rabbitmqClient)))
            (Some (HandleEvent codec (Some (NewHandler (Some (wp_runner platform dbPool))
              (Some (Simulator_ExecutePayout (wp_context_err platform) \<lparr>sim_Outcome = [], sim_FailureReason = []\<rparr>))))))
            payoutQueueName)))))"

text \<open>The error the worker process ends with; a cancelled context is a graceful stop.\<close>

definition worker_main :: "'s worker \<Rightarrow> 's \<Rightarrow> (go_error option \<times> 's) option" where
  "worker_main worker s =
     map_option (\<lambda>(e, s'). (if e = ContextCanceled then None else Some e, s')) (Worker_Run (Some worker) s)"

end
