(* ===== verification/Relay_Guarantees.thy ===== *)
theory Relay_Guarantees
  imports Outbox_Relay Worlds
begin

text \<open>
  The relay on PostgreSQL. The locale \<open>dispatcher_contract\<close> is what the relay needs of its dispatcher:
  it may add outbox events but leaves the existing rows alone. Under it the lemmas follow one event from
  \<open>pending\<close> through \<open>processing\<close> to \<open>processed\<close>, or back.
\<close>

section \<open>The relay's world\<close>

definition pg_event_store :: "(db \<times> 'b) event_store" where
  "pg_event_store =
     \<lparr>es_ClaimNextPendingOutboxEvent = (\<lambda>t. on_db (ClaimNextPendingOutboxEvent t)),
      es_ClaimNextPendingOutboxEventByTypes = (\<lambda>a. on_db (ClaimNextPendingOutboxEventByTypes a)),
      es_MarkOutboxEventAsProcessed = (\<lambda>i. on_db (MarkOutboxEventAsProcessed i)),
      es_ReleaseOutboxEventClaim = (\<lambda>i. on_db (ReleaseOutboxEventClaim i))\<rparr>"

text \<open>The relay as \<open>cmd/api/main.go\<close> makes it, with any dispatcher and configuration.\<close>

definition pg_relay ::
  "(db \<times> 'b \<Rightarrow> go_error option) \<Rightarrow> (db \<times> 'b \<Rightarrow> commit_outcome) \<Rightarrow> (db \<times> 'b) event_dispatcher \<Rightarrow> relay_config \<Rightarrow>
   (db \<times> 'b) relay option" where
  "pg_relay bf cf dispatch config =
     Some (NewRelay (Some (pool_runner bf cf pg_event_store)) (Some dispatch) config)"

text \<open>The events a relay looks for.\<close>

definition wanted :: "relay_config \<Rightarrow> timestamp \<Rightarrow> outbox_row \<Rightarrow> bool" where
  "wanted config before e \<longleftrightarrow>
     (rc_EventTypes config = [] \<or> ob_EventType e \<in> set (rc_EventTypes config)) \<and> claimable before e"

definition set_event :: "uuid \<Rightarrow> (outbox_row \<Rightarrow> outbox_row) \<Rightarrow> db \<Rightarrow> db" where
  "set_event i f d = d\<lparr>tbl_outbox_events := update_where (\<lambda>r. ob_ID r = i) f (tbl_outbox_events d)\<rparr>"

definition claimed_row :: "timestamp \<Rightarrow> outbox_row \<Rightarrow> outbox_row" where
  "claimed_row t r = r\<lparr>ob_Status := ''processing'', ob_ClaimedAt := Some t\<rparr>"

definition processed_row :: "timestamp \<Rightarrow> outbox_row \<Rightarrow> outbox_row" where
  "processed_row t r = r\<lparr>ob_Status := ''processed'', ob_ProcessedAt := Some t, ob_ClaimedAt := None\<rparr>"

definition released_row :: "outbox_row \<Rightarrow> outbox_row" where
  "released_row r = r\<lparr>ob_Status := ''pending'', ob_ClaimedAt := None\<rparr>"

definition event_view :: "db \<Rightarrow> uuid \<Rightarrow> outbox_row option" where
  "event_view d i = find (\<lambda>r. ob_ID r = i) (tbl_outbox_events d)"

lemma row_ids [simp]:
  "ob_ID (claimed_row t r) = ob_ID r" "ob_ID (processed_row t r) = ob_ID r" "ob_ID (released_row r) = ob_ID r"
  by (simp_all add: claimed_row_def processed_row_def released_row_def)

lemma set_event_now [simp]: "db_now (set_event i f d) = db_now d"
  by (simp add: set_event_def)

lemma event_view_set:
  assumes "\<And>r. ob_ID (f r) = ob_ID r"
  shows "event_view (set_event i f d) j = (if j = i then map_option f (event_view d j) else event_view d j)"
proof -
  have "find (\<lambda>r. ob_ID r = j) (update_where (\<lambda>r. ob_ID r = i) f rows) =
      (if j = i then map_option f (find (\<lambda>r. ob_ID r = j) rows) else find (\<lambda>r. ob_ID r = j) rows)" for rows
    by (induction rows) (auto simp: assms)
  then show ?thesis by (simp add: event_view_def set_event_def)
qed

lemma event_view_in: "wf_db d \<Longrightarrow> e \<in> set (tbl_outbox_events d) \<Longrightarrow> event_view d (ob_ID e) = Some e"
  unfolding event_view_def by (rule find_unique [of ob_ID]) (auto simp: wf_db_def wf_outbox_events_def)

section \<open>The statements of the relay\<close>

lemma MarkOutboxEventAsProcessed_run:
  "MarkOutboxEventAsProcessed i d =
     (case event_view d i of
        None \<Rightarrow> (Inl ErrNoRows, d)
      | Some r \<Rightarrow> (Inr (processed_row (db_now d) r), set_event i (processed_row (db_now d)) d))"
  by (auto simp: MarkOutboxEventAsProcessed_def update_one_def event_view_def set_event_def processed_row_def [abs_def]
      split: option.split)

lemma ReleaseOutboxEventClaim_run:
  "ReleaseOutboxEventClaim i d =
     (case event_view d i of
        None \<Rightarrow> (Inl ErrNoRows, d)
      | Some r \<Rightarrow> (Inr (released_row r), set_event i released_row d))"
  by (auto simp: ReleaseOutboxEventClaim_def update_one_def event_view_def set_event_def released_row_def [abs_def]
      split: option.split)

text \<open>What \<open>next_event\<close> picks: an unlocked wanted event, and no older one.\<close>

lemma next_event_Some:
  assumes "next_event P d = Some e"
  shows "e \<in> set (tbl_outbox_events d)" "P e" "ob_ID e \<notin> set (db_locked d)"
    "\<forall>e' \<in> set (tbl_outbox_events d). P e' \<and> ob_ID e' \<notin> set (db_locked d) \<longrightarrow> ob_CreatedAt e \<le> ob_CreatedAt e'"
proof -
  let ?xs = "filter (\<lambda>e. P e \<and> ob_ID e \<notin> set (db_locked d)) (tbl_outbox_events d)"
  obtain ys where ys: "sort_key ob_CreatedAt ?xs = e # ys"
    using assms by (auto simp: next_event_def split: list.splits)
  have same: "set (e # ys) = set ?xs" using set_sort [of ob_CreatedAt ?xs] by (simp only: ys)
  have "e \<in> set ?xs" by (simp only: same [symmetric]) simp
  then show "e \<in> set (tbl_outbox_events d)" "P e" "ob_ID e \<notin> set (db_locked d)" by auto
  have "\<forall>e' \<in> set ys. ob_CreatedAt e \<le> ob_CreatedAt e'"
    using sorted_sort_key [of ob_CreatedAt ?xs] by (simp add: ys)
  then have "\<forall>e' \<in> set (e # ys). ob_CreatedAt e \<le> ob_CreatedAt e'" by simp
  then show "\<forall>e' \<in> set (tbl_outbox_events d). P e' \<and> ob_ID e' \<notin> set (db_locked d) \<longrightarrow> ob_CreatedAt e \<le> ob_CreatedAt e'"
    unfolding same by simp
qed

lemma next_event_None:
  assumes "next_event P d = None" and "e \<in> set (tbl_outbox_events d)" and "P e"
  shows "ob_ID e \<in> set (db_locked d)"
proof (rule ccontr)
  assume "ob_ID e \<notin> set (db_locked d)"
  with assms(2,3) have "e \<in> set (sort_key ob_CreatedAt (filter (\<lambda>e. P e \<and> ob_ID e \<notin> set (db_locked d)) (tbl_outbox_events d)))"
    by simp
  moreover have "sort_key ob_CreatedAt (filter (\<lambda>e. P e \<and> ob_ID e \<notin> set (db_locked d)) (tbl_outbox_events d)) = []"
    using assms(1) by (simp add: next_event_def split: list.splits)
  ultimately show False by (metis empty_iff empty_set)
qed

lemma claim_next_run:
  assumes "wf_db d"
  shows "claim_next P d =
    (case next_event P d of
       None \<Rightarrow> (Inl ErrNoRows, d)
     | Some e \<Rightarrow> (Inr (claimed_row (db_now d) e), set_event (ob_ID e) (claimed_row (db_now d)) d))"
proof (cases "next_event P d")
  case (Some e)
  have "find (\<lambda>r. ob_ID r = ob_ID e) (tbl_outbox_events d) = Some e"
    using event_view_in [OF assms next_event_Some(1) [OF Some]] by (simp add: event_view_def)
  with Some show ?thesis
    by (simp add: claim_next_def update_one_def set_event_def claimed_row_def [abs_def])
qed (simp add: claim_next_def)

lemma claim_body_run:
  assumes "wf_db d"
  shows "claim_body config before pg_event_store (d, b) =
    (case next_event (wanted config before) d of
       None \<Rightarrow> (Inl ErrNoRows, (d, b))
     | Some e \<Rightarrow> (Inr (claimed_row (db_now d) e), (set_event (ob_ID e) (claimed_row (db_now d)) d, b)))"
proof -
  have "wanted config before = claimable before" if "rc_EventTypes config = []"
    using that by (auto simp: wanted_def)
  moreover have "wanted config before =
      (\<lambda>e. ob_EventType e \<in> set (rc_EventTypes config) \<and> claimable before e)" if "rc_EventTypes config \<noteq> []"
    using that by (auto simp: wanted_def)
  ultimately show ?thesis
    using claim_next_run [OF assms]
    by (auto simp: claim_body_def pg_event_store_def on_db_def ClaimNextPendingOutboxEvent_def
        ClaimNextPendingOutboxEventByTypes_def split: option.split)
qed


section \<open>One round of the relay\<close>

text \<open>
  No failure of the pool is \<open>pgx.ErrNoRows\<close>: that error stands for an empty result of a query, and
  neither \<open>Begin\<close> nor \<open>Commit\<close> makes one.
\<close>

definition pool_faults :: "('s \<Rightarrow> go_error option) \<Rightarrow> ('s \<Rightarrow> commit_outcome) \<Rightarrow> bool" where
  "pool_faults bf cf \<longleftrightarrow>
     (\<forall>s. bf s \<noteq> Some ErrNoRows \<and> cf s \<noteq> Refused ErrNoRows \<and> cf s \<noteq> Unacknowledged ErrNoRows)"

text \<open>The events this relay looks for at a time of its clock.\<close>

definition due :: "relay_config \<Rightarrow> int \<Rightarrow> outbox_row \<Rightarrow> bool" where
  "due config now = wanted config (reclaim_before (relay_defaults config) now)"

lemma relay_defaults_types [simp]: "rc_EventTypes (relay_defaults config) = rc_EventTypes config"
  by (simp add: relay_defaults_def Let_def)

lemma wanted_defaults [simp]: "wanted (relay_defaults config) = wanted config"
  by (simp add: wanted_def fun_eq_iff)

definition claim_db :: "outbox_row \<Rightarrow> db \<Rightarrow> db" where
  "claim_db e d = set_event (ob_ID e) (claimed_row (db_now d)) d"

definition mark_db :: "uuid \<Rightarrow> db \<Rightarrow> db" where
  "mark_db i d = set_event i (processed_row (db_now d)) d"

definition release_db :: "uuid \<Rightarrow> db \<Rightarrow> db" where
  "release_db i d = set_event i released_row d"

lemma wf_set_event:
  assumes "wf_db d" and "\<And>e. ob_ID (f e) = ob_ID e" and "\<And>I e. outbox_ok I e \<Longrightarrow> outbox_ok I (f e)"
  shows "wf_db (set_event i f d)"
  unfolding set_event_def using assms by (rule wf_put_outbox_events)

lemma wf_claim_db: "wf_db d \<Longrightarrow> wf_db (claim_db e d)"
  and wf_mark_db: "wf_db d \<Longrightarrow> wf_db (mark_db i d)"
  and wf_release_db: "wf_db d \<Longrightarrow> wf_db (release_db i d)"
  unfolding claim_db_def mark_db_def release_db_def
  by (rule wf_set_event; auto simp: outbox_ok_def outbox_statuses_def claimed_row_def processed_row_def released_row_def)+

lemma claim_tx_cases:
  assumes "wf_db d" and "pool_faults bf cf"
    and "claimNextPendingEvent config (pool_runner bf cf pg_event_store) before (d, b) = (r, w)"
  obtains (idle) "r = Inr None" "w = (d, b)" "next_event (wanted config before) d = None"
    | (unclaimed) e where "r = Inl e" "w = (d, b)"
    | (unacknowledged) e row where "r = Inl e" "next_event (wanted config before) d = Some row"
        "w = (claim_db row d, b)"
    | (claimed) row where "r = Inr (Some (claimed_row (db_now d) row))"
        "next_event (wanted config before) d = Some row" "w = (claim_db row d, b)"
proof -
  note body = claim_body_run [OF assms(1), of config before b]
  obtain r0 w0 where tx: "Outbox_WithinTx (pool_runner bf cf pg_event_store) (claim_body config before) (d, b) = (r0, w0)"
    by (cases "Outbox_WithinTx (pool_runner bf cf pg_event_store) (claim_body config before) (d, b)")
  show ?thesis
  proof (cases "next_event (wanted config before) d")
    case None
    with body tx have "w0 = (d, b)" "\<exists>e. r0 = Inl e"
      by (auto elim!: pool_outbox.run_cases)
    then show ?thesis
      using assms(3) tx idle unclaimed None by (auto simp: claimNextPendingEvent_def split: if_splits)
  next
    case (Some row)
    from tx have "r0 \<noteq> Inl ErrNoRows"
      using body Some assms(2)
      by (auto simp: Outbox_WithinTx_def within_tx_def pool_runner_def NewDBTxRunner_def pg_tx_driver_def pool_faults_def
          split: option.splits commit_outcome.splits prod.splits)
    from tx show ?thesis
    proof (cases rule: pool_outbox.run_cases)
      case (unchanged e)
      with tx assms(3) \<open>r0 \<noteq> Inl ErrNoRows\<close> that(2) show ?thesis by (auto simp: claimNextPendingEvent_def)
    next
      case (published x)
      with tx assms(3) body Some that(4) show ?thesis by (auto simp: claimNextPendingEvent_def claim_db_def)
    next
      case (unacknowledged e x)
      with tx assms(3) body Some \<open>r0 \<noteq> Inl ErrNoRows\<close> that(3) show ?thesis
        by (auto simp: claimNextPendingEvent_def claim_db_def)
    qed
  qed
qed

lemma mark_tx_cases:
  assumes "markProcessed (pool_runner bf cf pg_event_store) i (d, b) = (r, w)"
  obtains (unmarked) e where "r = Inl e" "w = (d, b)"
    | (marked) row where "event_view d i = Some row" "w = (mark_db i d, b)"
proof -
  from assms [unfolded markProcessed_def] show ?thesis
    by (cases rule: pool_outbox.run_cases)
      (auto simp: pg_event_store_def seq_simps MarkOutboxEventAsProcessed_run mark_db_def
        split: option.splits intro: that)
qed

lemma release_tx_cases:
  assumes "releaseClaim (pool_runner bf cf pg_event_store) i (d, b) = (r, w)"
  obtains (unreleased) e where "r = Inl e" "w = (d, b)"
    | (released) row where "event_view d i = Some row" "w = (release_db i d, b)"
proof -
  from assms [unfolded releaseClaim_def] show ?thesis
    by (cases rule: pool_outbox.run_cases)
      (auto simp: pg_event_store_def seq_simps ReleaseOutboxEventClaim_run release_db_def
        split: option.splits intro: that)
qed


section \<open>The contract of the dispatcher\<close>

locale dispatcher_contract =
  fixes dispatch :: "(db \<times> 'b) event_dispatcher"
  assumes keeps_rows:
    "wf_db d \<Longrightarrow> dispatch ev (d, b) = (r, (d', b')) \<Longrightarrow>
       wf_db d' \<and> extends (tbl_outbox_events d) (tbl_outbox_events d')"
begin

lemma view_after:
  assumes "wf_db d" and "dispatch ev (d, b) = (r, (d', b'))" and "event_view d i = Some e"
  shows "event_view d' i = Some e"
  using keeps_rows [OF assms(1,2)] assms(3) by (auto simp: event_view_def extends_def find_append)

text \<open>The outcomes of one round.\<close>

lemma run_once_cases:
  assumes "wf_db d" and "pool_faults bf cf"
    and "RunOnce codec clock (pg_relay bf cf dispatch config) (d, b) = (r, (d', b'))"
  obtains (idle) "r = Inr False" "d' = d" "b' = b" "next_event (due config (clock (d, b))) d = None"
    | (unclaimed) e where "r = Inl e" "d' = d" "b' = b"
    | (unacknowledged) e row where "next_event (due config (clock (d, b))) d = Some row" "r = Inl e"
        "d' = claim_db row d" "b' = b"
    | (sent) row d1 where "next_event (due config (clock (d, b))) d = Some row"
        "dispatch (dispatch_event codec row) (claim_db row d, b) = (Inr (), (d1, b'))"
        "event_view d1 (ob_ID row) = Some (claimed_row (db_now d) row)"
        "d' = mark_db (ob_ID row) d1 \<or> d' = d1 \<and> (\<exists>e. r = Inl e)" "r \<noteq> Inr False"
    | (refused) row d1 e e' where "next_event (due config (clock (d, b))) d = Some row"
        "dispatch (dispatch_event codec row) (claim_db row d, b) = (Inl e, (d1, b'))"
        "event_view d1 (ob_ID row) = Some (claimed_row (db_now d) row)"
        "r = Inl e'" "d' = release_db (ob_ID row) d1 \<or> d' = d1"
proof -
  let ?txr = "pool_runner bf cf pg_event_store"
  let ?before = "reclaim_before (relay_defaults config) (clock (d, b))"
  obtain c w where claim: "claimNextPendingEvent (relay_defaults config) ?txr ?before (d, b) = (c, w)"
    by (cases "claimNextPendingEvent (relay_defaults config) ?txr ?before (d, b)")
  have run: "(r, (d', b')) = (case c of Inl e \<Rightarrow> (Inl e, w) | Inr None \<Rightarrow> (Inr False, w)
      | Inr (Some row) \<Rightarrow> finish_claim codec ?txr dispatch row w)"
    using assms(3) claim
    by (simp add: RunOnce_def pg_relay_def NewRelay_def split: sum.splits option.splits)
  have due: "wanted (relay_defaults config) ?before = due config (clock (d, b))"
    by (simp add: due_def)
  from assms(1,2) claim show ?thesis
  proof (cases rule: claim_tx_cases)
    case idle
    with run due that(1) show ?thesis by simp
  next
    case (unclaimed e)
    with run that(2) show ?thesis by simp
  next
    case (unacknowledged e row)
    with run due that(3) show ?thesis by simp
  next
    case (claimed row)
    let ?d0 = "claim_db row d"
    have wf: "wf_db ?d0" using assms(1) by (rule wf_claim_db)
    have view: "event_view ?d0 (ob_ID row) = Some (claimed_row (db_now d) row)"
      using event_view_in [OF assms(1) next_event_Some(1) [OF claimed(2)]]
      by (simp add: claim_db_def event_view_set)
    have ev: "dispatch_event codec (claimed_row (db_now d) row) = dispatch_event codec row"
      by (simp add: dispatch_event_def claimed_row_def)
    obtain a d1 b1 where a: "dispatch (dispatch_event codec row) (?d0, b) = (a, (d1, b1))"
      by (metis prod.collapse)
    note view1 = view_after [OF wf a view]
    show ?thesis
    proof (cases a)
      case (Inl e)
      obtain rr ww where rel: "releaseClaim ?txr (ob_ID row) (d1, b1) = (rr, ww)"
        by (cases "releaseClaim ?txr (ob_ID row) (d1, b1)")
      have r: "\<exists>e'. r = Inl e'" "(d', b') = ww"
        using run claimed ev a Inl rel by (auto simp: finish_claim_def split: sum.splits)
      from rel r that(5) [of row e d1] claimed(2) due a Inl view1 show ?thesis
        by (cases rule: release_tx_cases) auto
    next
      case (Inr u)
      obtain rr ww where mrk: "markProcessed ?txr (ob_ID row) (d1, b1) = (rr, ww)"
        by (cases "markProcessed ?txr (ob_ID row) (d1, b1)")
      have r: "r = (case rr of Inl e \<Rightarrow> Inl e | Inr _ \<Rightarrow> Inr True)" "(d', b') = ww"
        using run claimed ev a Inr mrk by (auto simp: finish_claim_def split: sum.splits)
      from mrk r that(4) [of row d1] claimed(2) due a Inr view1 show ?thesis
        by (cases rule: mark_tx_cases) (auto split: sum.splits)
    qed
  qed
qed

end


text \<open>A dispatcher that does not touch the database, such as the publisher, keeps the contract.\<close>

interpretation off: dispatcher_contract "\<lambda>ev. off_db (f ev)"
  by unfold_locales (auto simp: off_db_def split: prod.splits)

section \<open>Time\<close>

text \<open>
  An event that was claimed at a time \<open>t\<close> (of the database's clock) is not wanted by any relay whose
  bound is not later than \<open>t\<close>, so no second relay takes it before the claim times out.
\<close>

lemma claimed_not_wanted: "before \<le> t \<Longrightarrow> \<not> wanted config before (claimed_row t e)"
  by (simp add: wanted_def claimable_def claimed_row_def)

lemma processed_not_wanted: "\<not> wanted config before (processed_row t e)"
  by (simp add: wanted_def claimable_def processed_row_def)

lemma due_status: "due config now e \<Longrightarrow> ob_Status e = ''pending'' \<or> ob_Status e = ''processing''"
  by (auto simp: due_def wanted_def claimable_def)

text \<open>The bound lies a positive time before the clock.\<close>

lemma claim_timeout_positive: "0 < sint (rc_ClaimTimeout (relay_defaults config))"
proof -
  have "sint (30 * Second) = 30000000000" by (simp add: Second_def)
  then show ?thesis by (auto simp: relay_defaults_def Let_def not_le)
qed

lemma reclaim_before_eq:
  "reclaim_before (relay_defaults config) now = (now - sint (rc_ClaimTimeout (relay_defaults config))) div 1000"
proof -
  have "sint (- w) = - sint w" if "0 < sint w" for w :: "64 word"
    using that sint_less [of w] by (simp add: sint_word_ariths signed_take_bit_int_eq_self_iff)
  with claim_timeout_positive [of config] show ?thesis by (simp add: reclaim_before_def)
qed


section \<open>Draining the outbox\<close>

text \<open>The unprocessed events of a relay's types: what it still has to send.\<close>

definition backlog :: "relay_config \<Rightarrow> db \<Rightarrow> outbox_row list" where
  "backlog config d =
     filter (\<lambda>e. (rc_EventTypes config = [] \<or> ob_EventType e \<in> set (rc_EventTypes config)) \<and>
                 ob_Status e \<noteq> ''processed'') (tbl_outbox_events d)"

lemma backlog_due: "e \<in> set (tbl_outbox_events d) \<Longrightarrow> due config now e \<Longrightarrow> e \<in> set (backlog config d)"
  by (auto simp: backlog_def due_def wanted_def claimable_def)

lemma length_backlog_set:
  assumes "distinct (map ob_ID rows)" and "e \<in> set rows" and "P e" and "\<not> P (f e)"
  shows "length (filter P rows) = Suc (length (filter P (update_where (\<lambda>r. ob_ID r = ob_ID e) f rows)))"
  using assms(1,2)
proof (induction rows)
  case (Cons r rows)
  show ?case
  proof (cases "r = e")
    case True
    have "ob_ID x \<noteq> ob_ID e" if "x \<in> set rows" for x
      using Cons.prems(1) True imageI [OF that, of ob_ID] by auto
    then have "update_where (\<lambda>r. ob_ID r = ob_ID e) f rows = rows" by (rule update_where_none)
    with True assms(3,4) show ?thesis by simp
  next
    case False
    with Cons.prems have "e \<in> set rows" "ob_ID r \<noteq> ob_ID e" by (auto simp: image_iff)
    with Cons show ?thesis by simp
  qed
qed simp

lemma mark_claim_db: "mark_db (ob_ID e) (claim_db e d) = set_event (ob_ID e) (\<lambda>r. processed_row (db_now d) (claimed_row (db_now d) r)) d"
proof -
  have "update_where (\<lambda>r. ob_ID r = i) (processed_row t) (update_where (\<lambda>r. ob_ID r = i) (claimed_row t) rows) =
      update_where (\<lambda>r. ob_ID r = i) (\<lambda>r. processed_row t (claimed_row t r)) rows" for i t rows
    by (induction rows) auto
  then show ?thesis by (simp add: mark_db_def claim_db_def set_event_def)
qed

lemma backlog_shrinks:
  assumes "wf_db d" and "next_event (due config now) d = Some e"
  shows "length (backlog config d) = Suc (length (backlog config (mark_db (ob_ID e) (claim_db e d))))"
proof -
  note e = next_event_Some(1,2) [OF assms(2)]
  have "e \<in> set (backlog config d)" using backlog_due [OF e] .
  then show ?thesis
    using assms(1) e(1)
    by (simp add: mark_claim_db set_event_def backlog_def)
      (rule length_backlog_set, auto simp: wf_db_def wf_outbox_events_def processed_row_def claimed_row_def)
qed


text \<open>A round without faults, for a dispatcher that accepts or refuses.\<close>

lemma round_sends:
  assumes "wf_db d" and "next_event (due config (clock (d, b))) d = Some e"
    and "f (dispatch_event codec e) b = (Inr (), b')"
  shows "RunOnce codec clock (pg_relay (\<lambda>_. None) (\<lambda>_. Committed) (\<lambda>ev. off_db (f ev)) config) (d, b) =
    (Inr True, (mark_db (ob_ID e) (claim_db e d), b'))"
proof -
  have view: "event_view (claim_db e d) (ob_ID e) = Some (claimed_row (db_now d) e)"
    using event_view_in [OF assms(1) next_event_Some(1) [OF assms(2)]]
    by (simp add: claim_db_def event_view_set)
  have ev: "dispatch_event codec (claimed_row (db_now d) e) = dispatch_event codec e"
    by (simp add: dispatch_event_def claimed_row_def)
  have due: "due config (clock (d, b)) = wanted config (reclaim_before (relay_defaults config) (clock (d, b)))"
    by (simp add: due_def)
  show ?thesis
    using assms(2,3) claim_body_run [OF assms(1), of "relay_defaults config" _ b] view
    by (simp add: RunOnce_def pg_relay_def NewRelay_def claimNextPendingEvent_def finish_claim_def markProcessed_def
        WithinTx_defs within_tx_def pool_runner_def NewDBTxRunner_def pg_tx_driver_def ev due and_then_def on_db_def
        off_db_def ok_def pg_event_store_def [abs_def] MarkOutboxEventAsProcessed_run claim_db_def mark_db_def)
qed

lemma round_refused:
  assumes "wf_db d" and "next_event (due config (clock (d, b))) d = Some e"
    and "f (dispatch_event codec e) b = (Inl err, b')"
  shows "RunOnce codec clock (pg_relay (\<lambda>_. None) (\<lambda>_. Committed) (\<lambda>ev. off_db (f ev)) config) (d, b) =
    (Inl err, (release_db (ob_ID e) (claim_db e d), b'))"
proof -
  have view: "event_view (claim_db e d) (ob_ID e) = Some (claimed_row (db_now d) e)"
    using event_view_in [OF assms(1) next_event_Some(1) [OF assms(2)]]
    by (simp add: claim_db_def event_view_set)
  have ev: "dispatch_event codec (claimed_row (db_now d) e) = dispatch_event codec e"
    by (simp add: dispatch_event_def claimed_row_def)
  have due: "due config (clock (d, b)) = wanted config (reclaim_before (relay_defaults config) (clock (d, b)))"
    by (simp add: due_def)
  show ?thesis
    using assms(2,3) claim_body_run [OF assms(1), of "relay_defaults config" _ b] view
    by (simp add: RunOnce_def pg_relay_def NewRelay_def claimNextPendingEvent_def finish_claim_def releaseClaim_def
        WithinTx_defs within_tx_def pool_runner_def NewDBTxRunner_def pg_tx_driver_def ev due and_then_def on_db_def
        off_db_def ok_def pg_event_store_def [abs_def] ReleaseOutboxEventClaim_run claim_db_def release_db_def)
qed

lemma round_idle:
  assumes "wf_db d" and "next_event (due config (clock (d, b))) d = None"
  shows "RunOnce codec clock (pg_relay (\<lambda>_. None) (\<lambda>_. Committed) dispatch config) (d, b) = (Inr False, (d, b))"
proof -
  have due: "due config (clock (d, b)) = wanted config (reclaim_before (relay_defaults config) (clock (d, b)))"
    by (simp add: due_def)
  show ?thesis
    using assms(2) claim_body_run [OF assms(1), of "relay_defaults config" _ b]
    by (simp add: RunOnce_def pg_relay_def NewRelay_def claimNextPendingEvent_def WithinTx_defs within_tx_def
        pool_runner_def NewDBTxRunner_def pg_tx_driver_def due)
qed

lemma relay_loop_step:
  "run_once s = (Inl e, s1) \<Longrightarrow> relay_loop run_once wait s = Some (e, s1)"
  "run_once s = (Inr True, s1) \<Longrightarrow> relay_loop run_once wait s = relay_loop run_once wait s1"
  "run_once s = (Inr False, s1) \<Longrightarrow> relay_loop run_once wait s =
     (case wait s1 of (Some e, s2) \<Rightarrow> Some (e, s2) | (None, s2) \<Rightarrow> relay_loop run_once wait s2)"
  by (subst relay_loop.simps, simp)+

lemma loop_drains:
  fixes f :: "event \<Rightarrow> ('b, unit) action"
  assumes "\<And>ev b. \<exists>b'. f ev b = (Inr (), b')" and "\<And>w. wait w = (Some err, w)" and "wf_db d"
  shows "\<exists>d' b'. relay_loop (RunOnce codec clock (pg_relay (\<lambda>_. None) (\<lambda>_. Committed) (\<lambda>ev. off_db (f ev)) config)) wait (d, b) =
      Some (err, (d', b')) \<and> wf_db d' \<and> next_event (due config (clock (d', b'))) d' = None"
  using assms(3)
proof (induction "length (backlog config d)" arbitrary: d b rule: less_induct)
  case less
  let ?run = "RunOnce codec clock (pg_relay (\<lambda>_. None) (\<lambda>_. Committed) (\<lambda>ev. off_db (f ev)) config)"
  show ?case
  proof (cases "next_event (due config (clock (d, b))) d")
    case None
    have "relay_loop ?run wait (d, b) = Some (err, (d, b))"
      using relay_loop_step(3) [of ?run, OF round_idle [where clock = clock, OF less.prems None]] assms(2) by simp
    with None less.prems show ?thesis by blast
  next
    case (Some e)
    let ?d = "mark_db (ob_ID e) (claim_db e d)"
    obtain b' where "f (dispatch_event codec e) b = (Inr (), b')" using assms(1) by blast
    from relay_loop_step(2) [of ?run, OF round_sends [where clock = clock and f = f, OF less.prems Some this]]
    have "relay_loop ?run wait (d, b) = relay_loop ?run wait (?d, b')" .
    moreover have "length (backlog config ?d) < length (backlog config d)"
      using backlog_shrinks [OF less.prems Some] by simp
    ultimately show ?thesis using less.hyps [of ?d b'] wf_mark_db [OF wf_claim_db [OF less.prems]] by simp
  qed
qed

lemma relay_run_refused:
  assumes "wf_db d" and "next_event (due config (clock (d, b))) d = Some e"
    and "f (dispatch_event codec e) b = (Inl err, b')"
  shows "Relay_Run codec clock wait (pg_relay (\<lambda>_. None) (\<lambda>_. Committed) (\<lambda>ev. off_db (f ev)) config) (d, b) =
    Some (err, (release_db (ob_ID e) (claim_db e d), b'))"
proof -
  let ?run = "RunOnce codec clock (pg_relay (\<lambda>_. None) (\<lambda>_. Committed) (\<lambda>ev. off_db (f ev)) config)"
  have "relay_loop ?run wait (d, b) = Some (err, (release_db (ob_ID e) (claim_db e d), b'))"
    by (rule relay_loop_step(1)) (rule round_refused [where clock = clock and f = f, OF assms])
  then show ?thesis by (simp add: Relay_Run_def pg_relay_def NewRelay_def)
qed

section \<open>Properties\<close>

text \<open>C24: one round of the relay. Whatever the broker and the pool do, \<open>RunOnce\<close> either finds nothing to do
  (every event of its types that is due is held by another transaction), or claims the oldest due
  event, offers exactly that event to the dispatcher once, and reports success only with the event
  marked processed; after an error the event is untouched, pending again, still claimed, or (when only
  the acknowledgement of the last commit was lost) processed after a dispatch that succeeded.\<close>

theorem relay_round:
  assumes "wf_db d" and "pool_faults bf cf"
  shows "case RunOnce codec clock (pg_relay bf cf (\<lambda>ev. off_db (f ev)) config) (d, b) of
      (Inr False, (d', b')) \<Rightarrow>
        d' = d \<and> b' = b \<and>
        (\<forall>e \<in> set (tbl_outbox_events d). due config (clock (d, b)) e \<longrightarrow> ob_ID e \<in> set (db_locked d))
    | (Inr True, (d', b')) \<Rightarrow>
        (\<exists>e. next_event (due config (clock (d, b))) d = Some e \<and>
           f (dispatch_event codec e) b = (Inr (), b') \<and> d' = mark_db (ob_ID e) (claim_db e d))
    | (Inl err, (d', b')) \<Rightarrow>
        d' = d \<and> b' = b \<or>
        (\<exists>e. next_event (due config (clock (d, b))) d = Some e \<and>
           ((d' = claim_db e d \<or> d' = release_db (ob_ID e) (claim_db e d)) \<and>
              (b' = b \<or> b' = snd (f (dispatch_event codec e) b)) \<or>
            f (dispatch_event codec e) b = (Inr (), b') \<and> d' = mark_db (ob_ID e) (claim_db e d)))"
proof -
  obtain r d' b' where run: "RunOnce codec clock (pg_relay bf cf (\<lambda>ev. off_db (f ev)) config) (d, b) = (r, (d', b'))"
    by (metis prod.collapse)
  have off: "off_db (f ev) (x, b) = (a, (y, b1)) \<longleftrightarrow> f ev b = (a, b1) \<and> y = x" for ev x y a b1
    by (auto simp: off_db_def split: prod.splits)
  from assms run show ?thesis
  proof (cases rule: off.run_once_cases)
    case idle
    with run next_event_None [of "due config (clock (d, b))" d] show ?thesis by auto
  next
    case (sent row d1)
    then show ?thesis using run off by (cases r) auto
  next
    case (refused row d1 e e')
    then show ?thesis using run off by auto
  qed (use run in auto)
qed

text \<open>C25: an event is marked processed only after it was sent. If a round leaves an event processed that was
  not processed before, then the dispatcher was given this event and accepted it.\<close>

theorem relay_marks_only_sent:
  assumes "wf_db d" and "pool_faults bf cf"
    and "RunOnce codec clock (pg_relay bf cf (\<lambda>ev. off_db (f ev)) config) (d, b) = (r, (d', b'))"
    and "event_view d i = Some e" and "ob_Status e \<noteq> ''processed''"
    and "event_view d' i = Some e'" and "ob_Status e' = ''processed''"
  shows "f (dispatch_event codec e) b = (Inr (), b')"
proof -
  have off: "off_db (f ev) (x, b) = (a, (y, b1)) \<longleftrightarrow> f ev b = (a, b1) \<and> y = x" for ev x y a b1
    by (auto simp: off_db_def split: prod.splits)
  have other: "event_view (claim_db row d) i = Some e1 \<Longrightarrow> ob_Status e1 \<noteq> ''processed''" for row e1
    using assms(4,5) by (auto simp: claim_db_def event_view_set claimed_row_def split: if_splits)
  from assms(1-3) show ?thesis
  proof (cases rule: off.run_once_cases)
    case (sent row d1)
    then have d1: "d1 = claim_db row d" and f: "f (dispatch_event codec row) b = (Inr (), b')"
      by (simp_all add: off)
    have "i = ob_ID row"
    proof (rule ccontr)
      assume "i \<noteq> ob_ID row"
      then have "event_view d' i = Some e"
        using sent(4) assms(4) d1 by (auto simp: mark_db_def claim_db_def event_view_set)
      with assms(5-7) show False by simp
    qed
    then have "row = e"
      using event_view_in [OF assms(1) next_event_Some(1) [OF sent(1)]] assms(4) by simp
    with f show ?thesis by simp
  next
    case (refused row d1 err err')
    then have "d1 = claim_db row d" by (simp add: off)
    with refused(5) other [of row] assms(6,7) show ?thesis
      by (auto simp: release_db_def event_view_set released_row_def claim_db_def claimed_row_def split: if_splits)
  next
    case (unacknowledged err row)
    with other [of row e'] assms(6,7) show ?thesis by simp
  qed (use assms(4-7) in auto)
qed



text \<open>C27: the relay drains the outbox. Without faults and with a dispatcher that accepts every event, \<open>Run\<close>
  reaches its first wait after finitely many rounds, with no event of its types left that is due and
  not held by another transaction; when the context is cancelled there, it returns the context's
  error.\<close>

theorem relay_drains_outbox:
  fixes f :: "event \<Rightarrow> ('b, unit) action"
  assumes "wf_db d" and "\<And>ev b. \<exists>b'. f ev b = (Inr (), b')" and "\<And>w. wait w = (Some err, w)"
  shows "\<exists>d' b'. Relay_Run codec clock wait (pg_relay (\<lambda>_. None) (\<lambda>_. Committed) (\<lambda>ev. off_db (f ev)) config) (d, b) =
      Some (err, (d', b')) \<and>
    (\<forall>e \<in> set (tbl_outbox_events d'). due config (clock (d', b')) e \<longrightarrow> ob_ID e \<in> set (db_locked d'))"
proof -
  from loop_drains [where f = f and codec = codec and clock = clock and config = config and b = b, OF assms(2,3,1)] obtain d' b' where
    run: "relay_loop (RunOnce codec clock (pg_relay (\<lambda>_. None) (\<lambda>_. Committed) (\<lambda>ev. off_db (f ev)) config)) wait (d, b) =
      Some (err, (d', b'))" and none: "next_event (due config (clock (d', b'))) d' = None"
    by blast
  have "Relay_Run codec clock wait (pg_relay (\<lambda>_. None) (\<lambda>_. Committed) (\<lambda>ev. off_db (f ev)) config) (d, b) =
      Some (err, (d', b'))"
    using run by (simp add: Relay_Run_def pg_relay_def NewRelay_def)
  with next_event_None [OF none] show ?thesis by blast
qed

text \<open>C28: one refused event stops the relay. When the dispatcher refuses the oldest due event, \<open>Run\<close> releases
  its claim and returns the dispatcher's error at once; it does not go on to the other events and does
  not try again.\<close>

theorem relay_stops_on_dispatch_error:
  assumes "wf_db d" and "next_event (due config (clock (d, b))) d = Some e"
    and "f (dispatch_event codec e) b = (Inl err, b')"
  shows "Relay_Run codec clock wait (pg_relay (\<lambda>_. None) (\<lambda>_. Committed) (\<lambda>ev. off_db (f ev)) config) (d, b) =
    Some (err, (release_db (ob_ID e) (claim_db e d), b'))"
  using assms by (rule relay_run_refused)

end
