(* ===== verification/Rabbit.thy ===== *)
theory Rabbit
  imports Payout_Publisher Payout_Worker
begin

text \<open>
  A broker for the client to talk to: the behaviour RabbitMQ documents for the calls the program makes
  (direct exchanges, mandatory publications, publisher confirms, manual acknowledgements). It is the
  environment of the model, not code of the repository. \<open>rb_choices\<close> resolves what the broker leaves
  open: which of several ready channels a \<open>select\<close> takes, and whether it is interrupted first.
\<close>

section \<open>State\<close>

datatype choice = PreferReturn | PreferConfirm | Expire | Cancel

record rabbit =
  rb_exchanges :: "bytes list"
  rb_queues :: "bytes list"
  rb_bindings :: "(bytes \<times> bytes \<times> bytes) list"
  rb_ready :: "(bytes \<times> bytes) list"
  rb_unacked :: "(bytes \<times> bytes) list"
  rb_tag :: "64 word"
  rb_confirms :: "confirmation list"
  rb_returns :: "amqp_return list"
  rb_choices :: "choice list"

definition fresh_rabbit :: "choice list \<Rightarrow> rabbit" where
  "fresh_rabbit choices =
     \<lparr>rb_exchanges = [], rb_queues = [], rb_bindings = [], rb_ready = [], rb_unacked = [], rb_tag = 1,
      rb_confirms = [], rb_returns = [], rb_choices = choices\<rparr>"

definition next_choice :: "rabbit \<Rightarrow> choice \<times> rabbit" where
  "next_choice b =
     (case rb_choices b of [] \<Rightarrow> (PreferReturn, b) | c # cs \<Rightarrow> (c, b\<lparr>rb_choices := cs\<rparr>))"

section \<open>Declarations and publication\<close>

definition rabbit_exchange :: "exchange_declaration \<Rightarrow> (rabbit, unit) action" where
  "rabbit_exchange x b = (Inr (), b\<lparr>rb_exchanges := List.insert (xd_Name x) (rb_exchanges b)\<rparr>)"

definition rabbit_queue :: "queue_declaration \<Rightarrow> (rabbit, unit) action" where
  "rabbit_queue q b = (Inr (), b\<lparr>rb_queues := List.insert (qd_Name q) (rb_queues b)\<rparr>)"

definition rabbit_bind :: "queue_binding \<Rightarrow> (rabbit, unit) action" where
  "rabbit_bind q b =
     (if qb_Queue q \<in> set (rb_queues b) \<and> qb_Exchange q \<in> set (rb_exchanges b)
      then (Inr (), b\<lparr>rb_bindings := List.insert (qb_Exchange q, qb_Key q, qb_Queue q) (rb_bindings b)\<rparr>)
      else (Inl (Errorf ''NOT_FOUND''), b))"

text \<open>The queues a direct exchange routes a key to.\<close>

definition routes :: "rabbit \<Rightarrow> bytes \<Rightarrow> bytes \<Rightarrow> bytes list" where
  "routes b exchange key =
     map (\<lambda>(x, k, q). q) (filter (\<lambda>(x, k, q). x = exchange \<and> k = key) (rb_bindings b))"

text \<open>
  A publication to no queue is returned when it is mandatory; the broker confirms it all the same,
  since it has taken responsibility for it.
\<close>

definition rabbit_publish :: "publication \<Rightarrow> (rabbit, unit) action" where
  "rabbit_publish p b =
     (if pn_Exchange p \<notin> set (rb_exchanges b) then (Inl (Errorf ''NOT_FOUND''), b)
      else
        (let targets = routes b (pn_Exchange p) (pn_Key p)
         in (Inr (), b\<lparr>
              rb_ready := rb_ready b @ map (\<lambda>q. (q, pb_Body (pn_Msg p))) targets,
              rb_returns := rb_returns b @
                (if targets = [] \<and> pn_Mandatory p then [\<lparr>rt_ReplyCode = 312, rt_ReplyText = ''NO_ROUTE''\<rparr>] else []),
              rb_confirms := rb_confirms b @ [\<lparr>cn_DeliveryTag = rb_tag b, cn_Ack = True\<rparr>],
              rb_tag := rb_tag b + 1\<rparr>)))"

section \<open>Selects\<close>

definition take_confirm :: "rabbit \<Rightarrow> (confirm_arrival \<times> rabbit) option" where
  "take_confirm b =
     (case rb_confirms b of
        [] \<Rightarrow> None
      | c # cs \<Rightarrow> Some (ConfirmationArrived (Some c), b\<lparr>rb_confirms := cs\<rparr>))"

definition take_return :: "rabbit \<Rightarrow> (amqp_return option \<times> rabbit) option" where
  "take_return b =
     (case rb_returns b of [] \<Rightarrow> None | r # rs \<Rightarrow> Some (Some r, b\<lparr>rb_returns := rs\<rparr>))"

definition rabbit_first_select :: "rabbit \<Rightarrow> publish_arrival \<times> rabbit" where
  "rabbit_first_select b0 =
     (let (c, b) = next_choice b0
      in case (c, take_return b, take_confirm b) of
           (Cancel, _, _) \<Rightarrow> (OtherArrival (Interrupted (ContextDone ContextCanceled)), b)
         | (Expire, _, _) \<Rightarrow> (OtherArrival (Interrupted TimerFired), b)
         | (PreferConfirm, _, Some (a, b')) \<Rightarrow> (OtherArrival a, b')
         | (_, Some (r, b'), _) \<Rightarrow> (ReturnArrived r, b')
         | (_, None, Some (a, b')) \<Rightarrow> (OtherArrival a, b')
         | (_, None, None) \<Rightarrow> (OtherArrival (Interrupted TimerFired), b))"

definition rabbit_second_select :: "rabbit \<Rightarrow> confirm_arrival \<times> rabbit" where
  "rabbit_second_select b0 =
     (let (c, b) = next_choice b0
      in case (c, take_confirm b) of
           (Cancel, _) \<Rightarrow> (Interrupted (ContextDone ContextCanceled), b)
         | (Expire, _) \<Rightarrow> (Interrupted TimerFired, b)
         | (_, Some (a, b')) \<Rightarrow> (a, b')
         | (_, None) \<Rightarrow> (Interrupted TimerFired, b))"

section \<open>Deliveries\<close>

text \<open>
  A delivery takes the first ready message of the queue. \<open>Ack\<close> and \<open>Nack(requeue = false)\<close> end it; a
  requeued message returns to its place, the head.
\<close>

definition settle_message :: "bytes \<times> bytes \<Rightarrow> rabbit \<Rightarrow> rabbit" where
  "settle_message m b = b\<lparr>rb_unacked := remove1 m (rb_unacked b)\<rparr>"

definition rabbit_delivery :: "bytes \<times> bytes \<Rightarrow> rabbit raw_delivery" where
  "rabbit_delivery m =
     \<lparr>rd_Body = snd m,
      rd_Ack = (\<lambda>_ b. (Inr (), settle_message m b)),
      rd_Nack = (\<lambda>_ requeue b. (Inr (),
        (if requeue then (settle_message m b)\<lparr>rb_ready := m # rb_ready b\<rparr> else settle_message m b)))\<rparr>"

definition take_message :: "bytes \<Rightarrow> rabbit \<Rightarrow> ((bytes \<times> bytes) \<times> rabbit) option" where
  "take_message q b =
     (case find (\<lambda>m. fst m = q) (rb_ready b) of
        None \<Rightarrow> None
      | Some m \<Rightarrow> Some (m, b\<lparr>rb_ready := remove1 m (rb_ready b), rb_unacked := rb_unacked b @ [m]\<rparr>))"

text \<open>An empty queue blocks until the context is cancelled.\<close>

definition rabbit_next :: "bytes \<Rightarrow> rabbit \<Rightarrow> rabbit consume_arrival \<times> rabbit" where
  "rabbit_next q b0 =
     (let (c, b) = next_choice b0
      in case (c, take_message q b) of
           (Cancel, _) \<Rightarrow> (ConsumeDone ContextCanceled, b)
         | (_, None) \<Rightarrow> (ConsumeDone ContextCanceled, b)
         | (_, Some (m, b')) \<Rightarrow> (DeliveryArrived (Some (rabbit_delivery m)), b'))"

section \<open>The channel\<close>

definition rabbit_channel :: "rabbit amqp_channel" where
  "rabbit_channel =
     \<lparr>ch_Confirm = (\<lambda>_ b. (Inr (), b)),
      ch_ExchangeDeclare = rabbit_exchange, ch_QueueDeclare = rabbit_queue, ch_QueueBind = rabbit_bind,
      ch_PublishWithContext = rabbit_publish,
      ch_Consume = (\<lambda>c b. if cd_Queue c \<in> set (rb_queues b) then (Inr (rabbit_next (cd_Queue c)), b)
                         else (Inl (Errorf ''NOT_FOUND''), b)),
      ch_Close = (\<lambda>b. (Inr (), b)),
      ch_FirstSelect = (\<lambda>_. rabbit_first_select), ch_SecondSelect = (\<lambda>_. rabbit_second_select)\<rparr>"

definition rabbit_connection :: "rabbit amqp_connection" where
  "rabbit_connection = \<lparr>co_Channel = (\<lambda>b. (Inr rabbit_channel, b)), co_Close = (\<lambda>b. (Inr (), b))\<rparr>"

definition rabbit_client :: "rabbit amqp_client option" where
  "rabbit_client = Some
     \<lparr>cl_conn = Some rabbit_connection, cl_channel = Some rabbit_channel,
      cl_publishConfirmTimeout = defaultPublishConfirmTimeout,
      cl_publishConfirmations = True, cl_publishReturns = True\<rparr>"

lemma open_gives_client: "url \<noteq> [] \<Longrightarrow> Amqp_Open (\<lambda>_ b. (Inr rabbit_connection, b)) url b = (Inr (the rabbit_client), b)"
  by (simp add: Amqp_Open_def rabbit_connection_def rabbit_client_def rabbit_channel_def)

end
