(* ===== verification/Queue_Guarantees.thy ===== *)
theory Queue_Guarantees
  imports Rabbit Execution_Guarantees
begin

text \<open>
  The way of a job from the relay to the worker: what \<open>Publish\<close> promises on the broker of theory
  \<open>Rabbit\<close>, that a published job is read back as the event it was made of, and how the worker settles
  the deliveries. The locale \<open>reliable_publisher\<close> is the promise the dispatcher relies on; the broker
  keeps it as long as the queue is bound.
\<close>

section \<open>The promise of a publisher\<close>

locale reliable_publisher =
  fixes publish :: "bytes \<Rightarrow> ('s, unit) action"
    and queued :: "'s \<Rightarrow> bytes list"
    and inv :: "'s \<Rightarrow> bool"
  assumes accepted: "inv s \<Longrightarrow> publish body s = (Inr (), s') \<Longrightarrow> inv s' \<and> queued s' = queued s @ [body]"
begin

text \<open>A job that was dispatched is in the queue, and reads back as its event.\<close>

lemma dispatched:
  assumes "inv s"
    and "Publisher_Dispatch (Some (NewPayoutPublisher (Some (\<lambda>x k. publish)) x k)) ev s = (Inr (), s')"
    and "valid_utf8 (ev_ID ev)" and "valid_utf8 (ev_EventType ev)" and "valid_utf8 (ev_EntityID ev)"
  shows "inv s' \<and> (\<exists>body. queued s' = queued s @ [body] \<and> DecodePayoutJob body = Inr ev)"
proof -
  obtain body where body: "EncodePayoutJob ev = Inr body" "DecodePayoutJob body = Inr ev"
    using payout_job_roundtrip [OF assms(3-5)] by blast
  have "publish body s = (Inr (), s')"
    using assms(2) body(1)
    by (auto simp: Publisher_Dispatch_def NewPayoutPublisher_def seq_simps split: if_splits)
  with accepted [OF assms(1)] body(2) show ?thesis by blast
qed

end

section \<open>The broker keeps it\<close>

text \<open>The payout queue is bound, alone, and no notification of an earlier publication is left.\<close>

definition bound :: "bytes \<Rightarrow> rabbit \<Rightarrow> bool" where
  "bound q b \<longleftrightarrow>
     PayoutExchangeName \<in> set (rb_exchanges b) \<and> q \<in> set (rb_queues b) \<and>
     routes b PayoutExchangeName PayoutRoutingKey = [q] \<and> rb_confirms b = [] \<and> rb_returns b = []"

definition bodies :: "bytes \<Rightarrow> rabbit \<Rightarrow> bytes list" where
  "bodies q b = map snd (filter (\<lambda>m. fst m = q) (rb_ready b))"

lemma names_nonempty [simp]: "PayoutExchangeName \<noteq> []" "PayoutRoutingKey \<noteq> []"
  by (simp_all add: PayoutExchangeName_def PayoutRoutingKey_def)

lemma Publish_rabbit:
  "x \<noteq> [] \<Longrightarrow> k \<noteq> [] \<Longrightarrow> Publish rabbit_client x k body =
     and_then (rabbit_publish \<lparr>pn_Exchange = x, pn_Key = k, pn_Mandatory = True, pn_Immediate = False,
         pn_Msg = \<lparr>pb_ContentType = ''application/json'', pb_Body = body, pb_DeliveryMode = Persistent\<rparr>\<rparr>)
       (\<lambda>_. waitForPublishConfirm defaultPublishConfirmTimeout rabbit_channel)"
  by (simp add: Publish_def rabbit_client_def rabbit_channel_def)

text \<open>Publishing to the bound queue: queued in any case, and confirmed unless the wait is interrupted.\<close>

lemma publish_bound:
  assumes "bound q b"
  shows "Publish rabbit_client PayoutExchangeName PayoutRoutingKey body b =
    (let (c, b1) = next_choice b;
         b2 = b1\<lparr>rb_ready := rb_ready b @ [(q, body)], rb_tag := rb_tag b + 1\<rparr>;
         b3 = b2\<lparr>rb_confirms := [\<lparr>cn_DeliveryTag = rb_tag b, cn_Ack = True\<rparr>]\<rparr>
     in case c of
          Cancel \<Rightarrow> (Inl ContextCanceled, b3)
        | Expire \<Rightarrow> (Inl (Errorf ''rabbitmq publish confirmation timed out''), b3)
        | _ \<Rightarrow> (Inr (), b2))"
  using assms
  by (auto simp: Publish_rabbit bound_def and_then_def rabbit_publish_def waitForPublishConfirm_def Let_def
      rabbit_channel_def rabbit_first_select_def next_choice_def take_confirm_def take_return_def confirm_result_def
      interrupt_error_def split: list.split choice.split)

lemma bound_ready: "bound q (b\<lparr>rb_ready := m, rb_tag := t\<rparr>) \<longleftrightarrow> bound q b"
  by (simp add: bound_def routes_def)

lemma bound_choice: "bound q b \<Longrightarrow> bound q (snd (next_choice b))"
  by (simp add: bound_def routes_def next_choice_def split: list.split)

interpretation rabbit_queue: reliable_publisher
  "Publish rabbit_client PayoutExchangeName PayoutRoutingKey" "bodies q" "bound q"
proof
  fix s body s'
  assume inv: "bound q s"
    and run: "Publish rabbit_client PayoutExchangeName PayoutRoutingKey body s = (Inr (), s')"
  from run have "s' = (snd (next_choice s))\<lparr>rb_ready := rb_ready s @ [(q, body)], rb_tag := rb_tag s + 1\<rparr>"
    by (simp add: publish_bound [OF inv] Let_def split: prod.splits choice.splits)
  with bound_choice [OF inv] show "bound q s' \<and> bodies q s' = bodies q s @ [body]"
    by (simp add: bound_ready bodies_def)
qed

text \<open>The topology the program declares binds the queue.\<close>

lemma topology_binds:
  assumes "q \<noteq> []"
  shows "\<exists>b. EnsureTopology rabbit_client (NewPayoutTopology q) (fresh_rabbit cs) = (Inr (), b) \<and> bound q b \<and>
    bodies q b = [] \<and> rb_choices b = cs"
  using assms
  by (simp add: EnsureTopology_def EnsureQueue_def rabbit_client_def rabbit_channel_def NewPayoutTopology_def and_then_def
      rabbit_exchange_def rabbit_queue_def rabbit_bind_def fresh_rabbit_def bound_def routes_def bodies_def)

lemma dispatch_publishes:
  "EncodePayoutJob ev = Inr body \<Longrightarrow>
     Publisher_Dispatch (Some (NewPayoutPublisher (Some publish) PayoutExchangeName PayoutRoutingKey)) ev b =
       publish PayoutExchangeName PayoutRoutingKey body b"
  by (simp add: Publisher_Dispatch_def NewPayoutPublisher_def and_then_lift)

text \<open>Publishing when nothing is bound: the message goes nowhere, and the answer depends on the select.\<close>

lemma publish_unbound:
  assumes "PayoutExchangeName \<in> set (rb_exchanges b)" and "routes b PayoutExchangeName PayoutRoutingKey = []"
    and "rb_confirms b = []" and "rb_returns b = []" and "rb_choices b = c # cs"
  shows "\<exists>b'. Publish rabbit_client PayoutExchangeName PayoutRoutingKey body b =
      (case c of
         PreferConfirm \<Rightarrow> Inr ()
       | Expire \<Rightarrow> Inl (Errorf ''rabbitmq publish confirmation timed out'')
       | Cancel \<Rightarrow> Inl ContextCanceled
       | PreferReturn \<Rightarrow>
           (case cs of
              Expire # _ \<Rightarrow> Inl (Errorf ''rabbitmq publish confirmation timed out'')
            | Cancel # _ \<Rightarrow> Inl ContextCanceled
            | _ \<Rightarrow> Inl (Errorf ''rabbitmq publish was returned'')), b') \<and>
    rb_ready b' = rb_ready b"
  using assms
  by (auto simp: Publish_rabbit and_then_def rabbit_publish_def Let_def waitForPublishConfirm_def rabbit_channel_def
      rabbit_first_select_def rabbit_second_select_def next_choice_def take_confirm_def take_return_def
      confirm_result_def interrupt_error_def split: list.split choice.split)

section \<open>Settling a delivery\<close>

datatype verdict = Acked | Requeued | Dropped

definition on_fst :: "('s, 'a) action \<Rightarrow> ('s \<times> 'l, 'a) action" where
  "on_fst m w = (case m (fst w) of (r, s) \<Rightarrow> (r, (s, snd w)))"

text \<open>A delivery that writes down how it was settled.\<close>

definition noted_delivery :: "bytes \<Rightarrow> ('s \<times> verdict list) delivery" where
  "noted_delivery body =
     \<lparr>dl_Body = body,
      dl_Ack = (\<lambda>(s, l). (Inr (), (s, l @ [Acked]))),
      dl_Nack = (\<lambda>requeue (s, l). (Inr (), (s, l @ [if requeue then Requeued else Dropped])))\<rparr>"

lemma handle_noted:
  "handleDelivery (\<lambda>ev. on_fst (h ev)) (noted_delivery body) (s, l) =
     (case DecodePayoutJob body of
        Inl _ \<Rightarrow> (Inr (), (s, l @ [Dropped]))
      | Inr ev \<Rightarrow>
          (case h ev s of
             (Inl _, s') \<Rightarrow> (Inr (), (s', l @ [Requeued]))
           | (Inr _, s') \<Rightarrow> (Inr (), (s', l @ [Acked]))))"
  by (auto simp: handleDelivery_def noted_delivery_def on_fst_def split: sum.split prod.split)


section \<open>The worker on the broker\<close>

text \<open>The broker beside the worker's own world.\<close>

definition on_snd :: "('b, 'a) action \<Rightarrow> ('w \<times> 'b, 'a) action" where
  "on_snd m w = (case m (snd w) of (r, b) \<Rightarrow> (r, (fst w, b)))"

definition lift_delivery :: "'b raw_delivery \<Rightarrow> ('w \<times> 'b) raw_delivery" where
  "lift_delivery d =
     \<lparr>rd_Body = rd_Body d, rd_Ack = (\<lambda>multiple. on_snd (rd_Ack d multiple)),
      rd_Nack = (\<lambda>multiple requeue. on_snd (rd_Nack d multiple requeue))\<rparr>"

definition lift_next :: "('b \<Rightarrow> 'b consume_arrival \<times> 'b) \<Rightarrow> 'w \<times> 'b \<Rightarrow> ('w \<times> 'b) consume_arrival \<times> ('w \<times> 'b)" where
  "lift_next select_next w =
     (case select_next (snd w) of
        (ConsumeDone e, b) \<Rightarrow> (ConsumeDone e, (fst w, b))
      | (DeliveryArrived d, b) \<Rightarrow> (DeliveryArrived (map_option lift_delivery d), (fst w, b)))"

definition lift_channel :: "'b amqp_channel \<Rightarrow> ('w \<times> 'b) amqp_channel" where
  "lift_channel ch =
     \<lparr>ch_Confirm = (\<lambda>nowait. on_snd (ch_Confirm ch nowait)),
      ch_ExchangeDeclare = (\<lambda>x. on_snd (ch_ExchangeDeclare ch x)),
      ch_QueueDeclare = (\<lambda>x. on_snd (ch_QueueDeclare ch x)),
      ch_QueueBind = (\<lambda>x. on_snd (ch_QueueBind ch x)),
      ch_PublishWithContext = (\<lambda>x. on_snd (ch_PublishWithContext ch x)),
      ch_Consume = (\<lambda>x w. case ch_Consume ch x (snd w) of (r, b) \<Rightarrow> (map_sum id lift_next r, (fst w, b))),
      ch_Close = on_snd (ch_Close ch),
      ch_FirstSelect = (\<lambda>t w. case ch_FirstSelect ch t (snd w) of (a, b) \<Rightarrow> (a, (fst w, b))),
      ch_SecondSelect = (\<lambda>t w. case ch_SecondSelect ch t (snd w) of (a, b) \<Rightarrow> (a, (fst w, b)))\<rparr>"

definition world_client :: "('w \<times> rabbit) amqp_client option" where
  "world_client = Some
     \<lparr>cl_conn = None, cl_channel = Some (lift_channel rabbit_channel),
      cl_publishConfirmTimeout = defaultPublishConfirmTimeout,
      cl_publishConfirmations = True, cl_publishReturns = True\<rparr>"

text \<open>The worker of \<open>cmd/payout-worker/main.go\<close>, with any handler.\<close>

definition rabbit_worker :: "bytes \<Rightarrow> (event \<Rightarrow> ('w, unit) action) \<Rightarrow> ('w \<times> rabbit) worker option" where
  "rabbit_worker q h = Some (Worker_New (Some (Consume world_client)) (Some (\<lambda>ev. on_fst (h ev))) q)"

lemma worker_run_loop:
  assumes "q \<noteq> []" and "q \<in> set (rb_queues b)"
  shows "Worker_Run (rabbit_worker q h) (w, b) =
    consume_loop (lift_next (rabbit_next q)) (handleDelivery (\<lambda>ev. on_fst (h ev))) (w, b)"
  using assms
  by (simp add: Worker_Run_def rabbit_worker_def Worker_New_def Consume_def world_client_def lift_channel_def
      rabbit_channel_def)

text \<open>The state in which one refused message blocks the queue.\<close>

definition blocked :: "bytes \<Rightarrow> bytes \<Rightarrow> 'w \<Rightarrow> 'w \<times> rabbit \<Rightarrow> bool" where
  "blocked q body w s \<longleftrightarrow> fst s = w \<and> rb_choices (snd s) = [] \<and> (\<exists>rest. rb_ready (snd s) = (q, body) # rest)"

lemma blocked_step:
  assumes "DecodePayoutJob body = Inr ev" and "h ev w = (Inl e, w)" and "blocked q body w s"
  obtains d s1 s2 where "lift_next (rabbit_next q) s = (DeliveryArrived (Some d), s1)"
    "handleDelivery (\<lambda>ev. on_fst (h ev)) (amqpDelivery d) s1 = (Inr (), s2)" "blocked q body w s2"
proof -
  obtain b rest where s: "s = (w, b)" "rb_choices b = []" "rb_ready b = (q, body) # rest"
    using assms(3) by (cases s) (auto simp: blocked_def)
  let ?b = "b\<lparr>rb_ready := rest, rb_unacked := rb_unacked b @ [(q, body)]\<rparr>"
  have "lift_next (rabbit_next q) s = (DeliveryArrived (Some (lift_delivery (rabbit_delivery (q, body)))), (w, ?b))"
    by (simp add: s lift_next_def rabbit_next_def next_choice_def take_message_def)
  moreover have "\<exists>b2. handleDelivery (\<lambda>ev. on_fst (h ev)) (amqpDelivery (lift_delivery (rabbit_delivery (q, body)))) (w, ?b) =
      (Inr (), (w, b2)) \<and> rb_choices b2 = [] \<and> rb_ready b2 = (q, body) # rest"
    using assms(1,2)
    by (simp add: handleDelivery_def amqpDelivery_def lift_delivery_def rabbit_delivery_def on_fst_def on_snd_def
        settle_message_def s)
  ultimately show ?thesis using that by (auto simp: blocked_def)
qed

text \<open>A loop that returns has left the blocked states; so it does not return.\<close>

lemma returns_unblocked:
  assumes "DecodePayoutJob body = Inr ev" and "h ev w = (Inl e, w)"
    and run: "consume_loop n hnd s = Some y"
  shows "n = lift_next (rabbit_next q) \<longrightarrow> hnd = handleDelivery (\<lambda>ev. on_fst (h ev)) \<longrightarrow> \<not> blocked q body w s"
  apply (rule consume_loop.raw_induct [OF _ run])
  subgoal premises prems for loop n hnd s y
  proof (intro impI notI)
    assume n: "n = lift_next (rabbit_next q)" and hnd: "hnd = handleDelivery (\<lambda>ev. on_fst (h ev))"
      and "blocked q body w s"
    from blocked_step [where h = h, OF assms(1,2) this(3)] obtain d s1 s2 where step:
      "n s = (DeliveryArrived (Some d), s1)" "hnd (amqpDelivery d) s1 = (Inr (), s2)" "blocked q body w s2"
      unfolding n hnd .
    with prems(2) have "loop n hnd s2 = Some y" by simp
    from prems(1) [OF this] n hnd step(3) show False by simp
  qed
  done

lemma blocked_forever:
  assumes "DecodePayoutJob body = Inr ev" and "h ev w = (Inl e, w)" and "blocked q body w s"
  shows "consume_loop (lift_next (rabbit_next q)) (handleDelivery (\<lambda>ev. on_fst (h ev))) s = None"
  using returns_unblocked [where h = h, OF assms(1,2)] assms(3)
  by (cases "consume_loop (lift_next (rabbit_next q)) (handleDelivery (\<lambda>ev. on_fst (h ev))) s") auto


section \<open>Properties\<close>



text \<open>C32: an unroutable job can be reported as published. When no queue is bound, the broker returns the job
  and confirms it; both notifications are ready, and whether \<open>Publish\<close> returns an error depends on
  which of them the \<open>select\<close> takes: if it takes the confirmation, \<open>Dispatch\<close> reports success although
  no queue received the job.\<close>

theorem unroutable_job_may_be_lost:
  assumes "PayoutExchangeName \<in> set (rb_exchanges b)" and "routes b PayoutExchangeName PayoutRoutingKey = []"
    and "rb_confirms b = []" and "rb_returns b = []" and "rb_choices b = c # cs"
  shows "\<exists>r b'. Publisher_Dispatch
      (Some (NewPayoutPublisher (Some (Publish rabbit_client)) PayoutExchangeName PayoutRoutingKey)) ev b = (r, b') \<and>
    rb_ready b' = rb_ready b \<and> (r = Inr () \<longleftrightarrow> c = PreferConfirm)"
proof -
  obtain body where body: "EncodePayoutJob ev = Inr body" by (simp add: EncodePayoutJob_def)
  show ?thesis
    using publish_unbound [OF assms, of body]
    by (cases c) (auto simp: dispatch_publishes [OF body] split: list.splits choice.splits)
qed

text \<open>C29: an acknowledged job is a settled payout. If the worker acknowledges a delivery, the message was a
  job for a payout in the database, and that payout now has the status the provider answered with, or had
  succeeded before.\<close>

theorem acknowledged_job_is_settled:
  assumes "wf_db d"
    and "handleDelivery (\<lambda>ev. on_fst (HandleEvent codec (worker_handler pg bf cf f) ev)) (noted_delivery body) ((d, p), l) =
      (r, ((d', p'), l @ [Acked]))"
  shows "\<exists>ev q src q'. DecodePayoutJob body = Inr ev \<and> addressed codec ev d q src \<and>
    payout_view d' (pay_ClientID q) (pay_ID q) = Some q' \<and>
    (q' = q \<and> pay_Status q = status_text StatusSucceeded \<or>
     (\<exists>res. f (payment codec q src) p = (Inr res, p') \<and> pay_Status q' = er_Status res \<and> final_result res))"
proof -
  obtain ev where ev: "DecodePayoutJob body = Inr ev"
    and run: "HandleEvent codec (worker_handler pg bf cf f) ev (d, p) = (Inr (), (d', p'))"
    using assms(2) by (auto simp: handle_noted split: sum.splits prod.splits)
  from assms(1) run show ?thesis
  proof (cases rule: handle_cases)
    case (repeated q src)
    with ev addressed_view [OF repeated(1) assms(1)] show ?thesis by blast
  next
    case (recorded res q src)
    with ev executed_advanced [OF assms(1) recorded(1,2,4)] show ?thesis
      by (auto simp: executed_def)
  qed auto
qed


end
