(* ===== verification/Runtime_Guarantees.thy ===== *)
theory Runtime_Guarantees
  imports Runtime Relay_Guarantees Queue_Guarantees
begin

text \<open>
  What the processes make of their parts: the durations they read from the environment, the result of
  \<open>runApplication\<close>, and what a broker that cannot be reached does to the API.
\<close>

section \<open>Durations\<close>

lemma digits_value_Cons: "digits_value (c # s) = digit_value c * 10 ^ length s + digits_value s"
  using digits_value_append [of "[c]" s] digits_value_snoc [of "[]" c] by simp

lemma leadingInt_digits:
  assumes "list_all is_digit s" and "u = [] \<or> \<not> is_digit (hd u)" and "x \<le> 2 ^ 63"
  shows "leadingInt x (s @ u) =
    (if x * 10 ^ length s + digits_value s \<le> 2 ^ 63 then Some (x * 10 ^ length s + digits_value s, u) else None)"
  using assms(1,3)
proof (induction s arbitrary: x)
  case Nil
  with assms(2) show ?case by (cases u) auto
next
  case (Cons c s)
  define y where "y = x * 10 + digit_value c"
  have sum: "x * 10 ^ length (c # s) + digits_value (c # s) = y * 10 ^ length s + digits_value s"
    by (simp add: digits_value_Cons y_def algebra_simps)
  have big: "y \<le> y * 10 ^ length s + digits_value s"
    by (simp add: trans_le_add1)
  show ?case
  proof (cases "y > 2 ^ 63")
    case True
    with Cons.prems sum big show ?thesis by (auto simp: y_def Let_def)
  next
    case False
    then have "\<not> x > 2 ^ 63 div 10" by (auto simp: y_def)
    with False Cons sum show ?thesis by (simp add: y_def Let_def)
  qed
qed

text \<open>The units of a plain duration.\<close>

definition plain_units :: "bytes set" where
  "plain_units = {''ns'', ''us'', ''ms'', ''s'', ''m'', ''h''}"

lemma plain_units:
  assumes "u \<in> plain_units"
  shows "u \<noteq> []" "\<not> is_digit (hd u)" "hd u \<noteq> CHR ''.''" "takeWhile unit_char u = u" "dropWhile unit_char u = []"
    "\<exists>k. unit_nanoseconds u = Some k"
  using assms by (auto simp: plain_units_def unit_char_def is_digit_def byte_in_def byte_def unit_nanoseconds_def)

lemma duration_term_plain:
  assumes "u \<in> plain_units" and "unit_nanoseconds u = Some k"
  shows "duration_term fraction (nat_digits n @ u) = (if n * k \<le> 2 ^ 63 then Some (n * k, []) else None)"
proof -
  note u = plain_units [OF assms(1)]
  have k: "0 < k" using unit_nanoseconds_pos assms(2) by blast
  have lead: "leadingInt 0 (nat_digits n @ u) = (if n \<le> 2 ^ 63 then Some (n, u) else None)"
    using leadingInt_digits [OF nat_digits_all_digits [of n], of u 0] u(2) by simp
  have pre: "length u \<noteq> length (nat_digits n @ u)" by simp
  have fit: "n > 2 ^ 63 div k \<longleftrightarrow> \<not> n * k \<le> 2 ^ 63"
    using less_eq_div_iff_mult_less_eq [OF k, of n "2 ^ 63"] by (simp only: not_le [symmetric])
  have large: "n \<le> 2 ^ 63" if "n * k \<le> 2 ^ 63"
  proof -
    have "n \<le> n * k" using k by simp
    from this that show ?thesis by (rule le_trans)
  qed
  show ?thesis
  proof (cases "n \<le> 2 ^ 63")
    case True
    then have "duration_term fraction (nat_digits n @ u) =
        (if n > 2 ^ 63 div k then None else if n * k > 2 ^ 63 then None else Some (n * k, []))"
      by (simp add: duration_term_def lead pre u(1) u(3) u(4) u(5) assms(2) Let_def del: takeWhile_eq_all_conv)
    with fit show ?thesis by (simp add: not_le)
  next
    case False
    with large have "\<not> n * k \<le> 2 ^ 63" by blast
    with False show ?thesis by (simp add: duration_term_def lead)
  qed
qed

lemma ParseDuration_plain:
  assumes "u \<in> plain_units" and "unit_nanoseconds u = Some k"
  shows "ParseDuration fraction (nat_digits n @ u) = (if n * k < 2 ^ 63 then Some (of_nat (n * k)) else None)"
proof -
  obtain c s where cs: "nat_digits n = c # s" by (cases "nat_digits n") auto
  then have "is_digit c" using nat_digits_all_digits [of n] by simp
  then have sign: "c \<noteq> CHR ''-''" "c \<noteq> CHR ''+''" using sign_not_digit by auto
  have "nat_digits n @ u \<noteq> ''0''"
  proof
    assume "nat_digits n @ u = ''0''"
    with cs plain_units(1) [OF assms(1)] show False by (cases s) auto
  qed
  moreover have "duration_terms fraction 0 (nat_digits n @ u) = (if n * k \<le> 2 ^ 63 then Some (n * k) else None)"
    using duration_term_plain [OF assms, of fraction n]
    by (simp add: duration_terms.simps [of _ _ "nat_digits n @ u"] duration_terms.simps [of _ _ "[]"])
  ultimately show ?thesis
    using cs sign by (auto simp: ParseDuration_def Let_def)
qed

section \<open>runApplication\<close>

lemma firstNonNilError_append:
  "firstNonNilError (xs @ ys) = (if firstNonNilError xs \<noteq> None then firstNonNilError xs else firstNonNilError ys)"
  by (induction xs) auto

definition shutdown_error :: "app_run \<Rightarrow> go_error option" where
  "shutdown_error r =
     (if run_shutdown r \<in> {None, Some ErrServerClosed} then None else Some (Errorf ''shutdown server''))"

text \<open>The value a goroutine sends; one that never ends sends nothing.\<close>

definition server_error :: "app_run \<Rightarrow> go_error option" where
  "server_error r = (case run_serve r of Ended e \<Rightarrow> normalizeServeError e | Blocked \<Rightarrow> None)"

definition relay_error :: "bool \<Rightarrow> app_run \<Rightarrow> go_error option" where
  "relay_error relay r =
     (if relay then (case run_relay r of Ended e \<Rightarrow> normalizeOutboxRelayError e | Blocked \<Rightarrow> None) else None)"

lemma runApplication_result:
  "runApplication True True relay r =
     (if run_serve r \<noteq> Blocked \<and> (if relay then run_relay r \<noteq> Blocked else run_first r \<noteq> RelayDone)
      then Some (firstNonNilError
        (if run_first r = ServerDone then [server_error r, shutdown_error r, relay_error relay r]
         else [shutdown_error r, server_error r, relay_error relay r]))
      else None)"
  by (cases "run_first r"; cases "run_serve r"; cases "run_relay r")
    (auto simp: runApplication_def Let_def shutdown_error_def server_error_def relay_error_def
      split: option.split)

section \<open>The relay of the API process\<close>

text \<open>The relay with the publisher of payout jobs as its dispatcher, on a pool without faults.\<close>

definition publishing_relay ::
  "(bytes \<Rightarrow> bytes \<Rightarrow> bytes \<Rightarrow> ('b, unit) action) \<Rightarrow> relay_config \<Rightarrow> (db \<times> 'b) relay option" where
  "publishing_relay publish config =
     pg_relay (\<lambda>_. None) (\<lambda>_. Committed)
       (\<lambda>ev. off_db (Publisher_Dispatch
          (Some (NewPayoutPublisher (Some publish) PayoutExchangeName PayoutRoutingKey)) ev)) config"

section \<open>Properties\<close>


text \<open>C40: a duration in the environment means what it says. A decimal number with a unit is read as that
  many nanoseconds when they fit the 64-bit \<open>Duration\<close>, and is refused otherwise: a setting never
  wraps around.\<close>

theorem duration_setting_exact:
  assumes "u \<in> plain_units" and "unit_nanoseconds u = Some k" and "env name = nat_digits n @ u"
  shows "loadDurationEnv fraction env name fallback =
    (if n * k < 2 ^ 63 then Inr (of_nat (n * k)) else Inl (Errorf ''time: invalid duration''))"
  using ParseDuration_plain [OF assms(1,2), of fraction n] assms(3)
  by (simp add: loadDurationEnv_def Let_def)

text \<open>C39: an unreachable broker takes the API down. When publishing the oldest due event fails, the relay
  ends with that error, and \<open>runApplication\<close>, although the server is healthy and shuts down in order,
  returns it: the process ends with an error and takes no more payouts. The event itself is released,
  so nothing is lost.\<close>

theorem broker_failure_stops_api:
  assumes "wf_db d" and "next_event (due config (clock (d, b))) d = Some e"
    and "EncodePayoutJob (dispatch_event codec e) = Inr body"
    and "publish PayoutExchangeName PayoutRoutingKey body b = (Inl err, b')" and "err \<noteq> ContextCanceled"
    and "run_first r = RelayDone" and "run_relay r = relay_outcome (Relay_Run codec clock wait (publishing_relay publish config) (d, b))"
    and "run_serve r = Ended (Some ErrServerClosed)" and "run_shutdown r = None"
  shows "Relay_Run codec clock wait (publishing_relay publish config) (d, b) = Some (err, (release_db (ob_ID e) (claim_db e d), b')) \<and>
    api_serve (publishing_relay publish config) r = Some (Some err)"
proof -
  have "Publisher_Dispatch (Some (NewPayoutPublisher (Some publish) PayoutExchangeName PayoutRoutingKey))
      (dispatch_event codec e) b = (Inl err, b')"
    using dispatch_publishes [OF assms(3), of publish b] assms(4) by simp
  from relay_run_refused [where f = "Publisher_Dispatch (Some (NewPayoutPublisher (Some publish) PayoutExchangeName PayoutRoutingKey))"
      and clock = clock and b = b, OF assms(1,2) this]
  have run: "Relay_Run codec clock wait (publishing_relay publish config) (d, b) = Some (err, (release_db (ob_ID e) (claim_db e d), b'))"
    by (simp add: publishing_relay_def)
  have "publishing_relay publish config \<noteq> None" by (simp add: publishing_relay_def pg_relay_def)
  with run assms(5-9) show ?thesis
    by (simp add: api_serve_def runApplication_result relay_outcome_def server_error_def shutdown_error_def
        relay_error_def normalizeServeError_def normalizeOutboxRelayError_def)
qed

end
