(* ===== verification/Relay_Witnesses.thy ===== *)
theory Relay_Witnesses
  imports Execution_Witnesses Relay_Guarantees
begin

text \<open>
  A relay at work in the example world: the outbox holds the event of the example payout, and the
  broker is the list of the events it accepted.
\<close>

definition ex_config :: relay_config where
  "ex_config = \<lparr>rc_PollInterval = 0, rc_ClaimTimeout = 0, rc_EventTypes = [EventTypeProcessPayout]\<rparr>"

definition ex_accept :: "event \<Rightarrow> (event list, unit) action" where
  "ex_accept ev b = (Inr (), b @ [ev])"

definition ex_refuse :: "event \<Rightarrow> (event list, unit) action" where
  "ex_refuse ev b = (Inl ContextDeadlineExceeded, b)"

definition ex_clock :: "db \<times> event list \<Rightarrow> int" where
  "ex_clock _ = 60000000000"

lemma ex_next: "next_event (due ex_config now) ex_db1 = Some ex_event"
  by (simp add: next_event_def due_def wanted_def claimable_def ex_config_def ex_db1_def ex_db_def empty_db_def
      ex_event_def relay_defaults_def Let_def)

lemma ex_now: "db_now ex_db1 = 1000"
  by (simp add: ex_db1_def ex_db_def empty_db_def)

lemma ex_no_faults: "pool_faults (\<lambda>_. None) (\<lambda>_. Committed)"
  by (simp add: pool_faults_def)

lemma ex_round:
  "RunOnce canonical_codec ex_clock
     (pg_relay (\<lambda>_. None) (\<lambda>_. Committed) (\<lambda>ev. off_db (ex_accept ev)) ex_config) (ex_db1, []) =
   (Inr True, (mark_db 17 (claim_db ex_event ex_db1), [dispatch_event canonical_codec ex_event]))"
proof -
  have "next_event (due ex_config (ex_clock (ex_db1, []))) ex_db1 = Some ex_event" by (rule ex_next)
  from round_sends [where clock = ex_clock and f = ex_accept, OF ex_wf_db1 this]
  show ?thesis by (simp add: ex_accept_def ex_event_def)
qed

section \<open>Witnesses\<close>

theorem relay_round_witness:
  "\<exists>e b'. next_event (due ex_config (ex_clock (ex_db1, []))) ex_db1 = Some e \<and>
     ex_accept (dispatch_event canonical_codec e) [] = (Inr (), b') \<and> b' = [dispatch_event canonical_codec ex_event]"
  using relay_round [where codec = canonical_codec and clock = ex_clock and f = ex_accept and config = ex_config and b = "[]",
      OF ex_wf_db1 ex_no_faults]
  by (simp add: ex_round) blast

theorem relay_marks_only_sent_witness:
  "ex_accept (dispatch_event canonical_codec ex_event) [] = (Inr (), [dispatch_event canonical_codec ex_event])"
proof -
  have before: "event_view ex_db1 17 = Some ex_event"
    by (simp add: event_view_def ex_db1_def ex_event_def)
  have status: "ob_Status ex_event \<noteq> ''processed''" by (simp add: ex_event_def)
  have after: "event_view (mark_db 17 (claim_db ex_event ex_db1)) 17 =
      Some (processed_row 1000 (claimed_row 1000 ex_event))"
    using before ex_now by (simp add: mark_db_def claim_db_def event_view_set ex_event_def)
  have "ob_Status (processed_row 1000 (claimed_row 1000 ex_event)) = ''processed''"
    by (simp add: processed_row_def)
  from relay_marks_only_sent [where f = ex_accept, OF ex_wf_db1 ex_no_faults ex_round before status after this]
  show ?thesis .
qed

text \<open>Two events are pending; each relay takes one.\<close>

lemma ex_claims:
  "claimNextPendingEvent (ex_config\<lparr>rc_EventTypes := []\<rparr>)
     (pool_runner (\<lambda>_. None) (\<lambda>_. Committed) pg_event_store) 900 (ex_db2, ()) =
   (Inr (Some (claimed_row 1000 ex_event)), (claim_db ex_event ex_db2, ()))"
  "claimNextPendingEvent (ex_config\<lparr>rc_EventTypes := []\<rparr>)
     (pool_runner (\<lambda>_. None) (\<lambda>_. Committed) pg_event_store) 900 (claim_db ex_event ex_db2, ()) =
   (Inr (Some (claimed_row 1000 ex_webhook_event)),
      (claim_db ex_webhook_event (claim_db ex_event ex_db2), ()))"
proof -
  have now: "db_now ex_db2 = 1000" "db_now (claim_db ex_event ex_db2) = 1000"
    by (simp_all add: claim_db_def set_event_def ex_db2_def ex_db1_def ex_db_def empty_db_def)
  have "next_event (wanted (ex_config\<lparr>rc_EventTypes := []\<rparr>) 900) ex_db2 = Some ex_event"
    by (simp add: next_event_def wanted_def claimable_def ex_config_def ex_db2_def ex_db1_def ex_db_def
        empty_db_def ex_event_def ex_webhook_event_def)
  with claim_body_run [OF ex_wf_db2, of "ex_config\<lparr>rc_EventTypes := []\<rparr>" 900 "()"] now
  show "claimNextPendingEvent (ex_config\<lparr>rc_EventTypes := []\<rparr>)
     (pool_runner (\<lambda>_. None) (\<lambda>_. Committed) pg_event_store) 900 (ex_db2, ()) =
   (Inr (Some (claimed_row 1000 ex_event)), (claim_db ex_event ex_db2, ()))"
    by (simp add: claimNextPendingEvent_def WithinTx_defs within_tx_def pool_runner_def NewDBTxRunner_def
        pg_tx_driver_def claim_db_def)
  have "next_event (wanted (ex_config\<lparr>rc_EventTypes := []\<rparr>) 900) (claim_db ex_event ex_db2) = Some ex_webhook_event"
    by (simp add: next_event_def wanted_def claimable_def claim_db_def claimed_row_def set_event_def ex_config_def
        ex_db2_def ex_db1_def ex_db_def empty_db_def ex_event_def ex_webhook_event_def)
  with claim_body_run [OF wf_claim_db [OF ex_wf_db2], of "ex_config\<lparr>rc_EventTypes := []\<rparr>" 900 ex_event "()"] now
  show "claimNextPendingEvent (ex_config\<lparr>rc_EventTypes := []\<rparr>)
     (pool_runner (\<lambda>_. None) (\<lambda>_. Committed) pg_event_store) 900 (claim_db ex_event ex_db2, ()) =
   (Inr (Some (claimed_row 1000 ex_webhook_event)),
      (claim_db ex_webhook_event (claim_db ex_event ex_db2), ()))"
    by (simp add: claimNextPendingEvent_def WithinTx_defs within_tx_def pool_runner_def NewDBTxRunner_def
        pg_tx_driver_def claim_db_def)
qed


theorem relay_drains_outbox_witness:
  "\<exists>d' b'. Relay_Run canonical_codec ex_clock (\<lambda>w. (Some ContextCanceled, w))
       (pg_relay (\<lambda>_. None) (\<lambda>_. Committed) (\<lambda>ev. off_db (ex_accept ev)) ex_config) (ex_db1, []) =
     Some (ContextCanceled, (d', b')) \<and>
     (\<forall>e \<in> set (tbl_outbox_events d'). due ex_config (ex_clock (d', b')) e \<longrightarrow> ob_ID e \<in> set (db_locked d'))"
  by (rule relay_drains_outbox [OF ex_wf_db1]) (simp_all add: ex_accept_def)

theorem relay_stops_on_dispatch_error_witness:
  "\<exists>w. Relay_Run canonical_codec ex_clock (\<lambda>w. (None, w))
       (pg_relay (\<lambda>_. None) (\<lambda>_. Committed) (\<lambda>ev. off_db (ex_refuse ev)) ex_config) (ex_db1, []) =
     Some (ContextDeadlineExceeded, w)"
proof -
  have "next_event (due ex_config (ex_clock (ex_db1, []))) ex_db1 = Some ex_event" by (rule ex_next)
  moreover have "ex_refuse (dispatch_event canonical_codec ex_event) [] = (Inl ContextDeadlineExceeded, [])"
    by (simp add: ex_refuse_def)
  ultimately show ?thesis
    using relay_stops_on_dispatch_error [where f = ex_refuse and clock = ex_clock, OF ex_wf_db1] by blast
qed

end
