(* ===== verification/Queue_Witnesses.thy ===== *)
theory Queue_Witnesses
  imports Relay_Witnesses Queue_Guarantees
begin

text \<open>The job of the example payout on its way through a broker with one queue.\<close>

definition ex_queue :: bytes where "ex_queue = ''payouts''"

definition ex_rabbit :: rabbit where
  "ex_rabbit = (fresh_rabbit [])
     \<lparr>rb_exchanges := [PayoutExchangeName], rb_queues := [ex_queue],
      rb_bindings := [(PayoutExchangeName, PayoutRoutingKey, ex_queue)]\<rparr>"

abbreviation ex_publisher :: "rabbit payout_publisher option" where
  "ex_publisher \<equiv> Some (NewPayoutPublisher (Some (Publish rabbit_client)) PayoutExchangeName PayoutRoutingKey)"

lemma ex_bound: "bound ex_queue ex_rabbit"
  by (simp add: bound_def ex_rabbit_def fresh_rabbit_def routes_def)

lemma ex_job_texts: "valid_utf8 (ev_ID ex_job)" "valid_utf8 (ev_EventType ex_job)" "valid_utf8 (ev_EntityID ex_job)"
  by (simp_all add: ex_job_def canonical.text_valid_utf8 EventTypeProcessPayout_def byte_def)

lemma ex_dispatch: "\<exists>b'. Publisher_Dispatch ex_publisher ex_job ex_rabbit = (Inr (), b')"
proof -
  obtain body where "EncodePayoutJob ex_job = Inr body" by (simp add: EncodePayoutJob_def)
  moreover have "rb_choices ex_rabbit = []" by (simp add: ex_rabbit_def fresh_rabbit_def)
  ultimately show ?thesis
    by (simp add: dispatch_publishes publish_bound [OF ex_bound] Let_def next_choice_def)
qed



theorem unroutable_job_may_be_lost_witness:
  "\<exists>b'. Publisher_Dispatch ex_publisher ex_job (ex_rabbit\<lparr>rb_bindings := [], rb_choices := [PreferConfirm]\<rparr>) = (Inr (), b') \<and>
     rb_ready b' = []"
  using unroutable_job_may_be_lost
    [of "ex_rabbit\<lparr>rb_bindings := [], rb_choices := [PreferConfirm]\<rparr>" PreferConfirm "[]" ex_job]
  by (simp add: ex_rabbit_def fresh_rabbit_def routes_def)

theorem acknowledged_job_is_settled_witness:
  "\<exists>body q'. handleDelivery (\<lambda>ev. on_fst (HandleEvent canonical_codec ex_handler ev)) (noted_delivery body) ((ex_db1, ()), []) =
       (Inr (), ((ex_db2, ()), [Acked])) \<and>
     payout_view ex_db2 1 16 = Some q' \<and> pay_Status q' = ''succeeded''"
proof -
  obtain body where body: "DecodePayoutJob body = Inr ex_job"
    using payout_job_roundtrip [OF ex_job_texts] by blast
  have run: "handleDelivery (\<lambda>ev. on_fst (HandleEvent canonical_codec ex_handler ev)) (noted_delivery body) ((ex_db1, ()), []) =
      (Inr (), ((ex_db2, ()), [] @ [Acked]))"
    by (simp add: handle_noted body ex_handled)
  obtain ev q src q' where q: "DecodePayoutJob body = Inr ev" "addressed canonical_codec ev ex_db1 q src"
    "payout_view ex_db2 (pay_ClientID q) (pay_ID q) = Some q'"
    "q' = q \<and> pay_Status q = status_text StatusSucceeded \<or>
     (\<exists>res. ex_provider (payment canonical_codec q src) () = (Inr res, ()) \<and> pay_Status q' = er_Status res \<and> final_result res)"
    using acknowledged_job_is_settled [OF ex_wf_db1 run] by (elim exE conjE) (rule that)
  have "q = ex_payout" using q(1,2) body addressed_unique [OF ex_addressed] by simp
  then have "pay_ClientID q = 1" "pay_ID q = 16" by (simp_all add: ex_payout_def)
  moreover have "pay_Status q' = ''succeeded''" using q(4) by (auto simp: ex_answer)
  ultimately show ?thesis using run q(3) by auto
qed


end
