(* ===== verification/Runtime_Witnesses.thy ===== *)
theory Runtime_Witnesses
  imports Runtime_Guarantees Queue_Witnesses
begin

text \<open>The properties of theory \<open>Runtime_Guarantees\<close> at work.\<close>

theorem duration_setting_exact_witness:
  "loadDurationEnv (\<lambda>_ _ _. 0) (\<lambda>_. ''500ms'') ''PROCESSOR_POLL_INTERVAL'' Second = Inr 500000000"
proof -
  have "nat_digits 500 = ''500''" by code_simp
  with duration_setting_exact [of "''ms''" "10 ^ 6" "\<lambda>_. ''500ms''" "''PROCESSOR_POLL_INTERVAL''" 500 "\<lambda>_ _ _. 0" Second]
  show ?thesis by (simp add: plain_units_def unit_nanoseconds_def)
qed

text \<open>A broker whose confirmation never comes.\<close>

lemma ex_timeout:
  "\<exists>b b'. EnsureTopology rabbit_client (NewPayoutTopology ''payout.jobs'') (fresh_rabbit [Expire]) = (Inr (), b) \<and>
     Publish rabbit_client PayoutExchangeName PayoutRoutingKey body b =
       (Inl (Errorf ''rabbitmq publish confirmation timed out''), b')"
proof -
  obtain b where b: "EnsureTopology rabbit_client (NewPayoutTopology ''payout.jobs'') (fresh_rabbit [Expire]) = (Inr (), b)"
    "bound ''payout.jobs'' b" "rb_choices b = [Expire]"
    using topology_binds [of "''payout.jobs''" "[Expire]"] by auto
  then show ?thesis by (auto simp: publish_bound Let_def next_choice_def)
qed

theorem broker_failure_stops_api_witness:
  "\<exists>b w. Relay_Run canonical_codec (\<lambda>_. 60000000000) (\<lambda>w. (None, w))
       (publishing_relay (Publish rabbit_client) ex_config) (ex_db1, b) =
     Some (Errorf ''rabbitmq publish confirmation timed out'', w) \<and>
     api_serve (publishing_relay (Publish rabbit_client) ex_config)
       \<lparr>run_first = RelayDone, run_serve = Ended (Some ErrServerClosed),
        run_relay = Ended (Some (Errorf ''rabbitmq publish confirmation timed out'')), run_shutdown = None\<rparr> =
     Some (Some (Errorf ''rabbitmq publish confirmation timed out''))"
proof -
  obtain body where body: "EncodePayoutJob (dispatch_event canonical_codec ex_event) = Inr body"
    by (simp add: EncodePayoutJob_def)
  obtain b b' where b: "Publish rabbit_client PayoutExchangeName PayoutRoutingKey body b =
      (Inl (Errorf ''rabbitmq publish confirmation timed out''), b')"
    using ex_timeout by blast
  let ?run = "\<lparr>run_first = RelayDone, run_serve = Ended (Some ErrServerClosed),
    run_relay = relay_outcome (Relay_Run canonical_codec (\<lambda>_. 60000000000) (\<lambda>w. (None, w))
      (publishing_relay (Publish rabbit_client) ex_config) (ex_db1, b)), run_shutdown = None\<rparr>"
  have "Relay_Run canonical_codec (\<lambda>_. 60000000000) (\<lambda>w. (None, w))
      (publishing_relay (Publish rabbit_client) ex_config) (ex_db1, b) =
      Some (Errorf ''rabbitmq publish confirmation timed out'', (release_db (ob_ID ex_event) (claim_db ex_event ex_db1), b')) \<and>
    api_serve (publishing_relay (Publish rabbit_client) ex_config) ?run =
      Some (Some (Errorf ''rabbitmq publish confirmation timed out''))"
    by (rule broker_failure_stops_api [where r = ?run and codec = canonical_codec and clock = "\<lambda>_. 60000000000"
          and wait = "\<lambda>w. (None, w)" and config = ex_config and publish = "Publish rabbit_client" and b = b,
        OF ex_wf_db1 ex_next body b]) simp_all
  then show ?thesis by (intro exI [of _ b]) (auto simp: relay_outcome_def)
qed

end
