(* ===== verification/Pipeline.thy ===== *)
theory Pipeline
  imports Relay_Guarantees Execution_Guarantees
begin

text \<open>
  The whole pipeline of a payout: API processes that accept requests, relays that move outbox events to
  the queue, workers that execute the jobs. Each process works through the operations of the theories
  before; what several of them do at one time is an interleaving of their transactions and messages,
  the steps of \<open>pipe_step\<close>. Any number of requests, relays and deliveries may be under way, a pool may
  fail at every transaction, a relay may die between two of its steps, and the queue may deliver a job
  again whenever its delivery has not been acknowledged.
\<close>

section \<open>The state\<close>

text \<open>Where a worker is with a delivery, after which of the parts of \<open>HandleEvent\<close>.\<close>

datatype job_stage =
    Delivered
  | Prepared prepared_execution
  | Answered prepared_execution execute_payout_result
  | Settled

text \<open>
  The database and what the provider keeps; the events relays have claimed and not yet dispatched, and
  those they have dispatched and not yet marked; the ready messages of the queue; the deliveries in the
  hands of the workers. A message is the body \<open>EncodePayoutJob\<close> made.
\<close>

record 'p pipeline =
  pl_db :: db
  pl_provider :: 'p
  pl_claims :: "outbox_row list"
  pl_sent :: "outbox_row list"
  pl_queue :: "bytes list"
  pl_jobs :: "(bytes \<times> job_stage) list"

definition world :: "'p pipeline \<Rightarrow> db \<times> 'p" where
  "world s = (pl_db s, pl_provider s)"

definition put_world :: "db \<times> 'p \<Rightarrow> 'p pipeline \<Rightarrow> 'p pipeline" where
  "put_world w s = s\<lparr>pl_db := fst w, pl_provider := snd w\<rparr>"

definition pipe_start :: "db \<Rightarrow> 'p \<Rightarrow> 'p pipeline" where
  "pipe_start d p =
     \<lparr>pl_db = d, pl_provider = p, pl_claims = [], pl_sent = [], pl_queue = [], pl_jobs = []\<rparr>"

section \<open>What a worker does with a delivery\<close>

definition move_job :: "bytes \<Rightarrow> job_stage \<Rightarrow> job_stage \<Rightarrow> 'p pipeline \<Rightarrow> 'p pipeline" where
  "move_job doc st st' s = s\<lparr>pl_jobs := (doc, st') # remove1 (doc, st) (pl_jobs s)\<rparr>"

text \<open>\<open>Nack(requeue = true)\<close>, or the loss of the worker: the message is ready again.\<close>

definition return_job :: "bytes \<Rightarrow> job_stage \<Rightarrow> 'p pipeline \<Rightarrow> 'p pipeline" where
  "return_job doc st s = s\<lparr>pl_jobs := remove1 (doc, st) (pl_jobs s), pl_queue := doc # pl_queue s\<rparr>"

text \<open>\<open>Ack\<close>, or \<open>Nack(requeue = false)\<close>.\<close>

definition drop_job :: "bytes \<Rightarrow> job_stage \<Rightarrow> 'p pipeline \<Rightarrow> 'p pipeline" where
  "drop_job doc st s = s\<lparr>pl_jobs := remove1 (doc, st) (pl_jobs s)\<rparr>"

text \<open>The worker goes on after a part that succeeded and returns the job after one that failed.\<close>

definition after_part ::
  "bytes \<Rightarrow> job_stage \<Rightarrow> ('a \<Rightarrow> job_stage) \<Rightarrow> 'a result \<Rightarrow> 'p pipeline \<Rightarrow> 'p pipeline" where
  "after_part doc st next r s =
     (case r of Inl e \<Rightarrow> return_job doc st s | Inr x \<Rightarrow> move_job doc st (next x) s)"

definition prepared_stage :: "prepared_execution \<Rightarrow> job_stage" where
  "prepared_stage prep = (if pr_shouldExecute prep then Prepared prep else Settled)"

text \<open>The payload a message carries to the execution, if it carries one.\<close>

definition job_payload :: "pgx_codec \<Rightarrow> bytes \<Rightarrow> parsed_payload option" where
  "job_payload codec doc =
     (case DecodePayoutJob doc of
        Inl _ \<Rightarrow> None
      | Inr ev \<Rightarrow>
          if ev_EventType ev \<noteq> EventTypeProcessPayout then None
          else
            (case parsePayoutCreatedOutboxPayload codec (ev_Payload ev) of
               Inl _ \<Rightarrow> None
             | Inr payload \<Rightarrow> Some payload))"

section \<open>The steps\<close>

definition claim_state :: "outbox_row option result \<Rightarrow> 'p pipeline \<Rightarrow> 'p pipeline" where
  "claim_state r s =
     (case r of Inr (Some row) \<Rightarrow> s\<lparr>pl_claims := row # pl_claims s\<rparr> | _ \<Rightarrow> s)"

inductive pipe_step ::
  "postgres \<Rightarrow> pgx_codec \<Rightarrow> relay_config \<Rightarrow> 'p payout_provider \<Rightarrow> 'p pipeline \<Rightarrow> 'p pipeline \<Rightarrow> bool"
  for pg codec config f
where
  client: "CreateClient ca (pl_db s) = (r, d') \<Longrightarrow> pipe_step pg codec config f s (s\<lparr>pl_db := d'\<rparr>)"
| source: "CreateFundingSource pg fa (pl_db s) = (r, d') \<Longrightarrow> pipe_step pg codec config f s (s\<lparr>pl_db := d'\<rparr>)"
| tick: "db_now (pl_db s) \<le> t \<Longrightarrow> pipe_step pg codec config f s (s\<lparr>pl_db := (pl_db s)\<lparr>db_now := t\<rparr>\<rparr>)"
| request: "Payouts_CreatePayout codec (api_payout_service pg bf cf) inp (pl_db s) = (r, d') \<Longrightarrow>
    pipe_step pg codec config f s (s\<lparr>pl_db := d'\<rparr>)"
| claim: "pool_faults bf cf \<Longrightarrow>
    claimNextPendingEvent config (pool_runner bf cf pg_event_store) before (world s) = (r, (d', p')) \<Longrightarrow>
    pipe_step pg codec config f s (claim_state r (s\<lparr>pl_db := d'\<rparr>))"
| dispatch: "row \<in> set (pl_claims s) \<Longrightarrow> EncodePayoutJob (dispatch_event codec row) = Inr doc \<Longrightarrow>
    pipe_step pg codec config f s
      (s\<lparr>pl_claims := remove1 row (pl_claims s), pl_sent := row # pl_sent s, pl_queue := pl_queue s @ [doc]\<rparr>)"
| unconfirmed: "row \<in> set (pl_claims s) \<Longrightarrow> EncodePayoutJob (dispatch_event codec row) = Inr doc \<Longrightarrow>
    pipe_step pg codec config f s (s\<lparr>pl_queue := pl_queue s @ [doc]\<rparr>)"
| mark: "row \<in> set (pl_sent s) \<Longrightarrow>
    markProcessed (pool_runner bf cf pg_event_store) (ob_ID row) (world s) = (r, (d', p')) \<Longrightarrow>
    pipe_step pg codec config f s (s\<lparr>pl_db := d', pl_sent := remove1 row (pl_sent s)\<rparr>)"
| release: "row \<in> set (pl_claims s) \<Longrightarrow>
    releaseClaim (pool_runner bf cf pg_event_store) (ob_ID row) (world s) = (r, (d', p')) \<Longrightarrow>
    pipe_step pg codec config f s (s\<lparr>pl_db := d', pl_claims := remove1 row (pl_claims s)\<rparr>)"
| forget: "set cs \<subseteq> set (pl_claims s) \<Longrightarrow> set rs \<subseteq> set (pl_sent s) \<Longrightarrow>
    pipe_step pg codec config f s (s\<lparr>pl_claims := cs, pl_sent := rs\<rparr>)"
| deliver: "doc \<in> set (pl_queue s) \<Longrightarrow>
    pipe_step pg codec config f s
      (s\<lparr>pl_queue := remove1 doc (pl_queue s), pl_jobs := (doc, Delivered) # pl_jobs s\<rparr>)"
| prepare: "(doc, Delivered) \<in> set (pl_jobs s) \<Longrightarrow> job_payload codec doc = Some payload \<Longrightarrow>
    prepareExecution (pool_runner bf cf (Some (pg_exec_store pg))) payload (world s) = (r, w) \<Longrightarrow>
    pipe_step pg codec config f s (after_part doc Delivered prepared_stage r (put_world w s))"
| ask: "(doc, Prepared prep) \<in> set (pl_jobs s) \<Longrightarrow>
    f (execute_input codec prep) (pl_provider s) = (r, p') \<Longrightarrow>
    pipe_step pg codec config f s (after_part doc (Prepared prep) (Answered prep) r (s\<lparr>pl_provider := p'\<rparr>))"
| settle: "(doc, Answered prep res) \<in> set (pl_jobs s) \<Longrightarrow>
    recordExecutionResult codec (pool_runner bf cf (Some (pg_exec_store pg))) prep res (world s) = (r, w) \<Longrightarrow>
    pipe_step pg codec config f s (after_part doc (Answered prep res) (\<lambda>_. Settled) r (put_world w s))"
| ack: "(doc, Settled) \<in> set (pl_jobs s) \<Longrightarrow> pipe_step pg codec config f s (drop_job doc Settled s)"
| reject: "(doc, Delivered) \<in> set (pl_jobs s) \<Longrightarrow> DecodePayoutJob doc = Inl e \<Longrightarrow>
    pipe_step pg codec config f s (drop_job doc Delivered s)"
| again: "(doc, st) \<in> set (pl_jobs s) \<Longrightarrow> pipe_step pg codec config f s (return_job doc st s)"

inductive_cases pipe_stepE: "pipe_step pg codec config f s s'"

abbreviation pipe_run ::
  "postgres \<Rightarrow> pgx_codec \<Rightarrow> relay_config \<Rightarrow> 'p payout_provider \<Rightarrow> 'p pipeline \<Rightarrow> 'p pipeline \<Rightarrow> bool" where
  "pipe_run pg codec config f \<equiv> (pipe_step pg codec config f)\<^sup>*\<^sup>*"

end
