(* ===== verification/Pipeline_Guarantees.thy ===== *)
theory Pipeline_Guarantees
  imports Pipeline
begin

text \<open>
  What holds of every state the pipeline reaches. The invariant speaks of the database through four
  sets: the payouts with their clients, the settled ones, the \<open>process_payout\<close> events, and the payouts
  such an event still waits for. The first group of lemmas says how every transaction moves these sets;
  the second that each step of the pipeline keeps the invariant.
\<close>

section \<open>The database in four sets\<close>

definition settled :: "payout_row \<Rightarrow> bool" where
  "settled q \<longleftrightarrow> pay_Status q = status_text StatusSucceeded \<or> pay_Status q = status_text StatusFailed"

definition owner_of :: "payout_row \<Rightarrow> uuid \<times> uuid" where
  "owner_of q = (pay_ID q, pay_ClientID q)"

definition known :: "db \<Rightarrow> (uuid \<times> uuid) set" where
  "known d = owner_of ` set (tbl_payouts d)"

definition settled_ids :: "db \<Rightarrow> uuid set" where
  "settled_ids d = pay_ID ` {q \<in> set (tbl_payouts d). settled q}"

definition job_events :: "db \<Rightarrow> outbox_row set" where
  "job_events d = {e \<in> set (tbl_outbox_events d). ob_EventType e = EventTypeProcessPayout}"

definition event_cores :: "db \<Rightarrow> (uuid \<times> bytes \<times> bytes \<times> timestamp \<times> uuid) set" where
  "event_cores d = outbox_core ` set (tbl_outbox_events d)"

definition awaited_ids :: "db \<Rightarrow> uuid set" where
  "awaited_ids d = ob_EntityID ` {e \<in> job_events d. ob_Status e \<noteq> ''processed''}"

lemma settled_iff_id:
  assumes "wf_db d" and "q \<in> set (tbl_payouts d)"
  shows "pay_ID q \<in> settled_ids d \<longleftrightarrow> settled q"
proof -
  have inj: "inj_on pay_ID (set (tbl_payouts d))"
    using assms(1) by (simp add: wf_db_def wf_payouts_def distinct_map)
  show ?thesis
  proof
    assume "pay_ID q \<in> settled_ids d"
    then obtain r where "r \<in> set (tbl_payouts d)" "settled r" "pay_ID r = pay_ID q"
      by (auto simp: settled_ids_def)
    with inj assms(2) show "settled q" by (metis inj_onD)
  qed (use assms(2) in \<open>simp add: settled_ids_def\<close>)
qed

lemma known_owner: "wf_db d \<Longrightarrow> (i, c) \<in> known d \<Longrightarrow> (i, c') \<in> known d \<Longrightarrow> c = c'"
  by (auto simp: known_def owner_of_def wf_db_def wf_payouts_def distinct_map dest: inj_onD)

text \<open>How a transaction that creates no payout moves the sets.\<close>

definition carries :: "db \<Rightarrow> db \<Rightarrow> bool" where
  "carries d d' \<longleftrightarrow>
     known d' = known d \<and> settled_ids d \<subseteq> settled_ids d' \<and>
     outbox_core ` job_events d' = outbox_core ` job_events d \<and> event_cores d \<subseteq> event_cores d' \<and>
     awaited_ids d \<subseteq> awaited_ids d'"

lemma carries_refl [simp]: "carries d d"
  by (simp add: carries_def)

lemma carries_trans: "carries a b \<Longrightarrow> carries b c \<Longrightarrow> carries a c"
  by (auto simp: carries_def)

text \<open>The sets depend on two tables.\<close>

lemma carries_tables:
  "tbl_payouts d' = tbl_payouts d \<Longrightarrow> tbl_outbox_events d' = tbl_outbox_events d \<Longrightarrow> carries d d'"
  by (simp add: carries_def known_def settled_ids_def job_events_def awaited_ids_def event_cores_def)

text \<open>An update of payouts that keeps their ids and settles some.\<close>

lemma carries_payouts:
  assumes "\<And>q. q \<in> set (tbl_payouts d) \<Longrightarrow> P q \<Longrightarrow> owner_of (g q) = owner_of q \<and> (settled q \<longrightarrow> settled (g q))"
    and "tbl_payouts d' = update_where P g (tbl_payouts d)" and "tbl_outbox_events d' = tbl_outbox_events d"
  shows "carries d d'"
proof -
  define u where "u = (\<lambda>q. if P q then g q else q)"
  have set: "set (tbl_payouts d') = u ` set (tbl_payouts d)"
    using assms(2) by (simp add: set_update_where u_def)
  have u: "owner_of (u q) = owner_of q" "settled q \<longrightarrow> settled (u q)" if "q \<in> set (tbl_payouts d)" for q
    using assms(1) [OF that] by (simp_all add: u_def)
  have "known d' = known d" using u(1) by (simp add: known_def set image_image)
  moreover have "settled_ids d \<subseteq> settled_ids d'"
  proof
    fix i assume "i \<in> settled_ids d"
    then obtain q where q: "q \<in> set (tbl_payouts d)" "settled q" "i = pay_ID q"
      by (auto simp: settled_ids_def)
    with u [OF q(1)] have "u q \<in> set (tbl_payouts d')" "settled (u q)" "pay_ID (u q) = i"
      by (simp_all add: set owner_of_def)
    then show "i \<in> settled_ids d'" unfolding settled_ids_def by blast
  qed
  ultimately show ?thesis
    using assms(3) by (simp add: carries_def job_events_def awaited_ids_def event_cores_def)
qed

text \<open>An update of events that keeps their identifying columns and processes none of them.\<close>

lemma set_event_sets:
  assumes "\<And>e. outbox_core (g e) = outbox_core e"
  shows "known (set_event i g d) = known d" "settled_ids (set_event i g d) = settled_ids d"
    "outbox_core ` job_events (set_event i g d) = outbox_core ` job_events d"
    "event_cores (set_event i g d) = event_cores d"
    "awaited_ids d - ob_EntityID ` {e \<in> job_events d. ob_ID e = i} \<subseteq> awaited_ids (set_event i g d)"
    "(\<And>e. ob_Status (g e) \<noteq> ''processed'') \<Longrightarrow> awaited_ids d \<subseteq> awaited_ids (set_event i g d)"
proof -
  define u where "u = (\<lambda>e. if ob_ID e = i then g e else e)"
  have core: "outbox_core (u e) = outbox_core e" for e using assms by (simp add: u_def)
  then have type: "ob_EventType (u e) = ob_EventType e" "ob_EntityID (u e) = ob_EntityID e" for e
    by (simp_all add: outbox_core_def)
  have all: "set (tbl_outbox_events (set_event i g d)) = u ` set (tbl_outbox_events d)"
    by (simp add: set_event_def set_update_where u_def)
  then show "event_cores (set_event i g d) = event_cores d"
    using core by (simp add: event_cores_def image_image)
  from all have events: "job_events (set_event i g d) = u ` job_events d"
    using type(1) by (auto simp: job_events_def)
  then show "outbox_core ` job_events (set_event i g d) = outbox_core ` job_events d"
    using core by (simp add: image_image)
  have awaited: "ob_EntityID e \<in> awaited_ids (set_event i g d)"
    if "e \<in> job_events d" "ob_Status (u e) \<noteq> ''processed''" for e
  proof -
    have "u e \<in> job_events (set_event i g d)" using that(1) by (simp only: events imageI)
    with that(2) have "ob_EntityID (u e) \<in> awaited_ids (set_event i g d)"
      unfolding awaited_ids_def by blast
    then show ?thesis by (simp only: type(2))
  qed
  show "awaited_ids d - ob_EntityID ` {e \<in> job_events d. ob_ID e = i} \<subseteq> awaited_ids (set_event i g d)"
  proof
    fix j assume j: "j \<in> awaited_ids d - ob_EntityID ` {e \<in> job_events d. ob_ID e = i}"
    then obtain e where e: "e \<in> job_events d" "ob_Status e \<noteq> ''processed''" "j = ob_EntityID e"
      by (auto simp: awaited_ids_def)
    with j have "u e = e" by (auto simp: u_def)
    with e awaited [of e] show "j \<in> awaited_ids (set_event i g d)" by simp
  qed
  show "awaited_ids d \<subseteq> awaited_ids (set_event i g d)" if "\<And>e. ob_Status (g e) \<noteq> ''processed''"
  proof
    fix j assume "j \<in> awaited_ids d"
    then obtain e where e: "e \<in> job_events d" "ob_Status e \<noteq> ''processed''" "j = ob_EntityID e"
      by (auto simp: awaited_ids_def)
    with awaited [of e] that [of e] show "j \<in> awaited_ids (set_event i g d)" by (simp add: u_def)
  qed
  show "known (set_event i g d) = known d" "settled_ids (set_event i g d) = settled_ids d"
    by (simp_all add: known_def settled_ids_def set_event_def)
qed

lemma row_cores [simp]:
  "outbox_core (claimed_row t e) = outbox_core e" "outbox_core (processed_row t e) = outbox_core e"
  "outbox_core (released_row e) = outbox_core e"
  by (simp_all add: outbox_core_def claimed_row_def processed_row_def released_row_def)

lemma row_statuses [simp]:
  "ob_Status (claimed_row t e) = ''processing''" "ob_Status (released_row e) = ''pending''"
  by (simp_all add: claimed_row_def released_row_def)

lemma carries_set_event:
  "(\<And>e. outbox_core (g e) = outbox_core e) \<Longrightarrow> (\<And>e. ob_Status (g e) \<noteq> ''processed'') \<Longrightarrow>
     carries d (set_event i g d)"
  using set_event_sets [where g = g and d = d and i = i] by (simp add: carries_def)

lemma carries_claim: "carries d (claim_db row d)" and carries_release: "carries d (release_db i d)"
  by (simp_all add: claim_db_def release_db_def carries_set_event)

text \<open>The parts of the execution.\<close>

lemma carries_started:
  assumes "wf_db d" and "payout_view d c i = Some q"
  shows "carries d (started q d)"
proof (cases "pay_Status q = status_text StatusPending")
  case True
  have "\<not> settled r" if "r \<in> set (tbl_payouts d)" "pay_ID r = pay_ID q" for r
    using same_id [OF assms that(1)] payout_by_id [OF assms] that(2) True
    by (auto simp: settled_def simp del: status_text.simps)
  then show ?thesis
    using True
    by (intro carries_payouts [where P = "\<lambda>r. pay_ID r = pay_ID q"])
      (auto simp: started_def set_payout_status_def owner_of_def)
qed (simp add: started_def)

lemma final_row_settled: "final_result res \<Longrightarrow> settled (final_row d res q)"
  using final_row_status [of res d q] by (auto simp: settled_def final_result_def simp del: status_text.simps)

lemma finished_sets:
  assumes "final_result res" and "find (\<lambda>r. pay_ID r = pay_ID q) (tbl_payouts d) = Some q"
  shows "carries d (finished res q d)" "pay_ID q \<in> settled_ids (finished res q d)"
proof -
  show "carries d (finished res q d)"
    by (rule carries_payouts [where P = "\<lambda>r. pay_ID r = pay_ID q"])
      (auto simp: finished_def owner_of_def final_row_settled [OF assms(1)])
  have "final_row d res q \<in> set (tbl_payouts (finished res q d))"
    using find_SomeD [OF assms(2)] by (auto simp: finished_def set_update_where)
  with final_row_settled [OF assms(1)] show "pay_ID q \<in> settled_ids (finished res q d)"
    by (auto simp: settled_ids_def image_iff intro: bexI [of _ "final_row d res q"])
qed

lemma carries_announced:
  assumes "announced pg codec q d d'"
  shows "carries d d'"
proof (cases "tbl_outbox_events d' = tbl_outbox_events d")
  case True
  with announced_tables(1) [OF assms] show ?thesis by (rule carries_tables)
next
  case False
  then obtain e where "ob_EventType e = EventTypePayoutResultWebhook"
    "tbl_outbox_events d' = tbl_outbox_events d @ [e]"
    using assms by (auto simp: announced_def split: option.splits if_splits)
  then have "job_events d' = job_events d"
    by (auto simp: job_events_def EventTypePayoutResultWebhook_def EventTypeProcessPayout_def)
  with announced_tables(1) [OF assms] show ?thesis
    using \<open>tbl_outbox_events d' = tbl_outbox_events d @ [e]\<close>
    by (auto simp: carries_def known_def settled_ids_def awaited_ids_def event_cores_def)
qed

text \<open>An execution on record has settled its payout.\<close>

lemma recorded_sets:
  assumes "recordExecutionResultInTx codec prep res (pg_exec_store pg) (d, p) = (Inr u, w)"
  shows "carries d (fst w) \<and> pay_ID (pr_payout prep) \<in> settled_ids (fst w)"
proof -
  obtain q where q: "find (\<lambda>r. pay_ID r = pay_ID (pr_payout prep)) (tbl_payouts d) = Some q"
    using assms
    by (cases "find (\<lambda>r. pay_ID r = pay_ID (pr_payout prep)) (tbl_payouts d)")
      (auto simp: recordExecutionResultInTx_def and_then_def on_db_def UpdatePayoutStatus_run UpdatePayoutFailure_run
        fail_def simp del: status_text.simps split: if_splits sum.splits)
  then have id: "pay_ID (pr_payout prep) = pay_ID q" using find_SomeD [OF q] by simp
  have res: "final_result res" and ann: "announced pg codec (final_row d res q) (finished res q d) (fst w)"
    using record_tx_Inr [OF assms q] by simp_all
  note fin = finished_sets [OF res q [unfolded id]]
  from carries_trans [OF fin(1) carries_announced [OF ann]] fin(2) carries_announced [OF ann] show ?thesis
    by (auto simp: id carries_def)
qed

section \<open>The invariant\<close>

text \<open>The jobs on their way: the payloads of the messages in the queue and in the hands of the workers.\<close>

definition jobs_under_way :: "pgx_codec \<Rightarrow> 'p pipeline \<Rightarrow> (uuid \<times> uuid) set" where
  "jobs_under_way codec s =
     {(i, c). \<exists>doc \<in> set (pl_queue s) \<union> fst ` set (pl_jobs s).
        job_payload codec doc = Some \<lparr>pp_payoutID = i, pp_clientID = c\<rparr>}"

text \<open>Every \<open>process_payout\<close> event carries the two ids of an existing payout.\<close>

definition event_readable :: "pgx_codec \<Rightarrow> (uuid \<times> uuid) set \<Rightarrow> outbox_row \<Rightarrow> bool" where
  "event_readable codec K e \<longleftrightarrow>
     (\<exists>c. (ob_EntityID e, c) \<in> K \<and>
        parsePayoutCreatedOutboxPayload codec (ob_Payload e) =
          Inr \<lparr>pp_payoutID = ob_EntityID e, pp_clientID = c\<rparr>)"

text \<open>What is known of a delivery at each stage.\<close>

fun stage_ok :: "uuid set \<Rightarrow> uuid \<Rightarrow> job_stage \<Rightarrow> bool" where
  "stage_ok S i Delivered \<longleftrightarrow> True"
| "stage_ok S i (Prepared prep) \<longleftrightarrow> pay_ID (pr_payout prep) = i"
| "stage_ok S i (Answered prep res) \<longleftrightarrow> pay_ID (pr_payout prep) = i"
| "stage_ok S i Settled \<longleftrightarrow> i \<in> S"

text \<open>
  The invariant over the sets: \<open>K\<close> the payouts with their clients, \<open>S\<close> the settled payouts, \<open>E\<close> the
  identifying columns of the events, \<open>A\<close> the payouts an unprocessed event waits for.
\<close>

definition track :: "pgx_codec \<Rightarrow> db \<Rightarrow> 'p pipeline \<Rightarrow> bool" where
  "track codec d s \<longleftrightarrow>
     (\<forall>e \<in> job_events d. event_readable codec (known d) e) \<and>
     (\<forall>row \<in> set (pl_claims s) \<union> set (pl_sent s). outbox_core row \<in> event_cores d) \<and>
     (\<forall>row \<in> set (pl_sent s). ob_EventType row = EventTypeProcessPayout \<longrightarrow>
        (\<forall>c. (ob_EntityID row, c) \<in> known d \<longrightarrow>
           ob_EntityID row \<in> settled_ids d \<or> (ob_EntityID row, c) \<in> jobs_under_way codec s)) \<and>
     (\<forall>(i, c) \<in> known d. i \<in> settled_ids d \<or> (i, c) \<in> jobs_under_way codec s \<or> i \<in> awaited_ids d) \<and>
     (\<forall>(doc, st) \<in> set (pl_jobs s). \<forall>payload. job_payload codec doc = Some payload \<longrightarrow>
        stage_ok (settled_ids d) (pp_payoutID payload) st)"

definition pipe_ok :: "pgx_codec \<Rightarrow> 'p pipeline \<Rightarrow> bool" where
  "pipe_ok codec s \<longleftrightarrow> wf_db (pl_db s) \<and> track codec (pl_db s) s"

lemma stage_ok_mono: "stage_ok S i st \<Longrightarrow> S \<subseteq> T \<Longrightarrow> stage_ok T i st"
  by (cases st) auto

lemma readable_core:
  "event_readable codec K e \<longleftrightarrow> event_readable codec K e'" if "outbox_core e = outbox_core e'"
  using that by (simp add: event_readable_def outbox_core_def)

lemma readable_events:
  assumes "outbox_core ` job_events d' = outbox_core ` job_events d" and "\<forall>e \<in> job_events d. event_readable codec K e"
  shows "\<forall>e \<in> job_events d'. event_readable codec K e"
proof
  fix e assume "e \<in> job_events d'"
  then have "outbox_core e \<in> outbox_core ` job_events d" using assms(1) by blast
  then obtain e' where "e' \<in> job_events d" "outbox_core e = outbox_core e'" by auto
  with assms(2) readable_core [of e e'] show "event_readable codec K e" by simp
qed

text \<open>A transaction that carries the sets keeps the tracking.\<close>

lemma track_carries:
  assumes "track codec d s" and "carries d d'"
  shows "track codec d' s"
proof -
  note c = assms(2) [unfolded carries_def]
  have "\<forall>e \<in> job_events d'. event_readable codec (known d') e"
    using c assms(1) readable_events [of d' d codec "known d"] by (simp add: track_def)
  moreover have "stage_ok (settled_ids d') i st" if "stage_ok (settled_ids d) i st" for i st
    using that c by (blast intro: stage_ok_mono)
  ultimately show ?thesis
    using assms(1) c unfolding track_def by (auto 0 3 split: prod.splits)
qed

text \<open>The messages of a state after a worker moved, returned or dropped a job.\<close>

lemma jobs_under_way_same:
  assumes "set (pl_queue s') \<union> fst ` set (pl_jobs s') = set (pl_queue s) \<union> fst ` set (pl_jobs s)"
  shows "jobs_under_way codec s' = jobs_under_way codec s"
  unfolding jobs_under_way_def assms by (rule refl)

lemma fst_remove1: "x \<in> set xs \<Longrightarrow> insert (fst x) (fst ` set (remove1 x xs)) = fst ` set xs"
proof -
  assume x: "x \<in> set xs"
  have "set xs = insert x (set (remove1 x xs))"
    using x by (auto dest: set_remove1_subset [THEN subsetD]) (metis in_set_remove1)
  then show ?thesis by (metis image_insert)
qed


section \<open>Each step keeps the invariant\<close>

lemma jobs_under_way_simps [simp]:
  "jobs_under_way codec (s\<lparr>pl_db := d\<rparr>) = jobs_under_way codec s"
  "jobs_under_way codec (s\<lparr>pl_provider := p\<rparr>) = jobs_under_way codec s"
  "jobs_under_way codec (s\<lparr>pl_claims := cs\<rparr>) = jobs_under_way codec s"
  "jobs_under_way codec (s\<lparr>pl_sent := rs\<rparr>) = jobs_under_way codec s"
  by (simp_all add: jobs_under_way_def)

lemma track_irrelevant [simp]:
  "track codec d (s\<lparr>pl_db := d'\<rparr>) = track codec d s" "track codec d (s\<lparr>pl_provider := p\<rparr>) = track codec d s"
  by (simp_all add: track_def)

lemma track_fewer:
  assumes "track codec d s" and "set cs \<subseteq> set (pl_claims s)" and "set rs \<subseteq> set (pl_sent s)"
  shows "track codec d (s\<lparr>pl_claims := cs, pl_sent := rs\<rparr>)"
  using assms unfolding track_def by (auto 0 3)

text \<open>The messages may move and multiply, and a job may go when its payout is settled.\<close>

lemma track_jobs:
  assumes "track codec d s" and "pl_claims s' = pl_claims s" and "pl_sent s' = pl_sent s"
    and way: "\<And>i c. (i, c) \<in> jobs_under_way codec s \<Longrightarrow> (i, c) \<in> jobs_under_way codec s' \<or> i \<in> settled_ids d"
    and new: "\<And>doc st payload. (doc, st) \<in> set (pl_jobs s') \<Longrightarrow> (doc, st) \<notin> set (pl_jobs s) \<Longrightarrow>
      job_payload codec doc = Some payload \<Longrightarrow> stage_ok (settled_ids d) (pp_payoutID payload) st"
  shows "track codec d s'"
proof -
  note t = assms(1) [unfolded track_def]
  have "stage_ok (settled_ids d) (pp_payoutID payload) st"
    if "(doc, st) \<in> set (pl_jobs s')" "job_payload codec doc = Some payload" for doc st payload
    using t new [OF that(1) _ that(2)] that(2) by (cases "(doc, st) \<in> set (pl_jobs s)") auto
  moreover have "\<forall>(i, c) \<in> known d. i \<in> settled_ids d \<or> (i, c) \<in> jobs_under_way codec s' \<or> i \<in> awaited_ids d"
    using t way by blast
  moreover have "\<forall>row \<in> set (pl_sent s). ob_EventType row = EventTypeProcessPayout \<longrightarrow>
        (\<forall>c. (ob_EntityID row, c) \<in> known d \<longrightarrow>
           ob_EntityID row \<in> settled_ids d \<or> (ob_EntityID row, c) \<in> jobs_under_way codec s')"
    using t way by blast
  ultimately show ?thesis
    using t unfolding track_def assms(2,3) by (intro conjI) (auto split: prod.split)
qed

lemma track_more_jobs:
  assumes "track codec d s" and "jobs_under_way codec s \<subseteq> jobs_under_way codec s'"
    and "pl_claims s' = pl_claims s" and "pl_sent s' = pl_sent s"
    and "\<And>doc st payload. (doc, st) \<in> set (pl_jobs s') \<Longrightarrow> (doc, st) \<notin> set (pl_jobs s) \<Longrightarrow>
      job_payload codec doc = Some payload \<Longrightarrow> stage_ok (settled_ids d) (pp_payoutID payload) st"
  shows "track codec d s'"
  using assms(1,3,4) subsetD [OF assms(2)] assms(5) by (intro track_jobs [OF assms(1)]) auto

lemma track_move:
  assumes "track codec d s" and "(doc, st) \<in> set (pl_jobs s)"
    and "\<And>payload. job_payload codec doc = Some payload \<Longrightarrow> stage_ok (settled_ids d) (pp_payoutID payload) st'"
  shows "track codec d (move_job doc st st' s)"
proof (rule track_more_jobs [OF assms(1)])
  have "fst ` set (pl_jobs (move_job doc st st' s)) = fst ` set (pl_jobs s)"
    using fst_remove1 [OF assms(2)] by (simp add: move_job_def)
  then have "jobs_under_way codec (move_job doc st st' s) = jobs_under_way codec s"
    by (intro jobs_under_way_same) (simp add: move_job_def)
  then show "jobs_under_way codec s \<subseteq> jobs_under_way codec (move_job doc st st' s)" by simp
qed (use assms(3) in \<open>auto simp: move_job_def dest: set_remove1_subset [THEN subsetD]\<close>)

lemma track_return:
  assumes "track codec d s" and "(doc, st) \<in> set (pl_jobs s)"
  shows "track codec d (return_job doc st s)"
proof (rule track_more_jobs [OF assms(1)])
  have "set (pl_queue (return_job doc st s)) \<union> fst ` set (pl_jobs (return_job doc st s)) =
      set (pl_queue s) \<union> fst ` set (pl_jobs s)"
    using fst_remove1 [OF assms(2)] by (auto simp: return_job_def)
  then have "jobs_under_way codec (return_job doc st s) = jobs_under_way codec s"
    by (rule jobs_under_way_same)
  then show "jobs_under_way codec s \<subseteq> jobs_under_way codec (return_job doc st s)" by simp
qed (auto simp: return_job_def dest: set_remove1_subset [THEN subsetD])

lemma track_deliver:
  assumes "track codec d s" and "doc \<in> set (pl_queue s)"
  shows "track codec d (s\<lparr>pl_queue := remove1 doc (pl_queue s), pl_jobs := (doc, Delivered) # pl_jobs s\<rparr>)"
    (is "track codec d ?s")
proof (rule track_more_jobs [OF assms(1)])
  have "set (pl_queue s) \<subseteq> insert doc (set (remove1 doc (pl_queue s)))"
    using in_set_remove1 by fastforce
  then show "jobs_under_way codec s \<subseteq> jobs_under_way codec ?s"
    unfolding jobs_under_way_def by (auto 0 4)
qed auto

lemma track_drop:
  assumes "track codec d s" and "(doc, st) \<in> set (pl_jobs s)"
    and "\<And>payload. job_payload codec doc = Some payload \<Longrightarrow> pp_payoutID payload \<in> settled_ids d"
  shows "track codec d (drop_job doc st s)"
proof (rule track_jobs [OF assms(1)])
  fix i c assume "(i, c) \<in> jobs_under_way codec s"
  then obtain doc' where doc': "doc' \<in> set (pl_queue s) \<union> fst ` set (pl_jobs s)"
    "job_payload codec doc' = Some \<lparr>pp_payoutID = i, pp_clientID = c\<rparr>"
    by (auto simp: jobs_under_way_def)
  show "(i, c) \<in> jobs_under_way codec (drop_job doc st s) \<or> i \<in> settled_ids d"
  proof (cases "doc' = doc")
    case True
    with assms(3) [OF doc'(2) [unfolded True]] show ?thesis by simp
  next
    case False
    then have "doc' \<in> set (pl_queue (drop_job doc st s)) \<union> fst ` set (pl_jobs (drop_job doc st s))"
      using doc'(1) fst_remove1 [OF assms(2), symmetric] by (simp add: drop_job_def)
    with doc'(2) show ?thesis unfolding jobs_under_way_def by blast
  qed
qed (auto simp: drop_job_def dest: set_remove1_subset [THEN subsetD])

lemma after_part_updates:
  "after_part doc st next r (s\<lparr>pl_db := d\<rparr>) = (after_part doc st next r s)\<lparr>pl_db := d\<rparr>"
  "after_part doc st next r (s\<lparr>pl_provider := p\<rparr>) = (after_part doc st next r s)\<lparr>pl_provider := p\<rparr>"
  "pl_db (after_part doc st next r s) = pl_db s"
  by (cases s; cases r; simp add: after_part_def return_job_def move_job_def)+

lemma track_after_part:
  assumes "track codec d s" and "(doc, st) \<in> set (pl_jobs s)"
    and "\<And>x payload. r = Inr x \<Longrightarrow> job_payload codec doc = Some payload \<Longrightarrow>
      stage_ok (settled_ids d) (pp_payoutID payload) (next x)"
  shows "track codec d (after_part doc st next r s)"
  using assms by (cases r) (auto simp: after_part_def track_return track_move)


text \<open>A claimed row and its row in the table.\<close>

lemma held_job_event:
  assumes "track codec d s" and "row \<in> set (pl_claims s) \<union> set (pl_sent s)"
    and "ob_EventType row = EventTypeProcessPayout"
  obtains e c where "e \<in> job_events d" "outbox_core row = outbox_core e" "(ob_EntityID row, c) \<in> known d"
    "parsePayoutCreatedOutboxPayload codec (ob_Payload row) = Inr \<lparr>pp_payoutID = ob_EntityID row, pp_clientID = c\<rparr>"
proof -
  note t = assms(1) [unfolded track_def]
  from t assms(2) have "outbox_core row \<in> event_cores d" by blast
  then obtain e where e: "e \<in> set (tbl_outbox_events d)" "outbox_core row = outbox_core e"
    by (auto simp: event_cores_def)
  with assms(3) have "e \<in> job_events d" by (simp add: job_events_def outbox_core_def)
  with t have "event_readable codec (known d) e" by blast
  with readable_core [OF e(2)] have "event_readable codec (known d) row" by simp
  with that e(2) \<open>e \<in> job_events d\<close> show ?thesis by (auto simp: event_readable_def)
qed

text \<open>A creation adds a payout together with the event it waits for.\<close>

definition jsonb_keeps_payload :: "postgres \<Rightarrow> bool" where
  "jsonb_keeps_payload pg \<longleftrightarrow>
     (\<forall>i c doc t. MarshalProcessPayoutPayload i c = Inr doc \<and> pg_jsonb pg doc = Some t \<longrightarrow>
        UnmarshalProcessPayoutPayload t = UnmarshalProcessPayoutPayload doc)"

lemma created_payload:
  assumes "uuid_codec (ScanUUID codec) (UUIDString codec)" and "jsonb_keeps_payload pg"
    and "marshalPayoutCreatedOutboxPayload codec p = Inr doc" and "pg_jsonb pg doc = Some t"
  shows "parsePayoutCreatedOutboxPayload codec t = Inr \<lparr>pp_payoutID = pay_ID p, pp_clientID = pay_ClientID p\<rparr>"
proof -
  let ?i = "UUIDString codec (pay_ID p)" and ?c = "UUIDString codec (pay_ClientID p)"
  have m: "MarshalProcessPayoutPayload ?i ?c = Inr doc"
    using assms(3) by (simp add: marshalPayoutCreatedOutboxPayload_def)
  then have "UnmarshalProcessPayoutPayload doc = Inr \<lparr>ppp_PayoutID = ?i, ppp_ClientID = ?c\<rparr>"
    using process_payout_payload_roundtrip [of ?i ?c] uuid_codec.text_valid_utf8 [OF assms(1)] by auto
  with assms(2,4) m have "UnmarshalProcessPayoutPayload t = Inr \<lparr>ppp_PayoutID = ?i, ppp_ClientID = ?c\<rparr>"
    unfolding jsonb_keeps_payload_def by metis
  then show ?thesis
    by (simp add: parsePayoutCreatedOutboxPayload_def uuid_codec.scan_text [OF assms(1)])
qed

lemma readable_more: "event_readable codec K e \<Longrightarrow> K \<subseteq> L \<Longrightarrow> event_readable codec L e"
  by (auto simp: event_readable_def)

lemma track_created:
  assumes "uuid_codec (ScanUUID codec) (UUIDString codec)" and "jsonb_keeps_payload pg"
    and "track codec d s" and "wf_db d'" and "payout_created pg codec rq d p d'"
  shows "track codec d' s"
proof -
  note t = assms(3) [unfolded track_def]
  obtain e doc where e: "ob_EventType e = EventTypeProcessPayout" "ob_EntityID e = pay_ID p"
    "ob_Status e = ''pending''" "marshalPayoutCreatedOutboxPayload codec p = Inr doc"
    "pg_jsonb pg doc = Some (ob_Payload e)" "pay_Status p = ''pending''"
    "tbl_payouts d' = tbl_payouts d @ [p]" "tbl_outbox_events d' = tbl_outbox_events d @ [e]"
    using assms(5) by (auto simp: payout_created_def)
  have sets: "known d' = insert (owner_of p) (known d)" "settled_ids d' = settled_ids d"
    "job_events d' = insert e (job_events d)" "event_cores d' = insert (outbox_core e) (event_cores d)"
    using e by (auto simp: known_def settled_ids_def job_events_def event_cores_def settled_def)
  have "{x \<in> job_events d'. ob_Status x \<noteq> ''processed''} = insert e {x \<in> job_events d. ob_Status x \<noteq> ''processed''}"
    using sets(3) e(3) by auto
  then have awaited: "awaited_ids d' = insert (pay_ID p) (awaited_ids d)"
    by (simp add: awaited_ids_def e(2))
  have "event_readable codec (known d') e"
    using created_payload [OF assms(1,2) e(4,5)] e(2) by (auto simp: event_readable_def sets owner_of_def)
  with t have "\<forall>x \<in> job_events d'. event_readable codec (known d') x"
    by (auto simp: sets intro: readable_more)
  moreover have "ob_EntityID row \<in> settled_ids d' \<or> (ob_EntityID row, c) \<in> jobs_under_way codec s"
    if row: "row \<in> set (pl_sent s)" "ob_EventType row = EventTypeProcessPayout" and c: "(ob_EntityID row, c) \<in> known d'"
    for row c
  proof -
    from assms(3) row obtain c' where c': "(ob_EntityID row, c') \<in> known d"
      by (auto elim: held_job_event)
    then have "(ob_EntityID row, c') \<in> known d'" by (simp add: sets)
    from known_owner [OF assms(4) this c] c' have "(ob_EntityID row, c) \<in> known d" by simp
    with t row show ?thesis by (auto simp: sets)
  qed
  ultimately show ?thesis
    using t unfolding track_def by (auto simp: sets awaited owner_of_def)
qed

text \<open>An event may be processed when its job is under way.\<close>

lemma track_mark:
  assumes "track codec d s" and "wf_db d" and "row \<in> set (pl_sent s)"
  shows "track codec (mark_db (ob_ID row) d) s"
proof -
  let ?d = "mark_db (ob_ID row) d"
  note t = assms(1) [unfolded track_def]
  note sets = set_event_sets [where g = "processed_row (db_now d)" and d = d and i = "ob_ID row",
      simplified row_cores, folded mark_db_def]
  have readable: "\<forall>e \<in> job_events ?d. event_readable codec (known ?d) e"
    using t readable_events [OF sets(3), of codec "known d"] by (simp add: sets)
  have "i \<in> settled_ids d \<or> (i, c) \<in> jobs_under_way codec s \<or> i \<in> awaited_ids ?d"
    if i: "(i, c) \<in> known d" for i c
  proof -
    consider "i \<in> settled_ids d \<or> (i, c) \<in> jobs_under_way codec s" | "i \<in> awaited_ids ?d"
      | e where "e \<in> job_events d" "ob_ID e = ob_ID row" "i = ob_EntityID e"
      using t i sets(5) by blast
    then show ?thesis
    proof cases
      case (3 e)
      from t assms(3) have "outbox_core row \<in> event_cores d" by blast
      then obtain e' where e': "e' \<in> set (tbl_outbox_events d)" "outbox_core row = outbox_core e'"
        by (auto simp: event_cores_def)
      have "inj_on ob_ID (set (tbl_outbox_events d))"
        using assms(2) by (simp add: wf_db_def wf_outbox_events_def distinct_map)
      with 3 e' have "e' = e" by (auto simp: job_events_def outbox_core_def dest: inj_onD)
      with e' 3 have "ob_EventType row = EventTypeProcessPayout" "ob_EntityID row = i"
        by (auto simp: outbox_core_def job_events_def)
      with t assms(3) i show ?thesis by blast
    qed auto
  qed
  with t readable show ?thesis
    unfolding track_def by (auto simp: sets(1-4))
qed

text \<open>A dispatched message carries the payload of its event.\<close>

lemma dispatched_payload:
  assumes "uuid_codec (ScanUUID codec) (UUIDString codec)" and "ob_EventType row = EventTypeProcessPayout"
    and "EncodePayoutJob (dispatch_event codec row) = Inr doc"
    and "parsePayoutCreatedOutboxPayload codec (ob_Payload row) = Inr payload"
  shows "job_payload codec doc = Some payload"
proof -
  have "valid_utf8 EventTypeProcessPayout" by (simp add: EventTypeProcessPayout_def byte_def)
  with payout_job_roundtrip [of "dispatch_event codec row"] assms(2,3) uuid_codec.text_valid_utf8 [OF assms(1)]
  have "DecodePayoutJob doc = Inr (dispatch_event codec row)" by (auto simp: dispatch_event_def)
  with assms(2,4) show ?thesis by (simp add: job_payload_def dispatch_event_def)
qed


lemma track_dispatch:
  assumes "uuid_codec (ScanUUID codec) (UUIDString codec)" and "track codec d s" and "wf_db d"
    and "row \<in> set (pl_claims s)" and "EncodePayoutJob (dispatch_event codec row) = Inr doc"
    and "set rs \<subseteq> insert row (set (pl_sent s))" and "set cs \<subseteq> set (pl_claims s)"
  shows "track codec d (s\<lparr>pl_claims := cs, pl_sent := rs, pl_queue := pl_queue s @ [doc]\<rparr>)"
    (is "track codec d ?s")
proof -
  let ?q = "s\<lparr>pl_queue := pl_queue s @ [doc]\<rparr>"
  have way: "jobs_under_way codec s \<subseteq> jobs_under_way codec ?q" "jobs_under_way codec ?s = jobs_under_way codec ?q"
    by (auto simp: jobs_under_way_def)
  from track_more_jobs [OF assms(2) way(1)] have q: "track codec d ?q" by simp
  have "(ob_EntityID row, c) \<in> jobs_under_way codec ?q"
    if type: "ob_EventType row = EventTypeProcessPayout" and c: "(ob_EntityID row, c) \<in> known d" for c
  proof -
    obtain c' where c': "(ob_EntityID row, c') \<in> known d"
      "parsePayoutCreatedOutboxPayload codec (ob_Payload row) = Inr \<lparr>pp_payoutID = ob_EntityID row, pp_clientID = c'\<rparr>"
      using assms(2,4) type by (auto elim: held_job_event)
    with known_owner [OF assms(3) c] dispatched_payload [OF assms(1) type assms(5) c'(2)] show ?thesis
      by (auto simp: jobs_under_way_def)
  qed
  note this_row = this
  note t = q [unfolded track_def, simplified]
  have "ob_EntityID x \<in> settled_ids d \<or> (ob_EntityID x, c) \<in> jobs_under_way codec ?q"
    if "x \<in> set rs" "ob_EventType x = EventTypeProcessPayout" "(ob_EntityID x, c) \<in> known d" for x c
    using t this_row that assms(6) by (cases "x = row") auto
  moreover have "outbox_core x \<in> event_cores d" if "x \<in> set cs \<union> set rs" for x
    using t that assms(4,6,7) by (cases "x = row") auto
  ultimately show ?thesis
    using t unfolding track_def by (auto simp: way(2))
qed

text \<open>The parts of the execution, with what they find and leave.\<close>

lemma pipe_prepare:
  assumes "wf_db d"
    and "prepareExecution (pool_runner bf cf (Some (pg_exec_store pg))) payload (d, p) = (r, (d', p'))"
  shows "wf_db d' \<and> carries d d' \<and>
    (\<forall>prep. r = Inr prep \<longrightarrow> stage_ok (settled_ids d') (pp_payoutID payload) (prepared_stage prep))"
proof -
  have effect: "wf_db d1 \<and> carries d d1 \<and> stage_ok (settled_ids d1) (pp_payoutID payload) (prepared_stage prep)"
    if prep: "preparation d payload = (Inr prep, d1)" for prep d1
    using prep
  proof (cases rule: preparation_Inr)
    case (1 q src)
    note q = payout_by_id [OF assms(1) 1(1)]
    have wf: "wf_db (started q d)"
      using assms(1) unfolding started_def set_payout_status_def
      by (auto intro!: wf_put_payouts simp: indexed_external_id_def payout_ok_def simp del: status_text.simps)
    from 1(3) show ?thesis
    proof (elim disjE conjE)
      assume "d1 = started q d" "prep = \<lparr>pr_payout = running d q, pr_fundingSource = src, pr_amount = amount_text q,
        pr_shouldExecute = True\<rparr>"
      with wf carries_started [OF assms(1) 1(1)] q show ?thesis by (simp add: prepared_stage_def)
    next
      assume old: "pay_Status q = status_text StatusSucceeded" "d1 = d" "\<not> pr_shouldExecute prep"
      have "q \<in> set (tbl_payouts d)" using find_SomeD [OF q(1)] by simp
      then have "pp_payoutID payload \<in> settled_ids d"
        using old(1) q(2) settled_iff_id [OF assms(1), of q] by (simp add: settled_def)
      with old assms(1) show ?thesis by (simp add: prepared_stage_def)
    qed
  qed
  from assms show ?thesis
    by (cases rule: prepare_run) (use assms(1) effect in auto)
qed

lemma wf_record_tx:
  assumes "wf_db d" and "recordExecutionResultInTx codec prep res (pg_exec_store pg) (d, p) = (Inr u, w)"
  shows "wf_db (fst w)"
proof -
  have rt: "reflp (db_rel wf_step)" "transp (db_rel wf_step)"
    by (simp_all add: reflp_db_rel transp_db_rel reflp_wf_step transp_wf_step)
  have "keeps (db_rel wf_step) (recordExecutionResultInTx codec prep res (pg_exec_store pg))"
    unfolding recordExecutionResultInTx_def createWebhookOutboxEventIfConfigured_def
    by (auto intro!: keeps_intros keeps_lift_result rt keeps_on_db keeps_wf simp: Let_def)
  from keepsD [OF this, of "(d, p)"] assms show ?thesis by (simp add: db_rel_def wf_step_def)
qed

lemma pipe_record:
  assumes "wf_db d"
    and "recordExecutionResult codec (pool_runner bf cf (Some (pg_exec_store pg))) prep res (d, p) = (r, (d', p'))"
  shows "wf_db d' \<and> carries d d' \<and> (r = Inr () \<longrightarrow> pay_ID (pr_payout prep) \<in> settled_ids d')"
proof -
  have body: "wf_db d' \<and> carries d d' \<and> pay_ID (pr_payout prep) \<in> settled_ids d'"
    if "with_store (recordExecutionResultInTx codec prep res) (Some (pg_exec_store pg)) (d, p) = (Inr u, (d', p'))" for u
    using that recorded_sets [of codec prep res pg d p u "(d', p')"] wf_record_tx [OF assms(1), of codec prep res pg p u "(d', p')"]
    by (simp add: with_store_def)
  from assms(2) [unfolded recordExecutionResult_def] show ?thesis
    by (cases rule: pool_execution.run_cases) (use assms(1) body in auto)
qed


text \<open>The other transactions.\<close>

lemma carries_client: "CreateClient a d = (r, d') \<Longrightarrow> carries d d'"
  and carries_source: "CreateFundingSource pg fa d = (rf, d') \<Longrightarrow> carries d d'"
  by (auto simp: CreateClient_def CreateFundingSource_def insert_row_def split: sum.splits option.splits
      intro!: carries_tables)

lemma pipe_claim:
  assumes "wf_db d" and "track codec d s" and "pool_faults bf cf"
    and "claimNextPendingEvent config (pool_runner bf cf pg_event_store) before (d, p) = (r, (d', p'))"
  shows "wf_db d' \<and> track codec d' (claim_state r s)"
proof -
  have held: "track codec (claim_db row d) (s\<lparr>pl_claims := claimed_row t row # pl_claims s\<rparr>)"
    if "next_event (wanted config before) d = Some row" for row t
  proof -
    have "row \<in> set (tbl_outbox_events d)" by (rule next_event_Some [OF that])
    then have "outbox_core (claimed_row t row) \<in> event_cores (claim_db row d)"
      using carries_claim [of d row] by (auto simp: carries_def event_cores_def)
    with track_carries [OF assms(2) carries_claim [of d row]] show ?thesis
      unfolding track_def by simp
  qed
  from assms(1,3,4) show ?thesis
  proof (cases rule: claim_tx_cases)
    case (unacknowledged e row)
    with track_carries [OF assms(2) carries_claim [of d row]] wf_claim_db [OF assms(1)] show ?thesis
      by (simp add: claim_state_def)
  next
    case (claimed row)
    with held wf_claim_db [OF assms(1)] show ?thesis by (simp add: claim_state_def)
  qed (use assms(1,2) in \<open>simp_all add: claim_state_def\<close>)
qed

lemma pipe_request:
  assumes "uuid_codec (ScanUUID codec) (UUIDString codec)" and "jsonb_keeps_payload pg"
    and "wf_db d" and "track codec d s"
    and "Payouts_CreatePayout codec (api_payout_service pg bf cf) inp d = (r, d')"
  shows "wf_db d' \<and> track codec d' s"
proof -
  have wf: "wf_db d'" by (rule keeps_wfD [OF api_create_wf assms(5,3)])
  from assms(5) show ?thesis
    by (cases rule: api_create_state) (use assms(4) wf track_created [OF assms(1,2,4)] in auto)
qed

lemma pipe_step_ok:
  assumes "pipe_step pg codec config f s s'"
    and "uuid_codec (ScanUUID codec) (UUIDString codec)" and "jsonb_keeps_payload pg" and "pipe_ok codec s"
  shows "pipe_ok codec s'"
proof -
  have wf: "wf_db (pl_db s)" and t: "track codec (pl_db s) s" using assms(4) by (simp_all add: pipe_ok_def)
  note ok = pipe_ok_def track_carries
  from assms(1) show ?thesis
  proof cases
    case (client ca r d')
    with wf t keeps_wfD [OF wf_CreateClient client(2)] carries_client [OF client(2)] show ?thesis
      by (simp add: ok)
  next
    case (source fa r d')
    with wf t keeps_wfD [OF wf_CreateFundingSource source(2)] carries_source [OF source(2)] show ?thesis
      by (simp add: ok)
  next
    case (tick t')
    have "wf_db ((pl_db s)\<lparr>db_now := t'\<rparr>)" using wf by (simp add: wf_db_def id_sets)
    moreover have "carries (pl_db s) ((pl_db s)\<lparr>db_now := t'\<rparr>)" by (rule carries_tables) simp_all
    ultimately show ?thesis using tick t by (simp add: ok)
  next
    case (request bf cf inp r d')
    with pipe_request [OF assms(2,3) wf t] show ?thesis by (simp add: pipe_ok_def)
  next
    case (claim bf cf before r d' p')
    have "pl_db (claim_state r (s\<lparr>pl_db := d'\<rparr>)) = d'" by (auto simp: claim_state_def split: sum.split option.split)
    moreover have "claim_state r (s\<lparr>pl_db := d'\<rparr>) = (claim_state r s)\<lparr>pl_db := d'\<rparr>"
      by (auto simp: claim_state_def split: sum.split option.split)
    ultimately show ?thesis
      using pipe_claim [OF wf t claim(2) claim(3) [unfolded world_def]] claim(1) by (simp add: pipe_ok_def)
  next
    case (dispatch row doc)
    with track_dispatch [OF assms(2) t wf dispatch(2,3), of "row # pl_sent s" "remove1 row (pl_claims s)"] wf show ?thesis
      by (simp add: pipe_ok_def set_remove1_subset)
  next
    case (unconfirmed row doc)
    with track_dispatch [OF assms(2) t wf unconfirmed(2,3), of "pl_sent s" "pl_claims s"] wf show ?thesis
      by (simp add: pipe_ok_def subset_insertI)
  next
    case (mark row bf cf r d' p')
    have fewer: "track codec d' (s\<lparr>pl_db := d', pl_sent := remove1 row (pl_sent s)\<rparr>)" if "track codec d' s"
      using track_fewer [of codec d' "s\<lparr>pl_db := d'\<rparr>" "pl_claims s" "remove1 row (pl_sent s)"] that
      by (simp add: set_remove1_subset)
    from mark(3) [unfolded world_def] show ?thesis
      by (cases rule: mark_tx_cases) (use mark(1,2) wf t fewer track_mark [OF t wf] wf_mark_db in \<open>auto simp: pipe_ok_def\<close>)
  next
    case (release row bf cf r d' p')
    have fewer: "track codec d' (s\<lparr>pl_db := d', pl_claims := remove1 row (pl_claims s)\<rparr>)" if "track codec d' s"
      using track_fewer [of codec d' "s\<lparr>pl_db := d'\<rparr>" "remove1 row (pl_claims s)" "pl_sent s"] that
      by (simp add: set_remove1_subset)
    from release(3) [unfolded world_def] show ?thesis
      by (cases rule: release_tx_cases)
        (use release(1) wf t fewer track_carries [OF t carries_release] wf_release_db in \<open>auto simp: pipe_ok_def\<close>)
  next
    case (forget cs rs)
    with track_fewer [OF t] wf show ?thesis by (simp add: pipe_ok_def)
  next
    case (deliver doc)
    with track_deliver [OF t] wf show ?thesis by (simp add: pipe_ok_def)
  next
    case (prepare doc payload bf cf r w)
    obtain d' p' where w: "w = (d', p')" by (cases w)
    note d' = pipe_prepare [OF wf prepare(4) [unfolded world_def w]]
    have "track codec d' (after_part doc Delivered prepared_stage r s)"
      by (rule track_after_part [OF track_carries [OF t]]) (use prepare(2,3) d' in auto)
    with d' prepare(1) w show ?thesis by (simp add: pipe_ok_def after_part_updates put_world_def)
  next
    case (ask doc prep r p')
    have "track codec (pl_db s) (after_part doc (Prepared prep) (Answered prep) r s)"
      by (rule track_after_part [OF t ask(2)]) (use t ask(2) in \<open>force simp: track_def\<close>)
    with wf ask(1) show ?thesis by (simp add: pipe_ok_def after_part_updates)
  next
    case (settle doc prep res bf cf r w)
    obtain d' p' where w: "w = (d', p')" by (cases w)
    note d' = pipe_record [OF wf settle(3) [unfolded world_def w]]
    have "track codec d' (after_part doc (Answered prep res) (\<lambda>_. Settled) r s)"
      by (rule track_after_part [OF track_carries [OF t]]) (use settle(2) d' t in \<open>force simp: track_def\<close>)+
    with d' settle(1) w show ?thesis by (simp add: pipe_ok_def after_part_updates put_world_def)
  next
    case (ack doc)
    with track_drop [OF t ack(2)] t wf show ?thesis by (force simp: pipe_ok_def drop_job_def track_def)
  next
    case (reject doc e)
    with track_drop [OF t reject(2)] wf show ?thesis by (simp add: pipe_ok_def drop_job_def job_payload_def)
  next
    case (again doc st)
    with track_return [OF t again(2)] wf show ?thesis by (simp add: pipe_ok_def return_job_def)
  qed
qed


lemma pipe_run_ok:
  assumes "pipe_run pg codec config f (pipe_start d p) s"
    and "uuid_codec (ScanUUID codec) (UUIDString codec)" and "jsonb_keeps_payload pg"
    and "wf_db d" and "tbl_payouts d = []"
  shows "pipe_ok codec s"
  using assms(1)
proof (induction rule: rtranclp_induct)
  case base
  have "job_events d = {}"
    using assms(4,5) by (auto simp: job_events_def wf_db_def wf_outbox_events_def outbox_ok_def payout_ids_def)
  with assms(4,5) show ?case
    by (simp add: pipe_ok_def pipe_start_def track_def known_def)
next
  case (step s s')
  from pipe_step_ok [OF step(2) assms(2,3) step(3)] show ?case .
qed

section \<open>One delivery in steps\<close>

lemma move_moved [simp]: "move_job doc st' st'' (move_job doc st st' s) = move_job doc st st'' s"
  and return_moved [simp]: "return_job doc st' (move_job doc st st' s) = return_job doc st s"
  by (simp_all add: move_job_def return_job_def)

lemma moved_in [simp]: "(doc, st') \<in> set (pl_jobs (move_job doc st st' s))"
  by (simp add: move_job_def)

lemma world_simps [simp]:
  "world (move_job doc st st' s) = world s" "world (put_world w s) = w" "put_world (world s) s = s"
  "put_world w (move_job doc st st' s) = move_job doc st st' (put_world w s)"
  "put_world w (put_world w' s) = put_world w s" "pl_jobs (put_world w s) = pl_jobs s"
  "s\<lparr>pl_provider := p\<rparr> = put_world (pl_db s, p) s" "s\<lparr>pl_db := d\<rparr> = put_world (d, pl_provider s) s"
  "pl_db (put_world w s) = fst w" "pl_provider (put_world w s) = snd w"
  "pl_db (move_job doc st st' s) = pl_db s" "pl_provider (move_job doc st st' s) = pl_provider s"
  by (cases s; simp add: world_def put_world_def move_job_def return_job_def)+

lemma after_part_simps:
  "after_part doc st next (Inl e) s = return_job doc st s" "after_part doc st next (Inr x) s = move_job doc st (next x) s"
  by (simp_all add: after_part_def)

text \<open>A delivery \<open>HandleEvent\<close> refuses before its first transaction.\<close>

lemma handle_refused:
  assumes "DecodePayoutJob doc = Inr ev" and "job_payload codec doc = None"
  shows "\<exists>e. HandleEvent codec (worker_handler pg bf cf f) ev w = (Inl e, w)"
  using assms
  by (auto simp: job_payload_def HandleEvent_def worker_handler_def NewHandler_def fail_def and_then_def
      lift_result_def split: if_splits sum.splits)

lemma handle_parts:
  assumes "DecodePayoutJob doc = Inr ev" and "job_payload codec doc = Some payload"
  shows "HandleEvent codec (worker_handler pg bf cf f) ev =
    and_then (prepareExecution (pool_runner bf cf (Some (pg_exec_store pg))) payload) (\<lambda>prepared.
      if \<not> pr_shouldExecute prepared then ok ()
      else and_then (outside_db f (execute_input codec prepared))
        (recordExecutionResult codec (pool_runner bf cf (Some (pg_exec_store pg))) prepared))"
  using assms
  by (auto simp: job_payload_def HandleEvent_def worker_handler_def NewHandler_def and_then_lift fun_eq_iff
      split: if_splits sum.splits)

lemma handled_steps:
  assumes "(doc, Delivered) \<in> set (pl_jobs s)" and "DecodePayoutJob doc = Inr ev"
    and "HandleEvent codec (worker_handler pg bf cf f) ev (world s) = (r, w)"
  shows "pipe_run pg codec config f s (after_part doc Delivered (\<lambda>_. Settled) r (put_world w s))"
proof (cases "job_payload codec doc")
  case None
  from handle_refused [OF assms(2) this, of pg bf cf f "world s"] assms(3)
  obtain e where "r = Inl e" "w = world s" by auto
  with pipe_step.again [OF assms(1), of pg codec config f] show ?thesis by (simp add: after_part_simps)
next
  case (Some payload)
  let ?run = "pool_runner bf cf (Some (pg_exec_store pg))"
  obtain r1 w1 where prep: "prepareExecution ?run payload (world s) = (r1, w1)"
    by (cases "prepareExecution ?run payload (world s)")
  note first = pipe_step.prepare [OF assms(1) Some prep, of config f]
  note parts = assms(3) [unfolded handle_parts [OF assms(2) Some]]
  show ?thesis
  proof (cases r1)
    case (Inl e)
    with parts prep have "r = Inl e" "w = w1" by (simp_all add: and_then_def)
    with first Inl show ?thesis by (simp add: after_part_simps)
  next
    case (Inr pr)
    show ?thesis
    proof (cases "pr_shouldExecute pr")
      case False
      with parts prep Inr have "r = Inr ()" "w = w1" by (simp_all add: and_then_def ok_def)
      with first Inr False show ?thesis by (simp add: after_part_simps prepared_stage_def)
    next
      case True
      let ?s1 = "move_job doc Delivered (Prepared pr) (put_world w1 s)"
      have s1: "pipe_step pg codec config f s ?s1"
        using first Inr True by (simp add: after_part_simps prepared_stage_def)
      obtain r2 p2 where ask: "f (execute_input codec pr) (pl_provider ?s1) = (r2, p2)"
        by (cases "f (execute_input codec pr) (pl_provider ?s1)")
      have second: "pipe_step pg codec config f ?s1
          (after_part doc (Prepared pr) (Answered pr) r2 (?s1\<lparr>pl_provider := p2\<rparr>))"
        by (rule pipe_step.ask) (rule moved_in, rule ask)
      have rest: "(r, w) = (case r2 of Inl e \<Rightarrow> (Inl e, (fst w1, p2))
          | Inr res \<Rightarrow> recordExecutionResult codec ?run pr res (fst w1, p2))"
        using parts prep Inr True ask
        by (simp add: and_then_def outside_db_def off_db_def split: sum.splits)
      show ?thesis
      proof (cases r2)
        case (Inl e)
        with rest second s1 show ?thesis by (simp add: after_part_simps)
      next
        case (Inr res)
        let ?s2 = "move_job doc Delivered (Answered pr res) (put_world (fst w1, p2) s)"
        have s2: "pipe_step pg codec config f ?s1 ?s2"
          using second Inr by (simp add: after_part_simps)
        have "recordExecutionResult codec ?run pr res (world ?s2) = (r, w)"
          using rest Inr by simp
        then have "pipe_step pg codec config f ?s2 (after_part doc (Answered pr res) (\<lambda>_. Settled) r (put_world w ?s2))"
          by (intro pipe_step.settle moved_in)
        then
        have s3: "pipe_step pg codec config f ?s2 (after_part doc Delivered (\<lambda>_. Settled) r (put_world w s))"
          by (cases r) (simp_all add: after_part_simps)
        from s1 s2 s3 show ?thesis by (meson r_into_rtranclp rtranclp.rtrancl_into_rtrancl)
      qed
    qed
  qed
qed


section \<open>Two deliveries of one payout\<close>

abbreviation calm_runner :: "postgres \<Rightarrow> (db \<times> 'p) exec_tx_runner" where
  "calm_runner pg \<equiv> pool_runner (\<lambda>_. None) (\<lambda>_. Committed) (Some (pg_exec_store pg))"

lemma prepare_ready:
  assumes "wf_db d" and "payout_view d c i = Some q" and "source_view d c (pay_FundingSourceID q) = Some src"
    and "ready q"
  shows "prepareExecution (calm_runner pg) \<lparr>pp_payoutID = i, pp_clientID = c\<rparr> (d, p) =
    (Inr \<lparr>pr_payout = running d q, pr_fundingSource = src, pr_amount = amount_text q, pr_shouldExecute = True\<rparr>,
     (started q d, p))"
proof -
  have "with_store (prepareExecutionInTx \<lparr>pp_payoutID = i, pp_clientID = c\<rparr>) (Some (pg_exec_store pg)) (d, p) =
    (Inr \<lparr>pr_payout = running d q, pr_fundingSource = src, pr_amount = amount_text q, pr_shouldExecute = True\<rparr>,
     (started q d, p))"
    using assms(2-4) by (simp add: with_store_def prepare_tx_eq [OF assms(1)] preparation_def)
  then show ?thesis
    unfolding prepareExecution_def Execution_WithinTx_def by (intro pool_run) simp_all
qed

definition storable_result :: "execute_payout_result \<Rightarrow> bool" where
  "storable_result res \<longleftrightarrow> final_result res \<and> (\<exists>t. nullable text_value (failure_reason res) = Inr t)"

lemma record_plain:
  assumes "find (\<lambda>r. pay_ID r = pay_ID q) (tbl_payouts d) = Some q" and "pay_ID (pr_payout prep) = pay_ID q"
    and "client_view d (pay_ClientID q) = Some client" and "webhook_url client = []" and "storable_result res"
  shows "recordExecutionResult codec (calm_runner pg) prep res (d, p) = (Inr (), (finished res q d, p))"
proof -
  obtain t where t: "nullable text_value (failure_reason res) = Inr t" and res: "final_result res"
    using assms(5) by (auto simp: storable_result_def)
  have quiet: "createWebhookOutboxEventIfConfigured codec (final_row d res q) (pg_exec_store pg) (finished res q d, p) =
      (Inr (), (finished res q d, p))"
    using assms(3,4)
    by (simp add: createWebhookOutboxEventIfConfigured_def and_then_def on_db_def GetClientById_def select_one_def
        client_view_def finished_def webhook_url_def ok_def Let_def split: if_splits)
  consider (succeeded) "er_Status res = status_text StatusSucceeded"
    | (failed) "er_Status res = status_text StatusFailed" "er_Status res \<noteq> status_text StatusSucceeded"
    using res by (auto simp: final_result_def simp del: status_text.simps)
  then have "recordExecutionResultInTx codec prep res (pg_exec_store pg) (d, p) = (Inr (), (finished res q d, p))"
  proof cases
    case succeeded
    have "UpdatePayoutStatus \<lparr>usp_Status = status_text StatusSucceeded, usp_ID = pay_ID q\<rparr> d =
        (Inr (final_row d res q), finished res q d)"
      using assms(1) succeeded
      by (simp add: UpdatePayoutStatus_run final_row_cases finished_def set_payout_status_def del: status_text.simps)
    with succeeded quiet show ?thesis
      by (simp add: recordExecutionResultInTx_def and_then_def on_db_def assms(2) del: status_text.simps)
  next
    case failed
    have "UpdatePayoutFailure \<lparr>ufp_FailureReason = failure_reason res, ufp_ID = pay_ID q\<rparr> d =
        (Inr (final_row d res q), finished res q d)"
      using assms(1) failed t nullable_text_Inr [OF t]
      by (simp add: UpdatePayoutFailure_run final_row_cases finished_def set_payout_failed_def del: status_text.simps)
    with failed quiet show ?thesis
      by (simp add: recordExecutionResultInTx_def and_then_def on_db_def assms(2) del: status_text.simps)
  qed
  then show ?thesis
    unfolding recordExecutionResult_def Execution_WithinTx_def by (intro pool_run) (simp_all add: with_store_def)
qed

lemma finished_view:
  assumes "payout_view d c i = Some q"
  shows "payout_view (finished res q d) c i = Some (final_row d res q)"
proof -
  have i: "pay_ID q = i" using find_SomeD [OF assms [unfolded payout_view_def]] by simp
  with assms show ?thesis by (simp add: payout_view_def finished_def payout_find_update)
qed

lemma finished_id_find:
  assumes "find (\<lambda>r. pay_ID r = i) (tbl_payouts d) = Some q"
  shows "find (\<lambda>r. pay_ID r = i) (tbl_payouts (finished res q d)) = Some (final_row d res q)"
proof -
  have "pay_ID q = i" using find_SomeD [OF assms] by simp
  with assms show ?thesis by (simp add: finished_def find_update_where_same)
qed


text \<open>A state seen through its world and its deliveries, and the successful steps of a delivery on it.\<close>

definition at_jobs :: "db \<times> 'p \<Rightarrow> (bytes \<times> job_stage) list \<Rightarrow> 'p pipeline \<Rightarrow> 'p pipeline" where
  "at_jobs w js s = s\<lparr>pl_db := fst w, pl_provider := snd w, pl_jobs := js\<rparr>"

lemma at_jobs_simps [simp]:
  "world (at_jobs w js s) = w" "pl_jobs (at_jobs w js s) = js" "pl_db (at_jobs w js s) = fst w"
  "pl_provider (at_jobs w js s) = snd w" "at_jobs (world s) (pl_jobs s) s = s"
  "put_world w' (at_jobs w js s) = at_jobs w' js s"
  "move_job doc st st' (at_jobs w js s) = at_jobs w ((doc, st') # remove1 (doc, st) js) s"
  by (cases s; simp add: at_jobs_def world_def put_world_def move_job_def del: world_simps)+

lemma prepare_at:
  assumes "prepareExecution (pool_runner bf cf (Some (pg_exec_store pg))) payload w = (Inr prep, w')"
    and "(doc, Delivered) \<in> set js" and "job_payload codec doc = Some payload"
  shows "pipe_step pg codec config f (at_jobs w js s)
    (at_jobs w' ((doc, prepared_stage prep) # remove1 (doc, Delivered) js) s)"
proof -
  have "pipe_step pg codec config f (at_jobs w js s)
      (after_part doc Delivered prepared_stage (Inr prep) (put_world w' (at_jobs w js s)))"
    by (rule pipe_step.prepare [where payload = payload and bf = bf and cf = cf]) (use assms in simp_all)
  then show ?thesis by (simp add: after_part_simps)
qed

lemma ask_at:
  assumes "f (execute_input codec prep) p = (Inr res, p')" and "(doc, Prepared prep) \<in> set js"
  shows "pipe_step pg codec config f (at_jobs (d, p) js s)
    (at_jobs (d, p') ((doc, Answered prep res) # remove1 (doc, Prepared prep) js) s)"
proof -
  have "pipe_step pg codec config f (at_jobs (d, p) js s)
      (after_part doc (Prepared prep) (Answered prep) (Inr res) ((at_jobs (d, p) js s)\<lparr>pl_provider := p'\<rparr>))"
    by (rule pipe_step.ask) (use assms in simp_all)
  then show ?thesis by (simp add: after_part_simps)
qed

lemma settle_at:
  assumes "recordExecutionResult codec (pool_runner bf cf (Some (pg_exec_store pg))) prep res w = (Inr u, w')"
    and "(doc, Answered prep res) \<in> set js"
  shows "pipe_step pg codec config f (at_jobs w js s)
    (at_jobs w' ((doc, Settled) # remove1 (doc, Answered prep res) js) s)"
proof -
  have "pipe_step pg codec config f (at_jobs w js s)
      (after_part doc (Answered prep res) (\<lambda>_. Settled) (Inr u) (put_world w' (at_jobs w js s)))"
    by (rule pipe_step.settle [where bf = bf and cf = cf]) (use assms in simp_all)
  then show ?thesis by (simp add: after_part_simps)
qed

text \<open>A payout that is prepared a second time is found as the first time left it.\<close>

lemma running_again: "ready q \<Longrightarrow> started (running d q) d' = d' \<and> running d' (running d q) = running d q \<and> ready (running d q)"
  by (auto simp: ready_def running_def started_def simp del: status_text.simps)

lemma running_amount [simp]: "amount_text (running d q) = amount_text q"
  by (simp add: amount_text_def)

lemma running_source [simp]: "pay_FundingSourceID (running d q) = pay_FundingSourceID q"
  by (simp add: running_def)

lemma started_tables [simp]:
  "tbl_clients (started q d) = tbl_clients d" "tbl_funding_sources (started q d) = tbl_funding_sources d"
  "tbl_clients (finished res q d) = tbl_clients d"
  by (simp_all add: started_def set_payout_status_def finished_def)

text \<open>Both deliveries prepare, both ask the provider, both record its answer.\<close>

lemma race_steps:
  assumes wf: "wf_db d" and payload: "job_payload codec doc = Some \<lparr>pp_payoutID = i, pp_clientID = c\<rparr>"
    and q: "payout_view d c i = Some q" "ready q" "source_view d c (pay_FundingSourceID q) = Some src"
    and client: "client_view d c = Some client" "webhook_url client = []"
    and answers: "f (payment codec q src) p = (Inr res1, p1)" "f (payment codec q src) p1 = (Inr res2, p2)"
    and res: "storable_result res1" "storable_result res2" "res1 \<noteq> res2"
  shows "\<exists>d1 d2 js1 js2. pipe_run pg codec config f (at_jobs (d, p) ((doc, Delivered) # (doc, Delivered) # js) s) (at_jobs (d1, p2) js1 s) \<and>
    pipe_step pg codec config f (at_jobs (d1, p2) js1 s) (at_jobs (d2, p2) js2 s) \<and>
    d1 = finished res1 (running d q) (started q d) \<and> d2 = finished res2 (final_row d res1 (running d q)) d1"
proof -
  let ?d = "started q d" and ?q = "running d q"
  let ?pr = "\<lparr>pr_payout = ?q, pr_fundingSource = src, pr_amount = amount_text q, pr_shouldExecute = True\<rparr>"
  let ?d1 = "finished res1 ?q ?d" and ?q1 = "final_row d res1 ?q"
  note id = payout_by_id [OF wf q(1)]
  obtain ev :: event where "ev_EventType ev = EventTypeProcessPayout"
    "parsePayoutCreatedOutboxPayload codec (ev_Payload ev) = Inr \<lparr>pp_payoutID = i, pp_clientID = c\<rparr>"
    using payload by (auto simp: job_payload_def split: sum.splits if_splits)
  with q have ev: "addressed codec ev d q src" by (simp add: addressed_def)
  note view = running_view [OF wf ev, unfolded id]
  note again = running_again [OF q(2), of d ?d]
  have pay: "execute_input codec ?pr = payment codec q src"
    by (simp add: execute_input_def payment_def)
  have prep1: "prepareExecution (calm_runner pg) \<lparr>pp_payoutID = i, pp_clientID = c\<rparr> (d, p) = (Inr ?pr, (?d, p))"
    by (rule prepare_ready [OF wf q(1,3,2)])
  have prep2: "prepareExecution (calm_runner pg) \<lparr>pp_payoutID = i, pp_clientID = c\<rparr> (?d, p) = (Inr ?pr, (?d, p))"
    using prepare_ready [OF view(2,1), of src pg p] q(3) again by (simp add: source_view_def)
  have find: "find (\<lambda>r. pay_ID r = pay_ID ?q) (tbl_payouts ?d) = Some ?q"
    using payout_by_id(1) [OF view(2,1)] id by simp
  have row: "final_row ?d = final_row d" by (rule final_row_now) simp
  have rec1: "recordExecutionResult codec (calm_runner pg) ?pr res1 (?d, p2) = (Inr (), (?d1, p2))"
    by (rule record_plain [OF find _ _ client(2) res(1)]) (use client(1) id in \<open>simp_all add: client_view_def\<close>)
  have rec2: "recordExecutionResult codec (calm_runner pg) ?pr res2 (?d1, p2) = (Inr (), (finished res2 ?q1 ?d1, p2))"
    by (rule record_plain [OF _ _ _ client(2) res(2)])
      (use finished_id_find [OF find, of res1] client(1) id in \<open>simp_all add: client_view_def row\<close>)
  have "pipe_run pg codec config f (at_jobs (d, p) ((doc, Delivered) # (doc, Delivered) # js) s)
      (at_jobs (?d1, p2) ((doc, Settled) # (doc, Answered ?pr res2) # js) s)"
    using prepare_at [OF prep1, of doc "(doc, Delivered) # (doc, Delivered) # js" codec config f s]
      prepare_at [OF prep2, of doc "(doc, Prepared ?pr) # (doc, Delivered) # js" codec config f s]
      ask_at [where f = f and codec = codec and prep = ?pr and doc = doc and d = ?d
        and js = "(doc, Prepared ?pr) # (doc, Prepared ?pr) # js" and s = s and pg = pg and config = config,
        unfolded pay, OF answers(1)]
      ask_at [where f = f and codec = codec and prep = ?pr and doc = doc and d = ?d
        and js = "(doc, Answered ?pr res1) # (doc, Prepared ?pr) # js" and s = s and pg = pg and config = config,
        unfolded pay, OF answers(2)]
      settle_at [OF rec1, of doc "(doc, Answered ?pr res2) # (doc, Answered ?pr res1) # js" config f s]
      payload res(3)
    by (simp add: prepared_stage_def)
  moreover have "pipe_step pg codec config f (at_jobs (?d1, p2) ((doc, Settled) # (doc, Answered ?pr res2) # js) s)
      (at_jobs (finished res2 ?q1 ?d1, p2) ((doc, Settled) # (doc, Settled) # js) s)"
    using settle_at [OF rec2, of doc "(doc, Settled) # (doc, Answered ?pr res2) # js" config f s] by simp
  ultimately show ?thesis by blast
qed


text \<open>What the last record shows.\<close>

lemma race_views:
  assumes "wf_db d" and "payout_view d c i = Some q" and "addressed codec ev d q src"
    and "storable_result res1" and "storable_result res2"
  shows "\<exists>q1. payout_view (finished res1 (running d q) (started q d)) c i = Some q1 \<and> pay_Status q1 = er_Status res1"
    "\<exists>q2. payout_view (finished res2 (final_row d res1 (running d q)) (finished res1 (running d q) (started q d))) c i = Some q2 \<and>
       pay_Status q2 = er_Status res2"
proof -
  note id = payout_by_id [OF assms(1,2)]
  have view: "payout_view (started q d) c i = Some (running d q)"
    using running_view(1) [OF assms(1,3)] id by simp
  note first = finished_view [OF view, of res1]
  note second = finished_view [OF first, of res2]
  have row: "final_row (started q d) = final_row d" by (rule final_row_now) simp
  show "\<exists>q1. payout_view (finished res1 (running d q) (started q d)) c i = Some q1 \<and> pay_Status q1 = er_Status res1"
    using first assms(4) by (auto simp: storable_result_def final_row_status)
  show "\<exists>q2. payout_view (finished res2 (final_row d res1 (running d q)) (finished res1 (running d q) (started q d))) c i = Some q2 \<and>
       pay_Status q2 = er_Status res2"
    using second assms(5) by (auto simp: storable_result_def final_row_status row)
qed

lemma job_payload_addressed:
  assumes "job_payload codec doc = Some \<lparr>pp_payoutID = i, pp_clientID = c\<rparr>"
    and "payout_view d c i = Some q" and "source_view d c (pay_FundingSourceID q) = Some src"
  obtains ev where "DecodePayoutJob doc = Inr ev" "addressed codec ev d q src"
proof -
  obtain ev :: event where "DecodePayoutJob doc = Inr ev" "ev_EventType ev = EventTypeProcessPayout"
    "parsePayoutCreatedOutboxPayload codec (ev_Payload ev) = Inr \<lparr>pp_payoutID = i, pp_clientID = c\<rparr>"
    using assms(1) by (auto simp: job_payload_def split: sum.splits if_splits)
  with that assms(2,3) show ?thesis by (simp add: addressed_def)
qed

section \<open>Properties\<close>

text \<open>C4: no payout is lost between the processes. In every state the pipeline reaches from a database without
  payouts, whatever requests, relays and workers do at one time and wherever they fail, each payout is settled, or its
  \<open>process_payout\<close> event is still unprocessed, or a message that carries its ids is in the queue or in the
  hands of a worker. (The codec law is that of the driver's UUID text; the hypothesis on \<open>jsonb\<close> is that the
  column gives back a payload with the same fields.)\<close>

theorem no_payout_lost:
  assumes "uuid_codec (ScanUUID codec) (UUIDString codec)" and "jsonb_keeps_payload pg"
    and "wf_db d" and "tbl_payouts d = []"
    and "pipe_run pg codec config f (pipe_start d p) s" and "q \<in> set (tbl_payouts (pl_db s))"
  shows "settled q \<or>
    (\<exists>e \<in> set (tbl_outbox_events (pl_db s)). ob_EventType e = EventTypeProcessPayout \<and>
       ob_EntityID e = pay_ID q \<and> ob_Status e \<noteq> ''processed'') \<or>
    (\<exists>doc \<in> set (pl_queue s) \<union> fst ` set (pl_jobs s).
       job_payload codec doc = Some \<lparr>pp_payoutID = pay_ID q, pp_clientID = pay_ClientID q\<rparr>)"
proof -
  have wf: "wf_db (pl_db s)" and t: "track codec (pl_db s) s"
    using pipe_run_ok [OF assms(5,1,2,3,4)] by (simp_all add: pipe_ok_def)
  have "owner_of q \<in> known (pl_db s)" using assms(6) by (simp add: known_def)
  with t have "pay_ID q \<in> settled_ids (pl_db s) \<or> owner_of q \<in> jobs_under_way codec s \<or>
      pay_ID q \<in> awaited_ids (pl_db s)"
    by (auto simp: track_def owner_of_def)
  then show ?thesis
    using settled_iff_id [OF wf assms(6)]
    by (auto simp: jobs_under_way_def awaited_ids_def job_events_def owner_of_def)
qed

text \<open>C11: a delivery is a run of its parts. Whatever \<open>HandleEvent\<close> does with a delivered message in one go (its
  transactions, the provider's call, its result), the pipeline does in single steps, between which other
  processes may act: afterwards the database and the provider are the same, and the message is settled when
  \<open>HandleEvent\<close> returned no error and back on the queue when it returned one.\<close>

theorem handled_event_is_steps:
  assumes "(doc, Delivered) \<in> set (pl_jobs s)" and "DecodePayoutJob doc = Inr ev"
    and "HandleEvent codec (worker_handler pg bf cf f) ev (pl_db s, pl_provider s) = (r, (d', p'))"
  shows "\<exists>s'. pipe_run pg codec config f s s' \<and> pl_db s' = d' \<and> pl_provider s' = p' \<and>
    pl_claims s' = pl_claims s \<and> pl_sent s' = pl_sent s \<and>
    (case r of
       Inr _ \<Rightarrow> pl_queue s' = pl_queue s \<and> pl_jobs s' = (doc, Settled) # remove1 (doc, Delivered) (pl_jobs s)
     | Inl _ \<Rightarrow> pl_queue s' = doc # pl_queue s \<and> pl_jobs s' = remove1 (doc, Delivered) (pl_jobs s))"
proof -
  have "HandleEvent codec (worker_handler pg bf cf f) ev (world s) = (r, (d', p'))"
    using assms(3) by (simp add: world_def)
  note run = handled_steps [OF assms(1,2) this, of config]
  show ?thesis
    by (rule exI [of _ "after_part doc Delivered (\<lambda>_. Settled) r (put_world (d', p') s)"], cases r)
      (use run in \<open>simp_all add: after_part_def move_job_def return_job_def put_world_def del: world_simps\<close>)
qed

text \<open>C12: two deliveries of one payout at one time overrule each other. When the message of a pending or
  processing payout has been delivered twice (a relay whose claim ran out publishes it again) and two workers
  handle the deliveries at one time, both ask the provider, and if it answers them differently the payout
  first takes the one final status and then the other: \<open>succeeded\<close> can become \<open>failed\<close> although
  \<open>CanTransition\<close> forbids it. Neither update tests the status it replaces.\<close>

theorem concurrent_deliveries_overrule:
  assumes "wf_db d" and "job_payload codec doc = Some \<lparr>pp_payoutID = i, pp_clientID = c\<rparr>"
    and "payout_view d c i = Some q" and "ready q" and "source_view d c (pay_FundingSourceID q) = Some src"
    and "client_view d c = Some client" and "webhook_url client = []"
    and "f (payment codec q src) p = (Inr res1, p1)" and "f (payment codec q src) p1 = (Inr res2, p2)"
    and "storable_result res1" and "storable_result res2" and "res1 \<noteq> res2"
    and "s = \<lparr>pl_db = d, pl_provider = p, pl_claims = cs, pl_sent = rs, pl_queue = ms,
              pl_jobs = [(doc, Delivered), (doc, Delivered)]\<rparr>"
  shows "\<exists>s1 s2 q1 q2. pipe_run pg codec config f s s1 \<and> pipe_step pg codec config f s1 s2 \<and>
    payout_view (pl_db s1) c i = Some q1 \<and> pay_Status q1 = er_Status res1 \<and>
    payout_view (pl_db s2) c i = Some q2 \<and> pay_Status q2 = er_Status res2"
proof -
  obtain ev where ev: "addressed codec ev d q src"
    using job_payload_addressed [OF assms(2,3,5)] by blast
  have s: "at_jobs (d, p) [(doc, Delivered), (doc, Delivered)] s = s"
    by (simp add: assms(13) at_jobs_def del: world_simps)
  obtain js1 js2 where
    "pipe_run pg codec config f s (at_jobs (finished res1 (running d q) (started q d), p2) js1 s)"
    "pipe_step pg codec config f (at_jobs (finished res1 (running d q) (started q d), p2) js1 s)
      (at_jobs (finished res2 (final_row d res1 (running d q)) (finished res1 (running d q) (started q d)), p2) js2 s)"
    using race_steps [where f = f and pg = pg and config = config and s = s and js = "[]",
        OF assms(1,2,3,4,5,6,7,8,9,10,11,12)] unfolding s by blast
  with race_views [OF assms(1,3) ev assms(10,11)] show ?thesis
    by (metis at_jobs_simps(3) fst_conv)
qed

end
