(* ===== verification/Pipeline_Witnesses.thy ===== *)
theory Pipeline_Witnesses
  imports Pipeline_Guarantees Relay_Witnesses
begin

text \<open>
  The example payout on its way through the pipeline: it is requested, its event is claimed, dispatched and
  marked, and its message waits in the queue; then deliveries of this message, alone and twice.
\<close>

section \<open>From the request to the queue\<close>

definition ex_body :: bytes where
  "ex_body = (case EncodePayoutJob ex_job of Inr doc \<Rightarrow> doc | Inl _ \<Rightarrow> [])"

lemma ex_encoded: "EncodePayoutJob ex_job = Inr ex_body"
  by (simp add: ex_body_def EncodePayoutJob_def)

lemma ex_decoded: "DecodePayoutJob ex_body = Inr ex_job"
  using payout_job_roundtrip [of ex_job] ex_encoded
  by (simp add: ex_job_def canonical.text_valid_utf8 EventTypeProcessPayout_def byte_def)

lemma ex_body_payload: "job_payload canonical_codec ex_body = Some \<lparr>pp_payoutID = 16, pp_clientID = 1\<rparr>"
  by (simp add: job_payload_def ex_decoded, simp add: ex_job_def ex_parse)

abbreviation "ex_row \<equiv> claimed_row 1000 ex_event"

abbreviation ex_pool :: "(db \<times> unit) relay_tx_runner" where
  "ex_pool \<equiv> pool_runner (\<lambda>_. None) (\<lambda>_. Committed) pg_event_store"

lemma ex_claim:
  "claimNextPendingEvent ex_config ex_pool 900 (ex_db1, ()) = (Inr (Some ex_row), (claim_db ex_event ex_db1, ()))"
proof -
  have "next_event (wanted ex_config 900) ex_db1 = Some ex_event"
    by (simp add: next_event_def wanted_def claimable_def ex_config_def ex_db1_def ex_db_def empty_db_def ex_event_def)
  with claim_body_run [OF ex_wf_db1, of ex_config 900 "()"] ex_now show ?thesis
    by (simp add: claimNextPendingEvent_def WithinTx_defs within_tx_def pool_runner_def NewDBTxRunner_def
        pg_tx_driver_def claim_db_def)
qed

abbreviation ex_sent_db :: db where
  "ex_sent_db \<equiv> mark_db 17 (claim_db ex_event ex_db1)"

lemma ex_mark: "markProcessed ex_pool 17 (claim_db ex_event ex_db1, ()) = (Inr (), (ex_sent_db, ()))"
proof -
  have "event_view ex_db1 17 = Some ex_event" by (simp add: event_view_def ex_db1_def ex_event_def)
  moreover have "ob_ID ex_event = 17" by (simp add: ex_event_def)
  ultimately have "event_view (claim_db ex_event ex_db1) 17 = Some ex_row"
    using ex_now by (simp add: claim_db_def event_view_set)
  then show ?thesis
    by (simp add: markProcessed_def WithinTx_defs within_tx_def pool_runner_def NewDBTxRunner_def pg_tx_driver_def
        pg_event_store_def and_then_def on_db_def MarkOutboxEventAsProcessed_run mark_db_def ok_def)
qed

lemma ex_dispatched: "dispatch_event canonical_codec ex_row = ex_job"
  by (simp add: dispatch_event_def ex_job_def claimed_row_def ex_event_def)

definition ex_waiting :: "unit pipeline" where
  "ex_waiting =
     \<lparr>pl_db = ex_sent_db, pl_provider = (), pl_claims = [], pl_sent = [], pl_queue = [ex_body], pl_jobs = []\<rparr>"

lemma ex_pipe_run: "pipe_run ex_pg canonical_codec ex_config ex_provider (pipe_start ex_db ()) ex_waiting"
proof -
  let ?step = "pipe_step ex_pg canonical_codec ex_config ex_provider"
  let ?s1 = "pipe_start ex_db1 () :: unit pipeline"
  let ?s2 = "(pipe_start (claim_db ex_event ex_db1) ())\<lparr>pl_claims := [ex_row]\<rparr> :: unit pipeline"
  let ?s3 = "(pipe_start (claim_db ex_event ex_db1) ())\<lparr>pl_sent := [ex_row], pl_queue := [ex_body]\<rparr> :: unit pipeline"
  have "?step (pipe_start ex_db ()) ((pipe_start ex_db ())\<lparr>pl_db := ex_db1\<rparr>)"
    by (rule pipe_step.request [where bf = "\<lambda>_. None" and cf = "\<lambda>_. Committed" and inp = ex_input])
      (simp add: pipe_start_def ex_create del: world_simps)
  then have s1: "?step (pipe_start ex_db ()) ?s1"
    by (simp add: pipe_start_def del: world_simps)
  have "?step ?s1 (claim_state (Inr (Some ex_row)) (?s1\<lparr>pl_db := claim_db ex_event ex_db1\<rparr>))"
    by (rule pipe_step.claim [where before = 900, OF ex_no_faults])
      (simp add: world_def pipe_start_def ex_claim del: world_simps)
  then have s2: "?step ?s1 ?s2"
    by (simp add: claim_state_def pipe_start_def del: world_simps)
  have "?step ?s2 (?s2\<lparr>pl_claims := remove1 ex_row (pl_claims ?s2), pl_sent := ex_row # pl_sent ?s2,
      pl_queue := pl_queue ?s2 @ [ex_body]\<rparr>)"
    by (rule pipe_step.dispatch) (simp_all add: ex_dispatched ex_encoded del: world_simps)
  then have s3: "?step ?s2 ?s3" by (simp add: pipe_start_def del: world_simps)
  have id: "ob_ID ex_row = 17" by (simp add: ex_event_def)
  have "?step ?s3 (?s3\<lparr>pl_db := ex_sent_db, pl_sent := remove1 ex_row (pl_sent ?s3)\<rparr>)"
    by (rule pipe_step.mark [where bf = "\<lambda>_. None" and cf = "\<lambda>_. Committed" and row = ex_row and r = "Inr ()" and p' = "()"])
      (simp_all add: world_def pipe_start_def id ex_mark del: world_simps row_ids)
  then have s4: "?step ?s3 ex_waiting" by (simp add: pipe_start_def ex_waiting_def del: world_simps)
  from s1 s2 s3 s4 show ?thesis by (meson converse_rtranclp_into_rtranclp r_into_rtranclp)
qed

lemma ex_jsonb: "jsonb_keeps_payload ex_pg"
  by (simp add: jsonb_keeps_payload_def ex_pg_def)

lemma ex_uuid_codec: "uuid_codec (ScanUUID canonical_codec) (UUIDString canonical_codec)"
  using canonical.uuid_codec_axioms by simp

section \<open>Witnesses\<close>

theorem no_payout_lost_witness:
  "\<exists>doc \<in> set (pl_queue ex_waiting) \<union> fst ` set (pl_jobs ex_waiting).
     job_payload canonical_codec doc = Some \<lparr>pp_payoutID = 16, pp_clientID = 1\<rparr>"
proof -
  have q: "ex_payout \<in> set (tbl_payouts (pl_db ex_waiting))"
    by (simp add: ex_waiting_def mark_db_def claim_db_def set_event_def ex_db1_def)
  have none: "tbl_payouts ex_db = []" by (simp add: ex_db_def empty_db_def)
  have unsettled: "\<not> settled ex_payout" by (simp add: settled_def ex_payout_def)
  have processed: "\<forall>e \<in> set (tbl_outbox_events (pl_db ex_waiting)). ob_Status e = ''processed''"
    by (simp add: ex_waiting_def mark_db_def claim_db_def set_event_def ex_db1_def ex_event_def processed_row_def)
  have ids: "pay_ID ex_payout = 16" "pay_ClientID ex_payout = 1" by (simp_all add: ex_payout_def)
  from no_payout_lost [OF ex_uuid_codec ex_jsonb ex_wf_db none ex_pipe_run q] unsettled processed show ?thesis
    by (auto simp: ids)
qed

theorem handled_event_is_steps_witness:
  "\<exists>s'. pipe_run ex_pg canonical_codec ex_config ex_provider
      (ex_waiting\<lparr>pl_db := ex_db1, pl_queue := [], pl_jobs := [(ex_body, Delivered)]\<rparr>) s' \<and>
    pl_db s' = ex_db2 \<and> pl_jobs s' = [(ex_body, Settled)]"
proof -
  let ?s = "ex_waiting\<lparr>pl_db := ex_db1, pl_queue := [], pl_jobs := [(ex_body, Delivered)]\<rparr>"
  have "(ex_body, Delivered) \<in> set (pl_jobs ?s)" by (simp del: world_simps)
  moreover have "HandleEvent canonical_codec ex_handler ex_job (pl_db ?s, pl_provider ?s) = (Inr (), (ex_db2, ()))"
    using ex_handled by (simp add: ex_waiting_def del: world_simps)
  ultimately show ?thesis
    using handled_event_is_steps [where s = ?s and config = ex_config, OF _ ex_decoded] by fastforce
qed

text \<open>Two workers, a client without a webhook, and a provider that changes its mind.\<close>

definition ex_quiet_db :: db where
  "ex_quiet_db = ex_db1\<lparr>tbl_clients := update_where (\<lambda>_. True) (\<lambda>r. r\<lparr>cl_WebhookUrl := null_text\<rparr>) (tbl_clients ex_db1)\<rparr>"

definition ex_fickle :: "bool payout_provider" where
  "ex_fickle inp p =
     (Inr \<lparr>er_Status = (if p then ''failed'' else ''succeeded''), er_FailureReason = (if p then ''declined'' else [])\<rparr>, True)"

lemma ex_quiet_wf: "wf_db ex_quiet_db"
  unfolding ex_quiet_db_def by (rule wf_put_clients [OF ex_wf_db1]) simp_all

theorem concurrent_deliveries_overrule_witness:
  "\<exists>s1 s2 q1 q2. pipe_step ex_pg canonical_codec ex_config ex_fickle s1 s2 \<and>
    payout_view (pl_db s1) 1 16 = Some q1 \<and> pay_Status q1 = ''succeeded'' \<and>
    payout_view (pl_db s2) 1 16 = Some q2 \<and> pay_Status q2 = ''failed''"
proof -
  have views: "payout_view ex_quiet_db 1 16 = Some ex_payout"
    "source_view ex_quiet_db 1 (pay_FundingSourceID ex_payout) = Some (hd (tbl_funding_sources ex_db))"
    "\<exists>client. client_view ex_quiet_db 1 = Some client \<and> webhook_url client = []"
    using ex_views
    by (simp_all add: ex_quiet_db_def payout_view_def source_view_def client_view_def ex_payout_def webhook_url_def
        ex_db1_def ex_db_def empty_db_def null_text_def)
  then obtain client where client: "client_view ex_quiet_db 1 = Some client" "webhook_url client = []" by blast
  have trim: "TrimSpace [] = []" "TrimSpace ''declined'' = ''declined''" by code_simp+
  have stored: "storable_result \<lparr>er_Status = ''succeeded'', er_FailureReason = []\<rparr>"
    "storable_result \<lparr>er_Status = ''failed'', er_FailureReason = ''declined''\<rparr>"
    by (simp_all add: storable_result_def final_result_def failure_reason_def trim nullable_def text_value_def
        storable_text_def byte_def)
  have differ: "\<lparr>er_Status = ''succeeded'', er_FailureReason = []\<rparr> \<noteq> \<lparr>er_Status = ''failed'', er_FailureReason = ''declined''\<rparr>"
    by simp
  have answers: "ex_fickle inp False = (Inr \<lparr>er_Status = ''succeeded'', er_FailureReason = []\<rparr>, True)"
    "ex_fickle inp True = (Inr \<lparr>er_Status = ''failed'', er_FailureReason = ''declined''\<rparr>, True)" for inp
    by (simp_all add: ex_fickle_def)
  from concurrent_deliveries_overrule [where pg = ex_pg and config = ex_config and f = ex_fickle and cs = "[]" and rs = "[]"
      and ms = "[]", OF ex_quiet_wf ex_body_payload views(1) ex_ready views(2) client answers stored differ refl]
  show ?thesis by auto
qed

end
