(* ===== verification/Payout_Race.thy ===== *)
theory Payout_Race
  imports Payout_Witnesses
begin

text \<open>
  Two requests with one idempotency key at one time. PostgreSQL runs the transactions of the service at
  READ COMMITTED: each statement sees what was committed when it began. The second request may look its
  key up before the first commits, and its inserts, which wait for the first request's, then run on the
  database the first has left. The code foresees this with \<open>errConcurrentIdempotencyKeyInsert\<close>.
\<close>

section \<open>The second request\<close>

text \<open>A store whose lookups of keys still see the database \<open>d0\<close>.\<close>

definition earlier_lookup :: "db \<Rightarrow> db payout_store \<Rightarrow> db payout_store" where
  "earlier_lookup d0 store =
     store\<lparr>ps_GetIdempotencyKey := (\<lambda>a d. (fst (ps_GetIdempotencyKey store a d0), d))\<rparr>"

text \<open>The service as the second request meets it: only within its transaction is the lookup early.\<close>

definition racing_payout_service :: "postgres \<Rightarrow> db \<Rightarrow> db payout_service option" where
  "racing_payout_service pg d0 =
     Some (NewServiceWithTx (Some (pg_payout_store pg))
       (Some (DBTxRunner (pool_runner (\<lambda>_. None) (\<lambda>_. Committed) (earlier_lookup d0 (pg_payout_store pg))))))"

lemma earlier_lookup_simps [simp]:
  "ps_CreateIdempotencyKey (earlier_lookup d0 store) = ps_CreateIdempotencyKey store"
  "ps_CreatePayout (earlier_lookup d0 store) = ps_CreatePayout store"
  "ps_GetFundingSourceByClientID (earlier_lookup d0 store) = ps_GetFundingSourceByClientID store"
  "ps_GetIdempotencyKey (earlier_lookup d0 store) a d = (fst (ps_GetIdempotencyKey store a d0), d)"
  by (simp_all add: earlier_lookup_def)

text \<open>What the first request's transaction left behind.\<close>

lemma first_request:
  assumes "create_payout_tx codec rq (pg_payout_store pg) d0 = (Inr p, d1)" and "d1 \<noteq> d0"
  obtains k e where
    "GetIdempotencyKey \<lparr>gip_ClientID = rq_clientID rq, gip_Key = rq_idempotencyKey rq\<rparr> d0 = (Inl ErrNoRows, d0)"
    "payout_of pg (payout_params rq) d0 = Inr p" "first_failure (payout_constraints d0 p) = None"
    "d1 = d0\<lparr>tbl_payouts := tbl_payouts d0 @ [p], tbl_idempotency_keys := tbl_idempotency_keys d0 @ [k],
             tbl_outbox_events := tbl_outbox_events d0 @ [e], db_uuid_seq := db_uuid_seq d0 + 2\<rparr>"
    "storable_text (rq_idempotencyKey rq)" "storable_text (rq_hash rq)" "rq_idempotencyKey rq \<noteq> []" "rq_hash rq \<noteq> []"
    "ik_Key k = rq_idempotencyKey rq" "ik_ClientID k = rq_clientID rq"
    "\<exists>f. GetFundingSourceByClientID \<lparr>bcp_ClientID = rq_clientID rq, bcp_ID = rq_fundingSourceID rq\<rparr> d0 = (Inr f, d0)"
  using assms(1)
proof (cases rule: pg.tx_success)
  case (created f s1 s2 k e doc)
  note pay = CreatePayout_Inr [OF created(3) [simplified]] and event = CreateOutboxEvent_Inr [OF created(6) [simplified]]
  from created(4) CreateIdempotencyKey_Inr have k: "idempotency_key_of \<lparr>cip_Key = rq_idempotencyKey rq, cip_ClientID = rq_clientID rq,
      cip_RequestHash = rq_hash rq, cip_PayoutID = pay_ID p\<rparr> s1 = Inr k"
    "first_failure (idempotency_key_constraints s1 k) = None"
    "s2 = s1\<lparr>tbl_idempotency_keys := tbl_idempotency_keys s1 @ [k]\<rparr>" by simp_all
  then have texts: "storable_text (rq_idempotencyKey rq)" "storable_text (rq_hash rq)" "ik_Key k = rq_idempotencyKey rq"
    "ik_ClientID k = rq_clientID rq" "ik_RequestHash k = rq_hash rq"
    by (auto simp: idempotency_key_of_def seq_simps)
  have none: "GetIdempotencyKey \<lparr>gip_ClientID = rq_clientID rq, gip_Key = rq_idempotencyKey rq\<rparr> d0 = (Inl ErrNoRows, d0)"
    using created(1) texts(1) by (simp add: key_view_def GetIdempotencyKey_def select_one_def)
  show ?thesis
    by (rule that [OF none])
      (use pay k(2,3) event texts created(2) in \<open>auto simp: idempotency_key_constraints_def\<close>)
next
  case replayed
  with assms(2) show ?thesis by simp
qed

text \<open>The second request's payout would differ from the first one's only in its id and its times.\<close>

definition second_payout :: "postgres \<Rightarrow> db \<Rightarrow> payout_row \<Rightarrow> payout_row" where
  "second_payout pg d p = p\<lparr>pay_ID := new_uuid pg d, pay_CreatedAt := db_now d, pay_UpdatedAt := db_now d\<rparr>"

lemma second_payout_of:
  "payout_of pg a d0 = Inr p \<Longrightarrow> payout_of pg a d = Inr (second_payout pg d p)"
  by (auto simp: payout_of_def second_payout_def seq_simps)

lemma second_columns [simp]:
  "indexed_external_id (second_payout pg d p) = indexed_external_id p"
  "pay_Amount (second_payout pg d p) = pay_Amount p" "pay_Status (second_payout pg d p) = pay_Status p"
  "pay_ClientID (second_payout pg d p) = pay_ClientID p"
  "pay_FundingSourceID (second_payout pg d p) = pay_FundingSourceID p" "pay_ID (second_payout pg d p) = new_uuid pg d"
  by (simp_all add: second_payout_def indexed_external_id_def)

lemma external_id_indexed:
  assumes "payout_of pg (payout_params rq) d = Inr p" and "length (rq_externalID rq) \<le> 255"
  shows "indexed_external_id p = None \<longleftrightarrow> rq_externalID rq = []"
proof -
  have ext: "nullable (varchar 255) (textParam (rq_externalID rq)) = Inr (pay_ExternalID p)"
    using assms(1) by (auto simp: payout_of_def payout_params_def seq_simps)
  then have "Text_Valid (pay_ExternalID p) \<longleftrightarrow> rq_externalID rq \<noteq> []"
    by (cases "pay_ExternalID p") (auto simp: nullable_def textParam_def null_text_def split: if_splits sum.splits)
  with nullable_same [OF assms(2) ext] show ?thesis by (simp add: indexed_external_id_def)
qed

text \<open>The second transaction: it ends at the external id, or at the key.\<close>

lemma second_tx:
  assumes "create_payout_tx codec rq (pg_payout_store pg) d0 = (Inr p, d1)" and "d1 \<noteq> d0"
    and "length (rq_externalID rq) \<le> 255" and "new_uuid pg d1 \<notin> payout_ids d1"
  shows "\<exists>d2. create_payout_tx codec rq (earlier_lookup d0 (pg_payout_store pg)) d1 =
    (Inl (if rq_externalID rq = [] then ErrConcurrentIdempotencyKeyInsert else ErrDuplicateExternalID), d2)"
  using assms(1,2)
proof (rule first_request)
  fix k e
  assume none: "GetIdempotencyKey \<lparr>gip_ClientID = rq_clientID rq, gip_Key = rq_idempotencyKey rq\<rparr> d0 = (Inl ErrNoRows, d0)"
    and p: "payout_of pg (payout_params rq) d0 = Inr p" "first_failure (payout_constraints d0 p) = None"
    and d1: "d1 = d0\<lparr>tbl_payouts := tbl_payouts d0 @ [p], tbl_idempotency_keys := tbl_idempotency_keys d0 @ [k],
             tbl_outbox_events := tbl_outbox_events d0 @ [e], db_uuid_seq := db_uuid_seq d0 + 2\<rparr>"
    and texts: "storable_text (rq_idempotencyKey rq)" "storable_text (rq_hash rq)" "rq_idempotencyKey rq \<noteq> []" "rq_hash rq \<noteq> []"
    and k: "ik_Key k = rq_idempotencyKey rq" "ik_ClientID k = rq_clientID rq"
    and source: "\<exists>f. GetFundingSourceByClientID \<lparr>bcp_ClientID = rq_clientID rq, bcp_ID = rq_fundingSourceID rq\<rparr> d0 = (Inr f, d0)"
  let ?p = "second_payout pg d1 p"
  have load: "loadIdempotentPayout (earlier_lookup d0 (pg_payout_store pg)) (rq_clientID rq) (rq_idempotencyKey rq) (rq_hash rq) d1 =
      (Inr None, d1)"
    by (simp add: loadIdempotentPayout_def none)
  obtain f where f: "GetFundingSourceByClientID \<lparr>bcp_ClientID = rq_clientID rq, bcp_ID = rq_fundingSourceID rq\<rparr> d1 = (Inr f, d1)"
    using source by (auto simp: GetFundingSourceByClientID_def select_one_def d1 split: option.splits)
  have fresh: "new_uuid pg d1 \<notin> set (map pay_ID (tbl_payouts d1))" using assms(4) by (simp add: payout_ids_def)
  have ok: "0 < the (num_Int (pay_Amount p))" "pay_Status p \<in> set payout_statuses"
    "pay_ClientID p \<in> set (map cl_ID (tbl_clients d1))" "pay_FundingSourceID p \<in> set (map fs_ID (tbl_funding_sources d1))"
    using p(2) by (simp_all add: payout_constraints_def d1)
  have there: "indexed_external_id p \<in> set (map indexed_external_id (tbl_payouts d1))" by (simp add: d1)
  have insert: "CreatePayout pg (payout_params rq) d1 =
      (if rq_externalID rq = [] then (Inr ?p, d1\<lparr>tbl_payouts := tbl_payouts d1 @ [?p], db_uuid_seq := Suc (db_uuid_seq d1)\<rparr>)
       else (Inl (unique_violation ''ux_payouts_client_external_id''), d1))"
    using ok fresh there second_payout_of [OF p(1), of d1] external_id_indexed [OF p(1) assms(3)]
    by (simp add: CreatePayout_def insert_row_def payout_constraints_def first_failure.simps)
  show ?thesis
  proof (cases "rq_externalID rq = []")
    case False
    with load f insert show ?thesis
      by (simp add: create_payout_tx_def and_then_def map_error_def unique_violation_def isUniqueConstraintViolation_def)
  next
    case True
    let ?d2 = "d1\<lparr>tbl_payouts := tbl_payouts d1 @ [?p], db_uuid_seq := Suc (db_uuid_seq d1)\<rparr>"
    have key: "CreateIdempotencyKey \<lparr>cip_Key = rq_idempotencyKey rq, cip_ClientID = rq_clientID rq,
        cip_RequestHash = rq_hash rq, cip_PayoutID = new_uuid pg d1\<rparr> ?d2 = (Inl (unique_violation ''idempotency_keys_pkey''), ?d2)"
      using texts k
      by (simp add: CreateIdempotencyKey_def insert_row_def idempotency_key_of_def text_value_def
          idempotency_key_constraints_def first_failure.simps d1)
    from True load f insert key show ?thesis
      by (simp add: create_payout_tx_def and_then_def map_error_def unique_violation_def isUniqueViolation_def)
  qed
qed

section \<open>Properties\<close>

text \<open>C5: what a concurrent retry receives. Two identical requests run at one time; the first creates its
  payout, and the second has looked the key up before that was committed. Without an external id the second
  ends at the key's constraint, loads the payout on record and returns the very same answer. With an external
  id it ends at the index of external ids before it reaches the key: it is refused with
  \<open>ErrDuplicateExternalID\<close> although its payout exists. Either way it adds nothing. (The server's next UUID
  must be unused.)\<close>

theorem concurrent_retry:
  assumes "create_payout_request codec inp = Inr rq"
    and "Payouts_CreatePayout codec (api_payout_service pg bf cf) inp d0 = (Inr v, d1)" and "d1 \<noteq> d0"
    and "new_uuid pg d1 \<notin> payout_ids d1"
  shows "Payouts_CreatePayout codec (racing_payout_service pg d0) inp d1 =
    (if rq_externalID rq = [] then Inr v else Inl ErrDuplicateExternalID, d1)"
proof -
  from assms(2) obtain p where tx: "create_payout_tx codec rq (pg_payout_store pg) d0 = (Inr p, d1)"
    by (rule api_create_state) (use assms(1,3) in auto)
  note rec = pg.tx_recorded [OF tx]
  from create_payout_success [OF assms(2)] assms(1) obtain p' where
    "payoutFromDB codec p' = Inr v" "recorded key_view payout_view d1 rq p'" by auto
  with rec have view: "payoutFromDB codec p = Inr v" by (auto simp: recorded_def split: option.splits)
  obtain d2 where body: "create_payout_tx codec rq (earlier_lookup d0 (pg_payout_store pg)) d1 =
      (Inl (if rq_externalID rq = [] then ErrConcurrentIdempotencyKeyInsert else ErrDuplicateExternalID), d2)"
    using second_tx [OF tx assms(3) create_payout_request_Inr(2) [OF assms(1)] assms(4)] by blast
  have "WithinTx (DBTxRunner (pool_runner (\<lambda>_. None) (\<lambda>_. Committed) (earlier_lookup d0 (pg_payout_store pg))))
      (create_payout_tx codec rq) d1 =
      (Inl (if rq_externalID rq = [] then ErrConcurrentIdempotencyKeyInsert else ErrDuplicateExternalID), d1)"
    using pool_run_body_error [where fn = "create_payout_tx codec rq" and bf = "\<lambda>_. None", OF _ body]
    by (simp add: WithinTx_DBTxRunner Payouts_WithinTx_def)
  then show ?thesis
    using pg.load_recorded [OF rec] view assms(1)
    by (simp add: Payouts_CreatePayout_def racing_payout_service_def NewServiceWithTx_def create_payout_run_def
        and_then_def lift_result_def)
qed

text \<open>The example request has an external id.\<close>

theorem concurrent_retry_witness:
  "Payouts_CreatePayout canonical_codec (racing_payout_service ex_pg ex_db) ex_input ex_db1 =
     (Inl ErrDuplicateExternalID, ex_db1)"
proof -
  have "new_uuid ex_pg ex_db1 \<notin> payout_ids ex_db1"
    by (simp add: new_uuid_def ex_uuid payout_ids_def ex_db1_def ex_payout_def)
  moreover have "rq_externalID ex_request \<noteq> []" by (simp add: ex_request_def)
  ultimately show ?thesis
    using concurrent_retry [OF ex_create_request ex_create ex_not_created] by simp
qed

end
