(* ===== verification/Execution_Race.thy ===== *)
theory Execution_Race
  imports Execution_Witnesses
begin

text \<open>
  Two workers within their first transactions. \<open>prepareExecutionInTx\<close> reads the payout with a plain
  \<open>SELECT\<close> and then updates its status by id; at READ COMMITTED another worker may settle the payout
  between the two statements. The read then still shows the earlier row.
\<close>

text \<open>A store whose reads of payouts still see the database \<open>d0\<close>.\<close>

definition earlier_read :: "db \<Rightarrow> (db \<times> 'p) exec_store \<Rightarrow> (db \<times> 'p) exec_store" where
  "earlier_read d0 store =
     store\<lparr>xs_GetPayoutByClientID := (\<lambda>a w. (fst (xs_GetPayoutByClientID store a (d0, snd w)), w))\<rparr>"

lemma earlier_read_simps [simp]:
  "xs_GetPayoutByClientID (earlier_read d0 store) a w = (fst (xs_GetPayoutByClientID store a (d0, snd w)), w)"
  "xs_GetFundingSourceByClientID (earlier_read d0 store) = xs_GetFundingSourceByClientID store"
  "xs_UpdatePayoutStatus (earlier_read d0 store) = xs_UpdatePayoutStatus store"
  by (simp_all add: earlier_read_def)

text \<open>
  A payout that was pending when it was read is set to \<open>processing\<close> and executed, whatever its status has
  become: a payout that has succeeded in the meantime is opened again and paid a second time.
\<close>

theorem overtaken_preparation_reopens:
  assumes "wf_db d0" and "wf_db d1" and "payout_view d0 c i = Some q" and "pay_Status q = status_text StatusPending"
    and "payout_view d1 c i = Some q1" and "source_view d1 c (pay_FundingSourceID q) = Some src"
  shows "\<exists>prep q2. prepareExecutionInTx \<lparr>pp_payoutID = i, pp_clientID = c\<rparr> (earlier_read d0 (pg_exec_store pg)) (d1, p) =
      (Inr prep, (set_payout_status i StatusProcessing d1, p)) \<and> pr_shouldExecute prep \<and>
    payout_view (set_payout_status i StatusProcessing d1) c i = Some q2 \<and> pay_Status q2 = status_text StatusProcessing"
proof -
  note q = payout_by_id [OF assms(1,3)] and q1 = payout_by_id [OF assms(2,5)]
  let ?q2 = "q1\<lparr>pay_Status := status_text StatusProcessing, pay_UpdatedAt := db_now d1\<rparr>"
  have core: "UpdatePayoutStatus \<lparr>usp_Status = status_text StatusProcessing, usp_ID = i\<rparr> d1 =
      (Inr ?q2, set_payout_status i StatusProcessing d1)"
    using q1 by (simp add: UpdatePayoutStatus_run del: status_text.simps)
  obtain t where t: "Execution_numericString (pay_Amount ?q2) = Inr t"
    using stored_amount_execution_text [OF stored_payout(1) [OF assms(2,5)]] by auto
  have view: "payout_view (set_payout_status i StatusProcessing d1) c i = Some ?q2"
    using assms(5) by (simp add: payout_view_def set_payout_status_def payout_find_update del: status_text.simps)
  have "prepareExecutionInTx \<lparr>pp_payoutID = i, pp_clientID = c\<rparr> (earlier_read d0 (pg_exec_store pg)) (d1, p) =
      (Inr \<lparr>pr_payout = ?q2, pr_fundingSource = src, pr_amount = t, pr_shouldExecute = True\<rparr>,
       (set_payout_status i StatusProcessing d1, p))"
    using assms(3,4,6) core t q(2)
    by (simp add: prepareExecutionInTx_def and_then_def GetPayout_on_db GetSource_on_db on_db_def lift_result_def ok_def
        GetFundingSourceByClientID_def GetPayoutByClientID_def select_one_def payout_view_def source_view_def
        del: status_text.simps)
  with view show ?thesis by auto
qed

end
