(* ===== verification/Spec2Isabelle.thy ===== *)
theory Spec2Isabelle
  imports Api_Witnesses Runtime_Witnesses Pipeline_Witnesses Queue_Witnesses Payout_Race Execution_Race
begin

text \<open>
  A verification library of the payout orchestrator, a Go program of two processes. The API process
  (\<open>cmd/api\<close>) accepts authenticated HTTP requests, stores payouts in PostgreSQL together with an outbox
  event, and runs a relay that publishes these events to RabbitMQ. The worker process
  (\<open>cmd/payout-worker\<close>) consumes the jobs, asks a payment provider to execute each payout and records its
  answer. The library models both processes, the statements they send to the database, the texts and
  messages they exchange, and the composition of all of them.

  How the parts interact. A payout is created by \<open>CreatePayout\<close> in one transaction with its idempotency key
  and a \<open>process_payout\<close> event. The relay claims an event in a transaction of its own, hands it to the
  publisher, and marks it processed, or releases the claim. The message comes to a worker, whose
  \<open>HandleEvent\<close> moves the payout to \<open>processing\<close> in a first transaction, calls the provider, and records the
  result (and a webhook event) in a second one; the delivery is then acknowledged, or put back on the queue
  after an error. Nothing is shared between the processes but the database and the queue.
\<close>

text \<open>
  \<^bold>\<open>Conventions.\<close> A Go string or \<open>[]byte\<close> is a list of \<open>char\<close>, which is exactly a byte. An operation that can
  fail returns \<open>go_error + 'a\<close>; one that acts on a state is an \<open>action\<close>, a function from the state to a
  result and the new state, sequenced by \<open>and_then\<close> (\<open>if err != nil { return err }\<close>). Interfaces of the code
  are records of actions, nil values are \<open>None\<close>, structs are records, integers that can wrap are words.
  \<open>GoPanic\<close> is the abnormal end of a call. Loops that may run for ever (\<open>Relay.Run\<close>, \<open>Client.Consume\<close>) are
  \<open>partial_function (option)\<close>, where \<open>None\<close> is not returning; no fuel is used anywhere, and every other
  recursion is total. Logging is left out.

  \<^bold>\<open>Values and texts.\<close>
  \<^item> \<open>Prelude\<close>: errors, results, actions, and the collection \<open>seq_simps\<close> that inverts sequences.
  \<^item> \<open>Go_Strings\<close>, \<open>Go_Numbers\<close>: what the program uses of \<open>unicode/utf8\<close>, \<open>strings\<close>, \<open>strconv\<close>, \<open>encoding/hex\<close>.
  \<^item> \<open>Json_Text\<close>, \<open>Json\<close>: \<open>encoding/json\<close> with its round trips, and \<open>encoding/base64\<close>.
  \<^item> \<open>Pgx_Types\<close>, \<open>Numeric_Text\<close>: the driver's values (\<open>pgtype\<close>), \<open>pgtypeutil.ParseUUID\<close>, \<open>numericString\<close> and
    \<open>parsePositiveNumeric\<close>; the text of an amount is its exact value.
  \<^item> \<open>Payout_Status\<close>: \<open>internal/domain/payout/status.go\<close>; the statuses are an instance of \<open>order_bot\<close>, ordered
    by the runs of the state machine.
  \<^item> \<open>Messages\<close>: \<open>internal/outbox/payload.go\<close> and the job message of \<open>broker/rabbitmq\<close>, with round trips.
  \<^item> \<open>Request_Hash\<close>: \<open>createPayoutRequestHash\<close> with SHA-256 written out on 32-bit words.

  \<^bold>\<open>The database.\<close>
  \<^item> \<open>Schema\<close>: the rows of \<open>internal/db/models.go\<close>, the column types and constraints the migrations leave in force.
  \<^item> \<open>Queries\<close>: every statement of \<open>internal/db/*.sql.go\<close> as a function on the record \<open>db\<close> of the six tables, the
    clock, the supply of UUIDs and the rows other transactions have locked (\<open>FOR UPDATE SKIP LOCKED\<close>).
  \<^item> \<open>Database_Invariant\<close>: \<open>wf_db\<close>, the constraints as an invariant, and \<open>db_extends\<close>, how tables may grow; every
    statement keeps both.
  \<^item> \<open>Transactions\<close>: the three \<open>WithinTx\<close>; the locale \<open>transaction_driver\<close> states what the pool promises,
    \<open>transactional\<close> what the services rely on, and the second follows from the first for the pool
    \<open>pg_tx_driver\<close>, in which \<open>Begin\<close> may fail and a commit may be refused or lose its acknowledgement.
  \<^item> \<open>Worlds\<close>: a process's state as the database beside what else it talks to.

  \<^bold>\<open>The API process.\<close>
  \<^item> \<open>Payout_Service\<close>: \<open>services/payouts\<close>. \<open>Payout_Creation\<close> proves the life of a request once, in the locales
    \<open>payout_store_contract\<close> and \<open>payout_service_contract\<close>; \<open>Payout_Guarantees\<close> interprets them on the statements
    and derives the properties of \<open>CreatePayout\<close>; \<open>Payout_Witnesses\<close> runs an example request.
  \<^item> \<open>Payout_Race\<close>: a retry that runs at one time with its first request.
  \<^item> \<open>Client_Services\<close>, \<open>Http_Api\<close>, \<open>Api_Router\<close>: \<open>services/fundingsources\<close>, \<open>services/auth\<close>, the handlers, the
    API-key middleware, \<open>cmd/api/router.go\<close>. \<open>Api_Guarantees\<close>: what a request may change and see, paging.
  \<^item> \<open>Outbox_Relay\<close>: \<open>internal/outbox/relay.go\<close>. \<open>Relay_Guarantees\<close> follows an event through a round, in the
    locale \<open>dispatcher_contract\<close> for any dispatcher that leaves the rows alone, interpreted for dispatchers
    outside the database.
\<close>

text \<open>
  \<^bold>\<open>The queue and the worker.\<close>
  \<^item> \<open>Amqp_Client\<close>, \<open>Payout_Publisher\<close>, \<open>Payout_Worker\<close>: \<open>internal/platform/rabbitmq\<close>, \<open>internal/broker/rabbitmq\<close>,
    \<open>internal/apps/payoutworker/worker.go\<close>, over the AMQP library as a record of operations. \<open>Rabbit\<close> is a
    concrete broker for these operations. \<open>Queue_Guarantees\<close>: routing, confirmation, settlement of deliveries.
  \<^item> \<open>Provider\<close>, \<open>Execution\<close>: \<open>internal/provider\<close>, \<open>internal/providersimulator\<close>,
    \<open>internal/apps/payoutworker/execution\<close>. \<open>Execution_Guarantees\<close>: what one delivery and any number of
    deliveries of an event do.
  \<^item> \<open>Execution_Race\<close>: a worker that is overtaken between the two statements of its first transaction sets a
    settled payout back to \<open>processing\<close>.

  \<^bold>\<open>The whole.\<close>
  \<^item> \<open>Runtime\<close>, \<open>Runtime_Guarantees\<close>: the settings and \<open>main\<close> of both processes, \<open>runApplication\<close>,
    \<open>internal/platform/postgres\<close>.
  \<^item> \<open>Pipeline\<close>: any number of requests, relays and workers as the step relation \<open>pipe_step\<close>, whose steps are the
    operations above, one transaction, message or call of the provider at a time. \<open>Pipeline_Guarantees\<close>: its
    invariant (no payout is lost), \<open>HandleEvent\<close> as a run of steps, and the race of two deliveries.

  \<^bold>\<open>Parameters and hypotheses.\<close> Code outside the repository is an argument of the definitions. Its laws are the
  locale \<open>uuid_codec\<close> (the driver's UUID text is ASCII, not empty and scans back), \<open>jsonb_keeps_payload\<close> (a
  \<open>jsonb\<close> column keeps the fields of a payload), \<open>pool_faults\<close> (neither \<open>Begin\<close> nor \<open>Commit\<close> returns
  \<open>pgx.ErrNoRows\<close>), and that the server's next UUID is unused where a theorem says so. Other parameters have no
  law: the pool's faults, the provider, the supply of UUIDs, the text of a time, the wall clock, the
  environment, and the floating-point step of \<open>time.ParseDuration\<close>. Witnesses instantiate every law with the
  concrete \<open>canonical_codec\<close> and \<open>ex_pg\<close>.

  \<^bold>\<open>Granularity.\<close> A transaction is one step. Two transactions are interleaved within only in the two race
  theories, each for one window between two statements at READ COMMITTED. A statement fails by its
  constraints; a connection that breaks fails \<open>Begin\<close> or \<open>Commit\<close>. The pipeline's queue keeps its messages:
  the topology is declared and durable. What is lost without it is in \<open>Queue_Guarantees\<close>.

  \<^bold>\<open>Not modelled.\<close> Logging; the generated plumbing \<open>internal/db/db.go\<close>, which is the state passing of the model;
  \<open>net/http\<close> beyond the reading of a request and the writing of a response (path cleaning, redirects; a
  handler's panic is shown as a response with status 500); the SQL of the migrations and queries themselves,
  which the two theories of the database translate; tests and documents. \<open>webhook_deliveries\<close> has statements
  but no caller yet: the events the worker writes for it are not taken by any relay of the program.
\<close>

end
